(* ===== verification/Prelude.thy ===== *)
theory Prelude
  imports Complex_Main "HOL-Library.Word"
begin

text \<open>
  What every component shares: the ways the C program can stop in the middle of an
  operation, the result type the operations return, names for the machine integers, and
  the list, option and word lemmas the component proofs rest on.
\<close>

section \<open>Failures and results\<close>

text \<open>
  A C operation either returns or stops the process. It stops at a failed
  \<^verbatim>\<open>g_assert\<close> (or \<^verbatim>\<open>g_assert_not_reached\<close>), and the model also names the reads
  that C leaves undefined: a NULL pointer, a freed list cell, an array index out of range,
  a variable that was never set, and a floating point division by zero.
  \<open>Inl\<close> carries such a failure, \<open>Inr\<close> a returned value.
\<close>

datatype c_error =
    Assert_Failed
  | Null_Dereference
  | Use_After_Free
  | Out_Of_Bounds
  | Uninitialised
  | Not_A_Number

type_synonym 'a result = "c_error + 'a"

abbreviation returns :: "'a result \<Rightarrow> bool" where
  "returns r \<equiv> \<exists>x. r = Inr x"

type_synonym byte = "8 word"
type_synonym u16 = "16 word"
type_synonym u32 = "32 word"
type_synonym u64 = "64 word"


section \<open>Words\<close>

lemma unat_bound: "unat (w :: 'a::len word) < 2 ^ LENGTH('a)"
  by (rule unsigned_less)

lemma unat_Suc_no_wrap [simp]:
  fixes w :: "'a::len word"
  assumes "unat w + 1 < 2 ^ LENGTH('a)"
  shows "unat (w + 1) = unat w + 1"
  using assms by (simp add: unat_word_ariths)

lemma unat_pred_no_wrap:
  fixes w :: "'a::len word"
  assumes "0 < unat w"
  shows "unat (w - 1) = unat w - 1"
proof -
  have "1 \<le> w"
    using assms by (simp add: word_le_nat_alt unat_gt_0 Suc_le_eq)
  then show ?thesis
    by (simp add: unat_sub)
qed

lemma unat_inject_iff: "(x = y) = (unat x = unat y)"
  by (simp add: word_unat_eq_iff)

lemma unat_ucast_widen:
  fixes w :: "'a::len word"
  assumes "LENGTH('a) \<le> LENGTH('b::len)"
  shows "unat (ucast w :: 'b word) = unat w"
proof -
  have "unat w < 2 ^ LENGTH('b)"
    using unat_bound [of w] assms by (meson one_le_numeral order_less_le_trans power_increasing)
  then show ?thesis by (simp add: unsigned_ucast_eq take_bit_nat_eq_self)
qed

section \<open>Lists\<close>

lemma replicate_numeral: "replicate (numeral k) x = x # replicate (pred_numeral k) x"
  by (simp add: numeral_eq_Suc)

text \<open>
  Tables are long lists, evaluated by the simplifier; this form of \<open>drop 0\<close> leaves the
  rest of a list alone, where the library's rule makes the simplifier walk through it again.
\<close>

lemma drop_zero: "drop 0 xs = xs"
  by simp

declare drop0 [simp del] drop_zero [simp]

lemma Cons_eq_upt_iff: "x # xs = [b ..< n] \<longleftrightarrow> b < n \<and> x = b \<and> xs = [Suc b ..< n]"
  using upt_eq_Cons_conv [of b n x xs] by auto

lemma dropWhile_less_upt:
  assumes "map f xs = [b ..< n]"
  shows "dropWhile (\<lambda>x. f x \<le> k) xs = drop (Suc k - b) xs"
  using assms
proof (induction xs arbitrary: b)
  case Nil
  then show ?case by simp
next
  case (Cons x xs)
  then have fx: "f x = b" and rest: "map f xs = [Suc b ..< n]" and bn: "b < n"
    by (auto simp: Cons_eq_upt_iff)
  show ?case
  proof (cases "b \<le> k")
    case True
    then have "Suc k - b = Suc (Suc k - Suc b)" by simp
    then show ?thesis
      using Cons.IH [OF rest] fx True by simp
  next
    case False
    then show ?thesis using fx by simp
  qed
qed

lemma map_eq_upt_nth:
  assumes "map f xs = [b ..< n]" and "i < length xs"
  shows "f (xs ! i) = b + i"
proof -
  have "f (xs ! i) = map f xs ! i" using assms(2) by simp
  also have "\<dots> = [b ..< n] ! i" using assms(1) by simp
  also have "\<dots> = b + i"
    using assms by (metis add.commute length_map length_upt less_diff_conv nth_upt)
  finally show ?thesis .
qed

lemma map_eq_upt_tl:
  assumes "map f (x # xs) = [b ..< n]"
  shows "map f xs = [Suc b ..< n]"
  using assms by (auto simp: Cons_eq_upt_iff)

lemma map_of_distinct_nth:
  assumes "distinct (map fst xs)" and "i < length xs"
  shows "map_of xs (fst (xs ! i)) = Some (snd (xs ! i))"
  using assms by (metis map_of_eq_Some_iff nth_mem prod.collapse)

lemma dropWhile_distinct_nth:
  assumes "distinct (map fst xs)" and "i < length xs"
  shows "dropWhile (\<lambda>n. fst n \<noteq> fst (xs ! i)) xs = drop i xs"
  using assms
proof (induction xs arbitrary: i)
  case Nil
  then show ?case by simp
next
  case (Cons x xs)
  show ?case
  proof (cases i)
    case 0
    then show ?thesis by simp
  next
    case (Suc j)
    then have j: "j < length xs" using Cons.prems by simp
    have "fst x \<noteq> fst (xs ! j)"
      using Cons.prems(1) j by (metis distinct.simps(2) length_map list.simps(9) nth_map nth_mem)
    then show ?thesis using Suc Cons.IH [OF _ j] Cons.prems(1) by simp
  qed
qed

end
