(* ===== verification/BufferQueue.thy ===== *)
theory BufferQueue
  imports Prelude
begin

text \<open>
  The producer/consumer buffer queue of \<^verbatim>\<open>bufferqueue.c\<close>: one producer (a track's
  demuxer) feeds buffers to any number of consumers (the RTP sessions of the track). A
  buffer carries the count of consumers that have passed it and is freed when that count
  reaches the number of consumers.

  Every public operation of the source runs with the producer's mutex held, so an
  operation is one atomic step here. A \<^verbatim>\<open>GList\<close> cell is a pair of its address and its
  element. Addresses are whatever the allocator returned: the only thing known is that a
  new cell's address differs from those of the live cells. Following a pointer that is not
  the address of a live cell is \<^const>\<open>Use_After_Free\<close>.
\<close>

section \<open>State\<close>

record MParserBuffer =
  seen :: u64
  timestamp :: real
  rtp_timestamp :: u32
  delivery :: real
  duration :: real
  marker :: bool
  seq_no :: u16
  data_size :: nat
  data :: "byte list"

type_synonym glist_node = "nat \<times> MParserBuffer"

record BufferQueue_Producer =
  queue :: "glist_node list"
  next_serial :: u16
  queue_serial :: u64
  consumers :: u64
  stopped :: bool

record BufferQueue_Consumer =
  con_queue_serial :: u64
  current_element_pointer :: "nat option"
  last_element_serial :: u16

text \<open>Reading and writing through a \<^verbatim>\<open>GList\<close> pointer.\<close>

definition GLIST_TO_BQELEM :: "BufferQueue_Producer \<Rightarrow> nat \<Rightarrow> MParserBuffer result" where
  "GLIST_TO_BQELEM p a =
     (case map_of (queue p) a of None \<Rightarrow> Inl Use_After_Free | Some e \<Rightarrow> Inr e)"

definition glist_next :: "BufferQueue_Producer \<Rightarrow> nat \<Rightarrow> nat option result" where
  "glist_next p a =
     (case dropWhile (\<lambda>n. fst n \<noteq> a) (queue p) of
        [] \<Rightarrow> Inl Use_After_Free
      | [_] \<Rightarrow> Inr None
      | _ # n # _ \<Rightarrow> Inr (Some (fst n)))"

definition glist_head :: "glist_node list \<Rightarrow> glist_node option" where
  "glist_head ns = (case ns of [] \<Rightarrow> None | n # _ \<Rightarrow> Some n)"

fun glist_update ::
    "nat \<Rightarrow> (MParserBuffer \<Rightarrow> MParserBuffer) \<Rightarrow> glist_node list \<Rightarrow> glist_node list" where
  "glist_update a f [] = []"
| "glist_update a f (n # ns) =
     (if fst n = a then (fst n, f (snd n)) # ns else n # glist_update a f ns)"

section \<open>Operations\<close>

definition bq_consumer_confirm_pointer ::
    "BufferQueue_Producer \<Rightarrow> BufferQueue_Consumer \<Rightarrow> BufferQueue_Consumer" where
  "bq_consumer_confirm_pointer p c =
     (if current_element_pointer c = None then c
      else if queue_serial p \<noteq> con_queue_serial c then c\<lparr>current_element_pointer := None\<rparr>
      else case queue p of
             [] \<Rightarrow> c
           | h # _ \<Rightarrow>
               if last_element_serial c < seq_no (snd h)
               then c\<lparr>current_element_pointer := None\<rparr> else c)"

definition BQ_OBJECT ::
    "BufferQueue_Producer \<Rightarrow> BufferQueue_Consumer \<Rightarrow>
     (MParserBuffer option \<times> BufferQueue_Consumer) result" where
  "BQ_OBJECT p c =
     (let c' = bq_consumer_confirm_pointer p c in
      case current_element_pointer c' of
        None \<Rightarrow> Inr (None, c')
      | Some a \<Rightarrow>
          (case GLIST_TO_BQELEM p a of
             Inl err \<Rightarrow> Inl err
           | Inr e \<Rightarrow> Inr (Some e, c')))"

definition bq_producer_reset_queue_internal ::
    "BufferQueue_Producer \<Rightarrow> BufferQueue_Producer" where
  "bq_producer_reset_queue_internal p =
     p\<lparr>queue := [], queue_serial := queue_serial p + 1, next_serial := 1\<rparr>"

definition bq_producer_reset_queue ::
    "BufferQueue_Producer \<Rightarrow> BufferQueue_Producer result" where
  "bq_producer_reset_queue p =
     (if stopped p then Inl Assert_Failed else Inr (bq_producer_reset_queue_internal p))"

definition bq_producer_new :: BufferQueue_Producer where
  "bq_producer_new =
     bq_producer_reset_queue_internal
       \<lparr>queue = [], next_serial = 0, queue_serial = 0, consumers = 0, stopped = False\<rparr>"

text \<open>
  \<open>bq_producer_unref\<close> marks the producer stopped and frees it; the result is the list of
  elements handed to \<^verbatim>\<open>bq_element_free_internal\<close>.
\<close>

definition bq_producer_free_internal ::
    "BufferQueue_Producer \<Rightarrow> MParserBuffer list result" where
  "bq_producer_free_internal p =
     (if consumers p \<noteq> 0 then Inl Assert_Failed else Inr (map snd (queue p)))"

definition bq_producer_unref :: "BufferQueue_Producer \<Rightarrow> MParserBuffer list result" where
  "bq_producer_unref p =
     (if stopped p then Inl Assert_Failed
      else bq_producer_free_internal (p\<lparr>stopped := True\<rparr>))"

text \<open>\<open>a\<close> is the address of the list cell that \<^verbatim>\<open>g_queue_push_tail\<close> allocates.\<close>

definition bq_producer_put ::
    "nat \<Rightarrow> MParserBuffer \<Rightarrow> BufferQueue_Producer \<Rightarrow> BufferQueue_Producer result" where
  "bq_producer_put a elem p =
     (if stopped p then Inl Assert_Failed
      else
        let elem = elem\<lparr>seen := 0\<rparr>;
            (elem, p) =
              (if seq_no elem = 0
               then (elem\<lparr>seq_no := next_serial p\<rparr>, p\<lparr>next_serial := next_serial p + 1\<rparr>)
               else (elem, p))
        in if next_serial p = 0 then Inl Assert_Failed
           else Inr (p\<lparr>queue := queue p @ [(a, elem)]\<rparr>))"

definition bq_consumer_new ::
    "BufferQueue_Producer \<Rightarrow>
     (BufferQueue_Producer \<times> BufferQueue_Consumer option) result" where
  "bq_consumer_new p =
     (if stopped p then Inr (p, None)
      else if \<not> consumers p < - 1 then Inl Assert_Failed
      else Inr (p\<lparr>consumers := consumers p + 1\<rparr>,
                Some \<lparr>con_queue_serial = 0, current_element_pointer = None,
                      last_element_serial = 0\<rparr>))"

definition bq_producer_destroy_head ::
    "BufferQueue_Producer \<Rightarrow> nat \<Rightarrow> BufferQueue_Producer result" where
  "bq_producer_destroy_head p a =
     (case GLIST_TO_BQELEM p a of
        Inl err \<Rightarrow> Inl err
      | Inr elem \<Rightarrow>
          if map_option fst (glist_head (queue p)) \<noteq> Some a then Inl Assert_Failed
          else if seen elem \<noteq> consumers p then Inl Assert_Failed
          else
            let p' = p\<lparr>queue := tl (queue p)\<rparr> in
            Inr (if length (queue p') = 0
                 then p'\<lparr>queue_serial := queue_serial p' + 1, next_serial := 1\<rparr>
                 else p'))"

definition bq_consumer_elem_unref ::
    "BufferQueue_Producer \<Rightarrow> BufferQueue_Consumer \<Rightarrow>
     (BufferQueue_Producer \<times> BufferQueue_Consumer) result" where
  "bq_consumer_elem_unref p c =
     (case BQ_OBJECT p (bq_consumer_confirm_pointer p c) of
        Inl err \<Rightarrow> Inl err
      | Inr (None, c') \<Rightarrow> Inr (p, c')
      | Inr (Some elem, c') \<Rightarrow>
          (case current_element_pointer c' of
             None \<Rightarrow> Inr (p, c')
           | Some a \<Rightarrow>
               if seen elem = consumers p then Inl Assert_Failed
               else
                 let c'' = c'\<lparr>current_element_pointer := None\<rparr>;
                     p' = p\<lparr>queue :=
                             glist_update a (\<lambda>e. e\<lparr>seen := seen e + 1\<rparr>) (queue p)\<rparr>
                 in if seen elem + 1 < consumers p then Inr (p', c'')
                    else (case bq_producer_destroy_head p' a of
                            Inl err \<Rightarrow> Inl err
                          | Inr p'' \<Rightarrow> Inr (p'', c''))))"

text \<open>
  The end of \<open>bq_consumer_move_internal\<close>: the consumer is now on the cell \<open>n\<close> (or on
  none); it remembers that element's serial and the serial of the queue.
\<close>

definition bq_consumer_select ::
    "BufferQueue_Producer \<Rightarrow> BufferQueue_Consumer \<Rightarrow> glist_node option \<Rightarrow>
     BufferQueue_Producer \<times> BufferQueue_Consumer \<times> bool" where
  "bq_consumer_select p c n =
     (case n of
        None \<Rightarrow> (p, c\<lparr>current_element_pointer := None\<rparr>, False)
      | Some (a, e) \<Rightarrow>
          (p, c\<lparr>current_element_pointer := Some a, last_element_serial := seq_no e,
                con_queue_serial := queue_serial p\<rparr>, True))"

definition bq_consumer_move_internal ::
    "BufferQueue_Producer \<Rightarrow> BufferQueue_Consumer \<Rightarrow>
     (BufferQueue_Producer \<times> BufferQueue_Consumer \<times> bool) result" where
  "bq_consumer_move_internal p c =
     (let c1 = bq_consumer_confirm_pointer p c in
      case current_element_pointer c1 of
        Some a \<Rightarrow>
          (case glist_next p a of
             Inl err \<Rightarrow> Inl err
           | Inr nxt \<Rightarrow>
               (case bq_consumer_elem_unref p c1 of
                  Inl err \<Rightarrow> Inl err
                | Inr (p2, c2) \<Rightarrow>
                    (case nxt of
                       None \<Rightarrow> Inr (bq_consumer_select p2 c2 None)
                     | Some b \<Rightarrow>
                         (case GLIST_TO_BQELEM p2 b of
                            Inl err \<Rightarrow> Inl err
                          | Inr e \<Rightarrow> Inr (bq_consumer_select p2 c2 (Some (b, e)))))))
      | None \<Rightarrow>
          if con_queue_serial c1 \<noteq> queue_serial p
          then Inr (bq_consumer_select p c1 (glist_head (queue p)))
          else Inr (bq_consumer_select p c1
                 (glist_head (dropWhile (\<lambda>n. seq_no (snd n) \<le> last_element_serial c1)
                                (queue p)))))"

definition bq_consumer_unseen :: "BufferQueue_Producer \<Rightarrow> BufferQueue_Consumer \<Rightarrow> u64" where
  "bq_consumer_unseen p c =
     (if stopped p then 0
      else if con_queue_serial c \<noteq> queue_serial p then ucast (next_serial p)
      else if queue p = [] then 0
      else word_of_int (uint (next_serial p) - uint (last_element_serial c)))"

definition bq_consumer_move ::
    "BufferQueue_Producer \<Rightarrow> BufferQueue_Consumer \<Rightarrow>
     (BufferQueue_Producer \<times> BufferQueue_Consumer \<times> bool) result" where
  "bq_consumer_move p c =
     (if stopped p then Inr (p, c, False) else bq_consumer_move_internal p c)"

definition bq_consumer_get ::
    "BufferQueue_Producer \<Rightarrow> BufferQueue_Consumer \<Rightarrow>
     (BufferQueue_Producer \<times> BufferQueue_Consumer \<times> MParserBuffer option) result" where
  "bq_consumer_get p c =
     (if stopped p then Inr (p, c, None)
      else
        let c1 = bq_consumer_confirm_pointer p c in
        case (if current_element_pointer c1 = None
              then bq_consumer_move_internal p c1 else Inr (p, c1, True)) of
          Inl err \<Rightarrow> Inl err
        | Inr (p2, c2, moved) \<Rightarrow>
            if \<not> moved then Inr (p2, c2, None)
            else (case current_element_pointer c2 of
                    None \<Rightarrow> Inl Null_Dereference
                  | Some a \<Rightarrow>
                      (case GLIST_TO_BQELEM p2 a of
                         Inl err \<Rightarrow> Inl err
                       | Inr e \<Rightarrow> Inr (p2, c2, Some e))))"

text \<open>
  \<open>bq_consumer_free\<close> moves the consumer until no element is left. That loop ends from
  every state, whatever the serials are: a move that leaves an element makes the count of
  views still missing (\<open>views_missing\<close>) smaller, and a move from no element either
  brings the consumer to the current queue or raises its last serial.
\<close>

definition views_missing :: "BufferQueue_Producer \<Rightarrow> nat" where
  "views_missing p = (\<Sum>n\<leftarrow>queue p. unat (consumers p - seen (snd n)))"

lemma views_missing_glist_update:
  assumes "map_of ns a = Some e" and "seen e \<noteq> k"
  shows "(\<Sum>n\<leftarrow>glist_update a (\<lambda>e. e\<lparr>seen := seen e + 1\<rparr>) ns. unat (k - seen (snd n)))
           < (\<Sum>n\<leftarrow>ns. unat (k - seen (snd n)))"
  using assms
proof (induction ns)
  case Nil
  then show ?case by simp
next
  case (Cons n ns)
  show ?case
  proof (cases "fst n = a")
    case True
    with Cons.prems have e: "snd n = e" and "k - seen e \<noteq> 0"
      by (cases n; simp)+
    then have "0 < unat (k - seen e)"
      by (simp add: unat_gt_0)
    then have "unat (k - seen e - 1) < unat (k - seen e)"
      by (simp add: unat_pred_no_wrap)
    then show ?thesis using True e by (simp add: algebra_simps)
  next
    case False
    with Cons show ?thesis by (cases n) simp
  qed
qed

lemma bq_consumer_confirm_pointer_idem [simp]:
  "bq_consumer_confirm_pointer p (bq_consumer_confirm_pointer p c) =
     bq_consumer_confirm_pointer p c"
  by (auto simp: bq_consumer_confirm_pointer_def split: list.splits)

lemma bq_consumer_confirm_pointer_fields [simp]:
  "con_queue_serial (bq_consumer_confirm_pointer p c) = con_queue_serial c"
  "last_element_serial (bq_consumer_confirm_pointer p c) = last_element_serial c"
  by (auto simp: bq_consumer_confirm_pointer_def split: list.splits)

lemma bq_consumer_elem_unref_decreases:
  assumes "bq_consumer_elem_unref p c = Inr (p', c')"
    and "current_element_pointer (bq_consumer_confirm_pointer p c) = Some a"
  shows "views_missing p' < views_missing p"
proof -
  obtain e where e: "map_of (queue p) a = Some e"
    using assms by (auto simp: bq_consumer_elem_unref_def BQ_OBJECT_def GLIST_TO_BQELEM_def
        split: option.splits)
  let ?q = "glist_update a (\<lambda>e. e\<lparr>seen := seen e + 1\<rparr>) (queue p)"
  have ne: "seen e \<noteq> consumers p"
    using assms e by (auto simp: bq_consumer_elem_unref_def BQ_OBJECT_def GLIST_TO_BQELEM_def)
  have less: "(\<Sum>n\<leftarrow>?q. unat (consumers p - seen (snd n))) < views_missing p"
    using views_missing_glist_update [OF e ne] by (simp add: views_missing_def)
  have "views_missing p' \<le> (\<Sum>n\<leftarrow>?q. unat (consumers p - seen (snd n)))"
    using assms e ne
    by (cases ?q)
       (auto simp: bq_consumer_elem_unref_def BQ_OBJECT_def GLIST_TO_BQELEM_def Let_def
          bq_producer_destroy_head_def glist_head_def views_missing_def
          split: if_splits option.splits sum.splits)
  with less show ?thesis by simp
qed

lemma glist_head_dropWhile: "glist_head (dropWhile P ns) = Some n \<Longrightarrow> \<not> P n"
  by (metis glist_head_def hd_dropWhile list.case_eq_if option.distinct(1) option.inject)

lemma bq_consumer_move_internal_decreases:
  assumes "bq_consumer_move_internal p c = Inr (p', c', True)"
  shows "((p', c'), (p, c)) \<in>
    measures [\<lambda>(p, c). views_missing p,
              \<lambda>(p, c). of_bool (con_queue_serial c \<noteq> queue_serial p),
              \<lambda>(p, c). 2 ^ 16 - unat (last_element_serial c)]"
proof (cases "current_element_pointer (bq_consumer_confirm_pointer p c)")
  case (Some a)
  then obtain p2 c2 n where unref:
      "bq_consumer_elem_unref p (bq_consumer_confirm_pointer p c) = Inr (p2, c2)"
    and "bq_consumer_select p2 c2 n = (p', c', True)"
    using assms
    by (simp add: bq_consumer_move_internal_def split: sum.splits option.splits prod.splits)
  then have "p' = p2"
    by (auto simp: bq_consumer_select_def split: option.splits)
  then have "views_missing p' < views_missing p"
    using bq_consumer_elem_unref_decreases [OF unref] Some by simp
  then show ?thesis by simp
next
  case None
  show ?thesis
  proof (cases "con_queue_serial c = queue_serial p")
    case False
    then show ?thesis
      using assms None
      by (auto simp: bq_consumer_move_internal_def bq_consumer_select_def Let_def
          split: option.splits)
  next
    case True
    let ?ns = "dropWhile (\<lambda>n. seq_no (snd n) \<le> last_element_serial c) (queue p)"
    obtain n where n: "glist_head ?ns = Some n" and p': "p' = p"
        and c': "last_element_serial c' = seq_no (snd n)" "con_queue_serial c' = queue_serial p"
      using assms None True
      by (auto simp: bq_consumer_move_internal_def bq_consumer_select_def Let_def
          split: option.splits)
    have "unat (last_element_serial c) < unat (seq_no (snd n))"
      using glist_head_dropWhile [OF n] by (simp add: word_less_nat_alt word_le_nat_alt)
    moreover have "unat (seq_no (snd n)) < 2 ^ 16"
      using unat_bound [of "seq_no (snd n)"] by simp
    ultimately show ?thesis
      using p' c' True by auto
  qed
qed

function bq_consumer_drain ::
    "BufferQueue_Producer \<Rightarrow> BufferQueue_Consumer \<Rightarrow>
     (BufferQueue_Producer \<times> BufferQueue_Consumer) result" where
  "bq_consumer_drain p c =
     (case bq_consumer_move_internal p c of
        Inl err \<Rightarrow> Inl err
      | Inr (p', c', True) \<Rightarrow> bq_consumer_drain p' c'
      | Inr (p', c', False) \<Rightarrow> Inr (p', c'))"
  by pat_completeness auto
termination
  by (relation "measures [\<lambda>(p, c). views_missing p,
              \<lambda>(p, c). of_bool (con_queue_serial c \<noteq> queue_serial p),
              \<lambda>(p, c). 2 ^ 16 - unat (last_element_serial c)]")
     (simp, rule bq_consumer_move_internal_decreases, simp)

declare bq_consumer_drain.simps [simp del]

definition bq_decrement_seen_on_free :: "MParserBuffer \<Rightarrow> MParserBuffer" where
  "bq_decrement_seen_on_free e = e\<lparr>seen := seen e - 1\<rparr>"

definition bq_consumer_free ::
    "BufferQueue_Producer \<Rightarrow> BufferQueue_Consumer \<Rightarrow> BufferQueue_Producer result" where
  "bq_consumer_free p c =
     (if \<not> consumers p > 0 then Inl Assert_Failed
      else
        case bq_consumer_drain p c of
          Inl err \<Rightarrow> Inl err
        | Inr (p', _) \<Rightarrow>
            Inr (p'\<lparr>queue := map (apsnd bq_decrement_seen_on_free) (queue p'),
                   consumers := consumers p' - 1\<rparr>))"

definition bq_consumer_stopped :: "BufferQueue_Producer \<Rightarrow> bool" where
  "bq_consumer_stopped p = stopped p"

end
