(* ===== verification/BufferQueue_Inv.thy ===== *)
theory BufferQueue_Inv
  imports BufferQueue
begin

text \<open>
  A producer together with its registered consumers, the invariant that the operations of
  \<open>BufferQueue\<close> keep between the serials, the pointers and the seen counts, and the
  abstract view of the queue: each consumer has the list of buffers it has not passed yet.
  The serial numbers of the elements are those that \<open>bq_producer_put\<close> gives out (elements
  put with \<open>seq_no = 0\<close>).
\<close>

section \<open>A producer and its consumers\<close>

record bufferqueue =
  producer :: BufferQueue_Producer
  registered :: "nat \<rightharpoonup> BufferQueue_Consumer"

definition put_buffer :: "nat \<Rightarrow> MParserBuffer \<Rightarrow> bufferqueue \<Rightarrow> bufferqueue result" where
  "put_buffer a e s =
     (case bq_producer_put a e (producer s) of
        Inl err \<Rightarrow> Inl err | Inr p \<Rightarrow> Inr (s\<lparr>producer := p\<rparr>))"

definition reset_queue :: "bufferqueue \<Rightarrow> bufferqueue result" where
  "reset_queue s =
     (case bq_producer_reset_queue (producer s) of
        Inl err \<Rightarrow> Inl err | Inr p \<Rightarrow> Inr (s\<lparr>producer := p\<rparr>))"

definition new_consumer :: "nat \<Rightarrow> bufferqueue \<Rightarrow> bufferqueue result" where
  "new_consumer k s =
     (case bq_consumer_new (producer s) of
        Inl err \<Rightarrow> Inl err
      | Inr (p, None) \<Rightarrow> Inr (s\<lparr>producer := p\<rparr>)
      | Inr (p, Some c) \<Rightarrow> Inr (s\<lparr>producer := p, registered := (registered s)(k \<mapsto> c)\<rparr>))"

definition move_consumer :: "nat \<Rightarrow> bufferqueue \<Rightarrow> (bufferqueue \<times> bool) result" where
  "move_consumer k s =
     (case registered s k of
        None \<Rightarrow> Inl Null_Dereference
      | Some c \<Rightarrow>
          (case bq_consumer_move (producer s) c of
             Inl err \<Rightarrow> Inl err
           | Inr (p, c', b) \<Rightarrow>
               Inr (s\<lparr>producer := p, registered := (registered s)(k \<mapsto> c')\<rparr>, b)))"

definition get_buffer :: "nat \<Rightarrow> bufferqueue \<Rightarrow> (bufferqueue \<times> MParserBuffer option) result" where
  "get_buffer k s =
     (case registered s k of
        None \<Rightarrow> Inl Null_Dereference
      | Some c \<Rightarrow>
          (case bq_consumer_get (producer s) c of
             Inl err \<Rightarrow> Inl err
           | Inr (p, c', e) \<Rightarrow>
               Inr (s\<lparr>producer := p, registered := (registered s)(k \<mapsto> c')\<rparr>, e)))"

definition free_consumer :: "nat \<Rightarrow> bufferqueue \<Rightarrow> bufferqueue result" where
  "free_consumer k s =
     (case registered s k of
        None \<Rightarrow> Inr s
      | Some c \<Rightarrow>
          (case bq_consumer_free (producer s) c of
             Inl err \<Rightarrow> Inl err
           | Inr p \<Rightarrow> Inr (s\<lparr>producer := p, registered := (registered s)(k := None)\<rparr>)))"

section \<open>The abstract view\<close>

text \<open>
  \<open>bq_base\<close> is the serial of the queue's head, \<open>bq_pos\<close> the number of queued elements a
  consumer has passed, \<open>bq_pending\<close> what it has still to see (without the seen counts,
  which belong to the producer).
\<close>

definition bq_base :: "BufferQueue_Producer \<Rightarrow> nat" where
  "bq_base p = unat (next_serial p) - length (queue p)"

definition bq_selected :: "BufferQueue_Producer \<Rightarrow> BufferQueue_Consumer \<Rightarrow> bool" where
  "bq_selected p c \<longleftrightarrow>
     con_queue_serial c = queue_serial p \<and> current_element_pointer c \<noteq> None"

definition bq_pos :: "BufferQueue_Producer \<Rightarrow> BufferQueue_Consumer \<Rightarrow> nat" where
  "bq_pos p c =
     (if con_queue_serial c \<noteq> queue_serial p then 0
      else if current_element_pointer c = None
      then unat (last_element_serial c) + 1 - bq_base p
      else unat (last_element_serial c) - bq_base p)"

definition bq_content :: "glist_node \<Rightarrow> MParserBuffer" where
  "bq_content n = (snd n)\<lparr>seen := 0\<rparr>"

definition bq_backlog :: "BufferQueue_Producer \<Rightarrow> MParserBuffer list" where
  "bq_backlog p = map bq_content (queue p)"

definition bq_pending ::
    "BufferQueue_Producer \<Rightarrow> BufferQueue_Consumer \<Rightarrow> MParserBuffer list" where
  "bq_pending p c = drop (bq_pos p c) (bq_backlog p)"

definition bq_view :: "bufferqueue \<Rightarrow> nat \<Rightarrow> (MParserBuffer list \<times> bool) option" where
  "bq_view s k =
     map_option (\<lambda>c. (bq_pending (producer s) c, bq_selected (producer s) c)) (registered s k)"

section \<open>The invariant\<close>

definition bq_consumer_ok :: "BufferQueue_Producer \<Rightarrow> BufferQueue_Consumer \<Rightarrow> bool" where
  "bq_consumer_ok p c \<longleftrightarrow>
     unat (con_queue_serial c) \<le> unat (queue_serial p) \<and>
     (con_queue_serial c = queue_serial p \<longrightarrow>
        queue p \<noteq> [] \<and>
        bq_base p \<le> unat (last_element_serial c) + 1 \<and>
        unat (last_element_serial c) < unat (next_serial p) \<and>
        (\<forall>a. current_element_pointer c = Some a \<longrightarrow>
           bq_base p \<le> unat (last_element_serial c) \<and>
           fst (queue p ! (unat (last_element_serial c) - bq_base p)) = a))"

definition bq_seen_by :: "bufferqueue \<Rightarrow> nat \<Rightarrow> nat set" where
  "bq_seen_by s i = {k. \<exists>c. registered s k = Some c \<and> i < bq_pos (producer s) c}"

definition bq_producer_ok :: "BufferQueue_Producer \<Rightarrow> bool" where
  "bq_producer_ok p \<longleftrightarrow>
     \<not> stopped p \<and>
     distinct (map fst (queue p)) \<and>
     length (queue p) < unat (next_serial p) \<and>
     map (unat \<circ> seq_no \<circ> snd) (queue p) = [bq_base p ..< unat (next_serial p)] \<and>
     0 < unat (queue_serial p)"

definition bq_inv :: "bufferqueue \<Rightarrow> bool" where
  "bq_inv s \<longleftrightarrow>
     bq_producer_ok (producer s) \<and>
     finite (dom (registered s)) \<and>
     unat (consumers (producer s)) = card (dom (registered s)) \<and>
     (\<forall>k c. registered s k = Some c \<longrightarrow> bq_consumer_ok (producer s) c) \<and>
     (\<forall>i < length (queue (producer s)).
        unat (seen (snd (queue (producer s) ! i))) = card (bq_seen_by s i)) \<and>
     (queue (producer s) \<noteq> [] \<longrightarrow> dom (registered s) \<noteq> {} \<longrightarrow>
        (\<exists>k c. registered s k = Some c \<and> bq_pos (producer s) c = 0))"

text \<open>
  \<open>bq_room n p\<close>: the 64-bit serial of the queue can still be raised \<open>n\<close> times without
  wrapping to a value that a consumer may remember.
\<close>

definition bq_room :: "nat \<Rightarrow> BufferQueue_Producer \<Rightarrow> bool" where
  "bq_room n p \<longleftrightarrow> unat (queue_serial p) + n < 2 ^ 64"

section \<open>Consequences of the invariant\<close>

lemma bq_inv_consumer:
  assumes "bq_inv s" and "registered s k = Some c"
  shows "bq_consumer_ok (producer s) c" and "bq_producer_ok (producer s)"
  using assms by (auto simp: bq_inv_def)

lemma bq_pos_le_length:
  assumes "bq_producer_ok p" and "bq_consumer_ok p c"
  shows "bq_pos p c \<le> length (queue p)"
  using assms unfolding bq_producer_ok_def bq_consumer_ok_def bq_pos_def bq_base_def
  by (auto simp: not_less)

lemma bq_selected_pos:
  assumes "bq_producer_ok p" and "bq_consumer_ok p c" and "bq_selected p c"
  shows "bq_pos p c < length (queue p)"
    and "current_element_pointer c = Some (fst (queue p ! bq_pos p c))"
  using assms unfolding bq_producer_ok_def bq_consumer_ok_def bq_pos_def bq_base_def bq_selected_def
  by auto

lemma bq_head_serial:
  assumes "bq_producer_ok p" and "i < length (queue p)"
  shows "unat (seq_no (snd (queue p ! i))) = bq_base p + i"
  using map_eq_upt_nth [of "unat \<circ> seq_no \<circ> snd" "queue p"] assms
  by (simp add: bq_producer_ok_def)

lemma bq_seen_by_subset: "bq_seen_by s i \<subseteq> dom (registered s)"
  by (auto simp: bq_seen_by_def)

lemma bq_seen_by_finite: "bq_inv s \<Longrightarrow> finite (bq_seen_by s i)"
  by (rule finite_subset [OF bq_seen_by_subset]) (simp add: bq_inv_def)

lemma bq_inv_head_unseen:
  assumes "bq_inv s" and "queue (producer s) \<noteq> []" and "registered s k = Some c"
  shows "bq_seen_by s 0 \<subset> dom (registered s)"
proof -
  obtain k0 c0 where k0: "registered s k0 = Some c0" and z: "bq_pos (producer s) c0 = 0"
    using assms unfolding bq_inv_def by blast
  then have "k0 \<notin> bq_seen_by s 0" by (simp add: bq_seen_by_def)
  then show ?thesis using k0 bq_seen_by_subset [of s 0] by blast
qed

text \<open>A consumer's pointer is trusted exactly when it is on an element of the current queue.\<close>

lemma bq_confirm_selected:
  assumes "bq_producer_ok p" and "bq_consumer_ok p c" and "bq_selected p c"
  shows "bq_consumer_confirm_pointer p c = c"
proof -
  obtain h q where q: "queue p = h # q"
    using assms by (cases "queue p") (auto simp: bq_consumer_ok_def bq_selected_def)
  have "unat (seq_no (snd h)) = bq_base p"
    using bq_head_serial [OF assms(1), of 0] q by simp
  moreover have "bq_base p \<le> unat (last_element_serial c)"
    using assms by (auto simp: bq_consumer_ok_def bq_selected_def)
  ultimately show ?thesis
    using q assms(3)
    by (auto simp: bq_consumer_confirm_pointer_def bq_selected_def word_less_nat_alt)
qed

lemma bq_confirm_unselected:
  assumes "\<not> bq_selected p c"
  shows "bq_consumer_confirm_pointer p c = c\<lparr>current_element_pointer := None\<rparr>"
  using assms by (auto simp: bq_consumer_confirm_pointer_def bq_selected_def)

lemma bq_pos_confirm [simp]:
  assumes "\<not> bq_selected p c"
  shows "bq_pos p (c\<lparr>current_element_pointer := None\<rparr>) = bq_pos p c"
  using assms by (auto simp: bq_pos_def bq_selected_def)

lemma bq_inv_update_consumer:
  assumes inv: "bq_inv s" and k: "registered s k = Some c"
    and ok: "bq_consumer_ok (producer s) c'" and pos: "bq_pos (producer s) c' = bq_pos (producer s) c"
  shows "bq_inv (s\<lparr>registered := (registered s)(k \<mapsto> c')\<rparr>)"
proof -
  let ?s = "s\<lparr>registered := (registered s)(k \<mapsto> c')\<rparr>"
  have dom: "dom (registered ?s) = dom (registered s)"
    using k by auto
  have seen: "bq_seen_by ?s i = bq_seen_by s i" for i
    using k pos by (auto simp: bq_seen_by_def)
  have ex: "(\<exists>k c. registered s k = Some c \<and> bq_pos (producer s) c = 0) \<Longrightarrow>
     (\<exists>k c. registered ?s k = Some c \<and> bq_pos (producer s) c = 0)"
    using k pos by (metis bufferqueue.select_convs(2) bufferqueue.surjective
        bufferqueue.update_convs(2) fun_upd_apply option.inject)
  show ?thesis
    using inv ok dom seen ex by (auto simp: bq_inv_def)
qed

section \<open>Moving a consumer\<close>

lemma glist_update_nth:
  assumes "distinct (map fst ns)" and "i < length ns"
  shows "glist_update (fst (ns ! i)) f ns = ns[i := (fst (ns ! i), f (snd (ns ! i)))]"
  using assms
proof (induction ns arbitrary: i)
  case Nil
  then show ?case by simp
next
  case (Cons n ns)
  show ?case
  proof (cases i)
    case 0
    then show ?thesis by simp
  next
    case (Suc j)
    then have j: "j < length ns" and d: "distinct (map fst ns)" using Cons.prems by auto
    have "fst n \<noteq> fst (ns ! j)"
      using Cons.prems(1) j by (metis distinct.simps(2) length_map list.simps(9) nth_map nth_mem)
    then show ?thesis using Suc Cons.IH [OF d j] by simp
  qed
qed

lemma bq_move_unselected:
  assumes p: "bq_producer_ok p" and c: "bq_consumer_ok p c" and u: "\<not> bq_selected p c"
  shows "bq_consumer_move_internal p c =
           Inr (bq_consumer_select p (c\<lparr>current_element_pointer := None\<rparr>)
                  (glist_head (drop (bq_pos p c) (queue p))))"
proof (cases "con_queue_serial c = queue_serial p")
  case True
  then have ptr: "current_element_pointer c = None"
    using u by (simp add: bq_selected_def)
  have "dropWhile (\<lambda>n. seq_no (snd n) \<le> last_element_serial c) (queue p) =
        drop (bq_pos p c) (queue p)"
    using dropWhile_less_upt [of "unat \<circ> seq_no \<circ> snd" "queue p"] p True ptr
    by (simp add: bq_producer_ok_def bq_pos_def word_le_nat_alt)
  moreover have same: "c\<lparr>current_element_pointer := None\<rparr> = c"
    using ptr by (cases c) simp
  ultimately show ?thesis
    unfolding same using True ptr
    by (simp add: bq_consumer_move_internal_def bq_consumer_confirm_pointer_def)
next
  case False
  then show ?thesis
    using bq_confirm_unselected [OF u]
    by (simp add: bq_consumer_move_internal_def bq_pos_def)
qed

lemma bq_select_at:
  assumes p: "bq_producer_ok p" and q: "0 < unat (queue_serial p)" and i: "i < length (queue p)"
    and "bq_consumer_select p c (glist_head (drop i (queue p))) = (p', c', b)"
  shows "p' = p" and "b" and "bq_consumer_ok p c'" and "bq_pos p c' = i" and "bq_selected p c'"
    and "current_element_pointer c' = Some (fst (queue p ! i))"
proof -
  have "glist_head (drop i (queue p)) = Some (queue p ! i)"
    using i by (simp add: glist_head_def Cons_nth_drop_Suc [symmetric])
  then have sel: "p' = p" "b" "c' = c\<lparr>current_element_pointer := Some (fst (queue p ! i)),
        last_element_serial := seq_no (snd (queue p ! i)), con_queue_serial := queue_serial p\<rparr>"
    using assms(4) by (auto simp: bq_consumer_select_def split: prod.splits)
  then show "p' = p" "b" "bq_selected p c'"
    "current_element_pointer c' = Some (fst (queue p ! i))"
    by (simp_all add: bq_selected_def)
  have "unat (last_element_serial c') = bq_base p + i"
    using sel bq_head_serial [OF p i] by simp
  moreover have "bq_base p + i < unat (next_serial p)"
    using p i by (auto simp: bq_producer_ok_def bq_base_def)
  moreover have "queue p \<noteq> []" using i by auto
  ultimately show "bq_consumer_ok p c'" "bq_pos p c' = i"
    using sel by (auto simp: bq_consumer_ok_def bq_pos_def)
qed

lemma bq_select_end:
  assumes "length (queue p) \<le> i"
  shows "bq_consumer_select p c (glist_head (drop i (queue p))) =
           (p, c\<lparr>current_element_pointer := None\<rparr>, False)"
  using assms by (simp add: bq_consumer_select_def glist_head_def)

text \<open>
  Passing the element a consumer is on. Some other consumer has still to see it: its count
  is raised. Or this was the last one: then the element is the head, and it is freed.
\<close>

lemma bq_glist_next:
  assumes "bq_producer_ok p" and "i < length (queue p)"
  shows "glist_next p (fst (queue p ! i)) =
           Inr (if Suc i < length (queue p) then Some (fst (queue p ! Suc i)) else None)"
proof -
  have d: "dropWhile (\<lambda>n. fst n \<noteq> fst (queue p ! i)) (queue p) = drop i (queue p)"
    using assms by (simp add: bq_producer_ok_def dropWhile_distinct_nth)
  show ?thesis
  proof (cases "Suc i < length (queue p)")
    case True
    then have "drop i (queue p) = queue p ! i # queue p ! Suc i # drop (Suc (Suc i)) (queue p)"
      by (metis Cons_nth_drop_Suc Suc_lessD)
    then show ?thesis using d True by (simp add: glist_next_def)
  next
    case False
    then have "drop i (queue p) = [queue p ! i]"
      using assms(2) by (metis Cons_nth_drop_Suc drop_all not_less)
    then show ?thesis using d False by (simp add: glist_next_def)
  qed
qed

definition bq_mark_seen :: "nat \<Rightarrow> BufferQueue_Producer \<Rightarrow> BufferQueue_Producer" where
  "bq_mark_seen i p =
     (let n = queue p ! i in
      p\<lparr>queue := (queue p)[i := (fst n, (snd n)\<lparr>seen := seen (snd n) + 1\<rparr>)]\<rparr>)"

definition bq_pop_head :: "BufferQueue_Producer \<Rightarrow> BufferQueue_Producer" where
  "bq_pop_head p =
     (if length (queue p) = 1
      then p\<lparr>queue := [], queue_serial := queue_serial p + 1, next_serial := 1\<rparr>
      else p\<lparr>queue := tl (queue p)\<rparr>)"

lemma bq_unref_selected:
  assumes p: "bq_producer_ok p" and c: "bq_consumer_ok p c" and s: "bq_selected p c"
    and ne: "seen (snd (queue p ! bq_pos p c)) \<noteq> consumers p"
  shows "seen (snd (queue p ! bq_pos p c)) + 1 < consumers p \<Longrightarrow>
           bq_consumer_elem_unref p c =
             Inr (bq_mark_seen (bq_pos p c) p, c\<lparr>current_element_pointer := None\<rparr>)"
    and "bq_pos p c = 0 \<Longrightarrow> seen (snd (queue p ! 0)) + 1 = consumers p \<Longrightarrow>
           bq_consumer_elem_unref p c =
             Inr (bq_pop_head p, c\<lparr>current_element_pointer := None\<rparr>)"
proof -
  let ?i = "bq_pos p c"
  have i: "?i < length (queue p)" and a: "current_element_pointer c = Some (fst (queue p ! ?i))"
    using bq_selected_pos [OF p c s] by auto
  have d: "distinct (map fst (queue p))" using p by (simp add: bq_producer_ok_def)
  have m: "map_of (queue p) (fst (queue p ! ?i)) = Some (snd (queue p ! ?i))"
    by (rule map_of_distinct_nth [OF d i])
  have obj: "BQ_OBJECT p c = Inr (Some (snd (queue p ! ?i)), c)"
    using a m bq_confirm_selected [OF p c s] by (simp add: BQ_OBJECT_def GLIST_TO_BQELEM_def)
  have conf: "bq_consumer_confirm_pointer p c = c"
    by (rule bq_confirm_selected [OF p c s])
  show "bq_consumer_elem_unref p c =
             Inr (bq_mark_seen ?i p, c\<lparr>current_element_pointer := None\<rparr>)"
    if "seen (snd (queue p ! ?i)) + 1 < consumers p"
    using that ne a obj conf glist_update_nth [OF d i]
    by (simp add: bq_consumer_elem_unref_def bq_mark_seen_def Let_def)
  show "bq_consumer_elem_unref p c =
             Inr (bq_pop_head p, c\<lparr>current_element_pointer := None\<rparr>)"
    if z: "?i = 0" and last: "seen (snd (queue p ! 0)) + 1 = consumers p"
  proof -
    obtain h q where q: "queue p = h # q" using i by (cases "queue p") auto
    show ?thesis
      using z last ne a obj conf q
      by (auto simp: bq_consumer_elem_unref_def bq_pop_head_def bq_producer_destroy_head_def
          GLIST_TO_BQELEM_def glist_head_def Let_def)
  qed
qed

lemma bq_mark_seen_fields [simp]:
  "next_serial (bq_mark_seen i p) = next_serial p"
  "queue_serial (bq_mark_seen i p) = queue_serial p"
  "consumers (bq_mark_seen i p) = consumers p"
  "stopped (bq_mark_seen i p) = stopped p"
  "length (queue (bq_mark_seen i p)) = length (queue p)"
  "bq_base (bq_mark_seen i p) = bq_base p"
  by (simp_all add: bq_mark_seen_def bq_base_def Let_def)

lemma bq_mark_seen_nth:
  "j < length (queue p) \<Longrightarrow> queue (bq_mark_seen i p) ! j =
     (fst (queue p ! j),
      if i = j then (snd (queue p ! j))\<lparr>seen := seen (snd (queue p ! j)) + 1\<rparr>
      else snd (queue p ! j))"
  by (auto simp: bq_mark_seen_def Let_def nth_list_update)

lemma bq_mark_seen_maps [simp]:
  assumes "i < length (queue p)"
  shows "map fst (queue (bq_mark_seen i p)) = map fst (queue p)"
    and "map (unat \<circ> seq_no \<circ> snd) (queue (bq_mark_seen i p)) =
         map (unat \<circ> seq_no \<circ> snd) (queue p)"
    and "bq_backlog (bq_mark_seen i p) = bq_backlog p"
  by (auto intro!: nth_equalityI simp: bq_mark_seen_nth bq_backlog_def bq_content_def)

lemma bq_mark_seen_ok [simp]:
  assumes "i < length (queue p)"
  shows "bq_producer_ok (bq_mark_seen i p) = bq_producer_ok p"
    and "bq_consumer_ok (bq_mark_seen i p) c = bq_consumer_ok p c"
    and "bq_pos (bq_mark_seen i p) c = bq_pos p c"
    and "bq_pending (bq_mark_seen i p) c = bq_pending p c"
    and "bq_selected (bq_mark_seen i p) c = bq_selected p c"
proof -
  have ne: "(queue (bq_mark_seen i p) = []) = (queue p = [])"
    using bq_mark_seen_fields(5) [of i p] by (metis length_0_conv)
  have addr: "fst (queue (bq_mark_seen i p) ! j) = fst (queue p ! j)" if "j < length (queue p)" for j
    using that by (simp add: bq_mark_seen_nth)
  show "bq_producer_ok (bq_mark_seen i p) = bq_producer_ok p"
    by (simp add: bq_producer_ok_def assms)
  show pos: "bq_pos (bq_mark_seen i p) c = bq_pos p c"
    by (simp add: bq_pos_def)
  show "bq_pending (bq_mark_seen i p) c = bq_pending p c"
    using assms by (simp add: bq_pending_def pos)
  show "bq_selected (bq_mark_seen i p) c = bq_selected p c"
    by (simp add: bq_selected_def)
  have "unat (last_element_serial c) < unat (next_serial p) \<Longrightarrow> queue p \<noteq> [] \<Longrightarrow>
      bq_base p \<le> unat (last_element_serial c) \<Longrightarrow>
      unat (last_element_serial c) - bq_base p < length (queue p)"
    by (auto simp: bq_base_def)
  then show "bq_consumer_ok (bq_mark_seen i p) c = bq_consumer_ok p c"
    using addr by (auto simp: bq_consumer_ok_def ne)
qed

lemma bq_inv_mark_seen:
  assumes inv: "bq_inv s" and k: "registered s k = Some c"
    and i: "bq_pos (producer s) c < length (queue (producer s))"
    and more: "card (bq_seen_by s (bq_pos (producer s) c)) + 1 < card (dom (registered s))"
    and ok: "bq_consumer_ok (producer s) c'"
    and pos: "bq_pos (producer s) c' = bq_pos (producer s) c + 1"
  shows "bq_inv (s\<lparr>producer := bq_mark_seen (bq_pos (producer s) c) (producer s),
                  registered := (registered s)(k \<mapsto> c')\<rparr>)"
proof -
  let ?p = "producer s" and ?i = "bq_pos (producer s) c"
  let ?s = "s\<lparr>producer := bq_mark_seen ?i ?p, registered := (registered s)(k \<mapsto> c')\<rparr>"
  have dom: "dom (registered ?s) = dom (registered s)"
    using k by auto
  have fin: "finite (bq_seen_by s j)" for j
    by (rule bq_seen_by_finite [OF inv])
  have self: "k \<notin> bq_seen_by s ?i"
    using k by (simp add: bq_seen_by_def)
  have seen_i: "bq_seen_by ?s ?i = insert k (bq_seen_by s ?i)"
    using k pos i by (auto simp: bq_seen_by_def)
  have seen_j: "bq_seen_by ?s j = bq_seen_by s j" if "j \<noteq> ?i" for j
    using k pos i that by (auto simp: bq_seen_by_def)
  have counts: "unat (seen (snd (queue ?p ! j))) = card (bq_seen_by s j)" if "j < length (queue ?p)" for j
    using inv that by (simp add: bq_inv_def)
  have "card (dom (registered s)) < 2 ^ 64"
    using inv unat_bound [of "consumers ?p"] by (simp add: bq_inv_def)
  then have counts': "unat (seen (snd (queue (producer ?s) ! j))) = card (bq_seen_by ?s j)"
    if "j < length (queue ?p)" for j
    using counts [OF that] that more fin self
    by (cases "j = ?i") (simp_all add: bq_mark_seen_nth seen_i seen_j)
  have ex: "\<exists>k c. registered ?s k = Some c \<and> bq_pos (producer ?s) c = 0"
  proof (rule ccontr)
    assume none: "\<not> ?thesis"
    have "0 < bq_pos (producer ?s) d" if "registered ?s j = Some d" for j d
      using none that neq0_conv by blast
    then have "dom (registered ?s) \<subseteq> bq_seen_by ?s 0"
      unfolding bq_seen_by_def dom_def by blast
    then have "bq_seen_by ?s 0 = dom (registered s)"
      using bq_seen_by_subset [of ?s 0] dom by blast
    moreover have "card (bq_seen_by ?s 0) < card (dom (registered s))"
    proof (cases "?i = 0")
      case True
      then show ?thesis using seen_i more fin self by simp
    next
      case False
      have "bq_seen_by s 0 \<subset> dom (registered s)"
        using bq_inv_head_unseen [OF inv _ k] i by (cases "queue ?p") auto
      then show ?thesis
        using False seen_j [of 0] inv by (simp add: bq_inv_def psubset_card_mono)
    qed
    ultimately show False by simp
  qed
  show ?thesis
    using inv ok dom counts' ex i by (auto simp: bq_inv_def)
qed

lemma bq_pop_head_fields [simp]:
  "consumers (bq_pop_head p) = consumers p"
  "stopped (bq_pop_head p) = stopped p"
  "queue (bq_pop_head p) = (if length (queue p) = 1 then [] else tl (queue p))"
  by (simp_all add: bq_pop_head_def)

lemma bq_pop_head_producer_ok:
  assumes "bq_producer_ok p" and "queue p \<noteq> []" and "bq_room 1 p"
  shows "bq_producer_ok (bq_pop_head p)"
proof (cases "length (queue p) = 1")
  case True
  then show ?thesis
    using assms by (simp add: bq_pop_head_def bq_producer_ok_def bq_base_def bq_room_def)
next
  case False
  obtain h q where q: "queue p = h # q" using assms(2) by (cases "queue p") auto
  have "map (unat \<circ> seq_no \<circ> snd) q = [Suc (bq_base p) ..< unat (next_serial p)]"
    using assms(1) q by (intro map_eq_upt_tl [of _ h]) (simp add: bq_producer_ok_def)
  moreover have "bq_base (bq_pop_head p) = Suc (bq_base p)"
    using False q assms(1) by (auto simp: bq_pop_head_def bq_base_def bq_producer_ok_def)
  ultimately show ?thesis
    using assms(1) False q by (simp add: bq_producer_ok_def bq_pop_head_def)
qed

lemma bq_pop_head_base:
  assumes "bq_producer_ok p" and "1 < length (queue p)"
  shows "bq_base (bq_pop_head p) = Suc (bq_base p)"
  using assms by (auto simp: bq_pop_head_def bq_base_def bq_producer_ok_def)

text \<open>Every other consumer has passed the head, so it keeps its place in what is left.\<close>

lemma bq_pop_head_consumer:
  assumes p: "bq_producer_ok p" and c: "bq_consumer_ok p c" and pos: "0 < bq_pos p c"
    and room: "bq_room 1 p"
  shows "bq_consumer_ok (bq_pop_head p) c"
    and "bq_pos (bq_pop_head p) c = bq_pos p c - 1"
    and "bq_pending (bq_pop_head p) c = bq_pending p c"
    and "1 < length (queue p) \<Longrightarrow> bq_selected (bq_pop_head p) c = bq_selected p c"
    and "length (queue p) = 1 \<Longrightarrow> \<not> bq_selected p c \<and> \<not> bq_selected (bq_pop_head p) c"
proof -
  have sync: "con_queue_serial c = queue_serial p"
    using pos by (auto simp: bq_pos_def split: if_splits)
  then obtain h q where q: "queue p = h # q"
    using c by (cases "queue p") (auto simp: bq_consumer_ok_def)
  have le: "bq_pos p c \<le> length (queue p)"
    by (rule bq_pos_le_length [OF p c])
  have all: "bq_consumer_ok (bq_pop_head p) c \<and> bq_pos (bq_pop_head p) c = bq_pos p c - 1 \<and>
      (1 < length (queue p) \<longrightarrow> bq_selected (bq_pop_head p) c = bq_selected p c) \<and>
      (length (queue p) = 1 \<longrightarrow> \<not> bq_selected p c \<and> \<not> bq_selected (bq_pop_head p) c)"
  proof (cases "length (queue p) = 1")
    case True
    then have qs: "queue_serial (bq_pop_head p) = queue_serial p + 1"
      by (simp add: bq_pop_head_def)
    then have neq: "queue_serial (bq_pop_head p) \<noteq> con_queue_serial c"
      using sync room by (simp add: unat_inject_iff bq_room_def)
    have "\<not> bq_selected p c"
      using bq_selected_pos(1) [OF p c] pos True by auto
    moreover have "bq_pos p c = 1" using le pos True by simp
    ultimately show ?thesis
      using True neq qs sync room
      by (auto simp: bq_consumer_ok_def bq_pos_def bq_selected_def bq_room_def)
  next
    case False
    then have len: "1 < length (queue p)" using q by (cases q) auto
    then have fields: "queue (bq_pop_head p) = q" "next_serial (bq_pop_head p) = next_serial p"
        "queue_serial (bq_pop_head p) = queue_serial p"
      using q by (auto simp: bq_pop_head_def)
    note base = bq_pop_head_base [OF p len]
    have "q \<noteq> []" using len q by auto
    moreover have "fst (q ! (unat (last_element_serial c) - Suc (bq_base p))) =
        fst (queue p ! (unat (last_element_serial c) - bq_base p))"
      if "bq_base p < unat (last_element_serial c)"
      using that q by (simp add: nth_Cons' )
    ultimately show ?thesis
      using c pos sync base fields len
      by (auto simp: bq_consumer_ok_def bq_pos_def bq_selected_def split: if_splits)
  qed
  then show "bq_consumer_ok (bq_pop_head p) c" "bq_pos (bq_pop_head p) c = bq_pos p c - 1"
    "1 < length (queue p) \<Longrightarrow> bq_selected (bq_pop_head p) c = bq_selected p c"
    "length (queue p) = 1 \<Longrightarrow> \<not> bq_selected p c \<and> \<not> bq_selected (bq_pop_head p) c"
    by auto
  show "bq_pending (bq_pop_head p) c = bq_pending p c"
    using all pos q by (cases "bq_pos p c") (auto simp: bq_pending_def bq_backlog_def)
qed

lemma bq_inv_pop_head:
  assumes inv: "bq_inv s" and k: "registered s k = Some c"
    and ne: "queue (producer s) \<noteq> []" and zero: "bq_pos (producer s) c = 0"
    and others: "bq_seen_by s 0 = dom (registered s) - {k}"
    and room: "bq_room 1 (producer s)"
    and ok: "bq_consumer_ok (bq_pop_head (producer s)) c'"
    and zero': "bq_pos (bq_pop_head (producer s)) c' = 0"
  shows "bq_inv (s\<lparr>producer := bq_pop_head (producer s),
                  registered := (registered s)(k \<mapsto> c')\<rparr>)"
proof -
  let ?p = "producer s" and ?s = "s\<lparr>producer := bq_pop_head (producer s),
                  registered := (registered s)(k \<mapsto> c')\<rparr>"
  note p = bq_inv_consumer(2) [OF inv k]
  have dom: "dom (registered ?s) = dom (registered s)"
    using k by auto
  have pos: "0 < bq_pos ?p d" if "registered s j = Some d" "j \<noteq> k" for j d
  proof -
    have "j \<in> bq_seen_by s 0" using others that by auto
    then show ?thesis using that by (simp add: bq_seen_by_def)
  qed
  have con: "bq_consumer_ok (bq_pop_head ?p) d" "bq_pos (bq_pop_head ?p) d = bq_pos ?p d - 1"
    if "registered s j = Some d" "j \<noteq> k" for j d
    using bq_pop_head_consumer [OF p bq_inv_consumer(1) [OF inv that(1)] pos [OF that] room] by auto
  have seen: "bq_seen_by ?s i = bq_seen_by s (Suc i)" for i
  proof (rule set_eqI)
    fix j
    show "j \<in> bq_seen_by ?s i \<longleftrightarrow> j \<in> bq_seen_by s (Suc i)"
    proof (cases "j = k")
      case True
      then show ?thesis using zero zero' k by (simp add: bq_seen_by_def)
    next
      case False
      then show ?thesis using con(2) [of j] by (cases "registered s j") (auto simp: bq_seen_by_def)
    qed
  qed
  have nth: "queue (bq_pop_head ?p) ! i = queue ?p ! Suc i" if "i < length (queue (bq_pop_head ?p))" for i
    using that ne by (auto simp: nth_tl split: if_splits)
  have counts: "unat (seen (snd (queue (bq_pop_head ?p) ! i))) = card (bq_seen_by ?s i)"
    if "i < length (queue (bq_pop_head ?p))" for i
  proof -
    have "Suc i < length (queue ?p)" using that by (auto split: if_splits)
    then show ?thesis using inv nth [OF that] seen by (simp add: bq_inv_def)
  qed
  show ?thesis
    using bq_pop_head_producer_ok [OF p ne room] inv dom con(1) ok counts zero'
    by (auto simp: bq_inv_def split: if_splits)
qed

text \<open>
  What a move of consumer \<open>k\<close> does to the abstract view: a selected buffer is dropped from
  what \<open>k\<close> has to see, the next one (if any) becomes selected, the other consumers are
  unaffected.
\<close>

definition bq_moved ::
    "bufferqueue \<Rightarrow> nat \<Rightarrow> BufferQueue_Consumer \<Rightarrow>
     BufferQueue_Producer \<times> BufferQueue_Consumer \<times> bool \<Rightarrow> bool" where
  "bq_moved s k c = (\<lambda>(p', c', b).
     bq_inv (s\<lparr>producer := p', registered := (registered s)(k \<mapsto> c')\<rparr>) \<and>
     bq_pending p' c' =
       (if bq_selected (producer s) c then tl (bq_pending (producer s) c)
        else bq_pending (producer s) c) \<and>
     b = (bq_pending p' c' \<noteq> []) \<and> bq_selected p' c' = b \<and>
     (\<forall>j d. registered s j = Some d \<longrightarrow> j \<noteq> k \<longrightarrow>
        bq_pending p' d = bq_pending (producer s) d \<and>
        bq_selected p' d = bq_selected (producer s) d) \<and>
     (queue_serial p' = queue_serial (producer s) \<or>
      queue p' = [] \<and> queue_serial p' = queue_serial (producer s) + 1))"

lemma bq_pending_tl: "drop (Suc i) xs = tl (drop i xs)"
  by (simp add: drop_Suc tl_drop)

lemma bq_pending_Nil_iff:
  "bq_pending p c = [] \<longleftrightarrow> length (queue p) \<le> bq_pos p c"
  by (simp add: bq_pending_def bq_backlog_def)

lemma bq_move_unselected_moved:
  assumes inv: "bq_inv s" and k: "registered s k = Some c"
    and u: "\<not> bq_selected (producer s) c"
  shows "\<exists>r. bq_consumer_move_internal (producer s) c = Inr r \<and> bq_moved s k c r"
proof -
  let ?p = "producer s" and ?c = "c\<lparr>current_element_pointer := None\<rparr>"
  note ok = bq_inv_consumer(2,1) [OF inv k]
  obtain p' c' b where r: "bq_consumer_select ?p ?c (glist_head (drop (bq_pos ?p c) (queue ?p)))
      = (p', c', b)"
    by (metis prod_cases3)
  have eval: "bq_consumer_move_internal ?p c = Inr (p', c', b)"
    using bq_move_unselected [OF ok u] r by simp
  have "bq_moved s k c (p', c', b)"
  proof (cases "bq_pos ?p c < length (queue ?p)")
    case True
    have q: "0 < unat (queue_serial ?p)" using ok by (simp add: bq_producer_ok_def)
    note sel = bq_select_at [OF ok(1) q True r]
    have pend: "bq_pending ?p c' = bq_pending ?p c"
      using sel(4) by (simp add: bq_pending_def)
    have "s\<lparr>producer := ?p\<rparr> = s" by simp
    then show ?thesis
      using sel True u pend bq_inv_update_consumer [OF inv k sel(3,4)] bq_pending_Nil_iff [of ?p c]
      by (simp add: bq_moved_def)
  next
    case False
    then have sel: "p' = ?p" "c' = ?c" "b = False"
      using r bq_select_end [of ?p "bq_pos ?p c" ?c] by auto
    have "bq_consumer_ok ?p ?c"
      using ok(2) by (auto simp: bq_consumer_ok_def)
    then have "bq_inv (s\<lparr>registered := (registered s)(k \<mapsto> ?c)\<rparr>)"
      using bq_inv_update_consumer [OF inv k] u by simp
    moreover have "s\<lparr>producer := ?p\<rparr> = s" by simp
    ultimately show ?thesis
      using sel u False bq_pending_Nil_iff [of ?p c]
      by (simp add: bq_moved_def bq_pending_def bq_selected_def not_less)
  qed
  then show ?thesis using eval by blast
qed

lemma bq_move_selected:
  assumes p: "bq_producer_ok p" and c: "bq_consumer_ok p c" and s: "bq_selected p c"
    and unref: "bq_consumer_elem_unref p c = Inr (p2, c2)" and p2: "distinct (map fst (queue p2))"
    and more: "Suc (bq_pos p c) < length (queue p) \<Longrightarrow>
      j < length (queue p2) \<and> fst (queue p2 ! j) = fst (queue p ! Suc (bq_pos p c))"
    and last: "\<not> Suc (bq_pos p c) < length (queue p) \<Longrightarrow> length (queue p2) \<le> j"
  shows "bq_consumer_move_internal p c =
           Inr (bq_consumer_select p2 c2 (glist_head (drop j (queue p2))))"
proof -
  have i: "bq_pos p c < length (queue p)"
      and a: "current_element_pointer c = Some (fst (queue p ! bq_pos p c))"
    using bq_selected_pos [OF p c s] by auto
  note nxt = bq_glist_next [OF p i] and conf = bq_confirm_selected [OF p c s]
  show ?thesis
  proof (cases "Suc (bq_pos p c) < length (queue p)")
    case True
    then have j: "j < length (queue p2)"
        and fst: "fst (queue p2 ! j) = fst (queue p ! Suc (bq_pos p c))"
      using more by auto
    have "glist_head (drop j (queue p2)) = Some (queue p2 ! j)"
      using j by (simp add: glist_head_def Cons_nth_drop_Suc [symmetric])
    moreover have "GLIST_TO_BQELEM p2 (fst (queue p ! Suc (bq_pos p c))) =
        Inr (snd (queue p2 ! j))"
      using map_of_distinct_nth [OF p2 j] fst by (simp add: GLIST_TO_BQELEM_def)
    ultimately show ?thesis
      using True a conf nxt unref fst by (cases "queue p2 ! j") (simp add: bq_consumer_move_internal_def)
  next
    case False
    then have "glist_head (drop j (queue p2)) = None"
      using last by (simp add: glist_head_def)
    then show ?thesis
      using False a conf nxt unref by (simp add: bq_consumer_move_internal_def)
  qed
qed

lemma bq_move_mark_seen_moved:
  assumes inv: "bq_inv s" and k: "registered s k = Some c"
    and s: "bq_selected (producer s) c"
    and more: "card (bq_seen_by s (bq_pos (producer s) c)) + 1 < card (dom (registered s))"
  shows "\<exists>r. bq_consumer_move_internal (producer s) c = Inr r \<and> bq_moved s k c r"
proof -
  let ?p = "producer s" and ?i = "bq_pos (producer s) c"
    and ?c = "c\<lparr>current_element_pointer := None\<rparr>"
  let ?p2 = "bq_mark_seen ?i ?p"
  note ok = bq_inv_consumer(2,1) [OF inv k]
  have i: "?i < length (queue ?p)"
    using bq_selected_pos [OF ok s] by simp
  have cnt: "unat (seen (snd (queue ?p ! ?i))) = card (bq_seen_by s ?i)"
      "unat (consumers ?p) = card (dom (registered s))"
    using inv i by (auto simp: bq_inv_def)
  then have small: "unat (seen (snd (queue ?p ! ?i))) + 1 < 2 ^ LENGTH(64)"
    using more unat_bound [of "consumers ?p"] by simp
  have ne: "seen (snd (queue ?p ! ?i)) \<noteq> consumers ?p"
    using cnt more by (auto simp: unat_inject_iff)
  have lt: "seen (snd (queue ?p ! ?i)) + 1 < consumers ?p"
    using cnt more small by (simp add: word_less_nat_alt)
  note unref = bq_unref_selected(1) [OF ok s ne lt]
  have ok2: "bq_producer_ok ?p2" using ok i by simp
  then have d2: "distinct (map fst (queue ?p2))" by (simp add: bq_producer_ok_def)
  obtain p' c' b where r:
      "bq_consumer_select ?p2 ?c (glist_head (drop (Suc ?i) (queue ?p2))) = (p', c', b)"
    by (metis prod_cases3)
  have eval: "bq_consumer_move_internal ?p c = Inr (p', c', b)"
    using bq_move_selected [OF ok s unref d2, of "Suc ?i"] r by (simp add: bq_mark_seen_nth)
  have sync: "con_queue_serial c = queue_serial ?p"
    using s by (simp add: bq_selected_def)
  have res: "p' = ?p2 \<and> bq_consumer_ok ?p c' \<and> bq_pos ?p c' = ?i + 1 \<and>
      b = (Suc ?i < length (queue ?p)) \<and> bq_selected ?p c' = b"
  proof (cases "Suc ?i < length (queue ?p)")
    case True
    have q2: "0 < unat (queue_serial ?p2)" using ok2 by (simp add: bq_producer_ok_def)
    have len2: "Suc ?i < length (queue ?p2)" using True by simp
    from bq_select_at [OF ok2 q2 len2 r] True i show ?thesis by simp
  next
    case False
    then have "p' = ?p2" "c' = ?c" "\<not> b"
      using r bq_select_end [of ?p2 "Suc ?i" ?c] by auto
    moreover have "bq_consumer_ok ?p ?c"
      using ok(2) sync by (auto simp: bq_consumer_ok_def)
    moreover have "bq_pos ?p ?c = ?i + 1"
      using s ok(2) by (auto simp: bq_pos_def bq_selected_def bq_consumer_ok_def)
    ultimately show ?thesis using False by (simp add: bq_selected_def)
  qed
  have inv': "bq_inv (s\<lparr>producer := ?p2, registered := (registered s)(k \<mapsto> c')\<rparr>)"
    using bq_inv_mark_seen [OF inv k i more] res by simp
  have "bq_pending ?p c' = tl (bq_pending ?p c)"
    using res by (simp add: bq_pending_def bq_pending_tl)
  then have "bq_moved s k c (p', c', b)"
    using res inv' i s bq_pending_Nil_iff [of ?p c'] by (auto simp: bq_moved_def)
  then show ?thesis using eval by blast
qed

end
