(* ===== verification/BufferQueue_Spec.thy ===== *)
theory BufferQueue_Spec
  imports BufferQueue_Inv
begin

text \<open>
  Every operation of the buffer queue returns (no failed assertion, no use of a freed
  cell), keeps the invariant, and acts on the abstract view as a broadcast queue does. The
  contract is the locale \<open>broadcast_queue\<close>; its interpretation on the model discharges it.
\<close>

section \<open>The last viewer frees the head\<close>

lemma bq_last_viewer:
  assumes inv: "bq_inv s" and k: "registered s k = Some c"
    and i: "bq_pos (producer s) c < length (queue (producer s))"
    and last: "\<not> card (bq_seen_by s (bq_pos (producer s) c)) + 1 < card (dom (registered s))"
  shows "bq_seen_by s (bq_pos (producer s) c) = dom (registered s) - {k}"
    and "bq_pos (producer s) c = 0"
proof -
  let ?i = "bq_pos (producer s) c"
  have fin: "finite (dom (registered s))" using inv by (simp add: bq_inv_def)
  have sub: "bq_seen_by s ?i \<subseteq> dom (registered s) - {k}"
    using bq_seen_by_subset [of s ?i] k by (auto simp: bq_seen_by_def)
  have "card (dom (registered s) - {k}) \<le> card (bq_seen_by s ?i)"
    using last k fin by (simp add: domI)
  then show eq: "bq_seen_by s ?i = dom (registered s) - {k}"
    using card_seteq [OF _ sub] fin by simp
  have "queue (producer s) \<noteq> []" using i by auto
  then obtain k0 c0 where k0: "registered s k0 = Some c0" and z: "bq_pos (producer s) c0 = 0"
    using inv k unfolding bq_inv_def by blast
  then have "k0 \<notin> bq_seen_by s ?i" by (simp add: bq_seen_by_def)
  with eq k0 have "k0 = k" by auto
  with k0 k z show "?i = 0" by simp
qed

lemma bq_move_pop_head_moved:
  assumes inv: "bq_inv s" and k: "registered s k = Some c"
    and s: "bq_selected (producer s) c" and room: "bq_room 1 (producer s)"
    and last: "\<not> card (bq_seen_by s (bq_pos (producer s) c)) + 1 < card (dom (registered s))"
  shows "\<exists>r. bq_consumer_move_internal (producer s) c = Inr r \<and> bq_moved s k c r"
proof -
  let ?p = "producer s" and ?c = "c\<lparr>current_element_pointer := None\<rparr>"
  let ?p2 = "bq_pop_head ?p"
  note ok = bq_inv_consumer(2,1) [OF inv k]
  have i: "bq_pos ?p c < length (queue ?p)"
    using bq_selected_pos [OF ok s] by simp
  note lv = bq_last_viewer [OF inv k i last]
  then have zero: "bq_pos ?p c = 0" and others: "bq_seen_by s 0 = dom (registered s) - {k}"
    by auto
  have q: "queue ?p \<noteq> []" using i by auto
  have fin: "finite (dom (registered s))" using inv by (simp add: bq_inv_def)
  have cnt: "unat (seen (snd (queue ?p ! 0))) = card (dom (registered s)) - 1"
      "unat (consumers ?p) = card (dom (registered s))"
    using inv q others k fin by (auto simp: bq_inv_def domI)
  have pos_dom: "0 < card (dom (registered s))"
    using k fin by (auto simp: card_gt_0_iff)
  have last': "seen (snd (queue ?p ! 0)) + 1 = consumers ?p"
    using cnt pos_dom unat_bound [of "consumers ?p"] by (simp add: unat_inject_iff)
  have ne: "seen (snd (queue ?p ! bq_pos ?p c)) \<noteq> consumers ?p"
    using cnt pos_dom zero by (auto simp: unat_inject_iff)
  note unref = bq_unref_selected(2) [OF ok s ne zero last']
  note ok2 = bq_pop_head_producer_ok [OF ok(1) q room]
  then have d2: "distinct (map fst (queue ?p2))" by (simp add: bq_producer_ok_def)
  obtain p' c' b where r: "bq_consumer_select ?p2 ?c (glist_head (drop 0 (queue ?p2))) = (p', c', b)"
    by (metis prod_cases3)
  have eval: "bq_consumer_move_internal ?p c = Inr (p', c', b)"
  proof -
    obtain h t where ht: "queue ?p = h # t" using q by (cases "queue ?p") auto
    have "bq_consumer_move_internal ?p c =
        Inr (bq_consumer_select ?p2 ?c (glist_head (drop 0 (queue ?p2))))"
      by (rule bq_move_selected [OF ok s unref d2]) (simp_all add: zero ht)
    then show ?thesis using r by simp
  qed
  have sync: "con_queue_serial c = queue_serial ?p"
    using s by (simp add: bq_selected_def)
  have res: "p' = ?p2 \<and> bq_consumer_ok ?p2 c' \<and> bq_pos ?p2 c' = 0 \<and>
      b = (1 < length (queue ?p)) \<and> bq_selected ?p2 c' = b"
  proof (cases "1 < length (queue ?p)")
    case True
    have q2: "0 < unat (queue_serial ?p2)" using ok2 by (simp add: bq_producer_ok_def)
    have len2: "0 < length (queue ?p2)" using True by simp
    from bq_select_at [OF ok2 q2 len2 r] True show ?thesis by simp
  next
    case False
    then have one: "length (queue ?p) = 1" using q by (cases "queue ?p") auto
    then have r': "p' = ?p2" "c' = ?c" "\<not> b"
      using r bq_select_end [of ?p2 0 ?c] by auto
    have qs: "queue_serial ?p2 = queue_serial ?p + 1" using one by (simp add: bq_pop_head_def)
    have "queue_serial ?p2 \<noteq> con_queue_serial ?c"
      using qs sync room by (simp add: unat_inject_iff bq_room_def)
    then show ?thesis
      using r' False qs sync room
      by (auto simp: bq_consumer_ok_def bq_pos_def bq_selected_def bq_room_def)
  qed
  have inv': "bq_inv (s\<lparr>producer := ?p2, registered := (registered s)(k \<mapsto> c')\<rparr>)"
    using bq_inv_pop_head [OF inv k q zero others room] res by blast
  have pend: "bq_pending ?p2 c' = tl (bq_pending ?p c)"
    using res zero q by (cases "queue ?p") (auto simp: bq_pending_def bq_backlog_def)
  have rest: "bq_pending ?p2 d = bq_pending ?p d \<and> bq_selected ?p2 d = bq_selected ?p d"
    if "registered s j = Some d" "j \<noteq> k" for j d
  proof -
    have "j \<in> bq_seen_by s 0" using others that by auto
    then have pd: "0 < bq_pos ?p d" using that by (simp add: bq_seen_by_def)
    note pop = bq_pop_head_consumer [OF ok(1) bq_inv_consumer(1) [OF inv that(1)] pd room]
    have "length (queue ?p) = 1 \<or> 1 < length (queue ?p)"
      using q length_greater_0_conv [of "queue ?p"] by linarith
    then show ?thesis using pop by blast
  qed
  have "b = (bq_pending ?p2 c' \<noteq> [])"
    using res bq_pending_Nil_iff [of ?p2 c'] q by (cases "queue ?p") (auto split: if_splits)
  then have "bq_moved s k c (p', c', b)"
    using res inv' pend rest s
    by (auto simp: bq_moved_def bq_pop_head_def split: if_splits)
  then show ?thesis using eval by blast
qed

lemma bq_move_internal_moved:
  assumes "bq_inv s" and "registered s k = Some c"
    and "queue (producer s) \<noteq> [] \<longrightarrow> bq_room 1 (producer s)"
  shows "\<exists>r. bq_consumer_move_internal (producer s) c = Inr r \<and> bq_moved s k c r"
proof (cases "bq_selected (producer s) c")
  case False
  then show ?thesis by (rule bq_move_unselected_moved [OF assms(1,2)])
next
  case True
  then have "queue (producer s) \<noteq> []"
    using bq_selected_pos(1) [OF bq_inv_consumer(2,1) [OF assms(1,2)]] by auto
  then show ?thesis
    using bq_move_mark_seen_moved [OF assms(1,2) True] bq_move_pop_head_moved [OF assms(1,2) True]
      assms(3) by blast
qed

section \<open>The other operations\<close>

lemma bq_inv_state_eq:
  "s\<lparr>producer := p, registered := r\<rparr> = \<lparr>producer = p, registered = r\<rparr>"
  by simp

lemma bq_view_moved:
  assumes "bq_moved s k c (p', c', b)" and "registered s k = Some c"
  shows "bq_view (s\<lparr>producer := p', registered := (registered s)(k \<mapsto> c')\<rparr>) =
           (bq_view s)(k \<mapsto> (bq_pending p' c', b))"
proof
  fix j
  show "bq_view (s\<lparr>producer := p', registered := (registered s)(k \<mapsto> c')\<rparr>) j =
          ((bq_view s)(k \<mapsto> (bq_pending p' c', b))) j"
  proof (cases "j = k")
    case True
    then show ?thesis using assms by (simp add: bq_view_def bq_moved_def)
  next
    case False
    then show ?thesis using assms by (cases "registered s j") (auto simp: bq_view_def bq_moved_def)
  qed
qed

lemma bq_view_Some:
  "bq_view s k = Some (xs, sel) \<longleftrightarrow>
     (\<exists>c. registered s k = Some c \<and> bq_pending (producer s) c = xs \<and>
          bq_selected (producer s) c = sel)"
  by (auto simp: bq_view_def)

lemma bq_room_moved:
  assumes "bq_moved s k c (p', c', b)" and "bq_room (Suc n) (producer s)"
  shows "bq_room n p'"
  using assms by (auto simp: bq_moved_def bq_room_def)

lemma move_consumer_view:
  assumes inv: "bq_inv s" and room: "bq_room (Suc n) (producer s)"
    and v: "bq_view s k = Some (xs, sel)"
  defines "xs' \<equiv> if sel then tl xs else xs"
  shows "\<exists>s'. move_consumer k s = Inr (s', xs' \<noteq> []) \<and> bq_inv s' \<and> bq_room n (producer s') \<and>
           bq_view s' = (bq_view s)(k \<mapsto> (xs', xs' \<noteq> []))"
proof -
  obtain c where k: "registered s k = Some c" and c: "bq_pending (producer s) c = xs"
      "bq_selected (producer s) c = sel"
    using v by (auto simp: bq_view_Some)
  have "bq_room 1 (producer s)" using room by (simp add: bq_room_def)
  then obtain p' c' b where r: "bq_consumer_move_internal (producer s) c = Inr (p', c', b)"
      and m: "bq_moved s k c (p', c', b)"
    using bq_move_internal_moved [OF inv k] by (metis prod_cases3)
  have "\<not> stopped (producer s)"
    using bq_inv_consumer(2) [OF inv k] by (simp add: bq_producer_ok_def)
  then have "move_consumer k s =
      Inr (s\<lparr>producer := p', registered := (registered s)(k \<mapsto> c')\<rparr>, b)"
    using k r by (simp add: move_consumer_def bq_consumer_move_def)
  moreover have "bq_pending p' c' = xs'" and "b = (xs' \<noteq> [])"
    using m c by (auto simp: bq_moved_def xs'_def)
  ultimately show ?thesis
    using m bq_view_moved [OF m k] bq_room_moved [OF m room]
    by (auto simp: bq_moved_def)
qed

lemma bq_pending_selected_hd:
  assumes ok: "bq_producer_ok p" "bq_consumer_ok p c" and s: "bq_selected p c"
  shows "bq_pending p c \<noteq> []"
    and "GLIST_TO_BQELEM p (the (current_element_pointer c)) =
           Inr ((hd (bq_pending p c))\<lparr>seen := seen (snd (queue p ! bq_pos p c))\<rparr>)"
proof -
  have i: "bq_pos p c < length (queue p)"
      and a: "current_element_pointer c = Some (fst (queue p ! bq_pos p c))"
    using bq_selected_pos [OF ok s] by auto
  show "bq_pending p c \<noteq> []"
    using i by (simp add: bq_pending_Nil_iff not_le)
  have "hd (bq_pending p c) = bq_content (queue p ! bq_pos p c)"
    using i by (simp add: bq_pending_def bq_backlog_def hd_drop_conv_nth)
  moreover have "map_of (queue p) (fst (queue p ! bq_pos p c)) = Some (snd (queue p ! bq_pos p c))"
    by (rule map_of_distinct_nth [OF _ i]) (use ok in \<open>simp add: bq_producer_ok_def\<close>)
  ultimately show "GLIST_TO_BQELEM p (the (current_element_pointer c)) =
           Inr ((hd (bq_pending p c))\<lparr>seen := seen (snd (queue p ! bq_pos p c))\<rparr>)"
    using a by (simp add: GLIST_TO_BQELEM_def bq_content_def)
qed

lemma get_buffer_view:
  assumes inv: "bq_inv s" and v: "bq_view s k = Some (xs, sel)"
  shows "\<exists>s' e. get_buffer k s = Inr (s', e) \<and> bq_inv s' \<and> producer s' = producer s \<and>
           bq_view s' = (bq_view s)(k \<mapsto> (xs, xs \<noteq> [])) \<and>
           map_option (\<lambda>e. e\<lparr>seen := 0\<rparr>) e = (if xs = [] then None else Some (hd xs))"
proof -
  let ?p = "producer s"
  obtain c where k: "registered s k = Some c" and c: "bq_pending ?p c = xs" "bq_selected ?p c = sel"
    using v by (auto simp: bq_view_Some)
  note ok = bq_inv_consumer(2,1) [OF inv k]
  have st: "\<not> stopped ?p" using ok by (simp add: bq_producer_ok_def)
  have xs0: "(hd xs)\<lparr>seen := 0\<rparr> = hd xs" if "xs \<noteq> []"
    using that c(1) by (auto simp: bq_pending_def bq_backlog_def bq_content_def hd_drop_conv_nth)
  show ?thesis
  proof (cases sel)
    case True
    then have s: "bq_selected ?p c" using c by simp
    note hd = bq_pending_selected_hd [OF ok s]
    have "get_buffer k s = Inr (s\<lparr>producer := ?p, registered := (registered s)(k \<mapsto> c)\<rparr>,
        Some ((hd xs)\<lparr>seen := seen (snd (queue ?p ! bq_pos ?p c))\<rparr>))"
      using k st bq_confirm_selected [OF ok s] hd(2) s c
      by (auto simp: get_buffer_def bq_consumer_get_def bq_selected_def)
    moreover have "s\<lparr>producer := ?p, registered := (registered s)(k \<mapsto> c)\<rparr> = s"
      using k by (simp add: fun_upd_idem)
    moreover have "(bq_view s)(k \<mapsto> (xs, True)) = bq_view s"
      using v True by (simp add: fun_upd_idem)
    ultimately show ?thesis
      using inv hd(1) c xs0 by auto
  next
    case False
    then have u: "\<not> bq_selected ?p c" using c by simp
    let ?c = "c\<lparr>current_element_pointer := None\<rparr>"
    obtain p' c' b where r: "bq_consumer_move_internal ?p c = Inr (p', c', b)"
        and m: "bq_moved s k c (p', c', b)"
      using bq_move_unselected_moved [OF inv k u] by (metis prod_cases3)
    have r2: "bq_consumer_move_internal ?p ?c = Inr (p', c', b)"
      using r bq_confirm_unselected [OF u] bq_consumer_confirm_pointer_idem [of ?p c]
      by (simp add: bq_consumer_move_internal_def)
    have p': "p' = ?p"
      using r bq_move_unselected [OF ok u]
      by (auto simp: bq_consumer_select_def split: option.splits)
    have b: "b = (xs \<noteq> [])" "bq_pending ?p c' = xs" "bq_selected ?p c' = b"
      using m u c p' by (auto simp: bq_moved_def)
    let ?s = "s\<lparr>producer := ?p, registered := (registered s)(k \<mapsto> c')\<rparr>"
    have inv': "bq_inv ?s" using m p' by (simp add: bq_moved_def)
    have k': "registered ?s k = Some c'" by simp
    have "\<exists>e. get_buffer k s = Inr (?s, e) \<and>
           map_option (\<lambda>e. e\<lparr>seen := 0\<rparr>) e = (if xs = [] then None else Some (hd xs))"
    proof (cases "xs = []")
      case True
      then show ?thesis
        using k st r2 p' b bq_confirm_unselected [OF u]
        by (simp add: get_buffer_def bq_consumer_get_def)
    next
      case ne: False
      have s': "bq_selected ?p c'" using b ne by simp
      have ok': "bq_producer_ok ?p" "bq_consumer_ok ?p c'"
        using bq_inv_consumer(2,1) [OF inv' k'] by auto
      note hd = bq_pending_selected_hd [OF ok' s']
      obtain a where "current_element_pointer c' = Some a"
        using s' by (auto simp: bq_selected_def)
      then show ?thesis
        using k st r2 p' b ne hd(2) xs0 bq_confirm_unselected [OF u]
        by (auto simp: get_buffer_def bq_consumer_get_def)
    qed
    then show ?thesis
      using inv' bq_view_moved [OF m k] p' b by auto
  qed
qed

text \<open>
  A put appends to what every consumer has to see; it aborts exactly when the 16-bit
  serial would wrap.
\<close>

lemma bq_put_serial:
  assumes "seq_no e = 0" and "\<not> stopped p"
  shows "bq_producer_put a e p =
     (if next_serial p + 1 = 0 then Inl Assert_Failed
      else Inr (p\<lparr>next_serial := next_serial p + 1,
                 queue := queue p @ [(a, e\<lparr>seen := 0, seq_no := next_serial p\<rparr>)]\<rparr>))"
  using assms by (simp add: bq_producer_put_def Let_def)

lemma bq_append_consumer:
  assumes p: "bq_producer_ok p" and c: "bq_consumer_ok p c"
    and p': "p' = p\<lparr>next_serial := next_serial p + 1, queue := queue p @ [n]\<rparr>"
    and nw: "next_serial p + 1 \<noteq> 0"
  shows "bq_consumer_ok p' c" and "bq_pos p' c = bq_pos p c" and "bq_selected p' c = bq_selected p c"
    and "bq_pending p' c = bq_pending p c @ [bq_content n]"
proof -
  have nx: "unat (next_serial p') = unat (next_serial p) + 1"
    using nw p' by (simp add: unatSuc add.commute)
  then have base: "bq_base p' = bq_base p"
    using p p' by (simp add: bq_base_def)
  show pos: "bq_pos p' c = bq_pos p c"
    using base p' by (simp add: bq_pos_def)
  show "bq_selected p' c = bq_selected p c"
    using p' by (simp add: bq_selected_def)
  show "bq_pending p' c = bq_pending p c @ [bq_content n]"
    using bq_pos_le_length [OF p c] pos p' by (simp add: bq_pending_def bq_backlog_def)
  have "unat (last_element_serial c) - bq_base p < length (queue p)"
    if "con_queue_serial c = queue_serial p" "bq_base p \<le> unat (last_element_serial c)"
    using c that p by (auto simp: bq_consumer_ok_def bq_base_def bq_producer_ok_def)
  then show "bq_consumer_ok p' c"
    using c nx base p' by (auto simp: bq_consumer_ok_def nth_append)
qed

lemma put_buffer_view:
  assumes inv: "bq_inv s" and e: "seq_no e = 0" and a: "a \<notin> fst ` set (queue (producer s))"
    and nw: "next_serial (producer s) \<noteq> - 1"
  defines "e' \<equiv> e\<lparr>seen := 0, seq_no := next_serial (producer s)\<rparr>"
  shows "\<exists>s'. put_buffer a e s = Inr s' \<and> bq_inv s' \<and>
           queue_serial (producer s') = queue_serial (producer s) \<and>
           bq_backlog (producer s') = bq_backlog (producer s) @ [e'] \<and>
           bq_view s' = (\<lambda>k. map_option (apfst (\<lambda>xs. xs @ [e'])) (bq_view s k))"
proof -
  let ?p = "producer s"
  let ?p' = "?p\<lparr>next_serial := next_serial ?p + 1, queue := queue ?p @ [(a, e')]\<rparr>"
  let ?s = "s\<lparr>producer := ?p'\<rparr>"
  have p: "bq_producer_ok ?p" using inv by (simp add: bq_inv_def)
  have nw': "next_serial ?p + 1 \<noteq> 0"
    using nw by (metis add_left_cancel add.right_inverse add.commute)
  have put: "put_buffer a e s = Inr ?s"
    using bq_put_serial [OF e] p nw' by (simp add: put_buffer_def bq_producer_ok_def e'_def)
  have nx: "unat (next_serial ?p + 1) = unat (next_serial ?p) + 1"
    using nw' by (simp add: unatSuc add.commute)
  have base: "bq_base ?p' = bq_base ?p" using nx by (simp add: bq_base_def)
  have le: "bq_base ?p \<le> unat (next_serial ?p)" by (simp add: bq_base_def)
  have p': "bq_producer_ok ?p'"
    using p a nx base le by (auto simp: bq_producer_ok_def e'_def)
  have con: "bq_consumer_ok ?p' c" "bq_pos ?p' c = bq_pos ?p c" "bq_selected ?p' c = bq_selected ?p c"
      "bq_pending ?p' c = bq_pending ?p c @ [e']" if "registered s k = Some c" for k c
    using bq_append_consumer [OF p bq_inv_consumer(1) [OF inv that] refl nw', of "(a, e')"]
    by (auto simp: bq_content_def e'_def)
  have seen: "bq_seen_by ?s i = bq_seen_by s i" for i
    using con(2) by (auto simp: bq_seen_by_def)
  have none: "bq_seen_by s (length (queue ?p)) = {}"
    using bq_pos_le_length [OF p bq_inv_consumer(1) [OF inv]] by (fastforce simp: bq_seen_by_def)
  have counts: "unat (seen (snd (queue ?p' ! i))) = card (bq_seen_by ?s i)"
    if "i < length (queue ?p')" for i
  proof (cases "i < length (queue ?p)")
    case True
    then show ?thesis using inv seen by (simp add: bq_inv_def nth_append)
  next
    case False
    then have "i = length (queue ?p)" using that by simp
    then show ?thesis using none seen by (simp add: e'_def)
  qed
  have ex: "\<exists>k c. registered s k = Some c \<and> bq_pos ?p' c = 0" if "dom (registered s) \<noteq> {}"
  proof (cases "queue ?p = []")
    case True
    from that have "\<exists>k c. registered s k = Some c" by (auto simp: dom_def)
    then obtain k c where k: "registered s k = Some c" by auto
    then show ?thesis
      using con(2) [OF k] bq_pos_le_length [OF p bq_inv_consumer(1) [OF inv k]] True by auto
  next
    case False
    then show ?thesis using inv that con(2) unfolding bq_inv_def by metis
  qed
  have "bq_inv ?s"
    using inv p' con(1) counts ex by (auto simp: bq_inv_def)
  moreover have "bq_view ?s = (\<lambda>k. map_option (apfst (\<lambda>xs. xs @ [e'])) (bq_view s k))"
  proof
    fix k
    show "bq_view ?s k = map_option (apfst (\<lambda>xs. xs @ [e'])) (bq_view s k)"
      by (cases "registered s k") (auto simp: bq_view_def con)
  qed
  ultimately show ?thesis
    using put by (simp add: bq_backlog_def bq_content_def e'_def)
qed

lemma bq_fresh_consumer:
  assumes "bq_producer_ok p"
  defines "c \<equiv> \<lparr>con_queue_serial = 0, current_element_pointer = None, last_element_serial = 0\<rparr>"
  shows "bq_consumer_ok p c" and "bq_pos p c = 0" and "\<not> bq_selected p c"
  using assms by (auto simp: bq_consumer_ok_def bq_pos_def bq_selected_def bq_producer_ok_def)

lemma new_consumer_view:
  assumes inv: "bq_inv s" and fresh: "registered s k = None"
    and max: "card (dom (registered s)) + 1 < 2 ^ 64"
  shows "\<exists>s'. new_consumer k s = Inr s' \<and> bq_inv s' \<and>
           queue (producer s') = queue (producer s) \<and>
           queue_serial (producer s') = queue_serial (producer s) \<and>
           bq_view s' = (bq_view s)(k \<mapsto> (bq_backlog (producer s), False))"
proof -
  let ?p = "producer s" and ?c = "\<lparr>con_queue_serial = 0, current_element_pointer = None,
      last_element_serial = 0\<rparr> :: BufferQueue_Consumer"
  let ?p' = "?p\<lparr>consumers := consumers ?p + 1\<rparr>"
  let ?s = "s\<lparr>producer := ?p', registered := (registered s)(k \<mapsto> ?c)\<rparr>"
  have p: "bq_producer_ok ?p" and cnt: "unat (consumers ?p) = card (dom (registered s))"
      and fin: "finite (dom (registered s))"
    using inv by (auto simp: bq_inv_def)
  have "unat (consumers ?p) < unat (- 1 :: u64)"
    using cnt max by (simp add: unsigned_minus_1_eq_mask mask_eq_exp_minus_1)
  then have "new_consumer k s = Inr ?s"
    using p by (simp add: new_consumer_def bq_consumer_new_def bq_producer_ok_def word_less_nat_alt)
  moreover have pr: "bq_producer_ok ?p' = bq_producer_ok ?p" "bq_base ?p' = bq_base ?p"
    by (simp_all add: bq_producer_ok_def bq_base_def)
  moreover have con: "bq_consumer_ok ?p' d = bq_consumer_ok ?p d" "bq_pos ?p' d = bq_pos ?p d"
      "bq_selected ?p' d = bq_selected ?p d" "bq_pending ?p' d = bq_pending ?p d" for d
    by (simp_all add: bq_consumer_ok_def bq_pos_def bq_selected_def bq_pending_def pr(2)
        bq_backlog_def)
  note fc = bq_fresh_consumer [OF p]
  have seen: "bq_seen_by ?s i = bq_seen_by s i" for i
    using fresh fc(2) by (auto simp: bq_seen_by_def con)
  have "unat (consumers ?p + 1) = card (dom (registered ?s))"
    using cnt max fresh fin by (simp add: domIff)
  then have "bq_inv ?s"
    using inv p pr con fc seen by (auto simp: bq_inv_def)
  moreover have "bq_view ?s = (bq_view s)(k \<mapsto> (bq_backlog ?p, False))"
    using fc by (auto simp: bq_view_def con bq_pending_def bq_backlog_def)
  ultimately show ?thesis by simp
qed

lemma reset_queue_view:
  assumes inv: "bq_inv s" and room: "bq_room (Suc n) (producer s)"
  shows "\<exists>s'. reset_queue s = Inr s' \<and> bq_inv s' \<and> bq_room n (producer s') \<and>
           bq_backlog (producer s') = [] \<and>
           bq_view s' = (\<lambda>k. map_option (\<lambda>_. ([], False)) (bq_view s k))"
proof -
  let ?p = "producer s"
  let ?p' = "bq_producer_reset_queue_internal ?p"
  let ?s = "s\<lparr>producer := ?p'\<rparr>"
  have p: "bq_producer_ok ?p" using inv by (simp add: bq_inv_def)
  have qs: "unat (queue_serial ?p') = unat (queue_serial ?p) + 1"
    using room by (simp add: bq_producer_reset_queue_internal_def bq_room_def)
  have p': "bq_producer_ok ?p'"
    using p qs by (simp add: bq_producer_ok_def bq_producer_reset_queue_internal_def bq_base_def)
  have con: "bq_consumer_ok ?p' c" "bq_pos ?p' c = 0" "\<not> bq_selected ?p' c" "bq_pending ?p' c = []"
    if "registered s k = Some c" for k c
  proof -
    have "unat (con_queue_serial c) < unat (queue_serial ?p')"
      using bq_inv_consumer(1) [OF inv that] qs by (simp add: bq_consumer_ok_def)
    then show "bq_consumer_ok ?p' c" "bq_pos ?p' c = 0" "\<not> bq_selected ?p' c"
        "bq_pending ?p' c = []"
      by (auto simp: bq_consumer_ok_def bq_pos_def bq_selected_def bq_pending_def bq_backlog_def
          bq_producer_reset_queue_internal_def)
  qed
  have "bq_inv ?s"
    using inv p' con(1) by (auto simp: bq_inv_def bq_producer_reset_queue_internal_def)
  moreover have "bq_view ?s = (\<lambda>k. map_option (\<lambda>_. ([], False)) (bq_view s k))"
  proof
    fix k
    show "bq_view ?s k = map_option (\<lambda>_. ([], False)) (bq_view s k)"
      by (cases "registered s k") (auto simp: bq_view_def con)
  qed
  moreover have "bq_room n ?p'" using room qs by (simp add: bq_room_def)
  moreover have "bq_backlog ?p' = []"
    by (simp add: bq_backlog_def bq_producer_reset_queue_internal_def)
  moreover have "reset_queue s = Inr ?s"
    using p by (simp add: reset_queue_def bq_producer_reset_queue_def bq_producer_ok_def)
  ultimately show ?thesis by simp
qed

text \<open>Draining: the consumer passes everything it has to see, the others are unaffected.\<close>

lemma bq_drain_moved:
  assumes "bq_inv s" and "registered s k = Some c" and "producer s = p"
    and "bq_room 1 p"
  shows "\<exists>p' c'. bq_consumer_drain p c = Inr (p', c') \<and>
     bq_inv (s\<lparr>producer := p', registered := (registered s)(k \<mapsto> c')\<rparr>) \<and>
     bq_pending p' c' = [] \<and> \<not> bq_selected p' c' \<and>
     (\<forall>j d. registered s j = Some d \<longrightarrow> j \<noteq> k \<longrightarrow>
        bq_pending p' d = bq_pending p d \<and> bq_selected p' d = bq_selected p d) \<and>
     (queue_serial p' = queue_serial p \<or>
      queue p' = [] \<and> queue_serial p' = queue_serial p + 1)"
  using assms
proof (induction p c arbitrary: s rule: bq_consumer_drain.induct)
  case (1 p c)
  obtain p1 c1 b where r: "bq_consumer_move_internal p c = Inr (p1, c1, b)"
      and m: "bq_moved s k c (p1, c1, b)"
    using bq_move_internal_moved [OF "1.prems"(1,2)] "1.prems"(3,4) by (metis prod_cases3)
  let ?s = "s\<lparr>producer := p1, registered := (registered s)(k \<mapsto> c1)\<rparr>"
  have inv1: "bq_inv ?s" using m by (simp add: bq_moved_def)
  show ?case
  proof (cases b)
    case False
    then have "bq_consumer_drain p c = Inr (p1, c1)"
      using r by (simp add: bq_consumer_drain.simps [of p c])
    then show ?thesis
      using inv1 m False "1.prems"(3)
      by (intro exI [of _ p1] exI [of _ c1]) (auto simp: bq_moved_def simp del: fun_upd_apply)
  next
    case True
    have nonempty: "queue_serial p1 = queue_serial p"
      using m True "1.prems"(3) by (auto simp: bq_moved_def bq_pending_def bq_backlog_def)
    then have room1: "bq_room 1 p1"
      using "1.prems"(4) by (simp add: bq_room_def)
    obtain p' c' where d: "bq_consumer_drain p1 c1 = Inr (p', c')"
        and inv': "bq_inv (?s\<lparr>producer := p', registered := (registered ?s)(k \<mapsto> c')\<rparr>)"
        and res: "bq_pending p' c' = []" "\<not> bq_selected p' c'"
          "\<forall>j d. registered ?s j = Some d \<longrightarrow> j \<noteq> k \<longrightarrow>
             bq_pending p' d = bq_pending p1 d \<and> bq_selected p' d = bq_selected p1 d"
          "queue_serial p' = queue_serial p1 \<or>
             queue p' = [] \<and> queue_serial p' = queue_serial p1 + 1"
      using "1.IH" [OF r _ _ _ inv1] True room1 by fastforce
    have "bq_inv (s\<lparr>producer := p', registered := (registered s)(k \<mapsto> c')\<rparr>)"
      using inv' by simp
    moreover have "\<forall>j d. registered s j = Some d \<longrightarrow> j \<noteq> k \<longrightarrow>
        bq_pending p' d = bq_pending p d \<and> bq_selected p' d = bq_selected p d"
    proof (intro allI impI)
      fix j d assume j: "registered s j = Some d" "j \<noteq> k"
      then have "bq_pending p' d = bq_pending p1 d \<and> bq_selected p' d = bq_selected p1 d"
        using res(3) [rule_format, of j d] by simp
      moreover have "bq_pending p1 d = bq_pending p d \<and> bq_selected p1 d = bq_selected p d"
        using m j "1.prems"(3) by (simp add: bq_moved_def)
      ultimately show "bq_pending p' d = bq_pending p d \<and> bq_selected p' d = bq_selected p d"
        by simp
    qed
    moreover have "bq_consumer_drain p c = Inr (p', c')"
      using r d True by (simp add: bq_consumer_drain.simps [of p c])
    ultimately show ?thesis
      using res(1,2,4) nonempty
      by (intro exI [of _ p'] exI [of _ c']) (simp del: fun_upd_apply)
  qed
qed

text \<open>
  Once a consumer has passed everything, every remaining element counts it among its
  viewers; taking the consumer out lowers each count by one.
\<close>

definition bq_forget_viewer :: "BufferQueue_Producer \<Rightarrow> BufferQueue_Producer" where
  "bq_forget_viewer p =
     p\<lparr>queue := map (apsnd bq_decrement_seen_on_free) (queue p), consumers := consumers p - 1\<rparr>"

lemma bq_content_decrement [simp]:
  "bq_content (apsnd bq_decrement_seen_on_free n) = bq_content n"
  "bq_content \<circ> apsnd bq_decrement_seen_on_free = bq_content"
  by (auto simp: bq_content_def bq_decrement_seen_on_free_def fun_eq_iff)

lemma bq_forget_viewer_simps [simp]:
  "next_serial (bq_forget_viewer p) = next_serial p"
  "queue_serial (bq_forget_viewer p) = queue_serial p"
  "stopped (bq_forget_viewer p) = stopped p"
  "consumers (bq_forget_viewer p) = consumers p - 1"
  "length (queue (bq_forget_viewer p)) = length (queue p)"
  "queue (bq_forget_viewer p) = [] \<longleftrightarrow> queue p = []"
  "map fst (queue (bq_forget_viewer p)) = map fst (queue p)"
  "bq_base (bq_forget_viewer p) = bq_base p"
  "bq_pos (bq_forget_viewer p) c = bq_pos p c"
  "bq_selected (bq_forget_viewer p) c = bq_selected p c"
  "bq_backlog (bq_forget_viewer p) = bq_backlog p"
  "bq_pending (bq_forget_viewer p) c = bq_pending p c"
  by (simp_all add: bq_forget_viewer_def bq_base_def bq_pos_def bq_selected_def bq_backlog_def
      bq_pending_def)

lemma bq_forget_viewer_ok [simp]:
  "bq_producer_ok (bq_forget_viewer p) = bq_producer_ok p"
  "bq_producer_ok p \<Longrightarrow> bq_consumer_ok p c \<Longrightarrow> bq_consumer_ok (bq_forget_viewer p) c"
proof -
  have sq: "map (unat \<circ> seq_no \<circ> snd) (queue (bq_forget_viewer p)) =
      map (unat \<circ> seq_no \<circ> snd) (queue p)"
    by (simp add: bq_forget_viewer_def bq_decrement_seen_on_free_def)
  then show "bq_producer_ok (bq_forget_viewer p) = bq_producer_ok p"
    by (simp add: bq_producer_ok_def)
  assume p: "bq_producer_ok p" and c: "bq_consumer_ok p c"
  have "fst (queue (bq_forget_viewer p) ! i) = fst (queue p ! i)" if "i < length (queue p)" for i
    using that by (simp add: bq_forget_viewer_def)
  moreover have "unat (last_element_serial c) - bq_base p < length (queue p)"
    if "con_queue_serial c = queue_serial p" "bq_base p \<le> unat (last_element_serial c)"
    using c that p by (auto simp: bq_consumer_ok_def bq_base_def bq_producer_ok_def)
  ultimately show "bq_consumer_ok (bq_forget_viewer p) c"
    using c by (auto simp: bq_consumer_ok_def)
qed

lemma bq_inv_forget_viewer:
  assumes inv: "bq_inv s" and k: "registered s k = Some c"
    and passed: "bq_pending (producer s) c = []"
  shows "bq_inv (s\<lparr>producer := bq_forget_viewer (producer s),
                  registered := (registered s)(k := None)\<rparr>)"
    (is "bq_inv ?s")
proof -
  let ?p = "producer s"
  have fin: "finite (dom (registered s))" using inv by (simp add: bq_inv_def)
  have cards: "0 < card (dom (registered s))" "k \<in> dom (registered s)"
    using k fin by (auto simp: card_gt_0_iff)
  have "unat (consumers ?p - 1) = card (dom (registered ?s))"
    using inv cards fin by (simp add: bq_inv_def unat_pred_no_wrap)
  moreover have "unat (seen (snd (queue (bq_forget_viewer ?p) ! i))) = card (bq_seen_by ?s i)"
    if i: "i < length (queue ?p)" for i
  proof -
    have k_in: "k \<in> bq_seen_by s i"
      using k i passed by (simp add: bq_seen_by_def bq_pending_Nil_iff)
    have "bq_seen_by ?s i = bq_seen_by s i - {k}"
      by (auto simp: bq_seen_by_def split: if_splits)
    then have "card (bq_seen_by ?s i) = card (bq_seen_by s i) - 1"
      using k_in bq_seen_by_finite [OF inv] by simp
    moreover have "0 < card (bq_seen_by s i)"
      using k_in bq_seen_by_finite [OF inv] by (auto simp: card_gt_0_iff)
    moreover have "unat (seen (snd (queue ?p ! i))) = card (bq_seen_by s i)"
      using inv i by (simp add: bq_inv_def)
    ultimately show ?thesis
      using i by (simp add: bq_forget_viewer_def bq_decrement_seen_on_free_def unat_pred_no_wrap)
  qed
  moreover have "\<exists>j d. registered ?s j = Some d \<and> bq_pos ?p d = 0" if ne: "queue ?p \<noteq> []"
  proof -
    obtain j d where j: "registered s j = Some d" "bq_pos ?p d = 0"
      using inv ne k unfolding bq_inv_def by blast
    moreover have "j \<noteq> k"
      using j k passed ne by (auto simp: bq_pending_Nil_iff)
    ultimately show ?thesis by (auto intro!: exI [of _ j])
  qed
  ultimately show ?thesis
    using inv fin by (auto simp: bq_inv_def)
qed

lemma bq_consumer_free_forget:
  assumes "0 < consumers p" and "bq_consumer_drain p c = Inr (p', c')"
  shows "bq_consumer_free p c = Inr (bq_forget_viewer p')"
  using assms by (simp add: bq_consumer_free_def bq_forget_viewer_def)

lemma free_consumer_view:
  assumes inv: "bq_inv s" and room: "bq_room (Suc n) (producer s)"
    and v: "bq_view s k = Some v"
  shows "\<exists>s'. free_consumer k s = Inr s' \<and> bq_inv s' \<and> bq_room n (producer s') \<and>
           bq_view s' = (bq_view s)(k := None)"
proof -
  let ?p = "producer s"
  obtain c where k: "registered s k = Some c"
    using v by (auto simp: bq_view_def)
  have "bq_room 1 ?p" using room by (simp add: bq_room_def)
  then obtain p' c' where d: "bq_consumer_drain ?p c = Inr (p', c')"
      and inv': "bq_inv (s\<lparr>producer := p', registered := (registered s)(k \<mapsto> c')\<rparr>)"
      and passed: "bq_pending p' c' = []"
      and rest: "\<And>j d. registered s j = Some d \<Longrightarrow> j \<noteq> k \<Longrightarrow>
        bq_pending p' d = bq_pending ?p d \<and> bq_selected p' d = bq_selected ?p d"
      and qs: "queue_serial p' = queue_serial ?p \<or> queue_serial p' = queue_serial ?p + 1"
    using bq_drain_moved [OF inv k refl] by blast
  let ?s = "s\<lparr>producer := bq_forget_viewer p', registered := (registered s)(k := None)\<rparr>"
  have "0 < card (dom (registered s))"
    using k inv by (auto simp: bq_inv_def card_gt_0_iff)
  then have "0 < consumers ?p"
    using inv by (simp add: bq_inv_def word_less_nat_alt)
  then have "free_consumer k s = Inr ?s"
    using k bq_consumer_free_forget [OF _ d] by (simp add: free_consumer_def)
  moreover have "bq_inv ?s"
    using bq_inv_forget_viewer [OF inv', of k c'] passed by simp
  moreover have "bq_view ?s = (bq_view s)(k := None)"
  proof
    fix j
    show "bq_view ?s j = ((bq_view s)(k := None)) j"
      using rest [of j] by (cases "registered s j") (auto simp: bq_view_def)
  qed
  moreover have "bq_room n (bq_forget_viewer p')"
    using qs room by (auto simp: bq_room_def)
  ultimately show ?thesis by simp
qed

end
