(* ===== verification/BufferQueue_Broadcast.thy ===== *)
theory BufferQueue_Broadcast
  imports BufferQueue_Spec
begin

text \<open>
  The contract of the buffer queue towards its clients (the demuxers that put buffers and
  the RTP sessions that get them) as the locales \<open>broadcast_queue\<close> and
  \<open>broadcast_producer\<close>, with the clients' lemmas proved once, and the interpretation on
  the model. Then runs: every sequence of operations from a new producer keeps the
  invariant, so that none of the operations can hit a freed cell or a failed assertion.
\<close>

section \<open>The contract\<close>

text \<open>
  \<open>inv n s\<close>: the state is consistent and \<open>n\<close> more operations fit into the counters;
  \<open>view s k\<close>: what consumer \<open>k\<close> has still to see and whether it is on the first of it;
  \<open>content\<close>: what a client reads of an element.
\<close>

locale broadcast_queue =
  fixes inv :: "nat \<Rightarrow> 's \<Rightarrow> bool"
    and view :: "'s \<Rightarrow> 'k \<Rightarrow> ('c list \<times> bool) option"
    and get :: "'k \<Rightarrow> 's \<Rightarrow> ('s \<times> 'e option) result"
    and move :: "'k \<Rightarrow> 's \<Rightarrow> ('s \<times> bool) result"
    and content :: "'e \<Rightarrow> 'c"
  assumes get_law: "inv n s \<Longrightarrow> view s k = Some (xs, sel) \<Longrightarrow>
      \<exists>s' e. get k s = Inr (s', e) \<and> inv n s' \<and> view s' = (view s)(k \<mapsto> (xs, xs \<noteq> [])) \<and>
             map_option content e = (if xs = [] then None else Some (hd xs))"
    and move_law: "inv (Suc n) s \<Longrightarrow> view s k = Some (xs, sel) \<Longrightarrow>
      \<exists>s'. move k s = Inr (s', (if sel then tl xs else xs) \<noteq> []) \<and> inv n s' \<and>
           view s' = (view s)(k \<mapsto> ((if sel then tl xs else xs), (if sel then tl xs else xs) \<noteq> []))"
    and inv_mono: "inv (Suc n) s \<Longrightarrow> inv n s"

text \<open>
  The client's loop, as \<open>rtp_write_cb\<close> runs it once per timer event: take the current
  element, use it, move on. \<open>n\<close> bounds the number of rounds.
\<close>

fun consume ::
    "('k \<Rightarrow> 's \<Rightarrow> ('s \<times> 'e option) result) \<Rightarrow> ('k \<Rightarrow> 's \<Rightarrow> ('s \<times> bool) result) \<Rightarrow>
     nat \<Rightarrow> 'k \<Rightarrow> 's \<Rightarrow> ('s \<times> 'e list) result" where
  "consume get move 0 k s = Inr (s, [])"
| "consume get move (Suc n) k s =
     (case get k s of
        Inl err \<Rightarrow> Inl err
      | Inr (s1, None) \<Rightarrow> Inr (s1, [])
      | Inr (s1, Some e) \<Rightarrow>
          (case move k s1 of
             Inl err \<Rightarrow> Inl err
           | Inr (s2, _) \<Rightarrow>
               (case consume get move n k s2 of
                  Inl err \<Rightarrow> Inl err
                | Inr (s3, es) \<Rightarrow> Inr (s3, e # es))))"

context broadcast_queue
begin

lemma get_move:
  assumes "inv (Suc n) s" and "view s k = Some (x # xs, sel)"
  obtains s1 e s2 b where "get k s = Inr (s1, Some e)" "content e = x" "move k s1 = Inr (s2, b)"
    "inv n s2" "view s2 = (view s)(k \<mapsto> (xs, xs \<noteq> []))"
proof -
  obtain s1 e where g: "get k s = Inr (s1, e)" "inv (Suc n) s1"
      "view s1 = (view s)(k \<mapsto> (x # xs, True))" "map_option content e = Some x"
    using get_law [OF assms] by auto
  then have "view s1 k = Some (x # xs, True)" by simp
  from move_law [OF g(2) this] obtain s2 where m: "move k s1 = Inr (s2, xs \<noteq> [])" "inv n s2"
      "view s2 = (view s1)(k \<mapsto> (xs, xs \<noteq> []))"
    by auto
  show thesis
    using that g m by auto
qed

lemma consume_all:
  assumes "inv (length xs + m) s" and "view s k = Some (xs, sel)" and "length xs < n"
  shows "\<exists>s' es. consume get move n k s = Inr (s', es) \<and> map content es = xs \<and> inv m s' \<and>
           view s' = (view s)(k \<mapsto> ([], False))"
  using assms
proof (induction xs arbitrary: s sel n)
  case Nil
  then obtain n' where n: "n = Suc n'" by (cases n) auto
  obtain s' where "get k s = Inr (s', None)" "inv m s'" "view s' = (view s)(k \<mapsto> ([], False))"
    using get_law [OF Nil(1,2)] by auto
  then show ?case using n by (simp del: fun_upd_apply)
next
  case (Cons x xs)
  then obtain n' where n: "n = Suc n'" by (cases n) auto
  obtain s1 e s2 b where g: "get k s = Inr (s1, Some e)" "content e = x" "move k s1 = Inr (s2, b)"
      "inv (length xs + m) s2" "view s2 = (view s)(k \<mapsto> (xs, xs \<noteq> []))"
    by (rule get_move [of "length xs + m" s k x xs sel]) (use Cons.prems in simp_all)
  then have "view s2 k = Some (xs, xs \<noteq> [])" by simp
  moreover have "length xs < n'" using Cons.prems(3) n by simp
  ultimately obtain s' es where "consume get move n' k s2 = Inr (s', es)" "map content es = xs" "inv m s'"
      "view s' = (view s2)(k \<mapsto> ([], False))"
    using Cons.IH [OF g(4)] by blast
  then show ?case using g n by (simp add: fun_upd_upd del: fun_upd_apply)
qed

end

text \<open>A producer side as well: what is put reaches everybody, at the end of the line.\<close>

locale broadcast_producer = broadcast_queue inv view get move content
  for inv :: "nat \<Rightarrow> 's \<Rightarrow> bool"
    and view :: "'s \<Rightarrow> 'k \<Rightarrow> ('c list \<times> bool) option"
    and get :: "'k \<Rightarrow> 's \<Rightarrow> ('s \<times> 'e option) result"
    and move :: "'k \<Rightarrow> 's \<Rightarrow> ('s \<times> bool) result"
    and content :: "'e \<Rightarrow> 'c" +
  fixes put :: "'a \<Rightarrow> 'e \<Rightarrow> 's \<Rightarrow> 's result"
    and fresh :: "'a \<Rightarrow> 'e \<Rightarrow> 's \<Rightarrow> bool"
  assumes put_law: "inv (Suc n) s \<Longrightarrow> fresh a e s \<Longrightarrow>
      \<exists>s'. put a e s = Inr s' \<and> inv n s' \<and>
           view s' = (\<lambda>k. map_option (apfst (\<lambda>xs. xs @ [content e])) (view s k))"

text \<open>A sequence of puts, each into a cell that is not in use.\<close>

inductive puts ::
    "('a \<Rightarrow> 'e \<Rightarrow> 's \<Rightarrow> 's result) \<Rightarrow> ('a \<Rightarrow> 'e \<Rightarrow> 's \<Rightarrow> bool) \<Rightarrow> 's \<Rightarrow> 'e list \<Rightarrow> 's \<Rightarrow> bool"
  for put fresh where
  puts_Nil: "puts put fresh s [] s"
| puts_Cons: "fresh a e s \<Longrightarrow> put a e s = Inr s1 \<Longrightarrow> puts put fresh s1 es s2 \<Longrightarrow>
    puts put fresh s (e # es) s2"

inductive_cases puts_ConsE: "puts put fresh s (e # es) s2"

context broadcast_producer
begin

lemma puts_view:
  assumes "puts put fresh s es s'" and "inv (length es + m) s"
  shows "inv m s' \<and> view s' = (\<lambda>k. map_option (apfst (\<lambda>xs. xs @ map content es)) (view s k))"
  using assms
proof (induction s es s' rule: puts.induct)
  case (puts_Nil s)
  have "apfst (\<lambda>xs. xs @ []) = (\<lambda>v. v :: 'c list \<times> bool)"
    by (auto simp: fun_eq_iff)
  then show ?case using puts_Nil by (simp add: option.map_ident)
next
  case (puts_Cons a e s s1 es s2)
  from puts_Cons.prems have "inv (Suc (length es + m)) s" by simp
  then have s1: "inv (length es + m) s1"
      "view s1 = (\<lambda>k. map_option (apfst (\<lambda>xs. xs @ [content e])) (view s k))"
    using put_law [of "length es + m" s a e] puts_Cons.hyps by auto
  have "map_option (apfst (\<lambda>xs. xs @ map content es))
          (map_option (apfst (\<lambda>xs. xs @ [content e])) (view s k)) =
        map_option (apfst (\<lambda>xs. xs @ map content (e # es))) (view s k)" for k
    by (cases "view s k") auto
  then show ?case using puts_Cons.IH [OF s1(1)] s1(2) by simp
qed

lemma puts_consume:
  assumes "puts put fresh s es s1" and "inv (length es + (length xs + length es) + m) s"
    and "view s k = Some (xs, sel)" and "length xs + length es < n"
  shows "\<exists>s2 out. consume get move n k s1 = Inr (s2, out) \<and> map content out = xs @ map content es \<and>
           view s2 = (view s1)(k \<mapsto> ([], False)) \<and> inv m s2"
proof -
  have "inv (length (xs @ map content es) + m) s1"
      "view s1 k = Some (xs @ map content es, sel)"
    using puts_view [OF assms(1), of "length xs + length es + m"] assms(2,3)
    by (simp_all add: add.assoc)
  then show ?thesis
    using consume_all [of "xs @ map content es" m s1 k sel n] assms(4) by auto
qed

end

section \<open>The model meets the contract\<close>

text \<open>
  Clients do not look at the seen count and at the serial; \<open>bq_budget n\<close> leaves room for
  \<open>n\<close> more operations in the 64-bit queue serial and in the 16-bit element serial.
\<close>

definition bq_payload :: "MParserBuffer \<Rightarrow> MParserBuffer" where
  "bq_payload e = e\<lparr>seen := 0, seq_no := 0\<rparr>"

definition bq_payload_view :: "bufferqueue \<Rightarrow> nat \<Rightarrow> (MParserBuffer list \<times> bool) option" where
  "bq_payload_view s k = map_option (apfst (map bq_payload)) (bq_view s k)"

definition bq_budget :: "nat \<Rightarrow> bufferqueue \<Rightarrow> bool" where
  "bq_budget n s \<longleftrightarrow>
     bq_inv s \<and> bq_room n (producer s) \<and> unat (next_serial (producer s)) + n < 2 ^ 16"

definition bq_fresh :: "nat \<Rightarrow> MParserBuffer \<Rightarrow> bufferqueue \<Rightarrow> bool" where
  "bq_fresh a e s \<longleftrightarrow> a \<notin> fst ` set (queue (producer s)) \<and> seq_no e = 0"

lemma bq_payload_view_Some:
  "bq_payload_view s k = Some (ys, sel) \<longleftrightarrow>
     (\<exists>xs. bq_view s k = Some (xs, sel) \<and> ys = map bq_payload xs)"
  by (auto simp: bq_payload_view_def)

lemma bq_payload_view_upd:
  "bq_view s' = (bq_view s)(k \<mapsto> (xs, sel)) \<Longrightarrow>
     bq_payload_view s' = (bq_payload_view s)(k \<mapsto> (map bq_payload xs, sel))"
  by (auto simp: bq_payload_view_def)

lemma bq_elem_unref_next_serial:
  assumes "bq_consumer_elem_unref p c = Inr (p', c')"
  shows "next_serial p' = next_serial p \<or> next_serial p' = 1"
  using assms
  by (auto simp: bq_consumer_elem_unref_def bq_producer_destroy_head_def Let_def
      split: sum.splits option.splits prod.splits if_splits)

lemma bq_move_next_serial:
  assumes "bq_consumer_move_internal p c = Inr (p', c', b)"
  shows "next_serial p' = next_serial p \<or> next_serial p' = 1"
  using assms bq_elem_unref_next_serial
  by (auto simp: bq_consumer_move_internal_def bq_consumer_select_def Let_def
      split: sum.splits option.splits prod.splits if_splits)

lemma move_consumer_next_serial:
  assumes "move_consumer k s = Inr (s', b)"
  shows "next_serial (producer s') = next_serial (producer s) \<or> next_serial (producer s') = 1"
  using assms
  by (auto simp: move_consumer_def bq_consumer_move_def dest: bq_move_next_serial
      split: sum.splits option.splits prod.splits if_splits)

lemma bq_inv_next_serial: "bq_inv s \<Longrightarrow> 1 \<le> unat (next_serial (producer s))"
  by (simp add: bq_inv_def bq_producer_ok_def)

interpretation bq: broadcast_queue bq_budget bq_payload_view get_buffer move_consumer bq_payload
proof
  fix n s k xs sel
  assume inv: "bq_budget n s" and v: "bq_payload_view s k = Some (xs, sel)"
  then obtain ys where ys: "bq_view s k = Some (ys, sel)" "xs = map bq_payload ys"
    by (auto simp: bq_payload_view_Some)
  obtain s' e where g: "get_buffer k s = Inr (s', e)" "bq_inv s'" "producer s' = producer s"
      "bq_view s' = (bq_view s)(k \<mapsto> (ys, ys \<noteq> []))"
      "map_option (\<lambda>e. e\<lparr>seen := 0\<rparr>) e = (if ys = [] then None else Some (hd ys))"
    using get_buffer_view [of s k ys sel] inv ys by (auto simp: bq_budget_def)
  have "map_option bq_payload e = (if xs = [] then None else Some (hd xs))"
    using g(5) ys(2) by (cases e; cases ys) (auto simp: bq_payload_def)
  then show "\<exists>s' e. get_buffer k s = Inr (s', e) \<and> bq_budget n s' \<and>
      bq_payload_view s' = (bq_payload_view s)(k \<mapsto> (xs, xs \<noteq> [])) \<and>
      map_option bq_payload e = (if xs = [] then None else Some (hd xs))"
    using g bq_payload_view_upd [OF g(4)] inv ys(2) by (auto simp: bq_budget_def)
next
  fix n s k xs sel
  assume inv: "bq_budget (Suc n) s" and v: "bq_payload_view s k = Some (xs, sel)"
  then obtain ys where ys: "bq_view s k = Some (ys, sel)" "xs = map bq_payload ys"
    by (auto simp: bq_payload_view_Some)
  let ?ys = "if sel then tl ys else ys"
  obtain s' where m: "move_consumer k s = Inr (s', ?ys \<noteq> [])" "bq_inv s'" "bq_room n (producer s')"
      "bq_view s' = (bq_view s)(k \<mapsto> (?ys, ?ys \<noteq> []))"
    using move_consumer_view [of s n k ys sel] inv ys by (auto simp: bq_budget_def)
  have "unat (next_serial (producer s')) + n < 2 ^ 16"
    using move_consumer_next_serial [OF m(1)] inv by (auto simp: bq_budget_def)
  moreover have "(if sel then tl xs else xs) = map bq_payload ?ys"
    using ys(2) by (simp add: map_tl)
  ultimately show "\<exists>s'. move_consumer k s = Inr (s', (if sel then tl xs else xs) \<noteq> []) \<and>
      bq_budget n s' \<and> bq_payload_view s' = (bq_payload_view s)
        (k \<mapsto> ((if sel then tl xs else xs), (if sel then tl xs else xs) \<noteq> []))"
    using m bq_payload_view_upd [OF m(4)] by (simp add: bq_budget_def)
next
  fix n s
  show "bq_budget (Suc n) s \<Longrightarrow> bq_budget n s"
    by (simp add: bq_budget_def bq_room_def)
qed

interpretation bqp: broadcast_producer bq_budget bq_payload_view get_buffer move_consumer bq_payload
  put_buffer bq_fresh
proof
  fix n s a e
  assume inv: "bq_budget (Suc n) s" and fr: "bq_fresh a e s"
  let ?e = "e\<lparr>seen := 0, seq_no := next_serial (producer s)\<rparr>"
  have small: "unat (next_serial (producer s)) + 1 < 2 ^ LENGTH(16)"
    using inv by (simp add: bq_budget_def)
  then have nw: "next_serial (producer s) \<noteq> - 1"
    by (auto simp: unsigned_minus_1_eq_mask mask_eq_exp_minus_1)
  have "put_buffer a e s = Inr (s\<lparr>producer := (producer s)\<lparr>next_serial := next_serial (producer s) + 1,
      queue := queue (producer s) @ [(a, ?e)]\<rparr>\<rparr>)"
    using bq_put_serial [of e "producer s" a] fr inv nw
    by (auto simp: put_buffer_def bq_fresh_def bq_budget_def bq_inv_def bq_producer_ok_def
        eq_neg_iff_add_eq_0)
  moreover obtain s' where "put_buffer a e s = Inr s'" "bq_inv s'"
      "bq_room n (producer s')"
      "bq_view s' = (\<lambda>k. map_option (apfst (\<lambda>xs. xs @ [?e])) (bq_view s k))"
    using put_buffer_view [of s e a] nw fr inv
    by (auto simp: bq_fresh_def bq_budget_def bq_room_def)
  moreover have "map_option (apfst (map bq_payload)) (map_option (apfst (\<lambda>xs. xs @ [?e])) v) =
      map_option (apfst (\<lambda>xs. xs @ [bq_payload e])) (map_option (apfst (map bq_payload)) v)" for v
    by (cases v) (auto simp: bq_payload_def)
  ultimately show "\<exists>s'. put_buffer a e s = Inr s' \<and> bq_budget n s' \<and>
      bq_payload_view s' =
        (\<lambda>k. map_option (apfst (\<lambda>xs. xs @ [bq_payload e])) (bq_payload_view s k))"
    using inv small by (auto simp: bq_budget_def bq_payload_view_def fun_eq_iff)
qed

section \<open>Runs\<close>

text \<open>
  The operations in any order and number, from \<open>bq_producer_new\<close> on. The index counts
  the operations.
\<close>

definition bq_start :: bufferqueue where
  "bq_start = \<lparr>producer = bq_producer_new, registered = Map.empty\<rparr>"

inductive bq_step :: "bufferqueue \<Rightarrow> bufferqueue \<Rightarrow> bool" where
  step_put: "a \<notin> fst ` set (queue (producer s)) \<Longrightarrow> seq_no e = 0 \<Longrightarrow>
    put_buffer a e s = Inr s' \<Longrightarrow> bq_step s s'"
| step_reset: "reset_queue s = Inr s' \<Longrightarrow> bq_step s s'"
| step_new: "registered s k = None \<Longrightarrow> new_consumer k s = Inr s' \<Longrightarrow> bq_step s s'"
| step_move: "move_consumer k s = Inr (s', b) \<Longrightarrow> bq_step s s'"
| step_get: "get_buffer k s = Inr (s', e) \<Longrightarrow> bq_step s s'"
| step_free: "free_consumer k s = Inr s' \<Longrightarrow> bq_step s s'"

inductive bq_run :: "nat \<Rightarrow> bufferqueue \<Rightarrow> bool" where
  run_start: "bq_run 0 bq_start"
| run_step: "bq_run n s \<Longrightarrow> bq_step s s' \<Longrightarrow> bq_run (Suc n) s'"

definition bq_run_inv :: "nat \<Rightarrow> bufferqueue \<Rightarrow> bool" where
  "bq_run_inv n s \<longleftrightarrow> bq_inv s \<and> unat (queue_serial (producer s)) \<le> Suc n \<and>
     card (dom (registered s)) \<le> n"

lemma bq_view_dom: "dom (bq_view s) = dom (registered s)"
  by (auto simp: bq_view_def dom_def)

lemma bq_start_inv: "bq_run_inv 0 bq_start"
  by (simp add: bq_run_inv_def bq_start_def bq_inv_def bq_producer_ok_def bq_producer_new_def
      bq_producer_reset_queue_internal_def bq_base_def)

lemma put_buffer_wraps:
  assumes "bq_inv s" and "seq_no e = 0" and "next_serial (producer s) = - 1"
  shows "put_buffer a e s = Inl Assert_Failed"
  using assms bq_put_serial [of e "producer s" a]
  by (simp add: put_buffer_def bq_inv_def bq_producer_ok_def)

lemma bq_step_inv:
  assumes "bq_step s s'" and "bq_run_inv n s" and "n + 4 < 2 ^ 64"
  shows "bq_run_inv (Suc n) s'"
proof -
  let ?q = "unat (queue_serial (producer s))"
  have inv: "bq_inv s" and q: "?q \<le> Suc n" and card: "card (dom (registered s)) \<le> n"
    using assms(2) by (auto simp: bq_run_inv_def)
  have fin: "finite (dom (registered s))" using inv by (simp add: bq_inv_def)
  define m where "m = 2 ^ 64 - (?q + 2)"
  have room: "bq_room (Suc m) (producer s)"
    using q assms(3) by (simp add: bq_room_def m_def)
  have final: "bq_run_inv (Suc n) s'"
    if "bq_inv s'" "bq_room m (producer s')" "card (dom (bq_view s')) \<le> Suc n"
    using that q assms(3) by (simp add: bq_run_inv_def bq_room_def m_def bq_view_dom)
  have same: "bq_run_inv (Suc n) s'"
    if "bq_inv s'" "queue_serial (producer s') = queue_serial (producer s)"
      "card (dom (bq_view s')) \<le> Suc n"
    using that q by (simp add: bq_run_inv_def bq_view_dom)
  have dom_map: "dom (\<lambda>k. map_option f (bq_view s k)) = dom (registered s)" for f
    by (auto simp: bq_view_def dom_def)
  have dom_upd: "dom ((bq_view s)(k \<mapsto> v)) = dom (registered s)" if "k \<in> dom (registered s)" for k v
    using that by (auto simp: bq_view_dom)
  have viewed: "\<exists>xs sel. bq_view s k = Some (xs, sel)" if "k \<in> dom (registered s)" for k
    using that by (auto simp: bq_view_def)
  from assms(1) show ?thesis
  proof cases
    case (step_put a e)
    then have nw: "next_serial (producer s) \<noteq> - 1"
      using put_buffer_wraps [OF inv] by auto
    from put_buffer_view [OF inv step_put(2,1) nw] step_put(3) show ?thesis
      by (intro same) (auto simp: dom_map card le_SucI)
  next
    case step_reset
    with reset_queue_view [OF inv room] show ?thesis
      by (intro final) (auto simp: dom_map card le_SucI)
  next
    case (step_new k)
    have "card (dom (registered s)) + 1 < 2 ^ 64" using card assms(3) by simp
    from new_consumer_view [OF inv step_new(1) this] step_new(2) show ?thesis
      using card fin by (intro same) (auto simp: bq_view_dom card_insert_if)
  next
    case (step_move k b)
    then have k: "k \<in> dom (registered s)" by (auto simp: move_consumer_def split: option.splits)
    then obtain xs sel where "bq_view s k = Some (xs, sel)" using viewed by blast
    from move_consumer_view [OF inv room this] step_move show ?thesis
      by (intro final) (auto simp: dom_upd [OF k] card le_SucI simp del: dom_fun_upd)
  next
    case (step_get k e)
    then have k: "k \<in> dom (registered s)" by (auto simp: get_buffer_def split: option.splits)
    then obtain xs sel where "bq_view s k = Some (xs, sel)" using viewed by blast
    from get_buffer_view [OF inv this] step_get show ?thesis
      by (intro same) (auto simp: dom_upd [OF k] card le_SucI simp del: dom_fun_upd)
  next
    case (step_free k)
    show ?thesis
    proof (cases "registered s k")
      case None
      then have "s' = s" using step_free by (simp add: free_consumer_def)
      then show ?thesis using same inv card by (simp add: bq_view_dom)
    next
      case (Some c)
      then obtain v where v: "bq_view s k = Some v" using viewed by blast
      have "card (dom ((bq_view s)(k := None))) \<le> Suc n"
        using card card_Diff1_le [of "dom (registered s)" k] by (simp add: bq_view_dom)
      with free_consumer_view [OF inv room v] step_free show ?thesis
        by (intro final) auto
    qed
  qed
qed

lemma bq_run_run_inv:
  assumes "bq_run n s" and "n + 4 < 2 ^ 64"
  shows "bq_run_inv n s"
  using assms
proof (induction n s rule: bq_run.induct)
  case run_start
  show ?case by (rule bq_start_inv)
next
  case (run_step n s s')
  then show ?case using bq_step_inv by simp
qed

end
