(* ===== verification/BufferQueue_Props.thy ===== *)
theory BufferQueue_Props
  imports BufferQueue_Broadcast
begin

text \<open>
  What the buffer queue guarantees to the rest of the server, over every sequence of
  operations from a new producer, and a concrete run on which the guarantees apply.
\<close>

section \<open>Reachable states\<close>

lemma bq_run_inv:
  assumes "bq_run n s" and "n + 4 < 2 ^ 64"
  shows "bq_inv s" and "unat (queue_serial (producer s)) \<le> Suc n"
    and "card (dom (registered s)) \<le> n" and "bq_room (2 ^ 64 - n - 2) (producer s)"
  using bq_run_run_inv [OF assms] assms(2) by (auto simp: bq_run_inv_def bq_room_def)

lemma bq_run_room:
  assumes "bq_run n s" and "n + m + 4 < 2 ^ 64"
  shows "bq_room (Suc m) (producer s)"
  using bq_run_inv(2) [of n s] assms by (simp add: bq_room_def)

lemma bq_run_budget:
  assumes "bq_run n s" and "n + m + 4 < 2 ^ 64" and "unat (next_serial (producer s)) + m < 2 ^ 16"
  shows "bq_budget m s"
  using bq_run_inv [of n s] assms by (simp add: bq_budget_def bq_room_def)

lemma bq_pending_serials:
  assumes "bq_producer_ok p" and "bq_consumer_ok p c"
  shows "map (unat \<circ> seq_no) (bq_pending p c) = [bq_base p + bq_pos p c ..< unat (next_serial p)]"
proof -
  have "map (unat \<circ> seq_no) (bq_backlog p) = [bq_base p ..< unat (next_serial p)]"
    using assms(1) by (simp add: bq_producer_ok_def bq_backlog_def bq_content_def comp_def)
  then show ?thesis
    by (simp add: bq_pending_def drop_map [symmetric] drop_upt)
qed

lemma bq_unseen_selected:
  assumes p: "bq_producer_ok p" and c: "bq_consumer_ok p c"
  shows "unat (bq_consumer_unseen p c) =
    (if con_queue_serial c = queue_serial p
     then length (bq_pending p c) + of_bool (\<not> bq_selected p c)
     else unat (next_serial p))"
proof (cases "con_queue_serial c = queue_serial p")
  case False
  have "unat (ucast (next_serial p) :: u64) = unat (next_serial p)"
    by (simp add: unat_ucast_widen)
  then show ?thesis
    using False p by (simp add: bq_consumer_unseen_def bq_producer_ok_def)
next
  case True
  let ?l = "unat (last_element_serial c)" and ?n = "unat (next_serial p)"
  have q: "queue p \<noteq> []" "?l < ?n" "bq_base p \<le> ?l + 1" "\<not> stopped p"
      and sel: "current_element_pointer c \<noteq> None \<longrightarrow> bq_base p \<le> ?l"
      and len: "length (queue p) < ?n"
    using p c True by (auto simp: bq_consumer_ok_def bq_producer_ok_def)
  have "uint (next_serial p) - uint (last_element_serial c) = int (?n - ?l)"
    using q(2) by (simp add: of_nat_diff)
  then have "unat (bq_consumer_unseen p c) = unat (of_nat (?n - ?l) :: u64)"
    using True q by (simp add: bq_consumer_unseen_def)
  also have "\<dots> = ?n - ?l"
    using unat_bound [of "next_serial p"] unat_of_nat [of "?n - ?l", where 'a = 64] by simp
  finally show ?thesis
    using True q sel len
    by (auto simp: bq_pending_def bq_pos_def bq_backlog_def bq_selected_def bq_base_def)
qed

section \<open>A concrete run\<close>

definition demo_elem :: MParserBuffer where
  "demo_elem = \<lparr>seen = 0, timestamp = 0, rtp_timestamp = 0, delivery = 0, duration = 0,
     marker = False, seq_no = 0, data_size = 1, data = [7]\<rparr>"

definition demo_producer :: BufferQueue_Producer where
  "demo_producer = \<lparr>queue = [(40, demo_elem\<lparr>seq_no := 1\<rparr>)], next_serial = 2, queue_serial = 1,
     consumers = 1, stopped = False\<rparr>"

definition demo_queue :: bufferqueue where
  "demo_queue = \<lparr>producer = demo_producer, registered = [0 \<mapsto>
     \<lparr>con_queue_serial = 0, current_element_pointer = None, last_element_serial = 0\<rparr>]\<rparr>"

lemmas demo_defs = demo_queue_def demo_producer_def demo_elem_def

lemma demo_queue_run: "bq_run 2 demo_queue"
proof -
  let ?s = "\<lparr>producer = bq_producer_new\<lparr>consumers := 1\<rparr>, registered = [0 \<mapsto>
     \<lparr>con_queue_serial = 0, current_element_pointer = None, last_element_serial = 0\<rparr>]\<rparr>"
  have "(0 :: u64) < - 1" by (simp add: word_less_nat_alt unat_gt_0)
  then have "new_consumer 0 bq_start = Inr ?s"
    by (simp add: new_consumer_def bq_consumer_new_def bq_start_def bq_producer_new_def
        bq_producer_reset_queue_internal_def)
  then have "bq_run (Suc 0) ?s"
    by (intro run_step [OF run_start] step_new) (simp_all add: bq_start_def)
  moreover have "put_buffer 40 demo_elem ?s = Inr demo_queue"
    by (simp add: put_buffer_def bq_producer_put_def bq_producer_new_def demo_defs
        bq_producer_reset_queue_internal_def)
  then have "bq_step ?s demo_queue"
    by (rule step_put [rotated 2])
       (simp_all add: bq_producer_new_def bq_producer_reset_queue_internal_def demo_elem_def)
  ultimately have "bq_run (Suc (Suc 0)) demo_queue" by (rule run_step)
  then show ?thesis by (simp add: numeral_2_eq_2)
qed

lemma demo_queue_simps [simp]:
  "registered demo_queue 0 =
     Some \<lparr>con_queue_serial = 0, current_element_pointer = None, last_element_serial = 0\<rparr>"
  "registered demo_queue 7 = None"
  "producer demo_queue = demo_producer"
  "queue demo_producer = [(40, demo_elem\<lparr>seq_no := 1\<rparr>)]"
  "next_serial demo_producer = 2" "queue_serial demo_producer = 1" "consumers demo_producer = 1"
  "seq_no demo_elem = 0" "dom (registered demo_queue) = {0}"
  by (simp_all add: demo_defs)

section \<open>Properties\<close>











end
