(* ===== verification/Ragel.thy ===== *)
theory Ragel
  imports Prelude
begin

text \<open>
  The scanners of the server (\<^verbatim>\<open>ragel_range.c\<close>, \<^verbatim>\<open>ragel_uri.c\<close>,
  \<^verbatim>\<open>ragel_request_line.c\<close>, \<^verbatim>\<open>ragel_transport.c\<close>) are table-driven machines with the
  same driver: two binary searches over the keys of the current state (single keys, then
  ranges) choose a transition, whose target and actions come from further tables. This
  theory has the driver, a linear search as its reference, the well-formedness of tables
  that makes the two agree and keeps every table access in range, and the locales under
  which a scanner's own lemmas are proved.
\<close>

section \<open>Tables and characters\<close>

record ragel_tables =
  r_actions :: "nat list"
  r_key_offsets :: "nat list"
  r_trans_keys :: "int list"
  r_single_lengths :: "nat list"
  r_range_lengths :: "nat list"
  r_index_offsets :: "nat list"
  r_indicies :: "nat list"
  r_trans_targs :: "nat list"
  r_trans_actions :: "nat list"

text \<open>Reading an array; \<^verbatim>\<open>char\<close> is signed on the platforms the server is built for.\<close>

definition arr :: "'a list \<Rightarrow> nat \<Rightarrow> 'a result" where
  "arr xs i = (if i < length xs then Inr (xs ! i) else Inl Out_Of_Bounds)"

definition c_char :: "char \<Rightarrow> int" where
  "c_char c = (if of_char c < (128 :: int) then of_char c else of_char c - 256)"

section \<open>The driver\<close>

text \<open>
  \<open>lower\<close>, \<open>upper\<close> and \<open>mid\<close> are positions in the key table; the result counts from
  \<open>keys\<close>, the first key of the state.
\<close>

function ragel_search_single ::
    "int list \<Rightarrow> int \<Rightarrow> int \<Rightarrow> int \<Rightarrow> int \<Rightarrow> nat option result" where
  "ragel_search_single K keys lower upper c =
     (if upper < lower then Inr None
      else
        let mid = lower + (upper - lower) div 2 in
        case arr K (nat mid) of
          Inl err \<Rightarrow> Inl err
        | Inr k \<Rightarrow>
            if c < k then ragel_search_single K keys lower (mid - 1) c
            else if c > k then ragel_search_single K keys (mid + 1) upper c
            else Inr (Some (nat (mid - keys))))"
  by pat_completeness auto
termination
  by (relation "measure (\<lambda>(K, keys, lower, upper, c). nat (upper - lower + 1))") auto

function ragel_search_range ::
    "int list \<Rightarrow> int \<Rightarrow> int \<Rightarrow> int \<Rightarrow> int \<Rightarrow> nat option result" where
  "ragel_search_range K keys lower upper c =
     (if upper < lower then Inr None
      else
        let mid = lower + 2 * ((upper - lower) div 2 div 2) in
        case arr K (nat mid) of
          Inl err \<Rightarrow> Inl err
        | Inr k0 \<Rightarrow>
            if c < k0 then ragel_search_range K keys lower (mid - 2) c
            else
              (case arr K (nat (mid + 1)) of
                 Inl err \<Rightarrow> Inl err
               | Inr k1 \<Rightarrow>
                   if c > k1 then ragel_search_range K keys (mid + 2) upper c
                   else Inr (Some (nat ((mid - keys) div 2)))))"
  by pat_completeness auto
termination
  by (relation "measure (\<lambda>(K, keys, lower, upper, c). nat (upper - lower + 1))") auto

declare ragel_search_single.simps [simp del] ragel_search_range.simps [simp del]

definition ragel_find_trans :: "ragel_tables \<Rightarrow> nat \<Rightarrow> int \<Rightarrow> nat result" where
  "ragel_find_trans T cs c =
     (case (arr (r_key_offsets T) cs, arr (r_index_offsets T) cs,
            arr (r_single_lengths T) cs, arr (r_range_lengths T) cs) of
        (Inr keys, Inr tr, Inr klen, Inr rlen) \<Rightarrow>
          (case (if klen > 0
                 then ragel_search_single (r_trans_keys T) (int keys) (int keys)
                        (int keys + int klen - 1) c
                 else Inr None) of
             Inl err \<Rightarrow> Inl err
           | Inr (Some i) \<Rightarrow> Inr (tr + i)
           | Inr None \<Rightarrow>
               (case (if rlen > 0
                      then ragel_search_range (r_trans_keys T) (int (keys + klen))
                             (int (keys + klen)) (int (keys + klen) + 2 * int rlen - 2) c
                      else Inr None) of
                  Inl err \<Rightarrow> Inl err
                | Inr (Some j) \<Rightarrow> Inr (tr + klen + j)
                | Inr None \<Rightarrow> Inr (tr + klen + rlen)))
      | _ \<Rightarrow> Inl Out_Of_Bounds)"

text \<open>The actions of a transition: a count followed by that many action numbers.\<close>

definition ragel_action_list :: "nat list \<Rightarrow> nat \<Rightarrow> nat list result" where
  "ragel_action_list acts a =
     (case arr acts a of
        Inl err \<Rightarrow> Inl err
      | Inr n \<Rightarrow>
          if a + n < length acts then Inr (take n (drop (Suc a) acts)) else Inl Out_Of_Bounds)"

definition ragel_step :: "ragel_tables \<Rightarrow> nat \<Rightarrow> int \<Rightarrow> (nat \<times> nat list) result" where
  "ragel_step T cs c =
     (case ragel_find_trans T cs c of
        Inl err \<Rightarrow> Inl err
      | Inr i \<Rightarrow>
          (case arr (r_indicies T) i of
             Inl err \<Rightarrow> Inl err
           | Inr t \<Rightarrow>
               (case (arr (r_trans_targs T) t, arr (r_trans_actions T) t) of
                  (Inr cs', Inr a) \<Rightarrow>
                    (if a = 0 then Inr (cs', [])
                     else (case ragel_action_list (r_actions T) a of
                             Inl err \<Rightarrow> Inl err
                           | Inr ids \<Rightarrow> Inr (cs', ids)))
                | _ \<Rightarrow> Inl Out_Of_Bounds)))"

text \<open>
  Actions change the scanner's variables (\<open>Go\<close>) or return from the function (\<open>Leave\<close>).
  The scanner stops at the error state 0 or at the end of the input.
\<close>

datatype 'st flow = Go 'st | Leave 'st

fun ragel_acts ::
    "(nat \<Rightarrow> char \<Rightarrow> nat \<Rightarrow> 'st \<Rightarrow> 'st flow result) \<Rightarrow> nat list \<Rightarrow> char \<Rightarrow> nat \<Rightarrow> 'st \<Rightarrow>
     'st flow result" where
  "ragel_acts act [] c p st = Inr (Go st)"
| "ragel_acts act (i # ids) c p st =
     (case act i c p st of
        Inl err \<Rightarrow> Inl err
      | Inr (Leave st') \<Rightarrow> Inr (Leave st')
      | Inr (Go st') \<Rightarrow> ragel_acts act ids c p st')"

fun ragel_exec ::
    "ragel_tables \<Rightarrow> (nat \<Rightarrow> char \<Rightarrow> nat \<Rightarrow> 'st \<Rightarrow> 'st flow result) \<Rightarrow> nat \<Rightarrow> nat \<Rightarrow> string \<Rightarrow>
     'st \<Rightarrow> (nat \<times> 'st flow) result" where
  "ragel_exec T act cs p [] st = Inr (cs, Go st)"
| "ragel_exec T act cs p (c # input) st =
     (case ragel_step T cs (c_char c) of
        Inl err \<Rightarrow> Inl err
      | Inr (cs', ids) \<Rightarrow>
          (case ragel_acts act ids c p st of
             Inl err \<Rightarrow> Inl err
           | Inr (Leave st') \<Rightarrow> Inr (cs', Leave st')
           | Inr (Go st') \<Rightarrow>
               if cs' = 0 then Inr (0, Go st')
               else ragel_exec T act cs' (Suc p) input st'))"

section \<open>Linear search, the reference\<close>

fun key_index :: "int list \<Rightarrow> int \<Rightarrow> nat option" where
  "key_index [] c = None"
| "key_index (k # ks) c = (if c = k then Some 0 else map_option Suc (key_index ks c))"

fun range_index :: "int list \<Rightarrow> int \<Rightarrow> nat option" where
  "range_index (k0 # k1 # ks) c =
     (if k0 \<le> c \<and> c \<le> k1 then Some 0 else map_option Suc (range_index ks c))"
| "range_index _ c = None"

text \<open>The place of a character's transition among those of its state: singles, ranges, default.\<close>

definition row_index :: "int list \<Rightarrow> int list \<Rightarrow> int \<Rightarrow> nat" where
  "row_index ss rs c =
     (case key_index ss c of
        Some i \<Rightarrow> i
      | None \<Rightarrow>
          (case range_index rs c of
             Some j \<Rightarrow> length ss + j
           | None \<Rightarrow> length ss + length rs div 2))"

fun ranges_ok :: "int list \<Rightarrow> bool" where
  "ranges_ok [] = True"
| "ranges_ok [_] = False"
| "ranges_ok [k0, k1] = (k0 \<le> k1)"
| "ranges_ok (k0 # k1 # k2 # ks) = (k0 \<le> k1 \<and> k1 < k2 \<and> ranges_ok (k2 # ks))"

fun keys_ok :: "int list \<Rightarrow> bool" where
  "keys_ok [] = True"
| "keys_ok [_] = True"
| "keys_ok (k0 # k1 # ks) = (k0 < k1 \<and> keys_ok (k1 # ks))"

lemma keys_ok_sorted: "keys_ok ks \<longleftrightarrow> sorted_wrt (<) ks"
proof (induction ks rule: keys_ok.induct)
  case (3 k0 k1 ks)
  then show ?case by (auto intro: less_trans)
qed simp_all

lemma key_index_Some:
  "key_index ks c = Some i \<Longrightarrow> i < length ks \<and> ks ! i = c"
  by (induction ks arbitrary: i) (auto split: if_splits)

lemma key_index_None: "key_index ks c = None \<longleftrightarrow> c \<notin> set ks"
  by (induction ks) auto

lemma key_index_nth:
  assumes "keys_ok ks" and "i < length ks"
  shows "key_index ks (ks ! i) = Some i"
proof -
  have "distinct ks"
    using assms(1) by (simp add: keys_ok_sorted strict_sorted_iff)
  moreover obtain j where j: "key_index ks (ks ! i) = Some j"
    using assms(2) key_index_None [of ks "ks ! i"] by fastforce
  ultimately show ?thesis
    using key_index_Some [OF j] assms(2) j nth_eq_iff_index_eq [of ks j i] by auto
qed

lemma range_index_Some:
  "range_index ks c = Some j \<Longrightarrow> 2 * j + 1 < length ks \<and> ks ! (2 * j) \<le> c \<and> c \<le> ks ! (2 * j + 1)"
  by (induction ks c arbitrary: j rule: range_index.induct) (auto split: if_splits)

lemma range_index_None:
  "range_index ks c = None \<Longrightarrow> 2 * j + 1 < length ks \<Longrightarrow> \<not> (ks ! (2 * j) \<le> c \<and> c \<le> ks ! (2 * j + 1))"
proof (induction ks c arbitrary: j rule: range_index.induct)
  case (1 k0 k1 ks c)
  then show ?case by (cases j) (auto split: if_splits)
qed simp_all

lemma ranges_ok_even: "ranges_ok ks \<Longrightarrow> even (length ks)"
  by (induction ks rule: ranges_ok.induct) auto

lemma ranges_ok_nth:
  assumes "ranges_ok ks"
  shows "2 * i + 1 < length ks \<Longrightarrow> ks ! (2 * i) \<le> ks ! (2 * i + 1)"
    and "2 * i + 2 < length ks \<Longrightarrow> ks ! (2 * i + 1) < ks ! (2 * i + 2)"
  using assms
proof (induction ks arbitrary: i rule: ranges_ok.induct)
  case (4 k0 k1 k2 ks)
  {
    case 1
    then show ?case using 4 by (cases i) auto
  next
    case 2
    then show ?case using 4 by (cases i) auto
  }
qed (auto simp: less_Suc_eq)

lemma ranges_ok_sep:
  assumes ok: "ranges_ok ks" and "i < j" and "2 * j + 1 < length ks"
  shows "ks ! (2 * i + 1) < ks ! (2 * j)"
  using assms(2,3)
proof (induction j)
  case 0
  then show ?case by simp
next
  case (Suc j)
  have step: "ks ! (2 * j + 1) < ks ! (2 * Suc j)"
    using ranges_ok_nth(2) [OF ok, of j] Suc.prems by simp
  show ?case
  proof (cases "i = j")
    case True
    then show ?thesis using step by simp
  next
    case False
    then have "ks ! (2 * i + 1) < ks ! (2 * j)" using Suc by simp
    also have "\<dots> \<le> ks ! (2 * j + 1)" using ranges_ok_nth(1) [OF ok, of j] Suc.prems by simp
    finally show ?thesis using step by simp
  qed
qed

lemma range_index_unique:
  assumes ok: "ranges_ok ks" and "2 * i + 1 < length ks" and "ks ! (2 * i) \<le> c" "c \<le> ks ! (2 * i + 1)"
  shows "range_index ks c = Some i"
proof -
  obtain j where j: "range_index ks c = Some j"
    using range_index_None [of ks c i] assms by (cases "range_index ks c") auto
  note s = range_index_Some [OF j]
  have "\<not> i < j" "\<not> j < i"
    using ranges_ok_sep [OF ok, of i j] ranges_ok_sep [OF ok, of j i] s assms by auto
  then show ?thesis using j by simp
qed

section \<open>The binary searches find what the linear searches find\<close>

lemma ragel_search_single_correct:
  assumes ks: "ks = take n (drop k K)" and len: "k + n \<le> length K" and ok: "keys_ok ks"
    and "int k \<le> lower" and "upper < int (k + n)"
    and "\<And>i. i < n \<Longrightarrow> ks ! i = c \<Longrightarrow> lower \<le> int (k + i) \<and> int (k + i) \<le> upper"
  shows "ragel_search_single K (int k) lower upper c = Inr (key_index ks c)"
  using assms(4-6)
proof (induction "nat (upper - lower + 1)" arbitrary: lower upper rule: less_induct)
  case less
  have lks: "length ks = n" using ks len by simp
  show ?case
  proof (cases "upper < lower")
    case True
    have "ks ! i \<noteq> c" if "i < n" for i
      using less.prems(3) [OF that] True by linarith
    then have "c \<notin> set ks" using lks by (auto simp: in_set_conv_nth)
    then show ?thesis
      using True key_index_None [of ks c] by (simp add: ragel_search_single.simps [of K "int k" lower upper c])
  next
    case False
    define mid where "mid = lower + (upper - lower) div 2"
    define i where "i = nat (mid - int k)"
    have mid: "lower \<le> mid" "mid \<le> upper" using False by (auto simp: mid_def)
    have i: "i < n" "nat mid = k + i" "mid = int (k + i)"
      using mid less.prems(1,2) by (auto simp: i_def)
    have at: "arr K (nat mid) = Inr (ks ! i)"
      using i ks len by (simp add: arr_def)
    have srt: "ks ! a < ks ! b" if "a < b" "b < n" for a b
      using ok that lks by (simp add: keys_ok_sorted sorted_wrt_iff_nth_less)
    have left: "int (k + j) \<le> mid - 1" if "j < n" "ks ! j = c" "c < ks ! i" for j
      using that srt [of i j] i by (cases "i < j"; cases "i = j") auto
    have right: "mid + 1 \<le> int (k + j)" if "j < n" "ks ! j = c" "ks ! i < c" for j
      using that srt [of j i] i by (cases "j < i"; cases "i = j") auto
    note unfold = ragel_search_single.simps [of K "int k" lower upper c] mid_def [symmetric] Let_def
    consider "c < ks ! i" | "ks ! i < c" | "c = ks ! i" by linarith
    then show ?thesis
    proof cases
      case 1
      have "ragel_search_single K (int k) lower (mid - 1) c = Inr (key_index ks c)"
        using less.prems 1 left mid by (intro less.hyps) auto
      then show ?thesis
        using 1 at False by (simp add: unfold)
    next
      case 2
      have "ragel_search_single K (int k) (mid + 1) upper c = Inr (key_index ks c)"
        using less.prems 2 right mid by (intro less.hyps) auto
      then show ?thesis
        using 2 at False by (simp add: unfold)
    next
      case 3
      then have "key_index ks c = Some i" using key_index_nth [OF ok] i lks by simp
      then show ?thesis
        using 3 at False unfolding unfold by (simp add: i_def [symmetric])
    qed
  qed
qed

lemma ragel_search_range_correct:
  assumes ks: "ks = take (2 * n) (drop k K)" and len: "k + 2 * n \<le> length K" and ok: "ranges_ok ks"
    and "lower = int (k + 2 * l)" and "upper = int (k + 2 * u) - 2" and "u \<le> n"
    and "\<And>i. i < n \<Longrightarrow> ks ! (2 * i) \<le> c \<Longrightarrow> c \<le> ks ! (2 * i + 1) \<Longrightarrow> l \<le> i \<and> i < u"
  shows "ragel_search_range K (int k) lower upper c = Inr (range_index ks c)"
  using assms(4-7)
proof (induction "u - l" arbitrary: l u lower upper rule: less_induct)
  case less
  have lks: "length ks = 2 * n" using ks len by simp
  show ?case
  proof (cases "u \<le> l")
    case True
    have "range_index ks c = None"
    proof (cases "range_index ks c")
      case (Some j)
      then show ?thesis
        using less.prems(4) [of j] range_index_Some [OF Some] lks True by simp
    qed simp
    moreover have "upper < lower" using True less.prems(1,2) by simp
    ultimately show ?thesis
      by (simp add: ragel_search_range.simps [of K "int k" lower upper c])
  next
    case False
    define m where "m = l + (u - 1 - l) div 2"
    have m: "l \<le> m" "m < u" "m < n" using False less.prems(3) by (auto simp: m_def)
    have "upper - lower = 2 * int (u - 1 - l)"
      using False less.prems(1,2) by (simp add: of_nat_diff)
    define mid where "mid = int (k + 2 * m)"
    have mid_eq: "lower + 2 * ((upper - lower) div 2 div 2) = mid"
      using \<open>upper - lower = _\<close> less.prems(1) by (simp add: m_def mid_def zdiv_int)
    have nl: "\<not> upper < lower" using False less.prems(1,2) by simp
    have at0: "arr K (k + 2 * m) = Inr (ks ! (2 * m))"
        and at1: "arr K (Suc (k + 2 * m)) = Inr (ks ! (2 * m + 1))"
      using m ks len by (simp_all add: arr_def)
    have nats: "nat mid = k + 2 * m" "nat (mid + 1) = Suc (k + 2 * m)"
        "nat ((mid - int k) div 2) = m"
      by (auto simp: mid_def)
    have sep: "ks ! (2 * a + 1) < ks ! (2 * b)" if "a < b" "b < n" for a b
      using ranges_ok_sep [OF ok that(1)] that(2) lks by simp
    note unfold = ragel_search_range.simps [of K "int k" lower upper c] mid_eq Let_def nats
    consider "c < ks ! (2 * m)" | "ks ! (2 * m) \<le> c" "ks ! (2 * m + 1) < c"
      | "ks ! (2 * m) \<le> c" "c \<le> ks ! (2 * m + 1)" by linarith
    then show ?thesis
    proof cases
      case 1
      have "i < m" if "i < n" "ks ! (2 * i) \<le> c" for i
      proof (rule ccontr)
        assume "\<not> i < m"
        then have "i = m \<or> m < i" by linarith
        then show False
          using 1 that sep [of m i] ranges_ok_nth(1) [OF ok, of m] m lks by auto
      qed
      then have "ragel_search_range K (int k) lower (mid - 2) c = Inr (range_index ks c)"
        using less.prems m by (intro less.hyps [of m l]) (auto simp: mid_def)
      then show ?thesis
        using 1 at0 nl by (simp add: unfold)
    next
      case 2
      have "m < i" if "i < n" "c \<le> ks ! (2 * i + 1)" for i
      proof (rule ccontr)
        assume "\<not> m < i"
        then have "i = m \<or> i < m" by linarith
        then show False
          using 2 that sep [of i m] ranges_ok_nth(1) [OF ok, of m] m lks by auto
      qed
      then have "ragel_search_range K (int k) (mid + 2) upper c = Inr (range_index ks c)"
        using less.prems m by (intro less.hyps [of u "Suc m"]) (auto simp: Suc_le_eq mid_def)
      then show ?thesis
        using 2 at0 at1 nl by (simp add: unfold)
    next
      case 3
      then have "range_index ks c = Some m"
        using range_index_unique [OF ok] m lks by simp
      then show ?thesis
        using 3 at0 at1 nl by (simp add: unfold)
    qed
  qed
qed

section \<open>Well-formed tables\<close>

text \<open>
  One pass over the tables in step: the offsets of each state are where the previous state
  ended, its single keys increase, its ranges increase and do not overlap. State 0 is the
  error state: the scanners stop there and it has no row.
\<close>

fun is_cons :: "'a list \<Rightarrow> bool" where
  "is_cons [] = False"
| "is_cons (x # xs) = True"

lemma is_cons_iff: "is_cons xs \<longleftrightarrow> xs \<noteq> []"
  by (cases xs) auto

fun ragel_rows_ok ::
    "nat list \<Rightarrow> nat list \<Rightarrow> nat list \<Rightarrow> nat list \<Rightarrow> nat \<Rightarrow> nat \<Rightarrow> int list \<Rightarrow> nat \<Rightarrow> bool" where
  "ragel_rows_ok (ko # kos) (sl # sls) (rl # rls) (io # ios) k i K n \<longleftrightarrow>
     ko = k \<and> io = i \<and>
     (sl + 2 * rl = 0 \<or> is_cons (drop (sl + 2 * rl - 1) K)) \<and>
     keys_ok (take sl K) \<and> ranges_ok (take (2 * rl) (drop sl K)) \<and>
     ragel_rows_ok kos sls rls ios (k + sl + 2 * rl) (i + sl + rl + 1) (drop (sl + 2 * rl) K) n"
| "ragel_rows_ok [] [] [] [] k i K n \<longleftrightarrow> i \<le> n"
| "ragel_rows_ok _ _ _ _ k i K n \<longleftrightarrow> False"

definition ragel_action_ok :: "nat list \<Rightarrow> nat \<Rightarrow> nat \<Rightarrow> bool" where
  "ragel_action_ok acts n a \<longleftrightarrow>
     a = 0 \<or> (case ragel_action_list acts a of
                Inl _ \<Rightarrow> False
              | Inr ids \<Rightarrow> list_all (\<lambda>i. i < n) ids)"

definition ragel_wf :: "ragel_tables \<Rightarrow> nat \<Rightarrow> bool" where
  "ragel_wf T n \<longleftrightarrow>
     ragel_rows_ok (tl (r_key_offsets T)) (tl (r_single_lengths T)) (tl (r_range_lengths T))
       (tl (r_index_offsets T)) 0 0 (r_trans_keys T) (length (r_indicies T)) \<and>
     list_all (\<lambda>t. t < length (r_trans_targs T)) (r_indicies T) \<and>
     list_all (\<lambda>s. s < length (r_key_offsets T)) (r_trans_targs T) \<and>
     length (r_trans_actions T) = length (r_trans_targs T) \<and>
     list_all (ragel_action_ok (r_actions T) n) (r_trans_actions T)"

lemma ragel_rows_ok_le: "ragel_rows_ok kos sls rls ios k i K n \<Longrightarrow> i \<le> n"
  by (induction kos sls rls ios k i K n rule: ragel_rows_ok.induct) auto

lemma ragel_rows_ok_nth:
  assumes "ragel_rows_ok kos sls rls ios k i (drop k K) n" and "cs < length kos" and "k \<le> length K"
  shows "cs < length sls \<and> cs < length rls \<and> cs < length ios \<and>
     kos ! cs + sls ! cs + 2 * (rls ! cs) \<le> length K \<and>
     keys_ok (take (sls ! cs) (drop (kos ! cs) K)) \<and>
     ranges_ok (take (2 * (rls ! cs)) (drop (kos ! cs + sls ! cs) K)) \<and>
     ios ! cs + sls ! cs + rls ! cs < n"
  using assms
proof (induction kos arbitrary: sls rls ios k i cs)
  case Nil
  then show ?case by simp
next
  case (Cons ko kos)
  then obtain sl sls' rl rls' io ios' where eqs: "sls = sl # sls'" "rls = rl # rls'" "ios = io # ios'"
    by (cases sls; cases rls; cases ios) auto
  note row = Cons.prems(1) [unfolded eqs ragel_rows_ok.simps]
  then have le: "k + sl + 2 * rl \<le> length K"
    using Cons.prems(3) by (auto simp: is_cons_iff)
  from row have ok: "ko = k" "io = i"
      "keys_ok (take sl (drop k K))" "ranges_ok (take (2 * rl) (drop (k + sl) K))"
      "ragel_rows_ok kos sls' rls' ios' (k + sl + 2 * rl) (i + sl + rl + 1) (drop (k + sl + 2 * rl) K) n"
    by (simp_all add: ac_simps)
  show ?case
  proof (cases cs)
    case 0
    then show ?thesis using eqs ok le ragel_rows_ok_le [OF ok(5)] by auto
  next
    case (Suc cs')
    then show ?thesis using Cons.IH [OF ok(5) _ le, of cs'] Cons.prems eqs by simp
  qed
qed

section \<open>A well-formed machine\<close>

definition ragel_singles :: "ragel_tables \<Rightarrow> nat \<Rightarrow> int list" where
  "ragel_singles T cs = take (r_single_lengths T ! cs) (drop (r_key_offsets T ! cs) (r_trans_keys T))"

definition ragel_ranges :: "ragel_tables \<Rightarrow> nat \<Rightarrow> int list" where
  "ragel_ranges T cs = take (2 * (r_range_lengths T ! cs))
     (drop (r_key_offsets T ! cs + r_single_lengths T ! cs) (r_trans_keys T))"

definition ragel_index :: "ragel_tables \<Rightarrow> nat \<Rightarrow> int \<Rightarrow> nat" where
  "ragel_index T cs c = r_index_offsets T ! cs + row_index (ragel_singles T cs) (ragel_ranges T cs) c"

definition ragel_ids :: "nat list \<Rightarrow> nat \<Rightarrow> nat list" where
  "ragel_ids acts a = (if a = 0 then [] else take (acts ! a) (drop (Suc a) acts))"

lemma row_index_le: "row_index ss rs c \<le> length ss + length rs div 2"
proof (cases "key_index ss c")
  case None
  show ?thesis
  proof (cases "range_index rs c")
    case (Some j)
    then show ?thesis using range_index_Some [OF Some] None by (simp add: row_index_def) linarith
  qed (simp add: row_index_def None)
next
  case (Some i)
  then show ?thesis using key_index_Some [OF Some] by (simp add: row_index_def)
qed

text \<open>The contract of the tables: what every scanner's lemmas rest on.\<close>

locale ragel_machine =
  fixes T :: ragel_tables and n_acts :: nat
  assumes wf: "ragel_wf T n_acts"
begin

abbreviation n_states :: nat where
  "n_states \<equiv> length (r_key_offsets T)"

lemma rows:
  assumes "0 < cs" and "cs < n_states"
  shows "cs < length (r_single_lengths T)" "cs < length (r_range_lengths T)"
    "cs < length (r_index_offsets T)"
    "r_key_offsets T ! cs + r_single_lengths T ! cs + 2 * (r_range_lengths T ! cs)
       \<le> length (r_trans_keys T)"
    "keys_ok (ragel_singles T cs)" "ranges_ok (ragel_ranges T cs)"
    "r_index_offsets T ! cs + r_single_lengths T ! cs + r_range_lengths T ! cs
       < length (r_indicies T)"
proof -
  obtain c where c: "cs = Suc c" using assms(1) by (cases cs) auto
  have "c < length (tl (r_key_offsets T))" using assms(2) c by simp
  moreover have "ragel_rows_ok (tl (r_key_offsets T)) (tl (r_single_lengths T))
      (tl (r_range_lengths T)) (tl (r_index_offsets T)) 0 0 (drop 0 (r_trans_keys T))
      (length (r_indicies T))"
    using wf by (simp add: ragel_wf_def)
  ultimately have r: "c < length (tl (r_single_lengths T)) \<and> c < length (tl (r_range_lengths T)) \<and>
      c < length (tl (r_index_offsets T)) \<and>
      tl (r_key_offsets T) ! c + tl (r_single_lengths T) ! c + 2 * (tl (r_range_lengths T) ! c)
        \<le> length (r_trans_keys T) \<and>
      keys_ok (take (tl (r_single_lengths T) ! c) (drop (tl (r_key_offsets T) ! c) (r_trans_keys T))) \<and>
      ranges_ok (take (2 * (tl (r_range_lengths T) ! c))
        (drop (tl (r_key_offsets T) ! c + tl (r_single_lengths T) ! c) (r_trans_keys T))) \<and>
      tl (r_index_offsets T) ! c + tl (r_single_lengths T) ! c + tl (r_range_lengths T) ! c
        < length (r_indicies T)"
    by (intro ragel_rows_ok_nth [where k = 0 and i = 0]) simp_all
  then have "tl (r_single_lengths T) ! c = r_single_lengths T ! cs"
      "tl (r_range_lengths T) ! c = r_range_lengths T ! cs"
      "tl (r_index_offsets T) ! c = r_index_offsets T ! cs"
      "tl (r_key_offsets T) ! c = r_key_offsets T ! cs"
    using c assms(2) by (auto simp: nth_tl)
  with r c show "cs < length (r_single_lengths T)" "cs < length (r_range_lengths T)"
    "cs < length (r_index_offsets T)"
    "r_key_offsets T ! cs + r_single_lengths T ! cs + 2 * (r_range_lengths T ! cs)
       \<le> length (r_trans_keys T)"
    "keys_ok (ragel_singles T cs)" "ranges_ok (ragel_ranges T cs)"
    "r_index_offsets T ! cs + r_single_lengths T ! cs + r_range_lengths T ! cs
       < length (r_indicies T)"
    by (auto simp: ragel_singles_def ragel_ranges_def)
qed

lemma find_trans_linear:
  assumes cs: "0 < cs" "cs < n_states"
  shows "ragel_find_trans T cs c = Inr (ragel_index T cs c)"
proof -
  note r = rows [OF cs]
  let ?k = "r_key_offsets T ! cs" and ?s = "r_single_lengths T ! cs" and ?r = "r_range_lengths T ! cs"
  let ?K = "r_trans_keys T" and ?ss = "ragel_singles T cs" and ?rs = "ragel_ranges T cs"
  have lens: "length ?ss = ?s" "length ?rs = 2 * ?r"
    using r(4) by (auto simp: ragel_singles_def ragel_ranges_def)
  have s: "ragel_search_single ?K (int ?k) (int ?k) (int ?k + int ?s - 1) c = Inr (key_index ?ss c)"
    by (rule ragel_search_single_correct [where n = ?s]) (use r in \<open>auto simp: ragel_singles_def\<close>)
  have g: "ragel_search_range ?K (int (?k + ?s)) (int (?k + ?s)) (int (?k + ?s) + 2 * int ?r - 2) c =
      Inr (range_index ?rs c)"
    by (rule ragel_search_range_correct [where n = ?r and l = 0 and u = ?r])
       (use r in \<open>auto simp: ragel_ranges_def\<close>)
  have s0: "key_index ?ss c = None" if "?s = 0" using that lens by simp
  have g0: "range_index ?rs c = None" if "?r = 0" using that lens by simp
  have single: "(if ?s > 0 then ragel_search_single ?K (int ?k) (int ?k) (int ?k + int ?s - 1) c
      else Inr None) = Inr (key_index ?ss c)"
    using s s0 by simp
  have ranges: "(if ?r > 0 then ragel_search_range ?K (int (?k + ?s)) (int (?k + ?s))
      (int (?k + ?s) + 2 * int ?r - 2) c else Inr None) = Inr (range_index ?rs c)"
    using g g0 by simp
  have arrs: "arr (r_key_offsets T) cs = Inr ?k" "arr (r_index_offsets T) cs = Inr (r_index_offsets T ! cs)"
      "arr (r_single_lengths T) cs = Inr ?s" "arr (r_range_lengths T) cs = Inr ?r"
    using r cs by (auto simp: arr_def)
  show ?thesis
    unfolding ragel_find_trans_def arrs prod.case sum.case single ranges
    by (simp add: ragel_index_def row_index_def lens split: option.split)
qed

lemma index_less:
  assumes "0 < cs" and "cs < n_states"
  shows "ragel_index T cs c < length (r_indicies T)"
proof -
  have "length (ragel_singles T cs) = r_single_lengths T ! cs"
      "length (ragel_ranges T cs) = 2 * (r_range_lengths T ! cs)"
    using rows(4) [OF assms] by (auto simp: ragel_singles_def ragel_ranges_def)
  then show ?thesis
    using rows(7) [OF assms] row_index_le [of "ragel_singles T cs" "ragel_ranges T cs" c]
    by (simp add: ragel_index_def)
qed

lemma step_eq:
  fixes c :: int
  assumes cs: "0 < cs" "cs < n_states"
  defines "t \<equiv> r_indicies T ! ragel_index T cs c"
  shows "ragel_step T cs c =
      Inr (r_trans_targs T ! t, ragel_ids (r_actions T) (r_trans_actions T ! t))"
    and "t < length (r_trans_targs T)" and "r_trans_targs T ! t < n_states"
    and "list_all (\<lambda>i. i < n_acts) (ragel_ids (r_actions T) (r_trans_actions T ! t))"
proof -
  have i: "ragel_index T cs c < length (r_indicies T)" by (rule index_less [OF cs])
  then show t: "t < length (r_trans_targs T)"
    using wf by (auto simp: ragel_wf_def t_def list_all_length)
  have a: "ragel_action_ok (r_actions T) n_acts (r_trans_actions T ! t)"
      and ta: "t < length (r_trans_actions T)"
    using wf t by (auto simp: ragel_wf_def list_all_length)
  show "r_trans_targs T ! t < n_states"
    using wf t by (auto simp: ragel_wf_def list_all_length)
  show "list_all (\<lambda>i. i < n_acts) (ragel_ids (r_actions T) (r_trans_actions T ! t))"
    using a by (auto simp: ragel_action_ok_def ragel_action_list_def ragel_ids_def arr_def
        split: if_splits)
  have "arr (r_indicies T) (ragel_index T cs c) = Inr t"
    using i by (simp add: arr_def t_def)
  then show "ragel_step T cs c =
      Inr (r_trans_targs T ! t, ragel_ids (r_actions T) (r_trans_actions T ! t))"
    using find_trans_linear [OF cs] t ta a
    by (auto simp: ragel_step_def arr_def ragel_action_ok_def ragel_action_list_def ragel_ids_def
        split: if_splits)
qed

lemma step_total:
  assumes "0 < cs" and "cs < n_states"
  obtains cs' ids where "ragel_step T cs c = Inr (cs', ids)" "cs' < n_states"
    "list_all (\<lambda>i. i < n_acts) ids"
  using step_eq [OF assms] that by blast

end

section \<open>Reading one state of a machine\<close>

definition ragel_row :: "ragel_tables \<Rightarrow> nat \<Rightarrow> int list \<times> int list \<times> (nat \<times> nat list) list" where
  "ragel_row T cs =
     (ragel_singles T cs, ragel_ranges T cs,
      map (\<lambda>t. (r_trans_targs T ! t, ragel_ids (r_actions T) (r_trans_actions T ! t)))
        (take (Suc (r_single_lengths T ! cs + r_range_lengths T ! cs))
          (drop (r_index_offsets T ! cs) (r_indicies T))))"

context ragel_machine
begin

lemma step_row:
  assumes "0 < cs" and "cs < n_states" and "ragel_row T cs = (ss, rs, ts)"
  shows "ragel_step T cs c = Inr (ts ! row_index ss rs c)"
proof -
  note r = rows [OF assms(1,2)]
  have len: "length ss = r_single_lengths T ! cs" "length rs = 2 * (r_range_lengths T ! cs)"
    using assms(3) r(4) by (auto simp: ragel_row_def ragel_singles_def ragel_ranges_def)
  have "row_index ss rs c < Suc (r_single_lengths T ! cs + r_range_lengths T ! cs)"
    using row_index_le [of ss rs c] len by simp
  then show ?thesis
    using step_eq(1) [OF assms(1,2), of c] assms(3) r(7)
    by (auto simp: ragel_row_def ragel_index_def)
qed

end

text \<open>All the characters of a class take the same transition.\<close>

fun row_goes :: "int list \<Rightarrow> int list \<Rightarrow> (nat \<times> nat list) list \<Rightarrow> nat \<times> nat list \<Rightarrow> int list \<Rightarrow> bool" where
  "row_goes ss rs ts r [] = True"
| "row_goes ss rs ts r (x # xs) = (ts ! row_index ss rs x = r \<and> row_goes ss rs ts r xs)"

context ragel_machine
begin

lemma step_class:
  assumes "x \<in> set xs" and "0 < cs" and "cs < n_states" and "ragel_row T cs = (ss, rs, ts)"
    and "row_goes ss rs ts r xs"
  shows "ragel_step T cs x = Inr r"
proof -
  have "ts ! row_index ss rs x = r"
    using assms(1,5) by (induction xs) auto
  then show ?thesis using step_row [OF assms(2-4), of x] by simp
qed

end

text \<open>Runs of a scanner: one character, and a stretch of characters on which it stays.\<close>

lemma ragel_exec_step:
  assumes "ragel_step T cs (c_char c) = Inr (cs', ids)" and "ragel_acts act ids c p st = Inr (Go st')"
    and "cs' \<noteq> 0"
  shows "ragel_exec T act cs p (c # input) st = ragel_exec T act cs' (Suc p) input st'"
  using assms by simp

lemma ragel_exec_stay:
  assumes "\<And>c. c \<in> set xs \<Longrightarrow> ragel_step T cs (c_char c) = Inr (cs, [])" and "cs \<noteq> 0"
  shows "ragel_exec T act cs p (xs @ input) st = ragel_exec T act cs (p + length xs) input st"
  using assms(1)
proof (induction xs arbitrary: p)
  case (Cons c xs)
  then show ?case using assms(2) by simp
qed simp

lemma ragel_exec_loop:
  assumes "\<And>c. c \<in> set xs \<Longrightarrow> ragel_step T cs (c_char c) = Inr (cs, ids)" and "cs \<noteq> 0"
    and "\<And>c p st. ragel_acts act ids c p st = Inr (Go (g c st))"
  shows "ragel_exec T act cs p (xs @ input) st =
           ragel_exec T act cs (p + length xs) input (fold g xs st)"
  using assms(1)
proof (induction xs arbitrary: p st)
  case (Cons c xs)
  then show ?case using assms(2,3) by simp
qed simp

text \<open>A C string ends at its first NUL, and the scanners of strings read that NUL too.\<close>

definition NUL :: char where
  "NUL = CHR 0x00"

definition c_str :: "string \<Rightarrow> string" where
  "c_str s = takeWhile (\<lambda>c. c \<noteq> NUL) s"

definition g_strndup :: "string \<Rightarrow> nat \<Rightarrow> string" where
  "g_strndup s n = takeWhile (\<lambda>c. c \<noteq> NUL) (take n s)"

lemma g_strndup_value:
  assumes "NUL \<notin> set v"
  shows "g_strndup (v @ rest) (length v) = v"
proof -
  have "\<forall>c \<in> set v. c \<noteq> NUL" using assms by auto
  then show ?thesis by (simp add: g_strndup_def takeWhile_eq_all_conv [THEN iffD2])
qed

end
