(* ===== verification/Ragel_Labels.thy ===== *)
theory Ragel_Labels
  imports Ragel
begin

text \<open>
  Facts about a scanner that hold along every path of its machine (a pointer is set before
  it is used, a divisor is not zero) are proved with a label per state: each transition has
  to lead from the label of its source to the label of its target under the actions it
  runs. The check is one pass over the tables; lookups go through a tree.
\<close>

section \<open>Lookup trees\<close>

text \<open>
  A Braun tree indexed by the binary digits of a number, lowest digit first: every step of
  a lookup is one rewrite by a constructor pattern.
\<close>

datatype 'a ltree = Void | Fork "'a ltree" 'a "'a ltree"

fun lt_lookup :: "'a ltree \<Rightarrow> num \<Rightarrow> 'a option" where
  "lt_lookup Void n = None"
| "lt_lookup (Fork l x r) num.One = Some x"
| "lt_lookup (Fork l x r) (num.Bit0 n) = lt_lookup l n"
| "lt_lookup (Fork l x r) (num.Bit1 n) = lt_lookup r n"

definition lt_get :: "'a ltree \<Rightarrow> nat \<Rightarrow> 'a option" where
  "lt_get t i = lt_lookup t (num_of_nat (Suc i))"

fun every_other :: "'a list \<Rightarrow> 'a list" where
  "every_other [] = []"
| "every_other [x] = [x]"
| "every_other (x # y # xs) = x # every_other xs"

lemma length_every_other: "length (every_other xs) \<le> length xs"
  by (induction xs rule: every_other.induct) auto

function lt_of :: "'a list \<Rightarrow> 'a ltree" where
  "lt_of [] = Void"
| "lt_of (x # xs) = Fork (lt_of (every_other xs)) x (lt_of (every_other (tl xs)))"
  by pat_completeness auto
termination
proof (relation "measure length", goal_cases)
  case (2 x xs)
  then show ?case using length_every_other [of xs] by (simp add: le_imp_less_Suc)
next
  case (3 x xs)
  have "length (every_other (tl xs)) \<le> length xs"
    using length_every_other [of "tl xs"] by simp
  then show ?case by (simp add: le_imp_less_Suc)
qed simp

lemma lt_get_code [simp]:
  "lt_get t 0 = lt_lookup t num.One"
  "lt_get t (Suc 0) = lt_lookup t (num.Bit0 num.One)"
  "lt_get t (numeral k) = lt_lookup t (Num.inc k)"
proof -
  have "Suc (numeral k) = nat_of_num (Num.inc k)" for k
    by (simp add: numeral_inc nat_of_num_numeral del: Num.add_One)
  then have "num_of_nat (Suc (numeral k)) = Num.inc k" for k
    by (metis nat_of_num_inverse)
  then show "lt_get t 0 = lt_lookup t num.One"
      "lt_get t (Suc 0) = lt_lookup t (num.Bit0 num.One)"
      "lt_get t (numeral k) = lt_lookup t (Num.inc k)"
    by (simp_all add: lt_get_def)
qed

lemma every_other_nth:
  "every_other xs ! i = xs ! (2 * i)" if "2 * i < length xs"
  using that
proof (induction xs arbitrary: i rule: every_other.induct)
  case (3 x y xs)
  then show ?case by (cases i) auto
qed auto

lemma every_other_length: "i < length (every_other xs) \<longleftrightarrow> 2 * i < length xs"
proof (induction xs arbitrary: i rule: every_other.induct)
  case (3 x y xs)
  then show ?case by (cases i) auto
qed auto

lemma lt_lookup_of:
  "lt_lookup (lt_of xs) n =
     (if nat_of_num n \<le> length xs then Some (xs ! (nat_of_num n - 1)) else None)"
proof (induction xs arbitrary: n rule: lt_of.induct)
  case 1
  then show ?case using nat_of_num_pos [of n] by simp
next
  case (2 x xs)
  have pos: "0 < nat_of_num m" for m by (rule nat_of_num_pos)
  show ?case
  proof (cases n)
    case One
    then show ?thesis by simp
  next
    case (Bit0 m)
    obtain j where j: "nat_of_num m = Suc j" using pos [of m] by (cases "nat_of_num m") auto
    have "lt_lookup (lt_of (x # xs)) n =
        (if j < length (every_other xs) then Some (every_other xs ! j) else None)"
      using "2.IH"(1) [of m] Bit0 j by (simp add: Suc_le_eq)
    then show ?thesis
      using every_other_length [of j xs] every_other_nth [of j xs] Bit0 j by (simp add: mult_2)
  next
    case (Bit1 m)
    obtain j where j: "nat_of_num m = Suc j" using pos [of m] by (cases "nat_of_num m") auto
    have "lt_lookup (lt_of (x # xs)) n =
        (if j < length (every_other (tl xs)) then Some (every_other (tl xs) ! j) else None)"
      using "2.IH"(2) [of m] Bit1 j by (simp add: Suc_le_eq)
    then show ?thesis
      using every_other_length [of j "tl xs"] every_other_nth [of j "tl xs"] Bit1 j
      by (cases xs) (simp_all add: mult_2)
  qed
qed

lemma lt_get_of: "lt_get (lt_of xs) i = (if i < length xs then Some (xs ! i) else None)"
proof -
  have "nat_of_num (num_of_nat (Suc i)) = Suc i"
    by (rule num_of_nat_inverse) simp
  then show ?thesis
    by (simp add: lt_get_def lt_lookup_of Suc_le_eq del: num_of_nat.simps)
qed

section \<open>The check\<close>

text \<open>The target label and the actions of each transition, in the order of the tables.\<close>

fun ragel_infos :: "'l ltree \<Rightarrow> nat list \<Rightarrow> nat list \<Rightarrow> nat list \<Rightarrow> ('l option \<times> nat list) list" where
  "ragel_infos L acts (s # ss) (a # as) = (lt_get L s, ragel_ids acts a) # ragel_infos L acts ss as"
| "ragel_infos L acts _ _ = []"

fun ragel_info_ok ::
    "('l \<Rightarrow> 'l \<Rightarrow> nat list \<Rightarrow> bool) \<Rightarrow> 'l \<Rightarrow> ('l option \<times> nat list) option \<Rightarrow> bool" where
  "ragel_info_ok P l (Some (Some l', ids)) = P l l' ids"
| "ragel_info_ok P l _ = False"

fun ragel_row_labels ::
    "('l \<Rightarrow> 'l \<Rightarrow> nat list \<Rightarrow> bool) \<Rightarrow> 'l \<Rightarrow> ('l option \<times> nat list) ltree \<Rightarrow> nat list \<Rightarrow> bool" where
  "ragel_row_labels P l I [] = True"
| "ragel_row_labels P l I (t # ts) =
     (ragel_info_ok P l (lt_get I t) \<and> ragel_row_labels P l I ts)"

fun ragel_labels ::
    "('l \<Rightarrow> 'l \<Rightarrow> nat list \<Rightarrow> bool) \<Rightarrow> ('l option \<times> nat list) ltree \<Rightarrow> 'l list \<Rightarrow> nat list \<Rightarrow>
     nat list \<Rightarrow> nat list \<Rightarrow> bool" where
  "ragel_labels P I (l # ls) (sl # sls) (rl # rls) ts =
     (ragel_row_labels P l I (take (Suc (sl + rl)) ts) \<and>
      ragel_labels P I ls sls rls (drop (Suc (sl + rl)) ts))"
| "ragel_labels P I [] [] [] ts = True"
| "ragel_labels P I _ _ _ ts = False"

definition ragel_labels_ok ::
    "ragel_tables \<Rightarrow> ('l \<Rightarrow> 'l \<Rightarrow> nat list \<Rightarrow> bool) \<Rightarrow> 'l list \<Rightarrow> bool" where
  "ragel_labels_ok T P L \<longleftrightarrow>
     length L = length (r_key_offsets T) \<and>
     ragel_labels P
       (lt_of (ragel_infos (lt_of L) (r_actions T) (r_trans_targs T) (r_trans_actions T)))
       (tl L) (tl (r_single_lengths T)) (tl (r_range_lengths T)) (r_indicies T)"

lemma ragel_info_ok_iff:
  "ragel_info_ok P l i \<longleftrightarrow> (\<exists>l' ids. i = Some (Some l', ids) \<and> P l l' ids)"
  by (cases "(P, l, i)" rule: ragel_info_ok.cases) auto

lemma ragel_infos_nth:
  assumes "t < length ss" and "length as = length ss"
  shows "t < length (ragel_infos L acts ss as)"
    and "ragel_infos L acts ss as ! t = (lt_get L (ss ! t), ragel_ids acts (as ! t))"
  using assms
proof (induction L acts ss as arbitrary: t rule: ragel_infos.induct)
  case (1 L acts s ss a as)
  {
    case 1
    then show ?case using "1.IH" by (cases t) auto
  next
    case 2
    then show ?case using "1.IH" by (cases t) auto
  }
qed auto

lemma ragel_row_labels_nth:
  assumes "ragel_row_labels P l I ts" and "i < length ts"
  shows "\<exists>l' ids. lt_get I (ts ! i) = Some (Some l', ids) \<and> P l l' ids"
  using assms
proof (induction ts arbitrary: i)
  case (Cons t ts)
  then show ?case by (cases i) (auto simp: ragel_info_ok_iff)
qed simp

lemma ragel_labels_row:
  assumes "ragel_rows_ok kos sls rls ios k i0 K n" and "ragel_labels P I L sls rls (drop i0 ts)"
    and "cs < length L" and "i < Suc (sls ! cs + rls ! cs)" and "ios ! cs + i < length ts"
  shows "\<exists>l' ids. lt_get I (ts ! (ios ! cs + i)) = Some (Some l', ids) \<and> P (L ! cs) l' ids"
  using assms
proof (induction kos sls rls ios k i0 K n arbitrary: L cs rule: ragel_rows_ok.induct)
  case (1 ko kos sl sls rl rls io ios k i0 K n)
  then obtain l ls where L: "L = l # ls" by (cases L) auto
  have io: "io = i0" using 1 by simp
  show ?case
  proof (cases cs)
    case 0
    have row: "ragel_row_labels P l I (take (Suc (sl + rl)) (drop i0 ts))"
      using "1.prems" L by simp
    have "i < length (take (Suc (sl + rl)) (drop i0 ts))"
      using "1.prems"(4,5) 0 io by simp
    from ragel_row_labels_nth [OF row this] show ?thesis
      using "1.prems"(4,5) 0 io L by (simp add: nth_append)
  next
    case (Suc cs')
    have "ragel_labels P I ls sls rls (drop (i0 + sl + rl + 1) ts)"
      using "1.prems"(2) L by (simp add: ac_simps)
    then show ?thesis using "1.IH" [of ls cs'] "1.prems" Suc L by simp
  qed
next
  case (2 k i0 K n)
  then show ?case by (cases L) simp_all
qed simp_all

section \<open>Scanners with labels\<close>

context ragel_machine
begin

lemma labels_step:
  assumes ok: "ragel_labels_ok T P L" and cs: "0 < cs" "cs < n_states"
    and step: "ragel_step T cs c = Inr (cs', ids)"
  shows "cs' < n_states \<and> P (L ! cs) (L ! cs') ids"
proof -
  define t where "t = r_indicies T ! ragel_index T cs c"
  note s = step_eq [OF cs, of c, folded t_def]
  have eq: "cs' = r_trans_targs T ! t" "ids = ragel_ids (r_actions T) (r_trans_actions T ! t)"
    using s(1) step by auto
  let ?I = "ragel_infos (lt_of L) (r_actions T) (r_trans_targs T) (r_trans_actions T)"
  define i where "i = row_index (ragel_singles T cs) (ragel_ranges T cs) c"
  have "length (ragel_singles T cs) = r_single_lengths T ! cs"
      "length (ragel_ranges T cs) = 2 * (r_range_lengths T ! cs)"
    using rows(4) [OF cs] by (auto simp: ragel_singles_def ragel_ranges_def)
  then have "i < Suc (r_single_lengths T ! cs + r_range_lengths T ! cs)"
    using row_index_le [of "ragel_singles T cs" "ragel_ranges T cs" c] by (simp add: i_def)
  moreover obtain c' where c': "cs = Suc c'" using cs by (cases cs) auto
  moreover have tls: "tl (r_single_lengths T) ! c' = r_single_lengths T ! cs"
      "tl (r_range_lengths T) ! c' = r_range_lengths T ! cs"
      "tl (r_index_offsets T) ! c' = r_index_offsets T ! cs" "tl L ! c' = L ! cs"
    using rows(1,2,3) [OF cs] ok c' cs by (auto simp: nth_tl ragel_labels_ok_def)
  moreover have "ragel_rows_ok (tl (r_key_offsets T)) (tl (r_single_lengths T))
      (tl (r_range_lengths T)) (tl (r_index_offsets T)) 0 0 (r_trans_keys T) (length (r_indicies T))"
    using wf by (simp add: ragel_wf_def)
  moreover have "ragel_labels P (lt_of ?I) (tl L) (tl (r_single_lengths T))
      (tl (r_range_lengths T)) (drop 0 (r_indicies T))" and "c' < length (tl L)"
    using ok cs c' by (simp_all add: ragel_labels_ok_def)
  moreover have "r_index_offsets T ! cs + i < length (r_indicies T)"
    using index_less [OF cs, of c] by (simp add: ragel_index_def i_def)
  ultimately have "\<exists>l' ids. lt_get (lt_of ?I) (r_indicies T ! (r_index_offsets T ! cs + i)) =
      Some (Some l', ids) \<and> P (L ! cs) l' ids"
    using ragel_labels_row [of "tl (r_key_offsets T)" "tl (r_single_lengths T)"
        "tl (r_range_lengths T)" "tl (r_index_offsets T)" 0 0 "r_trans_keys T" _ P "lt_of ?I"
        "tl L" "r_indicies T" c' i]
    by simp
  then obtain l' ids' where l: "lt_get (lt_of ?I) t = Some (Some l', ids')" "P (L ! cs) l' ids'"
    by (auto simp: t_def ragel_index_def i_def)
  have len: "length (r_trans_actions T) = length (r_trans_targs T)"
    using wf by (simp add: ragel_wf_def)
  have Ln: "length L = n_states"
    using ok by (simp add: ragel_labels_ok_def)
  have "Some l' = lt_get (lt_of L) cs'" "ids' = ids"
    using l(1) lt_get_of [of ?I t] ragel_infos_nth [OF s(2) len, of "lt_of L" "r_actions T"] eq
    by auto
  then have "l' = L ! cs'"
    using lt_get_of [of L cs'] Ln s(3) eq(1) by simp
  then show ?thesis using l(2) \<open>ids' = ids\<close> s(3) eq(1) by simp
qed

end

text \<open>
  A scanner: a machine, its actions, a label per state, and what a label says of the
  scanner's variables at a position of the input. \<open>left\<close> is what holds when an action
  returns from the function.
\<close>

locale ragel_scanner = ragel_machine T n_acts
  for T :: ragel_tables and n_acts :: nat +
  fixes act :: "nat \<Rightarrow> char \<Rightarrow> nat \<Rightarrow> 'st \<Rightarrow> 'st flow result"
    and P :: "'l \<Rightarrow> 'l \<Rightarrow> nat list \<Rightarrow> bool"
    and L :: "'l list"
    and good :: "'l \<Rightarrow> nat \<Rightarrow> 'st \<Rightarrow> bool"
    and left :: "'st \<Rightarrow> bool"
  assumes labels: "ragel_labels_ok T P L"
    and acts_law: "P l l' ids \<Longrightarrow> list_all (\<lambda>i. i < n_acts) ids \<Longrightarrow> good l p st \<Longrightarrow>
      \<exists>fl. ragel_acts act ids c p st = Inr fl \<and>
           (case fl of Go st' \<Rightarrow> good l' (Suc p) st' | Leave st' \<Rightarrow> left st')"
begin

lemma exec_total:
  assumes "0 < cs" and "cs < n_states" and "good (L ! cs) p st"
  shows "\<exists>cs' fl. ragel_exec T act cs p input st = Inr (cs', fl) \<and> cs' < n_states \<and>
           (case fl of Go st' \<Rightarrow> \<exists>p' \<le> p + length input. good (L ! cs') p' st' | Leave st' \<Rightarrow> left st')"
  using assms
proof (induction input arbitrary: cs p st)
  case Nil
  then show ?case by auto
next
  case (Cons c input)
  obtain cs' ids where s: "ragel_step T cs (c_char c) = Inr (cs', ids)" "cs' < n_states"
      "list_all (\<lambda>i. i < n_acts) ids"
    using step_total [OF Cons.prems(1,2)] by blast
  then have "P (L ! cs) (L ! cs') ids"
    using labels_step [OF labels Cons.prems(1,2)] by blast
  from acts_law [OF this s(3) Cons.prems(3)] obtain fl where
    fl: "ragel_acts act ids c p st = Inr fl"
      "case fl of Go st' \<Rightarrow> good (L ! cs') (Suc p) st' | Leave st' \<Rightarrow> left st'" by blast
  show ?case
  proof (cases fl)
    case (Leave st')
    then show ?thesis using s fl by simp
  next
    case (Go st')
    then have g: "good (L ! cs') (Suc p) st'" using fl by simp
    show ?thesis
    proof (cases "cs' = 0")
      case True
      have "Suc p \<le> p + length (c # input)" by simp
      with g have "\<exists>p' \<le> p + length (c # input). good (L ! cs') p' st'" by blast
      with True show ?thesis using s fl Go by simp
    next
      case False
      then show ?thesis using Cons.IH [OF _ s(2) g] s fl Go by (auto split: flow.splits)
    qed
  qed
qed

end

text \<open>
  The usual form of such an argument: a function \<open>f\<close> says what each action does to a label
  (\<open>None\<close>: it is not allowed there), and a label may be weakened at the end of a transition.
\<close>

fun label_run :: "('l \<Rightarrow> nat \<Rightarrow> 'l option) \<Rightarrow> 'l \<Rightarrow> nat list \<Rightarrow> 'l option" where
  "label_run f l [] = Some l"
| "label_run f l (i # ids) = (case f l i of None \<Rightarrow> None | Some m \<Rightarrow> label_run f m ids)"

definition label_ok ::
    "('l \<Rightarrow> nat \<Rightarrow> 'l option) \<Rightarrow> ('l \<Rightarrow> 'l \<Rightarrow> bool) \<Rightarrow> 'l \<Rightarrow> 'l \<Rightarrow> nat list \<Rightarrow> bool" where
  "label_ok f le l l' ids = (case label_run f l ids of None \<Rightarrow> False | Some m \<Rightarrow> le l' m)"

locale ragel_labelled = ragel_machine T n_acts
  for T :: ragel_tables and n_acts :: nat +
  fixes act :: "nat \<Rightarrow> char \<Rightarrow> nat \<Rightarrow> 'st \<Rightarrow> 'st flow result"
    and f :: "'l \<Rightarrow> nat \<Rightarrow> 'l option"
    and le :: "'l \<Rightarrow> 'l \<Rightarrow> bool"
    and L :: "'l list"
    and good :: "'l \<Rightarrow> nat \<Rightarrow> 'st \<Rightarrow> bool"
    and left :: "'st \<Rightarrow> bool"
  assumes table: "ragel_labels_ok T (label_ok f le) L"
    and act_law: "f l i = Some m \<Longrightarrow> i < n_acts \<Longrightarrow> good l p st \<Longrightarrow>
      \<exists>fl. act i c p st = Inr fl \<and> (case fl of Go st' \<Rightarrow> good m p st' | Leave st' \<Rightarrow> left st')"
    and weaken: "le l' m \<Longrightarrow> good m p st \<Longrightarrow> good l' (Suc p) st"
begin

lemma acts_run:
  assumes "label_run f l ids = Some m" and "list_all (\<lambda>i. i < n_acts) ids" and "good l p st"
  shows "\<exists>fl. ragel_acts act ids c p st = Inr fl \<and>
           (case fl of Go st' \<Rightarrow> good m p st' | Leave st' \<Rightarrow> left st')"
  using assms
proof (induction ids arbitrary: l st)
  case Nil
  then show ?case by simp
next
  case (Cons i ids)
  then obtain l1 where l1: "f l i = Some l1" "label_run f l1 ids = Some m"
    by (auto split: option.splits)
  obtain fl where fl: "act i c p st = Inr fl"
      "case fl of Go st' \<Rightarrow> good l1 p st' | Leave st' \<Rightarrow> left st'"
    using act_law [OF l1(1) _ Cons.prems(3)] Cons.prems(2) by auto
  then show ?case
    using Cons.IH [OF l1(2)] Cons.prems(2) by (cases fl) auto
qed

end

sublocale ragel_labelled \<subseteq> ragel_scanner T n_acts act "label_ok f le" L good left
proof
  show "ragel_labels_ok T (label_ok f le) L" by (rule table)
next
  fix l l' ids p st c
  assume "label_ok f le l l' ids" and n: "list_all (\<lambda>i. i < n_acts) ids" and g: "good l p st"
  then obtain m where m: "label_run f l ids = Some m" "le l' m"
    by (auto simp: label_ok_def split: option.splits)
  from acts_run [OF m(1) n g] show "\<exists>fl. ragel_acts act ids c p st = Inr fl \<and>
      (case fl of Go st' \<Rightarrow> good l' (Suc p) st' | Leave st' \<Rightarrow> left st')"
    using weaken [OF m(2)] by (fastforce split: flow.splits)
qed

end
