(* ===== verification/Uri.thy ===== *)
theory Uri
  imports Uri_Tables
begin

text \<open>
  The URI parser of \<^verbatim>\<open>ragel_uri.c\<close>: the actions of the scanner, \<open>uri_parse\<close>, the proof
  that it returns on every string, and what it makes of the URIs that RTSP clients send.
\<close>

section \<open>The parser\<close>

record URI =
  scheme :: "string option"
  userinfo :: "string option"
  host :: "string option"
  port :: "string option"
  path :: "string option"
  query :: "string option"
  fragment :: "string option"

text \<open>
  The scanner's variables. \<open>mark\<close> is a position in the string; it is not one before the
  first action 0, and action 5 makes it point to the copy of a segment.
\<close>

record uri_scan =
  uri_mark :: "nat option"
  uri_stack :: "string list"
  uri_uri :: URI

definition append_to_string :: "string list \<Rightarrow> string" where
  "append_to_string segs = concat (map (\<lambda>seg. CHR ''/'' # seg) segs)"

definition uri_marked ::
    "string \<Rightarrow> nat \<Rightarrow> uri_scan \<Rightarrow> (string \<Rightarrow> uri_scan) \<Rightarrow> uri_scan flow result" where
  "uri_marked s p st f =
     (case uri_mark st of
        None \<Rightarrow> Inl Uninitialised
      | Some m \<Rightarrow> Inr (Go (f (g_strndup (drop m s) (p - m)))))"

definition uri_act :: "string \<Rightarrow> nat \<Rightarrow> char \<Rightarrow> nat \<Rightarrow> uri_scan \<Rightarrow> uri_scan flow result" where
  "uri_act s i c p st =
     (if i = 0 then Inr (Go (st\<lparr>uri_mark := Some p\<rparr>))
      else if i = 1 then
        Inr (Go (if uri_stack st \<noteq> []
                 then st\<lparr>uri_uri := (uri_uri st)\<lparr>path := Some (append_to_string (uri_stack st))\<rparr>\<rparr>
                 else st))
      else if i = 2 then
        uri_marked s p st (\<lambda>w. st\<lparr>uri_uri := (uri_uri st)\<lparr>userinfo := Some w\<rparr>\<rparr>)
      else if i = 3 then
        uri_marked s p st (\<lambda>w. st\<lparr>uri_uri := (uri_uri st)\<lparr>host := Some w\<rparr>\<rparr>)
      else if i = 4 then
        uri_marked s p st (\<lambda>w. st\<lparr>uri_uri := (uri_uri st)\<lparr>port := Some w\<rparr>\<rparr>)
      else if i = 5 then
        uri_marked s p st (\<lambda>w. st\<lparr>uri_mark := None, uri_stack := uri_stack st @ [w]\<rparr>)
      else if i = 6 then
        uri_marked s p st (\<lambda>w. st\<lparr>uri_uri := (uri_uri st)\<lparr>scheme := Some w\<rparr>\<rparr>)
      else if i = 7 then
        uri_marked s p st (\<lambda>w. st\<lparr>uri_uri := (uri_uri st)\<lparr>query := Some w\<rparr>\<rparr>)
      else if i = 8 then
        uri_marked s p st (\<lambda>w. st\<lparr>uri_uri := (uri_uri st)\<lparr>fragment := Some w\<rparr>\<rparr>)
      else Inr (Go st))"

definition uri_empty :: URI where
  "uri_empty = \<lparr>scheme = None, userinfo = None, host = None, port = None, path = None,
                query = None, fragment = None\<rparr>"

definition uri_start :: uri_scan where
  "uri_start = \<lparr>uri_mark = None, uri_stack = [], uri_uri = uri_empty\<rparr>"

definition uri_parse :: "string \<Rightarrow> URI option result" where
  "uri_parse uri_string =
     (case ragel_exec uri_parser_tables (uri_act (c_str uri_string)) 1 0
             (c_str uri_string @ [NUL]) uri_start of
        Inl err \<Rightarrow> Inl err
      | Inr (_, Leave st) \<Rightarrow> Inr None
      | Inr (cs, Go st) \<Rightarrow> Inr (if cs < 191 then None else Some (uri_uri st)))"

lemma uri_act_simps [simp]:
  "uri_act s 0 c p st = Inr (Go (st\<lparr>uri_mark := Some p\<rparr>))"
  "uri_act s (Suc 0) c p st =
     Inr (Go (if uri_stack st \<noteq> []
              then st\<lparr>uri_uri := (uri_uri st)\<lparr>path := Some (append_to_string (uri_stack st))\<rparr>\<rparr>
              else st))"
  "uri_act s 3 c p st = uri_marked s p st (\<lambda>w. st\<lparr>uri_uri := (uri_uri st)\<lparr>host := Some w\<rparr>\<rparr>)"
  "uri_act s 4 c p st = uri_marked s p st (\<lambda>w. st\<lparr>uri_uri := (uri_uri st)\<lparr>port := Some w\<rparr>\<rparr>)"
  "uri_act s 5 c p st =
     uri_marked s p st (\<lambda>w. st\<lparr>uri_mark := None, uri_stack := uri_stack st @ [w]\<rparr>)"
  "uri_act s 6 c p st = uri_marked s p st (\<lambda>w. st\<lparr>uri_uri := (uri_uri st)\<lparr>scheme := Some w\<rparr>\<rparr>)"
  by (simp_all add: uri_act_def)

section \<open>It returns on every string\<close>

text \<open>The label of a state: \<open>mark\<close> is a position of the string.\<close>

fun uri_label :: "bool \<Rightarrow> nat \<Rightarrow> bool option" where
  "uri_label l i =
     (if i = 0 then Some True
      else if i = 1 then Some l
      else if \<not> l then None
      else Some (i \<noteq> 5))"

definition uri_labels :: "bool list" where
  "uri_labels =
    replicate 2 False @ replicate 3 True @ [False] @ replicate 5 True @ [False] @
    replicate 3 True @ [False] @ replicate 175 True @ [False]"

lemma uri_labels_ok: "ragel_labels_ok uri_parser_tables (label_ok uri_label (\<longrightarrow>)) uri_labels"
  by (simp add: ragel_labels_ok_def uri_parser_tables_defs uri_labels_def ragel_ids_def label_ok_def
      replicate_numeral)

definition uri_good :: "bool \<Rightarrow> nat \<Rightarrow> uri_scan \<Rightarrow> bool" where
  "uri_good l p st \<longleftrightarrow> (l \<longrightarrow> uri_mark st \<noteq> None)"

interpretation uri: ragel_labelled uri_parser_tables 9 "uri_act s" uri_label "(\<longrightarrow>)" uri_labels
  uri_good "\<lambda>_. True"
  for s
proof
  show "ragel_labels_ok uri_parser_tables (label_ok uri_label (\<longrightarrow>)) uri_labels"
    by (rule uri_labels_ok)
qed (auto simp: uri_good_def uri_act_def uri_marked_def split: if_splits option.splits)

section \<open>The URLs of RTSP clients\<close>

text \<open>The states that the scanner goes through on \<open>scheme://host:port/segments\<close>.\<close>

lemma uri_rows:
  "ragel_row uri_parser_tables 1 =
     ([],
        [65, 90, 97, 122],
        [(2, [0]), (2, [0]), (0, [])])"
  "ragel_row uri_parser_tables 2 =
     ([43, 58],
        [45, 46, 48, 57, 65, 90, 97, 122],
        [(2, []), (3, [6]), (2, []), (2, []), (2, []), (2, []), (0, [])])"
  "ragel_row uri_parser_tables 3 =
     ([33, 37, 47, 61, 95, 126],
        [36, 59, 64, 90, 97, 122],
        [(4, []), (9, []), (19, []), (4, []), (4, []), (4, []), (4, []), (4, []), (4, []), (0,
        [])])"
  "ragel_row uri_parser_tables 19 =
     ([0, 33, 35, 37, 47, 61, 63, 95, 126],
        [36, 59, 64, 90, 97, 122],
        [(191, [1]), (4, []), (5, []), (9, []), (20, []), (4, []), (15, []), (4, []), (4, []), (4,
        []), (4, []), (4, []), (0, [])])"
  "ragel_row uri_parser_tables 20 =
     ([0, 33, 35, 37, 47, 58, 61, 63, 64, 91, 95, 126],
        [36, 59, 65, 90, 97, 122],
        [(191, [0, 3, 1]), (21, [0]), (5, [0, 3]), (22, [0]), (11, [0, 3]), (24, [0, 3]), (21, [0]),
        (15, [0, 3]), (28, [0, 2]), (34, [0]), (21, [0]), (21, [0]), (21, [0]), (21, [0]), (21,
        [0]), (0, [])])"
  "ragel_row uri_parser_tables 21 =
     ([0, 33, 35, 37, 47, 58, 61, 63, 64, 95, 126],
        [36, 59, 65, 90, 97, 122],
        [(191, [3, 1]), (21, []), (5, [3]), (22, []), (11, [3]), (24, [3]), (21, []), (15, [3]),
        (28, [2]), (21, []), (21, []), (21, []), (21, []), (21, []), (0, [])])"
  "ragel_row uri_parser_tables 24 =
     ([0, 33, 35, 37, 47, 61, 63, 64, 95, 126],
        [36, 46, 48, 57, 58, 59, 65, 90, 97, 122],
        [(191, [0, 4, 1]), (25, []), (5, [0, 4]), (26, []), (11, [0, 4]), (25, []), (15, [0, 4]),
        (28, [2]), (25, []), (25, []), (25, []), (190, [0]), (25, []), (25, []), (25, []), (0,
        [])])"
  "ragel_row uri_parser_tables 190 =
     ([0, 33, 35, 37, 47, 61, 63, 64, 95, 126],
        [36, 46, 48, 57, 58, 59, 65, 90, 97, 122],
        [(191, [4, 1]), (25, []), (5, [4]), (26, []), (11, [4]), (25, []), (15, [4]), (28, [2]),
        (25, []), (25, []), (25, []), (190, []), (25, []), (25, []), (25, []), (0, [])])"
  "ragel_row uri_parser_tables 11 =
     ([0, 33, 35, 37, 47, 61, 63, 95, 126],
        [36, 59, 64, 90, 97, 122],
        [(191, [1]), (12, [0]), (5, []), (13, [0]), (11, []), (12, [0]), (15, []), (12, [0]), (12,
        [0]), (12, [0]), (12, [0]), (12, [0]), (0, [])])"
  "ragel_row uri_parser_tables 12 =
     ([0, 33, 35, 37, 47, 61, 63, 95, 126],
        [36, 59, 64, 90, 97, 122],
        [(191, [5, 1]), (12, []), (5, [5]), (13, []), (11, [5]), (12, []), (15, [5]), (12, []), (12,
        []), (12, []), (12, []), (12, []), (0, [])])"
  by (simp_all add: ragel_row_def ragel_singles_def ragel_ranges_def ragel_ids_def
      uri_parser_tables_defs)

text \<open>The characters of a scheme, of a host name and of a path segment.\<close>

definition uri_alpha :: "int list" where
  "uri_alpha = [65..90] @ [97..122]"

definition uri_digit :: "int list" where
  "uri_digit = [48..57]"

definition uri_scheme_char :: "int list" where
  "uri_scheme_char = uri_alpha @ uri_digit @ [43, 45, 46]"

definition uri_host_char :: "int list" where
  "uri_host_char = uri_alpha @ uri_digit @ [33, 36] @ [38..46] @ [59, 61, 95, 126]"

definition uri_segment_char :: "int list" where
  "uri_segment_char = uri_host_char @ [58, 64]"

lemmas uri_class_defs =
  uri_segment_char_def uri_host_char_def uri_scheme_char_def uri_digit_def uri_alpha_def

definition uri_word :: "int list \<Rightarrow> string \<Rightarrow> bool" where
  "uri_word cls w \<longleftrightarrow> w \<noteq> [] \<and> (\<forall>c \<in> set w. c_char c \<in> set cls)"

lemma uri_step_scheme:
  "x \<in> set uri_alpha \<Longrightarrow> ragel_step uri_parser_tables 1 x = Inr (2, [0])"
  "x \<in> set uri_scheme_char \<Longrightarrow> ragel_step uri_parser_tables 2 x = Inr (2, [])"
  "x \<in> set [58] \<Longrightarrow> ragel_step uri_parser_tables 2 x = Inr (3, [6])"
  "x \<in> set [47] \<Longrightarrow> ragel_step uri_parser_tables 3 x = Inr (19, [])"
  "x \<in> set [47] \<Longrightarrow> ragel_step uri_parser_tables 19 x = Inr (20, [])"
  by (erule uri_parser.step_class [OF _ _ _ uri_rows(1)] uri_parser.step_class [OF _ _ _ uri_rows(2)]
        uri_parser.step_class [OF _ _ _ uri_rows(3)] uri_parser.step_class [OF _ _ _ uri_rows(4)];
      simp add: uri_class_defs row_index_def)+

lemma uri_step_host:
  "x \<in> set uri_host_char \<Longrightarrow> ragel_step uri_parser_tables 20 x = Inr (21, [0])"
  "x \<in> set uri_host_char \<Longrightarrow> ragel_step uri_parser_tables 21 x = Inr (21, [])"
  "x \<in> set [47] \<Longrightarrow> ragel_step uri_parser_tables 21 x = Inr (11, [3])"
  "x \<in> set [58] \<Longrightarrow> ragel_step uri_parser_tables 21 x = Inr (24, [3])"
  "x \<in> set [0] \<Longrightarrow> ragel_step uri_parser_tables 21 x = Inr (191, [3, 1])"
  by (erule uri_parser.step_class [OF _ _ _ uri_rows(5)] uri_parser.step_class [OF _ _ _ uri_rows(6)];
      simp add: uri_class_defs row_index_def)+

lemma uri_step_port:
  "x \<in> set uri_digit \<Longrightarrow> ragel_step uri_parser_tables 24 x = Inr (190, [0])"
  "x \<in> set uri_digit \<Longrightarrow> ragel_step uri_parser_tables 190 x = Inr (190, [])"
  "x \<in> set [47] \<Longrightarrow> ragel_step uri_parser_tables 190 x = Inr (11, [4])"
  "x \<in> set [0] \<Longrightarrow> ragel_step uri_parser_tables 190 x = Inr (191, [4, 1])"
  by (erule uri_parser.step_class [OF _ _ _ uri_rows(7)] uri_parser.step_class [OF _ _ _ uri_rows(8)];
      simp add: uri_class_defs row_index_def)+

lemma uri_step_segment:
  "x \<in> set uri_segment_char \<Longrightarrow> ragel_step uri_parser_tables 11 x = Inr (12, [0])"
  "x \<in> set uri_segment_char \<Longrightarrow> ragel_step uri_parser_tables 12 x = Inr (12, [])"
  "x \<in> set [47] \<Longrightarrow> ragel_step uri_parser_tables 12 x = Inr (11, [5])"
  "x \<in> set [0] \<Longrightarrow> ragel_step uri_parser_tables 12 x = Inr (191, [5, 1])"
  by (erule uri_parser.step_class [OF _ _ _ uri_rows(9)] uri_parser.step_class [OF _ _ _ uri_rows(10)];
      simp add: uri_class_defs row_index_def)+

lemma c_char_code [simp]:
  "c_char CHR ''/'' = 47" "c_char CHR '':'' = 58" "c_char NUL = 0"
  by (simp_all add: c_char_def NUL_def)

lemma uri_word_no_NUL:
  assumes "uri_word cls w" and "0 \<notin> set cls"
  shows "NUL \<notin> set w"
  using assms by (auto simp: uri_word_def)

lemma uri_class_no_NUL:
  "0 \<notin> set uri_scheme_char" "0 \<notin> set uri_host_char" "0 \<notin> set uri_digit" "0 \<notin> set uri_segment_char"
  by (simp_all add: uri_class_defs)

lemma uri_word_hd: "uri_word cls w \<Longrightarrow> c_char (hd w) \<in> set cls"
  by (cases w) (auto simp: uri_word_def)

lemma uri_exec_word:
  assumes w: "uri_word cls w" and hd: "c_char (hd w) \<in> set cls'"
    and first: "\<And>x. x \<in> set cls' \<Longrightarrow> ragel_step uri_parser_tables cs x = Inr (cs', [0])"
    and stay: "\<And>x. x \<in> set cls \<Longrightarrow> ragel_step uri_parser_tables cs' x = Inr (cs', [])"
    and "cs' \<noteq> 0"
  shows "ragel_exec uri_parser_tables (uri_act s) cs p (w @ input) st =
           ragel_exec uri_parser_tables (uri_act s) cs' (p + length w) input (st\<lparr>uri_mark := Some p\<rparr>)"
proof -
  obtain c cs0 where c: "w = c # cs0" using w by (cases w) (auto simp: uri_word_def)
  have "ragel_exec uri_parser_tables (uri_act s) cs p (w @ input) st =
      ragel_exec uri_parser_tables (uri_act s) cs' (Suc p) (cs0 @ input) (st\<lparr>uri_mark := Some p\<rparr>)"
    using first hd c assms(5) by simp
  also have "\<dots> = ragel_exec uri_parser_tables (uri_act s) cs' (Suc p + length cs0) input
      (st\<lparr>uri_mark := Some p\<rparr>)"
    using w c stay assms(5) by (intro ragel_exec_stay) (auto simp: uri_word_def)
  finally show ?thesis using c by simp
qed

text \<open>Action at the end of a word: the copy is the word.\<close>

lemma uri_marked_word:
  assumes "s = pre @ w @ post" and "NUL \<notin> set w" and "uri_mark st = Some (length pre)"
    and "p = length pre + length w"
  shows "uri_marked s p st f = Inr (Go (f w))"
proof -
  have "\<forall>c \<in> set w. c \<noteq> NUL" using assms(2) by auto
  then have "takeWhile (\<lambda>c. c \<noteq> NUL) w = w" by (simp only: takeWhile_eq_all_conv)
  then show ?thesis
    using assms by (simp add: uri_marked_def g_strndup_def del: takeWhile_eq_all_conv)
qed

lemma uri_exec_segments:
  assumes "s = pre @ g @ append_to_string gs" and "list_all (uri_word uri_segment_char) (g # gs)"
  shows "ragel_exec uri_parser_tables (uri_act s) 11 (length pre)
           (g @ append_to_string gs @ [NUL]) st =
         Inr (191, Go (st\<lparr>uri_mark := None, uri_stack := uri_stack st @ g # gs,
                uri_uri := (uri_uri st)\<lparr>path := Some (append_to_string (uri_stack st @ g # gs))\<rparr>\<rparr>))"
  using assms
proof (induction gs arbitrary: pre g st)
  case Nil
  have w: "uri_word uri_segment_char g" using Nil by simp
  note run = uri_exec_word [OF w uri_word_hd [OF w] uri_step_segment(1,2)]
  from run [of s "length pre" "[NUL]" st] Nil.prems(1)
    uri_marked_word [of s pre g "[]" "st\<lparr>uri_mark := Some (length pre)\<rparr>" "length pre + length g"]
    uri_word_no_NUL [OF w uri_class_no_NUL(4)]
  show ?case by (simp add: append_to_string_def uri_step_segment)
next
  case (Cons g' gs)
  have w: "uri_word uri_segment_char g" using Cons by simp
  note run = uri_exec_word [OF w uri_word_hd [OF w] uri_step_segment(1,2)]
  let ?rest = "g' @ append_to_string gs @ [NUL]"
  let ?st = "st\<lparr>uri_mark := None, uri_stack := uri_stack st @ [g]\<rparr>"
  have s: "s = (pre @ g @ ''/'') @ g' @ append_to_string gs"
    using Cons.prems(1) by (simp add: append_to_string_def)
  have "ragel_exec uri_parser_tables (uri_act s) 11 (length pre)
      (g @ append_to_string (g' # gs) @ [NUL]) st =
      ragel_exec uri_parser_tables (uri_act s) 11 (length (pre @ g @ ''/'')) ?rest ?st"
    using run [of s "length pre" "CHR ''/'' # ?rest" st] s
      uri_marked_word [of s pre g "''/'' @ g' @ append_to_string gs"
        "st\<lparr>uri_mark := Some (length pre)\<rparr>" "length pre + length g"]
      uri_word_no_NUL [OF w uri_class_no_NUL(4)]
    by (simp add: append_to_string_def uri_step_segment)
  then show ?case
    using Cons.IH [OF s, of ?st] Cons.prems(2) by simp
qed

text \<open>From the end of the authority on: the path, or the end of the string.\<close>

lemma uri_exec_path:
  assumes ends: "\<And>x. x \<in> set [47] \<Longrightarrow> ragel_step uri_parser_tables cs x = Inr (11, [i])"
      "\<And>x. x \<in> set [0] \<Longrightarrow> ragel_step uri_parser_tables cs x = Inr (191, [i, 1])"
    and act: "\<And>c. uri_act s i c p st = Inr (Go st')" and stack: "uri_stack st' = []"
    and s: "s = pre @ append_to_string segs" and segs: "list_all (uri_word uri_segment_char) segs"
    and p: "p = length pre"
  shows "\<exists>st''. ragel_exec uri_parser_tables (uri_act s) cs p
           (append_to_string segs @ [NUL]) st = Inr (191, Go st'') \<and>
         uri_uri st'' = (if segs = [] then uri_uri st'
                         else (uri_uri st')\<lparr>path := Some (append_to_string segs)\<rparr>)"
proof (cases segs)
  case Nil
  then show ?thesis
    using ends act stack by (simp add: append_to_string_def)
next
  case (Cons g gs)
  have "s = (pre @ ''/'') @ g @ append_to_string gs"
    using s Cons by (simp add: append_to_string_def)
  from uri_exec_segments [OF this, of st'] segs Cons ends act stack p show ?thesis
    by (simp add: append_to_string_def)
qed

lemma uri_exec_scheme:
  assumes sch: "uri_word uri_scheme_char sch" "c_char (hd sch) \<in> set uri_alpha"
    and s: "s = sch @ ''://'' @ rest"
  shows "ragel_exec uri_parser_tables (uri_act s) 1 0 (sch @ ''://'' @ rest') uri_start =
     ragel_exec uri_parser_tables (uri_act s) 20 (length (sch @ ''://'')) rest'
       (uri_start\<lparr>uri_mark := Some 0, uri_uri := uri_empty\<lparr>scheme := Some sch\<rparr>\<rparr>)"
proof -
  have "uri_marked s (length sch) (uri_start\<lparr>uri_mark := Some 0\<rparr>) f = Inr (Go (f sch))" for f
    using uri_word_no_NUL [OF sch(1) uri_class_no_NUL(1)] s
    by (intro uri_marked_word [of s "[]" sch "''://'' @ rest"]) simp_all
  then show ?thesis
    using uri_exec_word [OF sch uri_step_scheme(1,2), of s 0 "''://'' @ rest'" uri_start]
    by (simp add: uri_step_scheme uri_start_def)
qed

lemma uri_exec_host:
  assumes h: "uri_word uri_host_char h" and s: "s = pre @ h @ rest" and p: "p = length pre"
  shows "ragel_exec uri_parser_tables (uri_act s) 20 p (h @ rest') st =
      ragel_exec uri_parser_tables (uri_act s) 21 (p + length h) rest' (st\<lparr>uri_mark := Some p\<rparr>)"
    and "uri_act s 3 c (p + length h) (st\<lparr>uri_mark := Some p\<rparr>) =
      Inr (Go (st\<lparr>uri_mark := Some p, uri_uri := (uri_uri st)\<lparr>host := Some h\<rparr>\<rparr>))"
  using uri_exec_word [OF h uri_word_hd [OF h] uri_step_host(1,2), of s p rest' st]
    uri_marked_word [OF s uri_word_no_NUL [OF h uri_class_no_NUL(2)]] p
  by simp_all

lemma uri_exec_port:
  assumes d: "uri_word uri_digit d" and s: "s = pre @ d @ rest" and p: "p = length pre"
  shows "ragel_exec uri_parser_tables (uri_act s) 24 p (d @ rest') st =
      ragel_exec uri_parser_tables (uri_act s) 190 (p + length d) rest' (st\<lparr>uri_mark := Some p\<rparr>)"
    and "uri_act s 4 c (p + length d) (st\<lparr>uri_mark := Some p\<rparr>) =
      Inr (Go (st\<lparr>uri_mark := Some p, uri_uri := (uri_uri st)\<lparr>port := Some d\<rparr>\<rparr>))"
  using uri_exec_word [OF d uri_word_hd [OF d] uri_step_port(1,2), of s p rest' st]
    uri_marked_word [OF s uri_word_no_NUL [OF d uri_class_no_NUL(3)]] p
  by simp_all

definition uri_text :: "string \<Rightarrow> string \<Rightarrow> string option \<Rightarrow> string list \<Rightarrow> string" where
  "uri_text sch h pt segs =
     sch @ ''://'' @ h @ (case pt of None \<Rightarrow> [] | Some d \<Rightarrow> CHR '':'' # d) @ append_to_string segs"

lemma uri_exec_authority:
  assumes h: "uri_word uri_host_char h" and d: "\<And>d. pt = Some d \<Longrightarrow> uri_word uri_digit d"
    and segs: "list_all (uri_word uri_segment_char) segs" and stack: "uri_stack st = []"
    and s: "s = pre @ h @ (case pt of None \<Rightarrow> [] | Some d \<Rightarrow> CHR '':'' # d) @ append_to_string segs"
  shows "\<exists>st'. ragel_exec uri_parser_tables (uri_act s) 20 (length pre)
        (h @ (case pt of None \<Rightarrow> [] | Some d \<Rightarrow> CHR '':'' # d) @ append_to_string segs @ [NUL]) st =
        Inr (191, Go st') \<and>
      uri_uri st' = (let u = (case pt of None \<Rightarrow> (uri_uri st)\<lparr>host := Some h\<rparr>
                            | Some d \<Rightarrow> (uri_uri st)\<lparr>host := Some h, port := Some d\<rparr>) in
                     if segs = [] then u else u\<lparr>path := Some (append_to_string segs)\<rparr>)"
proof (cases pt)
  case None
  have s': "s = pre @ h @ append_to_string segs" using s None by simp
  note host = uri_exec_host [OF h s' refl]
  have "s = (pre @ h) @ append_to_string segs" using s' by simp
  from uri_exec_path [OF uri_step_host(3,5) host(2) _ this segs, of st] host(1) None stack
  show ?thesis by (cases "segs = []") (auto simp: Let_def)
next
  case (Some d')
  let ?rest = "append_to_string segs @ [NUL]"
  have s': "s = pre @ h @ CHR '':'' # d' @ append_to_string segs" using s Some by simp
  note host = uri_exec_host [OF h s' refl]
  let ?st = "st\<lparr>uri_mark := Some (length pre), uri_uri := (uri_uri st)\<lparr>host := Some h\<rparr>\<rparr>"
  have s'': "s = (pre @ h @ '':'') @ d' @ append_to_string segs" using s' by simp
  note prt = uri_exec_port [OF d [OF Some] s'' refl]
  have run: "ragel_exec uri_parser_tables (uri_act s) 20 (length pre) (h @ CHR '':'' # d' @ ?rest) st =
      ragel_exec uri_parser_tables (uri_act s) 24 (length (pre @ h @ '':'')) (d' @ ?rest) ?st"
    using host by (simp add: uri_step_host)
  have "s = (pre @ h @ '':'' @ d') @ append_to_string segs" using s' by simp
  from uri_exec_path [OF uri_step_port(3,4) prt(2) _ this segs, of ?st] run prt(1) Some stack
  show ?thesis by (cases "segs = []") (auto simp: Let_def)
qed

lemma uri_parse_text:
  assumes sch: "uri_word uri_scheme_char sch" "c_char (hd sch) \<in> set uri_alpha"
    and h: "uri_word uri_host_char h" and d: "\<And>d. pt = Some d \<Longrightarrow> uri_word uri_digit d"
    and segs: "list_all (uri_word uri_segment_char) segs"
  shows "uri_parse (uri_text sch h pt segs) =
         Inr (Some \<lparr>scheme = Some sch, userinfo = None, host = Some h, port = pt,
                path = (if segs = [] then None else Some (append_to_string segs)),
                query = None, fragment = None\<rparr>)"
proof -
  let ?s = "uri_text sch h pt segs"
  let ?tail = "h @ (case pt of None \<Rightarrow> [] | Some d \<Rightarrow> CHR '':'' # d) @ append_to_string segs"
  have s: "?s = sch @ ''://'' @ ?tail" by (simp add: uri_text_def)
  have "NUL \<notin> set g" if "g \<in> set segs" for g
    using that segs uri_word_no_NUL [OF _ uri_class_no_NUL(4)] by (auto simp: list_all_iff)
  then have "NUL \<notin> set (append_to_string segs)"
    by (auto simp: append_to_string_def NUL_def)
  then have "\<forall>c \<in> set ?s. c \<noteq> NUL"
    using uri_word_no_NUL [OF sch(1) uri_class_no_NUL(1)] uri_word_no_NUL [OF h uri_class_no_NUL(2)]
      uri_word_no_NUL [OF d uri_class_no_NUL(3)]
    by (auto simp: uri_text_def NUL_def split: option.split)
  then have c_str: "c_str ?s = ?s" by (simp only: c_str_def takeWhile_eq_all_conv)
  let ?st = "uri_start\<lparr>uri_mark := Some 0, uri_uri := uri_empty\<lparr>scheme := Some sch\<rparr>\<rparr>"
  have "?s = (sch @ ''://'') @ ?tail" using s by simp
  from uri_exec_authority [OF h d segs _ this, of ?st] obtain st' where
    "ragel_exec uri_parser_tables (uri_act ?s) 1 0 (?s @ [NUL]) uri_start = Inr (191, Go st')"
    "uri_uri st' = (let u = (case pt of None \<Rightarrow> (uri_uri ?st)\<lparr>host := Some h\<rparr>
                            | Some d \<Rightarrow> (uri_uri ?st)\<lparr>host := Some h, port := Some d\<rparr>) in
                     if segs = [] then u else u\<lparr>path := Some (append_to_string segs)\<rparr>)"
    using uri_exec_scheme [OF sch s, of "?tail @ [NUL]"] s by (auto simp: uri_start_def)
  then show ?thesis
    unfolding uri_parse_def c_str
    by (cases pt) (simp_all add: uri_empty_def Let_def)
qed

section \<open>Properties\<close>

text \<open>C4. The URI parser returns on every string, with a URI or with none: it never reads
  beyond its tables and never copies from \<open>mark\<close> while that is not a position of the string
  (before the first mark, or after a segment was queued).\<close>

theorem uri_parse_returns: "returns (uri_parse uri_string)"
proof -
  let ?s = "c_str uri_string"
  have "uri_good (uri_labels ! 1) 0 uri_start"
    by (simp add: uri_good_def uri_labels_def replicate_numeral)
  from uri.exec_total [where cs = 1 and p = 0 and st = uri_start and input = "?s @ [NUL]" and s = ?s,
      OF _ _ this]
  obtain cs' fl where "ragel_exec uri_parser_tables (uri_act ?s) 1 0 (?s @ [NUL]) uri_start =
      Inr (cs', fl)"
    by auto
  then show ?thesis
    by (cases fl) (simp_all add: uri_parse_def)
qed

text \<open>C5. Round trip: printing a scheme, a host, an optional port and path segments as an
  RTSP client does and parsing the text gives back exactly these parts, the path being the
  segments again each behind a slash, and none when there is no segment.\<close>

theorem uri_parse_round_trip:
  assumes "uri_word uri_scheme_char sch" and "c_char (hd sch) \<in> set uri_alpha"
    and "uri_word uri_host_char h" and "\<And>d. pt = Some d \<Longrightarrow> uri_word uri_digit d"
    and "list_all (uri_word uri_segment_char) segs"
  shows "uri_parse (uri_text sch h pt segs) =
         Inr (Some \<lparr>scheme = Some sch, userinfo = None, host = Some h, port = pt,
                path = (if segs = [] then None else Some (append_to_string segs)),
                query = None, fragment = None\<rparr>)"
  by (rule uri_parse_text) (use assms in auto)

theorem uri_parse_round_trip_witness:
  "uri_parse ''rtsp://h/a/b'' =
     Inr (Some \<lparr>scheme = Some ''rtsp'', userinfo = None, host = Some ''h'', port = None,
            path = Some ''/a/b'', query = None, fragment = None\<rparr>)"
proof -
  have "uri_word uri_scheme_char ''rtsp''" "c_char (hd ''rtsp'') \<in> set uri_alpha"
      "uri_word uri_host_char ''h''" "list_all (uri_word uri_segment_char) [''a'', ''b'']"
    by (simp_all add: uri_word_def uri_class_defs c_char_def)
  from uri_parse_round_trip [OF this(1,2,3) _ this(4), of None] show ?thesis
    by (simp add: uri_text_def append_to_string_def)
qed

end
