(* ===== verification/Range_Tables.thy ===== *)
theory Range_Tables
  imports Ragel_Labels
begin

text \<open>
  The tables of the scanner for the \<^verbatim>\<open>Range\<close> header of \<^verbatim>\<open>ragel_range.c\<close>, entry by
  entry, and their well-formedness.
\<close>

definition range_header_actions :: "nat list" where
  "range_header_actions =
    [0, 1, 1, 1, 2, 1, 3, 1, 4, 1, 6, 1, 11, 1, 12, 1, 13, 1, 14, 1, 15, 1, 16, 1, 17, 1, 18,
     1, 19, 2, 0, 1, 2, 4, 9, 2, 5, 6, 2, 7, 9, 2, 8, 9, 3, 4, 10, 11, 3, 7, 10, 11, 3, 8, 10,
     11]"

definition range_header_key_offsets :: "nat list" where
  "range_header_key_offsets =
    [0, 0, 5, 10, 12, 17, 23, 29, 35, 41, 51, 60, 80, 89, 106, 117, 127, 133, 144, 163, 178,
     185, 191, 204, 217, 226, 236, 253, 264, 274, 280, 291, 303, 311, 318, 324, 330, 336, 342,
     348, 354, 363, 372, 381, 390, 397, 406, 416, 425, 431, 441, 450, 459, 468, 477, 486, 493,
     502, 512, 525, 534, 543, 552, 558, 564, 569, 577, 583]"

definition range_header_trans_keys :: "int list" where
  "range_header_trans_keys =
    [110, 65, 90, 97, 122, 61, 65, 90, 97, 122, 32, 126, 0, 59, 110, 32, 126, 0, 59, 110, 116,
     32, 126, 0, 59, 110, 112, 32, 126, 0, 59, 110, 116, 32, 126, 0, 59, 61, 110, 32, 126, 0,
     45, 59, 110, 32, 47, 48, 57, 58, 126, 0, 59, 110, 32, 47, 48, 57, 58, 126, 0, 44, 46, 58,
     59, 110, 32, 47, 48, 57, 60, 64, 65, 90, 91, 96, 97, 122, 123, 126, 0, 59, 110, 32, 47,
     48, 57, 58, 126, 0, 59, 110, 32, 47, 48, 57, 58, 64, 65, 90] @
    [91, 96, 97, 122, 123, 126, 0, 59, 110, 32, 47, 48, 53, 54, 57, 58, 126, 0, 58, 59, 110,
     32, 47, 48, 57, 60, 126, 0, 58, 59, 110, 32, 126, 0, 59, 110, 32, 47, 48, 53, 54, 57, 58,
     126, 0, 44, 46, 59, 110, 32, 47, 48, 57, 58, 64, 65, 90, 91, 96, 97, 122, 123, 126, 0, 44,
     46, 59, 110, 32, 64, 65, 90, 91, 96, 97, 122, 123, 126, 0, 59, 110, 111, 112, 32, 126, 0,
     59, 110, 119, 32, 126, 0, 59, 110, 32, 64, 65, 90, 91, 96] @
    [97, 122, 123, 126, 0, 44, 45, 46, 58, 59, 110, 32, 47, 48, 57, 60, 126, 0, 59, 110, 32,
     47, 48, 57, 58, 126, 0, 45, 59, 110, 32, 47, 48, 57, 58, 126, 0, 59, 110, 32, 47, 48, 57,
     58, 64, 65, 90, 91, 96, 97, 122, 123, 126, 0, 59, 110, 32, 47, 48, 53, 54, 57, 58, 126, 0,
     58, 59, 110, 32, 47, 48, 57, 60, 126, 0, 58, 59, 110, 32, 126, 0, 59, 110, 32, 47, 48, 53,
     54, 57, 58, 126, 0, 44, 45, 46, 59, 110, 32, 47, 48] @
    [57, 58, 126, 0, 44, 45, 46, 59, 110, 32, 126, 0, 59, 110, 111, 112, 32, 126, 0, 59, 110,
     119, 32, 126, 0, 45, 59, 110, 32, 126, 0, 59, 105, 110, 32, 126, 0, 59, 109, 110, 32, 126,
     0, 59, 101, 110, 32, 126, 0, 59, 61, 110, 32, 126, 0, 59, 110, 32, 47, 48, 57, 58, 126, 0,
     59, 110, 32, 47, 48, 57, 58, 126, 0, 59, 110, 32, 47, 48, 57, 58, 126, 0, 59, 110, 32, 47,
     48, 57, 58, 126, 0, 48, 49, 59, 110, 32, 126, 0, 59, 110] @
    [32, 47, 48, 57, 58, 126, 0, 51, 59, 110, 32, 47, 48, 50, 52, 126, 0, 59, 110, 32, 47, 48,
     57, 58, 126, 0, 59, 84, 110, 32, 126, 0, 50, 59, 110, 32, 47, 48, 49, 51, 126, 0, 59, 110,
     32, 47, 48, 57, 58, 126, 0, 59, 110, 32, 47, 48, 53, 54, 126, 0, 59, 110, 32, 47, 48, 57,
     58, 126, 0, 59, 110, 32, 47, 48, 53, 54, 126, 0, 59, 110, 32, 47, 48, 57, 58, 126, 0, 46,
     59, 90, 110, 32, 126, 0, 59, 110, 32, 47, 48, 57] @
    [58, 126, 0, 59, 90, 110, 32, 47, 48, 57, 58, 126, 0, 59, 110, 32, 64, 65, 90, 91, 96, 97,
     122, 123, 126, 0, 59, 110, 32, 47, 48, 51, 52, 126, 0, 59, 110, 32, 47, 48, 49, 50, 126,
     0, 59, 110, 32, 48, 49, 50, 51, 126, 61, 112, 65, 90, 97, 122, 61, 116, 65, 90, 97, 122,
     61, 65, 90, 97, 122, 45, 110, 32, 47, 48, 57, 58, 126, 0, 59, 110, 111, 32, 126, 0]"

definition range_header_single_lengths :: "nat list" where
  "range_header_single_lengths =
    [0, 1, 1, 0, 3, 4, 4, 4, 4, 4, 3, 6, 3, 3, 3, 4, 4, 3, 5, 5, 5, 4, 3, 7, 3, 4, 3, 3, 4, 4,
     3, 6, 6, 5, 4, 4, 4, 4, 4, 4, 3, 3, 3, 3, 5, 3, 4, 3, 4, 4, 3, 3, 3, 3, 3, 5, 3, 4, 3, 3,
     3, 3, 2, 2, 1, 2, 4, 0]"

definition range_header_range_lengths :: "nat list" where
  "range_header_range_lengths =
    [0, 2, 2, 1, 1, 1, 1, 1, 1, 3, 3, 7, 3, 7, 4, 3, 1, 4, 7, 5, 1, 1, 5, 3, 3, 3, 7, 4, 3, 1,
     4, 3, 1, 1, 1, 1, 1, 1, 1, 1, 3, 3, 3, 3, 1, 3, 3, 3, 1, 3, 3, 3, 3, 3, 3, 1, 3, 3, 5, 3,
     3, 3, 2, 2, 2, 3, 1, 0]"

definition range_header_index_offsets :: "nat list" where
  "range_header_index_offsets =
    [0, 0, 4, 8, 10, 15, 21, 27, 33, 39, 47, 54, 68, 75, 86, 94, 102, 108, 116, 129, 140, 147,
     153, 162, 173, 180, 188, 199, 207, 215, 221, 229, 239, 247, 254, 260, 266, 272, 278, 284,
     290, 297, 304, 311, 318, 325, 332, 340, 347, 353, 361, 368, 375, 382, 389, 396, 403, 410,
     418, 427, 434, 441, 448, 453, 458, 462, 468, 474]"

definition range_header_indicies :: "nat list" where
  "range_header_indicies =
    [2, 0, 0, 1, 3, 0, 0, 1, 4, 1, 5, 6, 7, 4, 1, 5, 6, 7, 8, 4, 1, 5, 6, 7, 9, 4, 1, 5, 6, 7,
     10, 4, 1, 5, 6, 11, 7, 4, 1, 5, 12, 6, 14, 4, 13, 4, 1, 5, 6, 16, 4, 15, 4, 1, 17, 18, 18,
     20, 21, 23, 4, 19, 4, 22, 4, 22, 4, 1, 5, 6, 7, 4, 24, 4, 1, 25, 27, 29, 4, 26, 4, 28, 4,
     28, 4, 1, 5, 6, 7, 4, 30, 31, 4, 1, 5, 33, 6, 7, 4, 32] @
    [4, 1, 5, 33, 6, 7, 4, 1, 5, 6, 7, 4, 34, 35, 4, 1, 17, 18, 18, 21, 23, 4, 36, 4, 22, 4,
     22, 4, 1, 17, 18, 18, 21, 23, 4, 22, 4, 22, 4, 1, 5, 6, 7, 37, 9, 4, 1, 5, 6, 7, 38, 4, 1,
     39, 40, 42, 4, 41, 4, 41, 4, 1, 5, 43, 44, 43, 46, 6, 7, 4, 45, 4, 1, 5, 6, 7, 4, 47, 4,
     1, 5, 48, 6, 7, 4, 49, 4, 1, 50, 51, 53, 4, 15, 4, 52, 4, 52, 4, 1, 5] @
    [6, 7, 4, 54, 55, 4, 1, 5, 57, 6, 7, 4, 56, 4, 1, 5, 57, 6, 7, 4, 1, 5, 6, 7, 4, 58, 59, 4,
     1, 5, 43, 44, 43, 6, 7, 4, 60, 4, 1, 5, 43, 44, 43, 6, 7, 4, 1, 5, 6, 7, 61, 9, 4, 1, 5,
     6, 7, 62, 4, 1, 5, 63, 6, 7, 4, 1, 5, 6, 64, 7, 4, 1, 5, 6, 65, 7, 4, 1, 5, 6, 66, 7, 4,
     1, 5, 6, 67, 7, 4, 1, 5, 6, 7, 4, 68, 4, 1, 5, 6, 7] @
    [4, 69, 4, 1, 5, 6, 7, 4, 70, 4, 1, 5, 6, 7, 4, 71, 4, 1, 5, 72, 73, 6, 7, 4, 1, 5, 6, 7,
     4, 74, 4, 1, 5, 76, 6, 7, 4, 75, 4, 1, 5, 6, 7, 4, 77, 4, 1, 5, 6, 78, 7, 4, 1, 5, 80, 6,
     7, 4, 79, 4, 1, 5, 6, 7, 4, 81, 4, 1, 5, 6, 7, 4, 82, 4, 1, 5, 6, 7, 4, 83, 4, 1, 5, 6, 7,
     4, 84, 4, 1, 5, 6, 7, 4, 85, 4, 1, 5, 86, 6, 87] @
    [7, 4, 1, 5, 6, 7, 4, 88, 4, 1, 5, 6, 87, 7, 4, 88, 4, 1, 89, 6, 91, 4, 90, 4, 90, 4, 1, 5,
     6, 7, 4, 81, 4, 1, 5, 6, 7, 4, 77, 4, 1, 5, 6, 7, 4, 74, 4, 1, 3, 92, 0, 0, 1, 3, 93, 0,
     0, 1, 94, 0, 0, 1, 12, 95, 4, 13, 4, 1, 5, 6, 7, 61, 4, 1, 1, 0]"

definition range_header_trans_targs :: "nat list" where
  "range_header_trans_targs =
    [2, 0, 62, 3, 4, 67, 5, 6, 36, 7, 8, 9, 10, 23, 33, 11, 20, 67, 12, 11, 14, 5, 4, 6, 13,
     67, 13, 5, 4, 6, 15, 16, 16, 17, 18, 19, 19, 21, 22, 67, 5, 4, 6, 24, 26, 23, 27, 25, 26,
     25, 67, 5, 4, 20, 28, 29, 29, 30, 31, 32, 32, 34, 35, 26, 37, 38, 39, 40, 41, 42, 43, 44,
     45, 61, 46, 47, 60, 48, 49, 50, 59, 51, 52, 53, 54, 55, 56, 58, 57, 67, 4, 6, 63, 64, 65,
     66]"

definition range_header_trans_actions :: "nat list" where
  "range_header_trans_actions =
    [0, 0, 0, 0, 0, 0, 0, 0, 0, 0, 0, 0, 0, 29, 0, 29, 0, 44, 7, 1, 3, 44, 44, 44, 35, 48, 9,
     48, 48, 48, 29, 29, 1, 5, 29, 29, 1, 0, 0, 52, 52, 52, 52, 7, 32, 1, 3, 35, 38, 9, 11, 11,
     11, 11, 29, 29, 1, 5, 29, 29, 1, 0, 0, 41, 0, 0, 0, 0, 13, 0, 0, 15, 0, 0, 17, 0, 0, 19,
     0, 0, 0, 21, 0, 23, 0, 25, 0, 0, 0, 27, 27, 27, 0, 0, 0, 0]"

definition range_header_tables :: ragel_tables where
  "range_header_tables =
     \<lparr>r_actions = range_header_actions,
      r_key_offsets = range_header_key_offsets,
      r_trans_keys = range_header_trans_keys,
      r_single_lengths = range_header_single_lengths,
      r_range_lengths = range_header_range_lengths,
      r_index_offsets = range_header_index_offsets,
      r_indicies = range_header_indicies,
      r_trans_targs = range_header_trans_targs,
      r_trans_actions = range_header_trans_actions\<rparr>"

lemmas range_header_tables_defs =
  range_header_actions_def
  range_header_key_offsets_def
  range_header_trans_keys_def
  range_header_single_lengths_def
  range_header_range_lengths_def
  range_header_index_offsets_def
  range_header_indicies_def
  range_header_trans_targs_def
  range_header_trans_actions_def

lemma range_header_tables_sel [simp]:
  "r_actions range_header_tables = range_header_actions"
  "r_key_offsets range_header_tables = range_header_key_offsets"
  "r_trans_keys range_header_tables = range_header_trans_keys"
  "r_single_lengths range_header_tables = range_header_single_lengths"
  "r_range_lengths range_header_tables = range_header_range_lengths"
  "r_index_offsets range_header_tables = range_header_index_offsets"
  "r_indicies range_header_tables = range_header_indicies"
  "r_trans_targs range_header_tables = range_header_trans_targs"
  "r_trans_actions range_header_tables = range_header_trans_actions"
  by (simp_all add: range_header_tables_def)

section \<open>Well-formedness\<close>

lemma range_header_lengths [simp]:
  "length range_header_key_offsets = 68"
  "length range_header_trans_targs = 96"
  "length range_header_trans_actions = 96"
  "length range_header_indicies = 476"
  by (simp_all add: range_header_tables_defs)

lemma range_header_rows_ok:
  "ragel_rows_ok (tl range_header_key_offsets) (tl range_header_single_lengths) (tl range_header_range_lengths)
     (tl range_header_index_offsets) 0 0 range_header_trans_keys 476"
  by (simp add: range_header_tables_defs)

lemma range_header_indicies_ok: "list_all (\<lambda>t. t < 96) range_header_indicies"
  by (simp add: range_header_tables_defs)

lemma range_header_targs_ok: "list_all (\<lambda>s. s < 68) range_header_trans_targs"
  by (simp add: range_header_tables_defs)

lemma range_header_actions_ok: "list_all (ragel_action_ok range_header_actions 20) range_header_trans_actions"
  by (simp add: range_header_tables_defs ragel_action_ok_def ragel_action_list_def arr_def)

lemma range_header_tables_wf: "ragel_wf range_header_tables 20"
  using range_header_rows_ok range_header_indicies_ok range_header_targs_ok range_header_actions_ok
  by (simp add: ragel_wf_def)

interpretation range_header: ragel_machine range_header_tables 20
  by unfold_locales (rule range_header_tables_wf)

end
