(* ===== verification/Range.thy ===== *)
theory Range
  imports Range_Tables
begin

text \<open>
  The parser of the \<^verbatim>\<open>Range\<close> header, \<^verbatim>\<open>ragel_range.c\<close>: the actions of the scanner,
  \<open>ragel_parse_range_header\<close>, the proof that it returns on every header without dividing by
  zero or reading an unset \<^verbatim>\<open>utctime\<close>, and the times it computes for NPT ranges.
\<close>

section \<open>The parser\<close>

record RTSP_Range =
  begin_time :: real
  end_time :: real
  playback_time :: real

record tm =
  tm_year :: int
  tm_mon :: int
  tm_mday :: int
  tm_hour :: int
  tm_min :: int
  tm_sec :: int

text \<open>The scanner's variables; \<^verbatim>\<open>utctime\<close> is not initialised at its declaration.\<close>

record range_scan =
  range_supported :: bool
  seconds :: real
  range_integer :: real
  seconds_secfrac_num :: real
  seconds_secfrac_den :: real
  utctime :: "tm option"
  range_range :: RTSP_Range

definition digit_value :: "char \<Rightarrow> int" where
  "digit_value c = c_char c - 48"

definition with_utctime ::
    "range_scan \<Rightarrow> (tm \<Rightarrow> range_scan) \<Rightarrow> range_scan flow result" where
  "with_utctime st f =
     (case utctime st of None \<Rightarrow> Inl Uninitialised | Some t \<Rightarrow> Inr (Go (f t)))"

text \<open>\<open>mktime\<close> is the C library's function; it depends on the time zone of the process.\<close>

definition range_act ::
    "(tm \<Rightarrow> real) \<Rightarrow> nat \<Rightarrow> char \<Rightarrow> nat \<Rightarrow> range_scan \<Rightarrow> range_scan flow result" where
  "range_act mktime i c p st =
     (if i = 0 then Inr (Go (st\<lparr>range_integer := 0\<rparr>))
      else if i = 1 then
        Inr (Go (st\<lparr>range_integer := range_integer st * 10 + digit_value c\<rparr>))
      else if i = 2 then Inr (Go (st\<lparr>seconds := seconds st + range_integer st * 3600\<rparr>))
      else if i = 3 then Inr (Go (st\<lparr>seconds := seconds st + range_integer st * 60\<rparr>))
      else if i = 4 then Inr (Go (st\<lparr>seconds := seconds st + range_integer st * 1\<rparr>))
      else if i = 5 then
        Inr (Go (st\<lparr>seconds_secfrac_num := 0, seconds_secfrac_den := 1\<rparr>))
      else if i = 6 then
        Inr (Go (st\<lparr>seconds_secfrac_num := seconds_secfrac_num st * 10 + digit_value c,
                   seconds_secfrac_den := seconds_secfrac_den st * 10\<rparr>))
      else if i = 7 then
        (if seconds_secfrac_den st = 0 then Inl Not_A_Number
         else Inr (Go (st\<lparr>seconds :=
                seconds st + seconds_secfrac_num st / seconds_secfrac_den st\<rparr>)))
      else if i = 8 then Inr (Leave st)
      else if i = 9 then
        Inr (Go (st\<lparr>range_range := (range_range st)\<lparr>begin_time := seconds st\<rparr>, seconds := 0\<rparr>))
      else if i = 10 then
        Inr (Go (st\<lparr>range_range := (range_range st)\<lparr>end_time := seconds st\<rparr>, seconds := 0\<rparr>))
      else if i = 11 then Inr (Go (st\<lparr>range_supported := True\<rparr>))
      else if i = 12 then
        Inr (Go (st\<lparr>utctime := Some \<lparr>tm_year = 0, tm_mon = 0, tm_mday = 0, tm_hour = 0,
                                  tm_min = 0, tm_sec = 0\<rparr>\<rparr>))
      else if i = 13 then
        with_utctime st (\<lambda>t. st\<lparr>utctime := Some (t\<lparr>tm_year := tm_year t * 10 + digit_value c\<rparr>)\<rparr>)
      else if i = 14 then
        with_utctime st (\<lambda>t. st\<lparr>utctime := Some (t\<lparr>tm_mon := tm_mon t * 10 + digit_value c\<rparr>)\<rparr>)
      else if i = 15 then
        with_utctime st (\<lambda>t. st\<lparr>utctime := Some (t\<lparr>tm_mday := tm_mday t * 10 + digit_value c\<rparr>)\<rparr>)
      else if i = 16 then
        with_utctime st (\<lambda>t. st\<lparr>utctime := Some (t\<lparr>tm_hour := tm_hour t * 10 + digit_value c\<rparr>)\<rparr>)
      else if i = 17 then
        with_utctime st (\<lambda>t. st\<lparr>utctime := Some (t\<lparr>tm_min := tm_min t * 10 + digit_value c\<rparr>)\<rparr>)
      else if i = 18 then
        with_utctime st (\<lambda>t. st\<lparr>utctime := Some (t\<lparr>tm_sec := tm_sec t * 10 + digit_value c\<rparr>)\<rparr>)
      else if i = 19 then
        with_utctime st (\<lambda>t. st\<lparr>range_range := (range_range st)\<lparr>playback_time := mktime t\<rparr>\<rparr>)
      else Inr (Go st))"

definition range_start :: "RTSP_Range \<Rightarrow> range_scan" where
  "range_start rng = \<lparr>range_supported = False, seconds = 0, range_integer = 0,
     seconds_secfrac_num = 0, seconds_secfrac_den = 0, utctime = None, range_range = rng\<rparr>"

text \<open>The returned value and the structure that the \<^verbatim>\<open>range\<close> pointer leads to.\<close>

definition ragel_parse_range_header ::
    "(tm \<Rightarrow> real) \<Rightarrow> string \<Rightarrow> RTSP_Range \<Rightarrow> (bool \<times> RTSP_Range) result" where
  "ragel_parse_range_header mktime header rng =
     (case ragel_exec range_header_tables (range_act mktime) 1 0 (c_str header @ [NUL])
             (range_start rng) of
        Inl err \<Rightarrow> Inl err
      | Inr (_, Leave st) \<Rightarrow> Inr (False, range_range st)
      | Inr (_, Go st) \<Rightarrow> Inr (range_supported st, range_range st))"

section \<open>It returns on every header\<close>

text \<open>
  The label of a state: a fraction was begun (its denominator is not zero), and
  \<^verbatim>\<open>utctime\<close> was cleared.
\<close>

fun range_label :: "bool \<times> bool \<Rightarrow> nat \<Rightarrow> (bool \<times> bool) option" where
  "range_label (fr, cl) i =
     (if i = 5 then Some (True, cl)
      else if i = 7 then (if fr then Some (fr, cl) else None)
      else if i = 8 then Some (True, True)
      else if i = 12 then Some (fr, True)
      else if 12 < i then (if cl then Some (fr, cl) else None)
      else Some (fr, cl))"

definition range_weaker :: "bool \<times> bool \<Rightarrow> bool \<times> bool \<Rightarrow> bool" where
  "range_weaker l m \<longleftrightarrow> (fst l \<longrightarrow> fst m) \<and> (snd l \<longrightarrow> snd m)"

definition range_labels :: "(bool \<times> bool) list" where
  "range_labels =
    [(False, False), (False, False), (False, False), (False, False), (False, False), (False,
     False), (False, False), (False, False), (False, False), (False, False), (False, False),
     (False, False), (False, False), (True, False), (False, False), (False, False), (False,
     False), (False, False), (False, False), (False, False), (False, False), (False, False),
     (False, False), (False, False), (False, False), (True, False), (False, False), (False,
     False), (False, False), (False, False), (False, False), (False, False), (False, False),
     (False, False), (False, False), (False, False), (False, False), (False, False), (False,
     False), (False, False), (False, False), (False, True), (False, True), (False, True),
     (False, True), (False, True), (False, True), (False, True), (False, True), (False,
     True), (False, True), (False, True), (False, True), (False, True), (False, True),
     (False, True), (False, True), (False, True), (False, True), (False, True), (False,
     True), (False, True), (False, False), (False, False), (False, False), (False, False),
     (False, False), (False, False)]"

lemma range_labels_ok:
  "ragel_labels_ok range_header_tables (label_ok range_label range_weaker) range_labels"
  by (simp add: ragel_labels_ok_def range_header_tables_defs range_labels_def ragel_ids_def
      label_ok_def range_weaker_def)

definition range_good :: "bool \<times> bool \<Rightarrow> nat \<Rightarrow> range_scan \<Rightarrow> bool" where
  "range_good l p st \<longleftrightarrow>
     (fst l \<longrightarrow> seconds_secfrac_den st \<noteq> 0) \<and> (snd l \<longrightarrow> utctime st \<noteq> None)"

interpretation rangep: ragel_labelled range_header_tables 20 "range_act mktime" range_label
  range_weaker range_labels range_good "\<lambda>_. True"
  for mktime
proof
  show "ragel_labels_ok range_header_tables (label_ok range_label range_weaker) range_labels"
    by (rule range_labels_ok)
next
  fix l i m p st c
  assume "range_label l i = Some m" and "i < 20" and "range_good l p st"
  then show "\<exists>fl. range_act mktime i c p st = Inr fl \<and>
      (case fl of Go st' \<Rightarrow> range_good m p st' | Leave st' \<Rightarrow> True)"
    by (cases l)
       (auto simp: range_good_def range_act_def with_utctime_def split: if_splits option.splits)
qed (auto simp: range_good_def range_weaker_def)

section \<open>NPT ranges\<close>

lemma range_rows:
  "ragel_row range_header_tables 1 =
     ([110], [65, 90, 97, 122], [(62, []), (2, []), (2, []), (0, [])])"
  "ragel_row range_header_tables 62 =
     ([61, 112], [65, 90, 97, 122], [(3, []), (63, []), (2, []), (2, []), (0, [])])"
  "ragel_row range_header_tables 63 =
     ([61, 116], [65, 90, 97, 122], [(3, []), (64, []), (2, []), (2, []), (0, [])])"
  "ragel_row range_header_tables 64 =
     ([61], [65, 90, 97, 122], [(65, []), (2, []), (2, []), (0, [])])"
  "ragel_row range_header_tables 65 =
     ([45, 110], [32, 47, 48, 57, 58, 126], [(10, []), (66, []), (4, []), (23, [0, 1]), (4,
      []), (0, [])])"
  "ragel_row range_header_tables 23 =
     ([0, 44, 45, 46, 58, 59, 110], [32, 47, 48, 57, 60, 126], [(67, []), (24, [4]), (26, [4,
      9]), (24, [4]), (27, [2]), (5, []), (6, []), (4, []), (23, [1]), (4, []), (0, [])])"
  "ragel_row range_header_tables 24 =
     ([0, 59, 110], [32, 47, 48, 57, 58, 126], [(67, []), (5, []), (6, []), (4, []), (25, [5,
      6]), (4, []), (0, [])])"
  "ragel_row range_header_tables 25 =
     ([0, 45, 59, 110], [32, 47, 48, 57, 58, 126], [(67, []), (26, [7, 9]), (5, []), (6, []),
      (4, []), (25, [6]), (4, []), (0, [])])"
  "ragel_row range_header_tables 26 =
     ([0, 59, 110], [32, 47, 48, 57, 58, 64, 65, 90, 91, 96, 97, 122, 123, 126], [(67, [11]),
      (5, [11]), (20, [11]), (4, []), (11, [0, 1]), (4, []), (4, [11]), (4, []), (4, [11]),
      (4, []), (0, [])])"
  "ragel_row range_header_tables 11 =
     ([0, 44, 46, 58, 59, 110], [32, 47, 48, 57, 60, 64, 65, 90, 91, 96, 97, 122, 123, 126],
      [(67, [4, 10, 11]), (12, [4]), (12, [4]), (14, [2]), (5, [4, 10, 11]), (6, [4, 10, 11]),
      (4, []), (11, [1]), (4, []), (4, [4, 10, 11]), (4, []), (4, [4, 10, 11]), (4, []), (0,
      [])])"
  "ragel_row range_header_tables 12 =
     ([0, 59, 110], [32, 47, 48, 57, 58, 126], [(67, []), (5, []), (6, []), (4, []), (13, [5,
      6]), (4, []), (0, [])])"
  "ragel_row range_header_tables 13 =
     ([0, 59, 110], [32, 47, 48, 57, 58, 64, 65, 90, 91, 96, 97, 122, 123, 126], [(67, [7, 10,
      11]), (5, [7, 10, 11]), (6, [7, 10, 11]), (4, []), (13, [6]), (4, []), (4, [7, 10, 11]),
      (4, []), (4, [7, 10, 11]), (4, []), (0, [])])"
  by (simp_all add: ragel_row_def ragel_singles_def ragel_ranges_def ragel_ids_def
      range_header_tables_defs)

definition range_digit :: "int list" where
  "range_digit = [48..57]"

lemma range_step_prefix:
  "x \<in> set [110] \<Longrightarrow> ragel_step range_header_tables 1 x = Inr (62, [])"
  "x \<in> set [112] \<Longrightarrow> ragel_step range_header_tables 62 x = Inr (63, [])"
  "x \<in> set [116] \<Longrightarrow> ragel_step range_header_tables 63 x = Inr (64, [])"
  "x \<in> set [61] \<Longrightarrow> ragel_step range_header_tables 64 x = Inr (65, [])"
  by (erule range_header.step_class [OF _ _ _ range_rows(1)]
        range_header.step_class [OF _ _ _ range_rows(2)]
        range_header.step_class [OF _ _ _ range_rows(3)]
        range_header.step_class [OF _ _ _ range_rows(4)];
      simp add: row_index_def)+

lemma range_step_begin:
  "x \<in> set range_digit \<Longrightarrow> ragel_step range_header_tables 65 x = Inr (23, [0, 1])"
  "x \<in> set range_digit \<Longrightarrow> ragel_step range_header_tables 23 x = Inr (23, [1])"
  "x \<in> set [45] \<Longrightarrow> ragel_step range_header_tables 23 x = Inr (26, [4, 9])"
  "x \<in> set [46] \<Longrightarrow> ragel_step range_header_tables 23 x = Inr (24, [4])"
  "x \<in> set range_digit \<Longrightarrow> ragel_step range_header_tables 24 x = Inr (25, [5, 6])"
  "x \<in> set range_digit \<Longrightarrow> ragel_step range_header_tables 25 x = Inr (25, [6])"
  "x \<in> set [45] \<Longrightarrow> ragel_step range_header_tables 25 x = Inr (26, [7, 9])"
  by (erule range_header.step_class [OF _ _ _ range_rows(5)]
        range_header.step_class [OF _ _ _ range_rows(6)]
        range_header.step_class [OF _ _ _ range_rows(7)]
        range_header.step_class [OF _ _ _ range_rows(8)];
      simp add: row_index_def range_digit_def)+

lemma range_step_end:
  "x \<in> set [0] \<Longrightarrow> ragel_step range_header_tables 26 x = Inr (67, [11])"
  "x \<in> set range_digit \<Longrightarrow> ragel_step range_header_tables 26 x = Inr (11, [0, 1])"
  "x \<in> set range_digit \<Longrightarrow> ragel_step range_header_tables 11 x = Inr (11, [1])"
  "x \<in> set [46] \<Longrightarrow> ragel_step range_header_tables 11 x = Inr (12, [4])"
  "x \<in> set [0] \<Longrightarrow> ragel_step range_header_tables 11 x = Inr (67, [4, 10, 11])"
  "x \<in> set range_digit \<Longrightarrow> ragel_step range_header_tables 12 x = Inr (13, [5, 6])"
  "x \<in> set range_digit \<Longrightarrow> ragel_step range_header_tables 13 x = Inr (13, [6])"
  "x \<in> set [0] \<Longrightarrow> ragel_step range_header_tables 13 x = Inr (67, [7, 10, 11])"
  by (erule range_header.step_class [OF _ _ _ range_rows(9)]
        range_header.step_class [OF _ _ _ range_rows(10)]
        range_header.step_class [OF _ _ _ range_rows(11)]
        range_header.step_class [OF _ _ _ range_rows(12)];
      simp add: row_index_def range_digit_def)+

text \<open>The number that digits stand for, and a time: seconds with an optional fraction.\<close>

definition digits_value :: "string \<Rightarrow> real" where
  "digits_value ds = foldl (\<lambda>v c. v * 10 + real_of_int (digit_value c)) 0 ds"

definition npt_digits :: "string \<Rightarrow> bool" where
  "npt_digits ds \<longleftrightarrow> ds \<noteq> [] \<and> (\<forall>c \<in> set ds. c_char c \<in> set range_digit)"

definition npt_ok :: "string \<times> string option \<Rightarrow> bool" where
  "npt_ok t \<longleftrightarrow> npt_digits (fst t) \<and> (\<forall>f \<in> set_option (snd t). npt_digits f)"

definition npt_text :: "string \<times> string option \<Rightarrow> string" where
  "npt_text t = fst t @ (case snd t of None \<Rightarrow> [] | Some f \<Rightarrow> CHR ''.'' # f)"

definition npt_value :: "string \<times> string option \<Rightarrow> real" where
  "npt_value t = digits_value (fst t) +
     (case snd t of None \<Rightarrow> 0 | Some f \<Rightarrow> digits_value f / 10 ^ length f)"

lemma foldl_integer:
  "fold (\<lambda>c st. st\<lparr>range_integer := range_integer st * 10 + digit_value c\<rparr>) ds st =
     st\<lparr>range_integer := foldl (\<lambda>v c. v * 10 + digit_value c) (range_integer st) ds\<rparr>"
  by (induction ds arbitrary: st) simp_all

lemma foldl_fraction:
  "fold (\<lambda>c st. st\<lparr>seconds_secfrac_num := seconds_secfrac_num st * 10 + digit_value c,
                  seconds_secfrac_den := seconds_secfrac_den st * 10\<rparr>) ds st =
     st\<lparr>seconds_secfrac_num := foldl (\<lambda>v c. v * 10 + digit_value c) (seconds_secfrac_num st) ds,
        seconds_secfrac_den := seconds_secfrac_den st * 10 ^ length ds\<rparr>"
  by (induction ds arbitrary: st) (simp_all add: algebra_simps)

lemma range_act_simps [simp]:
  "range_act mk 0 c p st = Inr (Go (st\<lparr>range_integer := 0\<rparr>))"
  "range_act mk (Suc 0) c p st =
     Inr (Go (st\<lparr>range_integer := range_integer st * 10 + digit_value c\<rparr>))"
  "range_act mk 4 c p st = Inr (Go (st\<lparr>seconds := seconds st + range_integer st\<rparr>))"
  "range_act mk 5 c p st = Inr (Go (st\<lparr>seconds_secfrac_num := 0, seconds_secfrac_den := 1\<rparr>))"
  "range_act mk 6 c p st =
     Inr (Go (st\<lparr>seconds_secfrac_num := seconds_secfrac_num st * 10 + digit_value c,
                seconds_secfrac_den := seconds_secfrac_den st * 10\<rparr>))"
  "range_act mk 9 c p st =
     Inr (Go (st\<lparr>range_range := (range_range st)\<lparr>begin_time := seconds st\<rparr>, seconds := 0\<rparr>))"
  "range_act mk 10 c p st =
     Inr (Go (st\<lparr>range_range := (range_range st)\<lparr>end_time := seconds st\<rparr>, seconds := 0\<rparr>))"
  "range_act mk 11 c p st = Inr (Go (st\<lparr>range_supported := True\<rparr>))"
  "seconds_secfrac_den st \<noteq> 0 \<Longrightarrow> range_act mk 7 c p st =
     Inr (Go (st\<lparr>seconds := seconds st + seconds_secfrac_num st / seconds_secfrac_den st\<rparr>))"
  by (simp_all add: range_act_def)

text \<open>Whole numbers, then fractions: what the digits leave in the scanner's variables.\<close>

lemma range_exec_integer:
  assumes ds: "npt_digits ds" and "cs' \<noteq> 0"
    and first: "\<And>x. x \<in> set range_digit \<Longrightarrow> ragel_step range_header_tables cs x = Inr (cs', [0, 1])"
    and more: "\<And>x. x \<in> set range_digit \<Longrightarrow> ragel_step range_header_tables cs' x = Inr (cs', [1])"
  shows "ragel_exec range_header_tables (range_act mk) cs p (ds @ input) st =
     ragel_exec range_header_tables (range_act mk) cs' (p + length ds) input
       (st\<lparr>range_integer := digits_value ds\<rparr>)"
proof -
  obtain d ds' where d: "ds = d # ds'" using ds by (cases ds) (auto simp: npt_digits_def)
  have "ragel_exec range_header_tables (range_act mk) cs' (Suc p) (ds' @ input)
      (st\<lparr>range_integer := digit_value d\<rparr>) =
    ragel_exec range_header_tables (range_act mk) cs' (Suc p + length ds') input
      (fold (\<lambda>c st. st\<lparr>range_integer := range_integer st * 10 + digit_value c\<rparr>) ds'
        (st\<lparr>range_integer := digit_value d\<rparr>))"
    by (rule ragel_exec_loop [where ids = "[1]"]) (use ds d more assms(2) in \<open>auto simp: npt_digits_def\<close>)
  then show ?thesis
    using ds d first assms(2) by (simp add: npt_digits_def foldl_integer digits_value_def)
qed

lemma range_exec_fraction:
  assumes ds: "npt_digits ds" and "cs' \<noteq> 0"
    and first: "\<And>x. x \<in> set range_digit \<Longrightarrow> ragel_step range_header_tables cs x = Inr (cs', [5, 6])"
    and more: "\<And>x. x \<in> set range_digit \<Longrightarrow> ragel_step range_header_tables cs' x = Inr (cs', [6])"
  shows "ragel_exec range_header_tables (range_act mk) cs p (ds @ input) st =
     ragel_exec range_header_tables (range_act mk) cs' (p + length ds) input
       (st\<lparr>seconds_secfrac_num := digits_value ds, seconds_secfrac_den := 10 ^ length ds\<rparr>)"
proof -
  obtain d ds' where d: "ds = d # ds'" using ds by (cases ds) (auto simp: npt_digits_def)
  have "ragel_exec range_header_tables (range_act mk) cs' (Suc p) (ds' @ input)
      (st\<lparr>seconds_secfrac_num := digit_value d, seconds_secfrac_den := 10\<rparr>) =
    ragel_exec range_header_tables (range_act mk) cs' (Suc p + length ds') input
      (fold (\<lambda>c st. st\<lparr>seconds_secfrac_num := seconds_secfrac_num st * 10 + digit_value c,
                  seconds_secfrac_den := seconds_secfrac_den st * 10\<rparr>) ds'
        (st\<lparr>seconds_secfrac_num := digit_value d, seconds_secfrac_den := 10\<rparr>))"
    by (rule ragel_exec_loop [where ids = "[6]"]) (use ds d more assms(2) in \<open>auto simp: npt_digits_def\<close>)
  then show ?thesis
    using ds d first assms(2) by (simp add: npt_digits_def foldl_fraction digits_value_def)
qed

lemma c_char_npt [simp]:
  "c_char CHR ''.'' = 46" "c_char CHR ''-'' = 45" "c_char CHR ''n'' = 110" "c_char CHR ''p'' = 112"
  "c_char CHR ''t'' = 116" "c_char CHR ''='' = 61" "c_char NUL = 0"
  by (simp_all add: c_char_def NUL_def)

text \<open>The start of a range, up to and with the dash; the end, up to the end of the header.\<close>

lemma range_exec_begin:
  assumes "npt_ok b" and "seconds st = 0"
  shows "\<exists>p' st'. ragel_exec range_header_tables (range_act mk) 65 p (npt_text b @ CHR ''-'' # input) st =
      ragel_exec range_header_tables (range_act mk) 26 p' input st' \<and> seconds st' = 0 \<and>
      range_range st' = (range_range st)\<lparr>begin_time := npt_value b\<rparr> \<and>
      range_supported st' = range_supported st"
proof (cases b)
  case (Pair ds fr)
  then have ds: "npt_digits ds" using assms(1) by (simp add: npt_ok_def)
  note whole = range_exec_integer [OF ds _ range_step_begin(1,2)]
  show ?thesis
  proof (cases fr)
    case None
    then show ?thesis
      using whole [of mk p "CHR ''-'' # input" st] Pair assms(2)
      by (simp add: npt_text_def npt_value_def range_step_begin)
         (intro exI conjI, rule refl, simp_all)
  next
    case (Some f)
    then have f: "npt_digits f" using assms(1) Pair by (simp add: npt_ok_def)
    note frac = range_exec_fraction [OF f _ range_step_begin(5,6)]
    show ?thesis
      using whole [of mk p "CHR ''.'' # f @ CHR ''-'' # input" st] frac Pair Some assms(2)
      by (simp add: npt_text_def npt_value_def range_step_begin)
         (intro exI conjI, rule refl, simp_all)
  qed
qed

lemma range_exec_end:
  assumes "npt_ok e" and "seconds st = 0"
  shows "\<exists>st'. ragel_exec range_header_tables (range_act mk) 26 p (npt_text e @ [NUL]) st =
      Inr (67, Go st') \<and>
      range_range st' = (range_range st)\<lparr>end_time := npt_value e\<rparr> \<and> range_supported st'"
proof (cases e)
  case (Pair ds fr)
  then have ds: "npt_digits ds" using assms(1) by (simp add: npt_ok_def)
  note whole = range_exec_integer [OF ds _ range_step_end(2,3)]
  show ?thesis
  proof (cases fr)
    case None
    then show ?thesis
      using whole [of mk p "[NUL]" st] Pair assms(2)
      by (simp add: npt_text_def npt_value_def range_step_end)
  next
    case (Some f)
    then have f: "npt_digits f" using assms(1) Pair by (simp add: npt_ok_def)
    note frac = range_exec_fraction [OF f _ range_step_end(6,7)]
    show ?thesis
      using whole [of mk p "CHR ''.'' # f @ [NUL]" st] frac Pair Some assms(2)
      by (simp add: npt_text_def npt_value_def range_step_end)
  qed
qed

definition npt_header :: "string \<times> string option \<Rightarrow> (string \<times> string option) option \<Rightarrow> string" where
  "npt_header b e = ''npt='' @ npt_text b @ CHR ''-'' # (case e of None \<Rightarrow> [] | Some t \<Rightarrow> npt_text t)"

lemma npt_text_no_NUL: "npt_ok t \<Longrightarrow> NUL \<notin> set (npt_text t)"
proof -
  have "NUL \<notin> set ds" if "npt_digits ds" for ds
    using that by (auto simp: npt_digits_def range_digit_def)
  then show "npt_ok t \<Longrightarrow> NUL \<notin> set (npt_text t)"
    by (auto simp: npt_ok_def npt_text_def NUL_def split: option.splits)
qed

section \<open>Properties\<close>

text \<open>C6. The \<^verbatim>\<open>Range\<close> parser returns on every header: no fraction is divided by a
  denominator of zero, \<^verbatim>\<open>utctime\<close> is never read before it is cleared, and no table is
  read out of range.\<close>

theorem range_parse_returns: "returns (ragel_parse_range_header mktime header rng)"
proof -
  let ?s = "c_str header"
  have "range_good (range_labels ! 1) 0 (range_start rng)"
    by (simp add: range_good_def range_labels_def)
  from rangep.exec_total [where cs = 1 and p = 0 and input = "?s @ [NUL]" and mktime = mktime,
      OF _ _ this]
  obtain cs' fl where "ragel_exec range_header_tables (range_act mktime) 1 0 (?s @ [NUL])
      (range_start rng) = Inr (cs', fl)"
    by auto
  then show ?thesis
    by (cases fl) (auto simp: ragel_parse_range_header_def)
qed



text \<open>The states on a header with a \<^verbatim>\<open>time\<close> parameter.\<close>

lemma range_time_rows:
  "ragel_row range_header_tables 5 =
     ([0, 59, 110, 116], [32, 126], [(67, []), (5, []), (6, []), (36, []), (4, []), (0, [])])"
  "ragel_row range_header_tables 36 =
     ([0, 59, 105, 110], [32, 126], [(67, []), (5, []), (37, []), (6, []), (4, []), (0, [])])"
  "ragel_row range_header_tables 37 =
     ([0, 59, 109, 110], [32, 126], [(67, []), (5, []), (38, []), (6, []), (4, []), (0, [])])"
  "ragel_row range_header_tables 38 =
     ([0, 59, 101, 110], [32, 126], [(67, []), (5, []), (39, []), (6, []), (4, []), (0, [])])"
  "ragel_row range_header_tables 39 =
     ([0, 59, 61, 110], [32, 126], [(67, []), (5, []), (40, []), (6, []), (4, []), (0, [])])"
  "ragel_row range_header_tables 40 =
     ([0, 59, 110], [32, 47, 48, 57, 58, 126], [(67, []), (5, []), (6, []), (4, []), (41,
      [12]), (4, []), (0, [])])"
  "ragel_row range_header_tables 41 =
     ([0, 59, 110], [32, 47, 48, 57, 58, 126], [(67, []), (5, []), (6, []), (4, []), (42, []),
      (4, []), (0, [])])"
  "ragel_row range_header_tables 42 =
     ([0, 59, 110], [32, 47, 48, 57, 58, 126], [(67, []), (5, []), (6, []), (4, []), (43, []),
      (4, []), (0, [])])"
  "ragel_row range_header_tables 43 =
     ([0, 59, 110], [32, 47, 48, 57, 58, 126], [(67, []), (5, []), (6, []), (4, []), (44,
      [13]), (4, []), (0, [])])"
  "ragel_row range_header_tables 44 =
     ([0, 48, 49, 59, 110], [32, 126], [(67, []), (45, []), (61, []), (5, []), (6, []), (4,
      []), (0, [])])"
  "ragel_row range_header_tables 61 =
     ([0, 59, 110], [32, 48, 49, 50, 51, 126], [(67, []), (5, []), (6, []), (4, []), (46,
      [14]), (4, []), (0, [])])"
  "ragel_row range_header_tables 46 =
     ([0, 51, 59, 110], [32, 47, 48, 50, 52, 126], [(67, []), (60, []), (5, []), (6, []), (4,
      []), (47, []), (4, []), (0, [])])"
  "ragel_row range_header_tables 60 =
     ([0, 59, 110], [32, 47, 48, 49, 50, 126], [(67, []), (5, []), (6, []), (4, []), (48,
      [15]), (4, []), (0, [])])"
  "ragel_row range_header_tables 48 =
     ([0, 59, 84, 110], [32, 126], [(67, []), (5, []), (49, []), (6, []), (4, []), (0, [])])"
  "ragel_row range_header_tables 49 =
     ([0, 50, 59, 110], [32, 47, 48, 49, 51, 126], [(67, []), (59, []), (5, []), (6, []), (4,
      []), (50, []), (4, []), (0, [])])"
  "ragel_row range_header_tables 59 =
     ([0, 59, 110], [32, 47, 48, 51, 52, 126], [(67, []), (5, []), (6, []), (4, []), (51,
      [16]), (4, []), (0, [])])"
  "ragel_row range_header_tables 51 =
     ([0, 59, 110], [32, 47, 48, 53, 54, 126], [(67, []), (5, []), (6, []), (4, []), (52, []),
      (4, []), (0, [])])"
  "ragel_row range_header_tables 52 =
     ([0, 59, 110], [32, 47, 48, 57, 58, 126], [(67, []), (5, []), (6, []), (4, []), (53,
      [17]), (4, []), (0, [])])"
  "ragel_row range_header_tables 53 =
     ([0, 59, 110], [32, 47, 48, 53, 54, 126], [(67, []), (5, []), (6, []), (4, []), (54, []),
      (4, []), (0, [])])"
  "ragel_row range_header_tables 54 =
     ([0, 59, 110], [32, 47, 48, 57, 58, 126], [(67, []), (5, []), (6, []), (4, []), (55,
      [18]), (4, []), (0, [])])"
  "ragel_row range_header_tables 55 =
     ([0, 46, 59, 90, 110], [32, 126], [(67, []), (56, []), (5, []), (58, []), (6, []), (4,
      []), (0, [])])"
  "ragel_row range_header_tables 58 =
     ([0, 59, 110], [32, 64, 65, 90, 91, 96, 97, 122, 123, 126], [(67, [19]), (5, []), (6,
      [19]), (4, []), (4, [19]), (4, []), (4, [19]), (4, []), (0, [])])"
  by (simp_all add: ragel_row_def ragel_singles_def ragel_ranges_def ragel_ids_def
      range_header_tables_defs)

lemma range_time_steps:
  "ragel_step range_header_tables 26 59 = Inr (5, [11])"
  "ragel_step range_header_tables 5 116 = Inr (36, [])"
  "ragel_step range_header_tables 36 105 = Inr (37, [])"
  "ragel_step range_header_tables 37 109 = Inr (38, [])"
  "ragel_step range_header_tables 38 101 = Inr (39, [])"
  "ragel_step range_header_tables 39 61 = Inr (40, [])"
  "ragel_step range_header_tables 40 50 = Inr (41, [12])"
  "ragel_step range_header_tables 41 48 = Inr (42, [])"
  "ragel_step range_header_tables 42 49 = Inr (43, [])"
  "ragel_step range_header_tables 43 50 = Inr (44, [13])"
  "ragel_step range_header_tables 44 49 = Inr (61, [])"
  "ragel_step range_header_tables 61 50 = Inr (46, [14])"
  "ragel_step range_header_tables 46 51 = Inr (60, [])"
  "ragel_step range_header_tables 60 49 = Inr (48, [15])"
  "ragel_step range_header_tables 48 84 = Inr (49, [])"
  "ragel_step range_header_tables 49 50 = Inr (59, [])"
  "ragel_step range_header_tables 59 51 = Inr (51, [16])"
  "ragel_step range_header_tables 51 53 = Inr (52, [])"
  "ragel_step range_header_tables 52 57 = Inr (53, [17])"
  "ragel_step range_header_tables 53 53 = Inr (54, [])"
  "ragel_step range_header_tables 54 57 = Inr (55, [18])"
  "ragel_step range_header_tables 55 90 = Inr (58, [])"
  "ragel_step range_header_tables 58 0 = Inr (67, [19])"
  by (simp add: range_header.step_row [OF _ _ range_rows(9)] row_index_def,
      simp add: range_header.step_row [OF _ _ range_time_rows(1)] row_index_def,
      simp add: range_header.step_row [OF _ _ range_time_rows(2)] row_index_def,
      simp add: range_header.step_row [OF _ _ range_time_rows(3)] row_index_def,
      simp add: range_header.step_row [OF _ _ range_time_rows(4)] row_index_def,
      simp add: range_header.step_row [OF _ _ range_time_rows(5)] row_index_def,
      simp add: range_header.step_row [OF _ _ range_time_rows(6)] row_index_def,
      simp add: range_header.step_row [OF _ _ range_time_rows(7)] row_index_def,
      simp add: range_header.step_row [OF _ _ range_time_rows(8)] row_index_def,
      simp add: range_header.step_row [OF _ _ range_time_rows(9)] row_index_def,
      simp add: range_header.step_row [OF _ _ range_time_rows(10)] row_index_def,
      simp add: range_header.step_row [OF _ _ range_time_rows(11)] row_index_def,
      simp add: range_header.step_row [OF _ _ range_time_rows(12)] row_index_def,
      simp add: range_header.step_row [OF _ _ range_time_rows(13)] row_index_def,
      simp add: range_header.step_row [OF _ _ range_time_rows(14)] row_index_def,
      simp add: range_header.step_row [OF _ _ range_time_rows(15)] row_index_def,
      simp add: range_header.step_row [OF _ _ range_time_rows(16)] row_index_def,
      simp add: range_header.step_row [OF _ _ range_time_rows(17)] row_index_def,
      simp add: range_header.step_row [OF _ _ range_time_rows(18)] row_index_def,
      simp add: range_header.step_row [OF _ _ range_time_rows(19)] row_index_def,
      simp add: range_header.step_row [OF _ _ range_time_rows(20)] row_index_def,
      simp add: range_header.step_row [OF _ _ range_time_rows(21)] row_index_def,
      simp add: range_header.step_row [OF _ _ range_time_rows(22)] row_index_def)


end
