(* ===== verification/Text.thy ===== *)
theory Text
  imports Prelude
begin

text \<open>
  The conversions of the \<^verbatim>\<open>printf\<close> family that the server uses: decimal and hexadecimal
  numbers, and \<^verbatim>\<open>%f\<close> with its six digits behind the point.
\<close>

definition digit_char :: "nat \<Rightarrow> char" where
  "digit_char d = (if d < 10 then char_of (48 + d) else char_of (87 + d))"

fun print_base :: "nat \<Rightarrow> nat \<Rightarrow> string" where
  "print_base b n =
     (if b < 2 \<or> n < b then [digit_char n] else print_base b (n div b) @ [digit_char (n mod b)])"

declare print_base.simps [simp del]

abbreviation print_nat :: "nat \<Rightarrow> string" where
  "print_nat n \<equiv> print_base 10 n"

definition print_int :: "int \<Rightarrow> string" where
  "print_int i = (if i < 0 then CHR ''-'' # print_nat (nat (- i)) else print_nat (nat i))"

definition pad_left :: "nat \<Rightarrow> string \<Rightarrow> string" where
  "pad_left n s = replicate (n - length s) CHR ''0'' @ s"

text \<open>\<^verbatim>\<open>%08x\<close>, and \<^verbatim>\<open>%08X\<close> with capital letters.\<close>

definition print_hex8 :: "u32 \<Rightarrow> string" where
  "print_hex8 w = pad_left 8 (print_base 16 (unat w))"

definition upper :: "char \<Rightarrow> char" where
  "upper c = (if 97 \<le> (of_char c :: nat) \<and> (of_char c :: nat) \<le> 122
              then char_of ((of_char c :: nat) - 32) else c)"

definition print_HEX8 :: "u32 \<Rightarrow> string" where
  "print_HEX8 w = map upper (print_hex8 w)"

text \<open>\<^verbatim>\<open>%f\<close>: six digits behind the point, the last one rounded.\<close>

definition print_f :: "real \<Rightarrow> string" where
  "print_f x =
     (let n = nat (round (\<bar>x\<bar> * 1000000)) in
      (if x < 0 then ''-'' else []) @ print_nat (n div 1000000) @ ''.'' @
      pad_left 6 (print_nat (n mod 1000000)))"

section \<open>Reading the digits back\<close>

definition char_digit :: "char \<Rightarrow> nat" where
  "char_digit c =
     (let n = (of_char c :: nat) in if n < 58 then n - 48 else n - 87)"

definition read_base :: "nat \<Rightarrow> string \<Rightarrow> nat" where
  "read_base b s = foldl (\<lambda>n c. n * b + char_digit c) 0 s"

lemma char_digit_char [simp]: "d < 16 \<Longrightarrow> char_digit (digit_char d) = d"
  by (simp add: char_digit_def digit_char_def)

lemma digit_char_not_NUL:
  assumes "d < 16"
  shows "digit_char d \<noteq> CHR 0x00"
proof
  assume "digit_char d = CHR 0x00"
  then have "(of_char (digit_char d) :: nat) = of_char (CHR 0x00)" by (rule arg_cong)
  moreover have "(of_char (CHR 0x00) :: nat) = 0" by simp
  moreover have "(of_char (digit_char d) :: nat) \<noteq> 0" using assms by (simp add: digit_char_def)
  ultimately show False by simp
qed

lemma read_print_base:
  assumes "2 \<le> b" and "b \<le> 16"
  shows "read_base b (print_base b n) = n"
proof (induction n rule: less_induct)
  case (less n)
  show ?case
  proof (cases "n < b")
    case True
    then show ?thesis using assms by (simp add: print_base.simps [of b n] read_base_def)
  next
    case False
    then have "n div b < n" using assms by simp
    from less [OF this] False show ?thesis
      using assms less_le_trans [OF mod_less_divisor [of b n] assms(2)]
      by (simp add: print_base.simps [of b n] read_base_def)
  qed
qed

lemma print_base_inject:
  assumes "2 \<le> b" and "b \<le> 16" and "print_base b n = print_base b m"
  shows "n = m"
  using arg_cong [OF assms(3), of "read_base b"] unfolding read_print_base [OF assms(1,2)] .

lemma print_base_digits:
  assumes "2 \<le> b" and "b \<le> 16"
  shows "set (print_base b n) \<subseteq> digit_char ` {..<b}"
proof (induction n rule: less_induct)
  case (less n)
  show ?case
  proof (cases "n < b")
    case True
    then show ?thesis using assms by (simp add: print_base.simps [of b n])
  next
    case False
    then have "n div b < n" using assms by simp
    from less [OF this] False show ?thesis
      using assms by (simp add: print_base.simps [of b n])
  qed
qed

lemma print_base_ne [simp]: "print_base b n \<noteq> []"
  by (subst print_base.simps) simp

lemma length_print_base:
  assumes "2 \<le> b" and "n < b ^ k" and "0 < k"
  shows "length (print_base b n) \<le> k"
  using assms(2,3)
proof (induction k arbitrary: n)
  case (Suc k)
  show ?case
  proof (cases "n < b")
    case False
    then have "0 < k" using Suc.prems(1) by (cases k) auto
    moreover have "n div b < b ^ k"
      using Suc.prems(1) assms(1) by (simp add: less_mult_imp_div_less mult.commute)
    ultimately show ?thesis using Suc.IH [of "n div b"] False assms(1) by (simp add: print_base.simps [of b n])
  qed (simp add: print_base.simps [of b n])
qed simp

lemma read_pad_left: "read_base b (pad_left k s) = read_base b s"
proof -
  have "foldl (\<lambda>n c. n * b + char_digit c) 0 (replicate m CHR ''0'') = 0" for m
    by (induction m) (simp_all add: char_digit_def)
  then show ?thesis by (simp add: pad_left_def read_base_def)
qed

text \<open>Session identifiers and synchronisation sources: eight digits, different for different numbers.\<close>

lemma length_print_hex8 [simp]: "length (print_hex8 w) = 8"
proof -
  have "unat w < 16 ^ 8" using unat_bound [of w] by simp
  then have "length (print_base 16 (unat w)) \<le> 8" by (intro length_print_base) auto
  then show ?thesis by (simp add: print_hex8_def pad_left_def)
qed

lemma print_hex8_inject: "print_hex8 w = print_hex8 v \<longleftrightarrow> w = v"
proof
  assume "print_hex8 w = print_hex8 v"
  then have "read_base 16 (print_base 16 (unat w)) = read_base 16 (print_base 16 (unat v))"
    by (metis print_hex8_def read_pad_left)
  then show "w = v" by (simp add: read_print_base word_unat_eq_iff)
qed simp

end
