(* ===== verification/Rfc822.thy ===== *)
theory Rfc822
  imports Uri Text
begin

text \<open>
  The messages of the protocols (\<^verbatim>\<open>rfc822proto-constants.h\<close>, \<^verbatim>\<open>rfc822proto.h\<close>,
  \<^verbatim>\<open>rfc822proto.c\<close>, \<^verbatim>\<open>rfc822_response.c\<close>): the enumerations, the header table, requests
  and responses, and the text of a response. Both builds of the name tables are modelled,
  the one with arrays and the one with \<^verbatim>\<open>AVOID_TABLES\<close> (position independent code).
\<close>

section \<open>Enumerations\<close>

datatype RFC822_Protocol =
    RFC822_Protocol_Invalid
  | RFC822_Protocol_Unsupported
  | RFC822_Protocol_RTSP10
  | RFC822_Protocol_RTSP_UnsupportedVersion
  | RFC822_Protocol_HTTP10
  | RFC822_Protocol_HTTP11
  | RFC822_Protocol_HTTP_UnsupportedVersion

text \<open>
  The enumerations \<^verbatim>\<open>RTSP_Header\<close> and \<^verbatim>\<open>HTTP_Header\<close> are subsets of this one with the same
  values, so one type serves for all of them.
\<close>

datatype RFC822_Header =
    Header__Invalid
  | Header__Unsupported
  | Header_Allow
  | Header_Authorization
  | Header_Bandwidth
  | Header_CSeq
  | Header_Content_Base
  | Header_Content_Length
  | Header_Content_Type
  | Header_Date
  | Header_Location
  | Header_Proxy_Require
  | Header_Public
  | Header_RTP_Info
  | Header_Range
  | Header_Referer
  | Header_Require
  | Header_Server
  | Header_Session
  | Header_Speed
  | Header_Timestamp
  | Header_Transport
  | Header_Unsupported
  | Header_User_Agent
  | Header_Cache_Control
  | Header_Connection
  | Header_Expires
  | Header_Pragma
  | Header_x_sessioncookie

primrec header_code :: "RFC822_Header \<Rightarrow> nat" where
  "header_code Header__Invalid = 0"
| "header_code Header__Unsupported = 1"
| "header_code Header_Allow = 2"
| "header_code Header_Authorization = 3"
| "header_code Header_Bandwidth = 4"
| "header_code Header_CSeq = 5"
| "header_code Header_Content_Base = 6"
| "header_code Header_Content_Length = 7"
| "header_code Header_Content_Type = 8"
| "header_code Header_Date = 9"
| "header_code Header_Location = 10"
| "header_code Header_Proxy_Require = 11"
| "header_code Header_Public = 12"
| "header_code Header_RTP_Info = 13"
| "header_code Header_Range = 14"
| "header_code Header_Referer = 15"
| "header_code Header_Require = 16"
| "header_code Header_Server = 17"
| "header_code Header_Session = 18"
| "header_code Header_Speed = 19"
| "header_code Header_Timestamp = 20"
| "header_code Header_Transport = 21"
| "header_code Header_Unsupported = 22"
| "header_code Header_User_Agent = 23"
| "header_code Header_Cache_Control = 24"
| "header_code Header_Connection = 25"
| "header_code Header_Expires = 26"
| "header_code Header_Pragma = 27"
| "header_code Header_x_sessioncookie = 28"

text \<open>All headers, in the order of their codes.\<close>

definition headers_all :: "RFC822_Header list" where
  "headers_all =
    [Header__Invalid, Header__Unsupported, Header_Allow, Header_Authorization,
     Header_Bandwidth, Header_CSeq, Header_Content_Base, Header_Content_Length,
     Header_Content_Type, Header_Date, Header_Location, Header_Proxy_Require, Header_Public,
     Header_RTP_Info, Header_Range, Header_Referer, Header_Require, Header_Server,
     Header_Session, Header_Speed, Header_Timestamp, Header_Transport, Header_Unsupported,
     Header_User_Agent, Header_Cache_Control, Header_Connection, Header_Expires,
     Header_Pragma, Header_x_sessioncookie]"

lemma headers_all_complete: "h \<in> set headers_all"
  by (cases h) (simp_all add: headers_all_def)

lemma headers_all_code: "map header_code headers_all = [0 ..< 29]"
  by (simp add: headers_all_def upt_rec numeral_eq_Suc)

lemma header_code_nth: "i < 29 \<Longrightarrow> header_code (headers_all ! i) = i"
  using nth_map [of i headers_all header_code] headers_all_code by (simp add: headers_all_def)

lemma header_code_less: "header_code h < 29"
  by (cases h) simp_all

lemma headers_all_nth: "headers_all ! header_code h = h"
  by (cases h) (simp_all add: headers_all_def)

lemma header_code_eq_iff [simp]: "header_code h = header_code k \<longleftrightarrow> h = k"
  by (metis headers_all_nth)

text \<open>The order of the codes, which the compiler gives the enumeration.\<close>

instantiation RFC822_Header :: linorder
begin

definition less_eq_RFC822_Header :: "RFC822_Header \<Rightarrow> RFC822_Header \<Rightarrow> bool" where
  "h \<le> k \<longleftrightarrow> header_code h \<le> header_code k"

definition less_RFC822_Header :: "RFC822_Header \<Rightarrow> RFC822_Header \<Rightarrow> bool" where
  "h < k \<longleftrightarrow> header_code h < header_code k"

instance
  by standard (auto simp: less_eq_RFC822_Header_def less_RFC822_Header_def)

end

datatype RTSP_Method =
    RTSP_Method__Invalid
  | RTSP_Method__Unsupported
  | RTSP_Method_DESCRIBE
  | RTSP_Method_OPTIONS
  | RTSP_Method_PAUSE
  | RTSP_Method_PLAY
  | RTSP_Method_SETUP
  | RTSP_Method_TEARDOWN

datatype HTTP_Method =
    HTTP_Method__Invalid
  | HTTP_Method__Unsupported
  | HTTP_Method_GET
  | HTTP_Method_POST

text \<open>
  A request holds the number of its method, since the enumeration depends on its protocol;
  the first two numbers are the same in both.
\<close>

primrec rtsp_method_code :: "RTSP_Method \<Rightarrow> nat" where
  "rtsp_method_code RTSP_Method__Invalid = 0"
| "rtsp_method_code RTSP_Method__Unsupported = 1"
| "rtsp_method_code RTSP_Method_DESCRIBE = 2"
| "rtsp_method_code RTSP_Method_OPTIONS = 3"
| "rtsp_method_code RTSP_Method_PAUSE = 4"
| "rtsp_method_code RTSP_Method_PLAY = 5"
| "rtsp_method_code RTSP_Method_SETUP = 6"
| "rtsp_method_code RTSP_Method_TEARDOWN = 7"

primrec http_method_code :: "HTTP_Method \<Rightarrow> nat" where
  "http_method_code HTTP_Method__Invalid = 0"
| "http_method_code HTTP_Method__Unsupported = 1"
| "http_method_code HTTP_Method_GET = 2"
| "http_method_code HTTP_Method_POST = 3"

text \<open>The status codes of RTSP; those of HTTP are the numbers that both have.\<close>

datatype RTSP_ResponseCode =
    RTSP_Continue
  | RTSP_Ok
  | RTSP_Created
  | RTSP_Accepted
  | RTSP_Found
  | RTSP_BadRequest
  | RTSP_Forbidden
  | RTSP_NotFound
  | RTSP_NotAcceptable
  | RTSP_UnsupportedMediaType
  | RTSP_InternalServerError
  | RTSP_NotImplemented
  | RTSP_ServiceUnavailable
  | RTSP_VersionNotSupported
  | RTSP_ParameterNotUnderstood
  | RTSP_NotEnoughBandwidth
  | RTSP_SessionNotFound
  | RTSP_InvalidMethodInState
  | RTSP_HeaderFieldNotValidforResource
  | RTSP_InvalidRange
  | RTSP_AggregateNotAllowed
  | RTSP_AggregateOnly
  | RTSP_UnsupportedTransport
  | RTSP_OptionNotSupported

primrec status_code :: "RTSP_ResponseCode \<Rightarrow> nat" where
  "status_code RTSP_Continue = 100"
| "status_code RTSP_Ok = 200"
| "status_code RTSP_Created = 201"
| "status_code RTSP_Accepted = 202"
| "status_code RTSP_Found = 302"
| "status_code RTSP_BadRequest = 400"
| "status_code RTSP_Forbidden = 403"
| "status_code RTSP_NotFound = 404"
| "status_code RTSP_NotAcceptable = 406"
| "status_code RTSP_UnsupportedMediaType = 415"
| "status_code RTSP_InternalServerError = 500"
| "status_code RTSP_NotImplemented = 501"
| "status_code RTSP_ServiceUnavailable = 503"
| "status_code RTSP_VersionNotSupported = 505"
| "status_code RTSP_ParameterNotUnderstood = 451"
| "status_code RTSP_NotEnoughBandwidth = 453"
| "status_code RTSP_SessionNotFound = 454"
| "status_code RTSP_InvalidMethodInState = 455"
| "status_code RTSP_HeaderFieldNotValidforResource = 456"
| "status_code RTSP_InvalidRange = 457"
| "status_code RTSP_AggregateNotAllowed = 459"
| "status_code RTSP_AggregateOnly = 460"
| "status_code RTSP_UnsupportedTransport = 461"
| "status_code RTSP_OptionNotSupported = 551"

section \<open>Names of headers and reasons\<close>

text \<open>The switches of the build without tables.\<close>

fun rfc822_header_to_string :: "RFC822_Header \<Rightarrow> string result" where
  "rfc822_header_to_string Header_Allow = Inr ''Allow''"
| "rfc822_header_to_string Header_Authorization = Inr ''Authorization''"
| "rfc822_header_to_string Header_Bandwidth = Inr ''Bandwidth''"
| "rfc822_header_to_string Header_CSeq = Inr ''CSeq''"
| "rfc822_header_to_string Header_Content_Base = Inr ''Content-Base''"
| "rfc822_header_to_string Header_Content_Length = Inr ''Content-Length''"
| "rfc822_header_to_string Header_Content_Type = Inr ''Content-Type''"
| "rfc822_header_to_string Header_Date = Inr ''Date''"
| "rfc822_header_to_string Header_Location = Inr ''Location''"
| "rfc822_header_to_string Header_Proxy_Require = Inr ''Proxy-Require''"
| "rfc822_header_to_string Header_Public = Inr ''Public''"
| "rfc822_header_to_string Header_RTP_Info = Inr ''RTP-Info''"
| "rfc822_header_to_string Header_Range = Inr ''Range''"
| "rfc822_header_to_string Header_Referer = Inr ''Referer''"
| "rfc822_header_to_string Header_Require = Inr ''Require''"
| "rfc822_header_to_string Header_Server = Inr ''Server''"
| "rfc822_header_to_string Header_Session = Inr ''Session''"
| "rfc822_header_to_string Header_Speed = Inr ''Speed''"
| "rfc822_header_to_string Header_Timestamp = Inr ''Timestamp''"
| "rfc822_header_to_string Header_Transport = Inr ''Transport''"
| "rfc822_header_to_string Header_Unsupported = Inr ''Unsupported''"
| "rfc822_header_to_string Header_User_Agent = Inr ''User-Agent''"
| "rfc822_header_to_string Header_Cache_Control = Inr ''Cache-Control''"
| "rfc822_header_to_string Header_Connection = Inr ''Connection''"
| "rfc822_header_to_string Header_Expires = Inr ''Expires''"
| "rfc822_header_to_string Header_Pragma = Inr ''Pragma''"
| "rfc822_header_to_string Header_x_sessioncookie = Inr ''x-sessioncookie''"
| "rfc822_header_to_string _ = Inl Assert_Failed"

definition rtsp_response_reason :: "nat \<Rightarrow> string result" where
  "rtsp_response_reason code =
     (if code = 451 then Inr ''Parameter Not Understood''
      else if code = 453 then Inr ''Not Enough Bandwidth''
      else if code = 454 then Inr ''Session Not Found''
      else if code = 455 then Inr ''Method Not Valid In This State''
      else if code = 456 then Inr ''Header Field Not Valid for Resource''
      else if code = 457 then Inr ''Invalid Range''
      else if code = 459 then Inr ''Aggregate Operation Not Allowed''
      else if code = 460 then Inr ''Only Aggregate Operation Allowed''
      else if code = 461 then Inr ''Unsupported Transport''
      else if code = 551 then Inr ''Option Not Supported''
      else Inl Assert_Failed)"

definition http_response_reason :: "nat \<Rightarrow> string result" where
  "http_response_reason code = Inl Assert_Failed"

definition rfc822_response_reason :: "RFC822_Protocol \<Rightarrow> nat \<Rightarrow> string result" where
  "rfc822_response_reason proto code =
     (if code = 100 then Inr ''Continue''
      else if code = 200 then Inr ''Ok''
      else if code = 201 then Inr ''Created''
      else if code = 202 then Inr ''Accepted''
      else if code = 302 then Inr ''Found''
      else if code = 400 then Inr ''Bad Request''
      else if code = 403 then Inr ''Forbidden''
      else if code = 404 then Inr ''Not Found''
      else if code = 406 then Inr ''Not Acceptable''
      else if code = 415 then Inr ''Unsupported Media Type''
      else if code = 500 then Inr ''Internal Server Error''
      else if code = 501 then Inr ''Not Implemented''
      else if code = 503 then Inr ''Service Unavailable''
      else if code = 505 then Inr ''Protocol Version Not Supported''
      else
        (case proto of
           RFC822_Protocol_RTSP10 \<Rightarrow> rtsp_response_reason code
         | RFC822_Protocol_RTSP_UnsupportedVersion \<Rightarrow> rtsp_response_reason code
         | RFC822_Protocol_HTTP10 \<Rightarrow> http_response_reason code
         | RFC822_Protocol_HTTP11 \<Rightarrow> http_response_reason code
         | RFC822_Protocol_HTTP_UnsupportedVersion \<Rightarrow> http_response_reason code
         | _ \<Rightarrow> Inl Assert_Failed))"

text \<open>
  The build with tables; a missing entry is a NULL pointer there. The arrays of reasons
  are indexed by the status code and have 1000 entries.
\<close>

definition header_names :: "string option list" where
  "header_names =
    [None, None, Some ''Allow'', Some ''Authorization'', Some ''Bandwidth'', Some ''CSeq'',
     Some ''Content-Base'', Some ''Content-Length'', Some ''Content-Type'',
     Some ''Date'', Some ''Location'', Some ''Proxy-Require'', Some ''Public'',
     Some ''RTP-Info'', Some ''Range'', Some ''Referer'', Some ''Require'',
     Some ''Server'', Some ''Session'', Some ''Speed'', Some ''Timestamp'',
     Some ''Transport'', Some ''Unsupported'', Some ''User-Agent'',
     Some ''Cache-Control'', Some ''Connection'', Some ''Expires'', Some ''Pragma'',
     Some ''x-sessioncookie'', None]"

definition rfc822_header_to_string_tables :: "RFC822_Header \<Rightarrow> string option result" where
  "rfc822_header_to_string_tables hdr =
     (if 0 < header_code hdr \<and> header_code hdr < length header_names
      then arr header_names (header_code hdr) else Inl Assert_Failed)"

definition rtsp_reasons :: "(nat \<times> string) list" where
  "rtsp_reasons =
    [(451, ''Parameter Not Understood''),
     (453, ''Not Enough Bandwidth''),
     (454, ''Session Not Found''),
     (455, ''Method Not Valid In This State''),
     (456, ''Header Field Not Valid for Resource''),
     (457, ''Invalid Range''),
     (459, ''Aggregate Operation Not Allowed''),
     (460, ''Only Aggregate Operation Allowed''),
     (461, ''Unsupported Transport''),
     (551, ''Option Not Supported'')]"

definition common_reasons :: "(nat \<times> string) list" where
  "common_reasons =
    [(100, ''Continue''),
     (200, ''Ok''),
     (201, ''Created''),
     (202, ''Accepted''),
     (302, ''Found''),
     (400, ''Bad Request''),
     (403, ''Forbidden''),
     (404, ''Not Found''),
     (406, ''Not Acceptable''),
     (415, ''Unsupported Media Type''),
     (500, ''Internal Server Error''),
     (501, ''Not Implemented''),
     (503, ''Service Unavailable''),
     (505, ''Protocol Version Not Supported'')]"

definition rfc822_response_reason_tables :: "RFC822_Protocol \<Rightarrow> nat \<Rightarrow> string option result" where
  "rfc822_response_reason_tables proto code =
     (if \<not> (100 \<le> code \<and> code \<le> 999) then Inl Assert_Failed
      else
        (case map_of common_reasons code of
           Some r \<Rightarrow> Inr (Some r)
         | None \<Rightarrow>
             (case proto of
                RFC822_Protocol_RTSP10 \<Rightarrow> Inr (map_of rtsp_reasons code)
              | RFC822_Protocol_RTSP_UnsupportedVersion \<Rightarrow> Inr (map_of rtsp_reasons code)
              | RFC822_Protocol_HTTP10 \<Rightarrow> Inr None
              | RFC822_Protocol_HTTP11 \<Rightarrow> Inr None
              | RFC822_Protocol_HTTP_UnsupportedVersion \<Rightarrow> Inr None
              | _ \<Rightarrow> Inl Assert_Failed)))"

fun rfc822_proto_to_string :: "RFC822_Protocol \<Rightarrow> string result" where
  "rfc822_proto_to_string RFC822_Protocol_RTSP10 = Inr ''RTSP/1.0''"
| "rfc822_proto_to_string RFC822_Protocol_RTSP_UnsupportedVersion = Inr ''RTSP/1.0''"
| "rfc822_proto_to_string RFC822_Protocol_HTTP10 = Inr ''HTTP/1.0''"
| "rfc822_proto_to_string RFC822_Protocol_HTTP11 = Inr ''HTTP/1.1''"
| "rfc822_proto_to_string RFC822_Protocol_HTTP_UnsupportedVersion = Inr ''HTTP/1.1''"
| "rfc822_proto_to_string _ = Inl Assert_Failed"

section \<open>Header tables, requests and responses\<close>

type_synonym header_table = "RFC822_Header \<rightharpoonup> string"

definition rfc822_headers_new :: header_table where
  "rfc822_headers_new = Map.empty"

definition rfc822_headers_set :: "header_table \<Rightarrow> RFC822_Header \<Rightarrow> string \<Rightarrow> header_table" where
  "rfc822_headers_set headers hdr value = headers(hdr \<mapsto> value)"

text \<open>The table of a request may be NULL.\<close>

definition rfc822_headers_lookup :: "header_table option \<Rightarrow> RFC822_Header \<Rightarrow> string option" where
  "rfc822_headers_lookup headers hdr = (case headers of None \<Rightarrow> None | Some t \<Rightarrow> t hdr)"

record RFC822_Request =
  proto :: RFC822_Protocol
  method_id :: nat
  method_str :: "string option"
  object :: "string option"
  uri :: "URI option"
  protocol_str :: "string option"
  headers :: "header_table option"

record RFC822_Response =
  resp_proto :: RFC822_Protocol
  status :: nat
  resp_headers :: header_table
  body :: "string option"
  request :: RFC822_Request

text \<open>
  What the responses take from outside: the current time as \<^verbatim>\<open>strftime\<close> prints it, and the
  order in which GLib's hash table visits its keys.
\<close>

record response_env =
  http_timestamp :: string
  header_order :: "header_table \<Rightarrow> RFC822_Header list"

definition response_env_ok :: "'a response_env_scheme \<Rightarrow> bool" where
  "response_env_ok env \<longleftrightarrow>
     (\<forall>t. distinct (header_order env t) \<and> set (header_order env t) = dom t)"

definition copy_header ::
    "RFC822_Request \<Rightarrow> RFC822_Header \<Rightarrow> header_table \<Rightarrow> header_table" where
  "copy_header req hdr t =
     (case rfc822_headers_lookup (headers req) hdr of
        None \<Rightarrow> t
      | Some v \<Rightarrow> rfc822_headers_set t hdr v)"

definition rfc822_response_new ::
    "'a response_env_scheme \<Rightarrow> RFC822_Request \<Rightarrow> nat \<Rightarrow> RFC822_Response" where
  "rfc822_response_new env req code =
     (let t = rfc822_headers_set rfc822_headers_new Header_Server ''v1.0.2'';
          t = rfc822_headers_set t Header_Date (http_timestamp env);
          t = copy_header req Header_CSeq t;
          t = copy_header req Header_Session t;
          t = copy_header req Header_Timestamp t
      in \<lparr>resp_proto = proto req, status = code, resp_headers = t, body = None, request = req\<rparr>)"

definition ENDLINE :: string where
  "ENDLINE = [CHR 0x0D, CHR 0x0A]"

text \<open>One call of \<open>rfc822_response_append_headers\<close> for each header of the table.\<close>

fun rfc822_response_append_headers ::
    "header_table \<Rightarrow> RFC822_Header list \<Rightarrow> string \<Rightarrow> string result" where
  "rfc822_response_append_headers t [] str = Inr str"
| "rfc822_response_append_headers t (hdr # hdrs) str =
     (case (rfc822_header_to_string hdr, t hdr) of
        (Inr name, Some v) \<Rightarrow>
          rfc822_response_append_headers t hdrs (str @ name @ '': '' @ v @ ENDLINE)
      | (Inl err, _) \<Rightarrow> Inl err
      | (Inr name, None) \<Rightarrow> Inl Null_Dereference)"

text \<open>What \<open>rfc822_response_send\<close> hands to \<open>rtsp_write_string\<close>.\<close>

definition rfc822_response_text ::
    "'a response_env_scheme \<Rightarrow> RFC822_Response \<Rightarrow> string result" where
  "rfc822_response_text env r =
     (case (rfc822_proto_to_string (resp_proto r), rfc822_response_reason (resp_proto r) (status r)) of
        (Inr p, Inr reason) \<Rightarrow>
          (case rfc822_response_append_headers (resp_headers r) (header_order env (resp_headers r))
                  (p @ '' '' @ print_nat (status r) @ '' '' @ reason @ ENDLINE) of
             Inl err \<Rightarrow> Inl err
           | Inr str \<Rightarrow>
               (case body r of
                  None \<Rightarrow> Inr (str @ ENDLINE)
                | Some b \<Rightarrow>
                    (case rfc822_header_to_string Header_Content_Length of
                       Inl err \<Rightarrow> Inl err
                     | Inr name \<Rightarrow>
                         Inr (str @ name @ '': '' @ print_nat (length b + 2) @ ENDLINE @ ENDLINE @
                              b @ ENDLINE))))
      | (Inl err, _) \<Rightarrow> Inl err
      | (_, Inl err) \<Rightarrow> Inl err)"

section \<open>The text of a response\<close>

lemma rfc822_header_to_string_ok:
  "rfc822_header_to_string hdr =
     (case header_names ! header_code hdr of None \<Rightarrow> Inl Assert_Failed | Some name \<Rightarrow> Inr name)"
  by (cases hdr) (simp_all add: header_names_def)

definition named_header :: "RFC822_Header \<Rightarrow> bool" where
  "named_header hdr \<longleftrightarrow> hdr \<noteq> Header__Invalid \<and> hdr \<noteq> Header__Unsupported"

definition header_name :: "RFC822_Header \<Rightarrow> string" where
  "header_name hdr = (case rfc822_header_to_string hdr of Inl _ \<Rightarrow> [] | Inr name \<Rightarrow> name)"

lemma named_header_string: "named_header hdr \<Longrightarrow> rfc822_header_to_string hdr = Inr (header_name hdr)"
  by (cases hdr) (simp_all add: named_header_def header_name_def)

definition header_line :: "RFC822_Header \<Rightarrow> string \<Rightarrow> string" where
  "header_line hdr v = header_name hdr @ '': '' @ v @ ENDLINE"

lemma append_headers_text:
  assumes "\<forall>h \<in> set hdrs. named_header h \<and> t h \<noteq> None"
  shows "rfc822_response_append_headers t hdrs str =
           Inr (str @ concat (map (\<lambda>h. header_line h (the (t h))) hdrs))"
  using assms
  by (induction hdrs arbitrary: str) (auto simp: named_header_string header_line_def)

lemma status_code_reason: "\<exists>r. rfc822_response_reason RFC822_Protocol_RTSP10 (status_code c) = Inr r"
  by (cases c) (simp_all add: rfc822_response_reason_def rtsp_response_reason_def)

lemma response_new_named:
  "t = resp_headers (rfc822_response_new env req code) \<Longrightarrow> t h \<noteq> None \<Longrightarrow> named_header h"
  by (auto simp: rfc822_response_new_def copy_header_def rfc822_headers_set_def
      rfc822_headers_new_def named_header_def Let_def split: option.splits if_splits)

section \<open>Properties\<close>

text \<open>C15. Both builds of the name functions agree: the switch returns a name or a reason
  exactly where the table has one. (Elsewhere the tables give a NULL pointer or fail the same
  assertion, while the switch fails an assertion.)\<close>

theorem rfc822_names_agree:
  "(rfc822_header_to_string hdr = Inr name \<longleftrightarrow> rfc822_header_to_string_tables hdr = Inr (Some name)) \<and>
   (rfc822_response_reason p code = Inr reason \<longleftrightarrow>
      rfc822_response_reason_tables p code = Inr (Some reason))"
proof
  show "rfc822_header_to_string hdr = Inr name \<longleftrightarrow> rfc822_header_to_string_tables hdr = Inr (Some name)"
    by (cases hdr) (auto simp: rfc822_header_to_string_tables_def header_names_def arr_def)
  have "100 \<le> code \<and> code \<le> 999"
    if "map_of common_reasons code \<noteq> None \<or> map_of rtsp_reasons code \<noteq> None"
    using that by (auto simp: common_reasons_def rtsp_reasons_def split: if_splits)
  moreover have "rfc822_response_reason p code =
      (case map_of common_reasons code of Some r \<Rightarrow> Inr r | None \<Rightarrow>
         (if p = RFC822_Protocol_RTSP10 \<or> p = RFC822_Protocol_RTSP_UnsupportedVersion
          then case map_of rtsp_reasons code of Some r \<Rightarrow> Inr r | None \<Rightarrow> Inl Assert_Failed
          else Inl Assert_Failed))"
    by (cases p) (simp_all add: rfc822_response_reason_def rtsp_response_reason_def
        http_response_reason_def common_reasons_def rtsp_reasons_def)
  ultimately show "rfc822_response_reason p code = Inr reason \<longleftrightarrow>
      rfc822_response_reason_tables p code = Inr (Some reason)"
    by (cases p) (auto simp: rfc822_response_reason_tables_def split: option.splits)
qed



end
