(* ===== verification/Ragel_Trees.thy ===== *)
theory Ragel_Trees
  imports Ragel_Labels
begin

text \<open>
  Evaluation of many steps of a scanner: the rows and the transitions of a machine are put
  into lookup trees once, and paths through the machine are then read off the trees.
\<close>

section \<open>The trees\<close>

type_synonym ragel_trow = "int list \<times> int list \<times> nat list"

fun ragel_trows :: "nat list \<Rightarrow> nat list \<Rightarrow> int list \<Rightarrow> nat list \<Rightarrow> ragel_trow list" where
  "ragel_trows (sl # sls) (rl # rls) K ts =
     (take sl K, take (2 * rl) (drop sl K), take (Suc (sl + rl)) ts) #
     ragel_trows sls rls (drop (sl + 2 * rl) K) (drop (Suc (sl + rl)) ts)"
| "ragel_trows _ _ K ts = []"

fun ragel_tinfos :: "nat list \<Rightarrow> nat list \<Rightarrow> nat list \<Rightarrow> (nat \<times> nat list) list" where
  "ragel_tinfos acts (s # ss) (a # as) = (s, ragel_ids acts a) # ragel_tinfos acts ss as"
| "ragel_tinfos acts _ _ = []"

text \<open>Row \<open>i\<close> of the tree is that of state \<open>Suc i\<close>; state 0 has no row.\<close>

definition ragel_rtree :: "ragel_tables \<Rightarrow> ragel_trow ltree" where
  "ragel_rtree T =
     lt_of (([], [], []) #
       ragel_trows (tl (r_single_lengths T)) (tl (r_range_lengths T)) (r_trans_keys T) (r_indicies T))"

definition ragel_itree :: "ragel_tables \<Rightarrow> (nat \<times> nat list) ltree" where
  "ragel_itree T = lt_of (ragel_tinfos (r_actions T) (r_trans_targs T) (r_trans_actions T))"

fun trow_step ::
    "(nat \<times> nat list) ltree \<Rightarrow> ragel_trow option \<Rightarrow> int \<Rightarrow> (nat \<times> nat list) option" where
  "trow_step I (Some (ss, rs, ts)) c = lt_get I (ts ! row_index ss rs c)"
| "trow_step I None c = None"

definition tree_step ::
    "ragel_trow ltree \<Rightarrow> (nat \<times> nat list) ltree \<Rightarrow> nat \<Rightarrow> int \<Rightarrow> (nat \<times> nat list) option" where
  "tree_step R I cs c = trow_step I (lt_get R cs) c"

lemma ragel_tinfos_nth:
  assumes "t < length ss" and "length as = length ss"
  shows "t < length (ragel_tinfos acts ss as)"
    and "ragel_tinfos acts ss as ! t = (ss ! t, ragel_ids acts (as ! t))"
  using assms
proof (induction acts ss as arbitrary: t rule: ragel_tinfos.induct)
  case (1 acts s ss a as)
  {
    case 1
    then show ?case using "1.IH" by (cases t) auto
  next
    case 2
    then show ?case using "1.IH" by (cases t) auto
  }
qed auto

lemma ragel_trows_nth:
  assumes "ragel_rows_ok kos sls rls ios k i (drop k K) n" and "cs < length kos" and "k \<le> length K"
  shows "cs < length (ragel_trows sls rls (drop k K) (drop i ts))"
    and "ragel_trows sls rls (drop k K) (drop i ts) ! cs =
           (take (sls ! cs) (drop (kos ! cs) K),
            take (2 * (rls ! cs)) (drop (kos ! cs + sls ! cs) K),
            take (Suc (sls ! cs + rls ! cs)) (drop (ios ! cs) ts))"
proof -
  have "cs < length (ragel_trows sls rls (drop k K) (drop i ts)) \<and>
      ragel_trows sls rls (drop k K) (drop i ts) ! cs =
           (take (sls ! cs) (drop (kos ! cs) K),
            take (2 * (rls ! cs)) (drop (kos ! cs + sls ! cs) K),
            take (Suc (sls ! cs + rls ! cs)) (drop (ios ! cs) ts))"
    using assms
  proof (induction kos arbitrary: sls rls ios k i cs)
    case (Cons ko kos)
    then obtain sl sls' rl rls' io ios' where eqs: "sls = sl # sls'" "rls = rl # rls'" "ios = io # ios'"
      by (cases sls; cases rls; cases ios) auto
    note row = Cons.prems(1) [unfolded eqs ragel_rows_ok.simps]
    then have le: "k + sl + 2 * rl \<le> length K"
      using Cons.prems(3) by (auto simp: is_cons_iff)
    from row have ok: "ko = k" "io = i"
        "ragel_rows_ok kos sls' rls' ios' (k + sl + 2 * rl) (i + sl + rl + 1) (drop (k + sl + 2 * rl) K) n"
      by (simp_all add: ac_simps)
    show ?case
    proof (cases cs)
      case 0
      then show ?thesis using eqs ok by (simp add: add.commute)
    next
      case (Suc cs')
      then have "cs' < length kos" using Cons.prems by simp
      then show ?thesis
        using Cons.IH [OF ok(3) _ le, of cs'] eqs Suc by (simp add: ac_simps)
    qed
  qed simp
  then show "cs < length (ragel_trows sls rls (drop k K) (drop i ts))"
    and "ragel_trows sls rls (drop k K) (drop i ts) ! cs =
           (take (sls ! cs) (drop (kos ! cs) K),
            take (2 * (rls ! cs)) (drop (kos ! cs + sls ! cs) K),
            take (Suc (sls ! cs + rls ! cs)) (drop (ios ! cs) ts))" by auto
qed

context ragel_machine
begin

lemma tree_row:
  assumes cs: "0 < cs" "cs < n_states"
  shows "lt_get (ragel_rtree T) cs =
           Some (ragel_singles T cs, ragel_ranges T cs,
             take (Suc (r_single_lengths T ! cs + r_range_lengths T ! cs))
               (drop (r_index_offsets T ! cs) (r_indicies T)))"
proof -
  obtain c where c: "cs = Suc c" using cs by (cases cs) auto
  let ?rows = "ragel_trows (tl (r_single_lengths T)) (tl (r_range_lengths T)) (r_trans_keys T) (r_indicies T)"
  have ok: "ragel_rows_ok (tl (r_key_offsets T)) (tl (r_single_lengths T))
      (tl (r_range_lengths T)) (tl (r_index_offsets T)) 0 0 (drop 0 (r_trans_keys T))
      (length (r_indicies T))"
    using wf by (simp add: ragel_wf_def)
  have len: "c < length (tl (r_key_offsets T))" using cs c by simp
  note row = ragel_trows_nth [OF ok len, of "r_indicies T", unfolded drop_zero]
  have tls: "tl (r_single_lengths T) ! c = r_single_lengths T ! cs"
      "tl (r_range_lengths T) ! c = r_range_lengths T ! cs"
      "tl (r_index_offsets T) ! c = r_index_offsets T ! cs"
      "tl (r_key_offsets T) ! c = r_key_offsets T ! cs"
    using rows(1,2,3) [OF cs] c cs by (auto simp: nth_tl)
  show ?thesis
    unfolding ragel_rtree_def lt_get_of c using row [unfolded tls]
    by (simp add: ragel_singles_def ragel_ranges_def c)
qed

lemma tree_step_eq:
  assumes cs: "0 < cs" "cs < n_states"
  shows "\<exists>r. tree_step (ragel_rtree T) (ragel_itree T) cs c = Some r \<and> ragel_step T cs c = Inr r"
proof -
  note s = step_eq [OF cs, of c]
  let ?t = "r_indicies T ! ragel_index T cs c"
  let ?i = "row_index (ragel_singles T cs) (ragel_ranges T cs) c"
  have "length (ragel_singles T cs) = r_single_lengths T ! cs"
      "length (ragel_ranges T cs) = 2 * (r_range_lengths T ! cs)"
    using rows(4) [OF cs] by (auto simp: ragel_singles_def ragel_ranges_def)
  then have "?i < Suc (r_single_lengths T ! cs + r_range_lengths T ! cs)"
    using row_index_le [of "ragel_singles T cs" "ragel_ranges T cs" c] by simp
  then have t: "take (Suc (r_single_lengths T ! cs + r_range_lengths T ! cs))
      (drop (r_index_offsets T ! cs) (r_indicies T)) ! ?i = ?t"
    using rows(7) [OF cs] by (simp add: ragel_index_def)
  have "length (r_trans_actions T) = length (r_trans_targs T)"
    using wf by (simp add: ragel_wf_def)
  from ragel_tinfos_nth [OF s(2) this, of "r_actions T"] show ?thesis
    using s(1) t by (simp add: tree_step_def tree_row [OF cs] ragel_itree_def lt_get_of)
qed

end

section \<open>Words and classes\<close>

text \<open>
  A quiet word: the transitions on it run no actions and go through states with \<open>Q\<close>, up to
  the last character, whose transition is \<open>r\<close>.
\<close>

fun ragel_quiet :: "ragel_tables \<Rightarrow> (nat \<Rightarrow> bool) \<Rightarrow> nat \<Rightarrow> int list \<Rightarrow> nat \<times> nat list \<Rightarrow> bool" where
  "ragel_quiet T Q cs [] r = False"
| "ragel_quiet T Q cs [c] r = (ragel_step T cs c = Inr r)"
| "ragel_quiet T Q cs (c # d # xs) r =
     (\<exists>t. ragel_step T cs c = Inr (t, []) \<and> t \<noteq> 0 \<and> Q t \<and> ragel_quiet T Q t (d # xs) r)"

text \<open>The same with the trees, from the result of a step on; first-order, for the simplifier.\<close>

fun tree_word ::
    "ragel_trow ltree \<Rightarrow> (nat \<times> nat list) ltree \<Rightarrow> (nat \<Rightarrow> bool) \<Rightarrow> (nat \<times> nat list) option \<Rightarrow>
     int list \<Rightarrow> nat \<times> nat list \<Rightarrow> bool" where
  "tree_word R I Q (Some (t, [])) (c # d # xs) r =
     (t \<noteq> 0 \<and> Q t \<and> tree_word R I Q (tree_step R I t c) (d # xs) r)"
| "tree_word R I Q (Some (t, [])) [c] r = (t \<noteq> 0 \<and> Q t \<and> tree_step R I t c = Some r)"
| "tree_word R I Q _ _ r = False"

fun tree_quiet ::
    "ragel_trow ltree \<Rightarrow> (nat \<times> nat list) ltree \<Rightarrow> (nat \<Rightarrow> bool) \<Rightarrow> nat \<Rightarrow> int list \<Rightarrow>
     nat \<times> nat list \<Rightarrow> bool" where
  "tree_quiet R I Q cs (c # xs) r = tree_word R I Q (tree_step R I cs c) xs r"
| "tree_quiet R I Q cs [] r = False"

text \<open>All the characters of a list take the same transition.\<close>

fun tree_class ::
    "ragel_trow ltree \<Rightarrow> (nat \<times> nat list) ltree \<Rightarrow> nat \<Rightarrow> int list \<Rightarrow> nat \<times> nat list \<Rightarrow> bool" where
  "tree_class R I cs [] r = True"
| "tree_class R I cs (c # cs') r = (tree_step R I cs c = Some r \<and> tree_class R I cs cs' r)"

context ragel_machine
begin

lemma tree_word_ragel:
  assumes "tree_word (ragel_rtree T) (ragel_itree T) Q tr xs r" and "tr = Some (t, ids)" and "t < n_states"
  shows "ids = [] \<and> t \<noteq> 0 \<and> Q t \<and> ragel_quiet T Q t xs r"
  using assms
proof (induction "ragel_rtree T" "ragel_itree T" Q tr xs r arbitrary: t ids rule: tree_word.induct)
  case (1 Q t' c d xs r)
  obtain u ids' where step: "tree_step (ragel_rtree T) (ragel_itree T) t c = Some (u, ids')"
      "ragel_step T t c = Inr (u, ids')"
    using tree_step_eq [of t c] 1 by auto
  then have "u < n_states" using step_total [of t c] 1 by fastforce
  then show ?case using 1 step by auto
next
  case (2 Q t' c r)
  then show ?case using tree_step_eq [of t c] by auto
qed simp_all

lemma tree_quiet_ragel:
  assumes "tree_quiet (ragel_rtree T) (ragel_itree T) Q cs xs r" and "0 < cs" and "cs < n_states"
  shows "ragel_quiet T Q cs xs r"
proof -
  obtain c ys where xs: "xs = c # ys" using assms(1) by (cases xs) auto
  obtain t ids where step: "tree_step (ragel_rtree T) (ragel_itree T) cs c = Some (t, ids)"
      "ragel_step T cs c = Inr (t, ids)"
    using tree_step_eq [OF assms(2,3), of c] by auto
  then have "t < n_states" using step_total [OF assms(2,3), of c] by fastforce
  moreover have "tree_word (ragel_rtree T) (ragel_itree T) Q (Some (t, ids)) ys r"
    using assms(1) xs step by simp
  ultimately have "ids = [] \<and> t \<noteq> 0 \<and> Q t \<and> ragel_quiet T Q t ys r" by (rule tree_word_ragel [OF _ refl, rotated])
  then show ?thesis using xs step by (cases ys) auto
qed

lemma tree_class_step:
  assumes "tree_class (ragel_rtree T) (ragel_itree T) cs xs r" and "x \<in> set xs"
    and "0 < cs" and "cs < n_states"
  shows "ragel_step T cs x = Inr r"
proof -
  have "tree_step (ragel_rtree T) (ragel_itree T) cs x = Some r"
    using assms(1,2) by (induction xs) auto
  then show ?thesis using tree_step_eq [OF assms(3,4), of x] by auto
qed

end

section \<open>Characters outside every key\<close>

text \<open>
  When every key is in \<open>lo..hi\<close> and the last transition of each row goes to the error
  state without an action, any other character stops the machine wherever it is.
\<close>

fun trow_default :: "int \<Rightarrow> int \<Rightarrow> (nat \<times> nat list) ltree \<Rightarrow> ragel_trow \<Rightarrow> bool" where
  "trow_default lo hi I (ss, rs, ts) \<longleftrightarrow>
     list_all (\<lambda>k. lo \<le> k \<and> k \<le> hi) ss \<and> list_all (\<lambda>k. lo \<le> k \<and> k \<le> hi) rs \<and>
     lt_get I (last ts) = Some (0, [])"

definition ragel_stops :: "ragel_tables \<Rightarrow> int \<Rightarrow> int \<Rightarrow> bool" where
  "ragel_stops T lo hi \<longleftrightarrow>
     list_all (trow_default lo hi (ragel_itree T))
       (ragel_trows (tl (r_single_lengths T)) (tl (r_range_lengths T)) (r_trans_keys T) (r_indicies T))"

text \<open>A byte that stops the machines of the messages, at a position of the memory.\<close>

definition stop_byte :: "string \<Rightarrow> nat \<Rightarrow> bool" where
  "stop_byte msg n \<longleftrightarrow> n < length msg \<and> (c_char (msg ! n) < 9 \<or> 126 < c_char (msg ! n))"

lemma row_index_outside:
  assumes "x \<notin> set ss" and "\<And>j. 2 * j + 1 < length rs \<Longrightarrow> \<not> (rs ! (2 * j) \<le> x \<and> x \<le> rs ! (2 * j + 1))"
  shows "row_index ss rs x = length ss + length rs div 2"
proof -
  have "key_index ss x = None" using assms(1) by (simp add: key_index_None)
  moreover have "range_index rs x = None"
    using assms(2) range_index_Some [of rs x] by (cases "range_index rs x") auto
  ultimately show ?thesis by (simp add: row_index_def)
qed

context ragel_machine
begin

lemma stops_step:
  assumes st: "ragel_stops T lo hi" and cs: "0 < cs" "cs < n_states" and x: "x < lo \<or> hi < x"
  shows "ragel_step T cs x = Inr (0, [])"
proof -
  let ?ss = "ragel_singles T cs" and ?rs = "ragel_ranges T cs"
  let ?n = "r_single_lengths T ! cs + r_range_lengths T ! cs"
  let ?ts = "take (Suc ?n) (drop (r_index_offsets T ! cs) (r_indicies T))"
  have lts: "length ?ts = Suc ?n" using rows(7) [OF cs] by simp
  have default: "trow_default lo hi (ragel_itree T) (?ss, ?rs, ?ts)"
  proof -
    obtain c where c: "cs = Suc c" using cs by (cases cs) auto
    let ?rows = "ragel_trows (tl (r_single_lengths T)) (tl (r_range_lengths T)) (r_trans_keys T) (r_indicies T)"
    have "lt_get (ragel_rtree T) cs = (if c < length ?rows then Some (?rows ! c) else None)"
      unfolding ragel_rtree_def lt_get_of c by simp
    then have "c < length ?rows" "?rows ! c = (?ss, ?rs, ?ts)"
      using tree_row [OF cs] by (auto split: if_splits)
    then show ?thesis using st by (simp add: ragel_stops_def list_all_length del: trow_default.simps) metis
  qed
  have "x \<notin> set ?ss" using default x by (auto simp: list_all_iff)
  moreover have "\<not> (?rs ! (2 * j) \<le> x \<and> x \<le> ?rs ! (2 * j + 1))" if "2 * j + 1 < length ?rs" for j
  proof -
    have "?rs ! (2 * j) \<in> set ?rs" "?rs ! (2 * j + 1) \<in> set ?rs" using that by auto
    then show ?thesis using default x by (force simp: list_all_iff)
  qed
  moreover have len: "length ?ss = r_single_lengths T ! cs" "length ?rs = 2 * (r_range_lengths T ! cs)"
    using rows(4) [OF cs] by (auto simp: ragel_singles_def ragel_ranges_def)
  ultimately have i: "row_index ?ss ?rs x = ?n" using row_index_outside [of x ?ss ?rs] by simp
  have "lt_get (ragel_itree T) (?ts ! ?n) = Some (0, [])"
    using default lts by (simp add: last_conv_nth)
  then have "tree_step (ragel_rtree T) (ragel_itree T) cs x = Some (0, [])"
    unfolding tree_step_def tree_row [OF cs] using i by simp
  then show ?thesis using tree_step_eq [OF cs, of x] by auto
qed

end

section \<open>Rows read in one pass\<close>

text \<open>
  For large machines only the transitions that a proof needs are looked up: the rows are passed
  over once, and the trees are read only for the numbers of the transitions.
\<close>

abbreviation ragel_rows :: "ragel_tables \<Rightarrow> ragel_trow list" where
  "ragel_rows T \<equiv>
     ragel_trows (tl (r_single_lengths T)) (tl (r_range_lengths T)) (r_trans_keys T) (r_indicies T)"

definition row_trans :: "ragel_trow \<Rightarrow> int \<Rightarrow> nat" where
  "row_trans row c = (case row of (ss, rs, ts) \<Rightarrow> ts ! row_index ss rs c)"

text \<open>
  A condition on the transition that each state has on the character \<open>c\<close>; \<open>G\<close> are the transitions.
  The checks are recursive functions without bound variables: the simplifier evaluates a row once.
\<close>

fun in_list :: "nat list \<Rightarrow> nat \<Rightarrow> bool" where
  "in_list [] n = False"
| "in_list (g # G) n = (n = g \<or> in_list G n)"

lemma in_list_iff: "in_list G n \<longleftrightarrow> n \<in> set G"
  by (induction G) auto

fun all_rows :: "int \<Rightarrow> nat list \<Rightarrow> ragel_trow list \<Rightarrow> bool" where
  "all_rows c G [] = True"
| "all_rows c G ((ss, rs, ts) # rows) = (in_list G (ts ! row_index ss rs c) \<and> all_rows c G rows)"

lemma all_rows_iff: "all_rows c G rows \<longleftrightarrow> (\<forall>row \<in> set rows. row_trans row c \<in> set G)"
  by (induction rows) (auto simp: row_trans_def in_list_iff)

definition ragel_all_rows :: "ragel_tables \<Rightarrow> int \<Rightarrow> nat list \<Rightarrow> ((nat \<times> nat list) option \<Rightarrow> bool) \<Rightarrow> bool" where
  "ragel_all_rows T c G Q \<longleftrightarrow>
     all_rows c G (ragel_rows T) \<and> list_all (\<lambda>n. Q (lt_get (ragel_itree T) n)) G"

text \<open>Given transitions: for each state in increasing order, characters with number and transition.\<close>

type_synonym ragel_hits = "(nat \<times> (int list \<times> nat \<times> nat \<times> nat list) list) list"

fun hit_chars :: "ragel_trow \<Rightarrow> nat \<Rightarrow> int list \<Rightarrow> bool" where
  "hit_chars row n [] = True"
| "hit_chars (ss, rs, ts) n (x # xs) = (ts ! row_index ss rs x = n \<and> hit_chars (ss, rs, ts) n xs)"

fun hit_row :: "(int list \<times> nat \<times> nat \<times> nat list) list \<Rightarrow> ragel_trow list \<Rightarrow> bool" where
  "hit_row [] (row # rows) = True"
| "hit_row ((xs, n, r) # cs) (row # rows) = (hit_chars row n xs \<and> hit_row cs (row # rows))"
| "hit_row cs [] = False"

fun hit_rows :: "nat \<Rightarrow> ragel_hits \<Rightarrow> ragel_trow list \<Rightarrow> bool" where
  "hit_rows k [] rows = True"
| "hit_rows k ((s, cs) # hs) rows =
     (k \<le> s \<and> hit_row cs (drop (s - k) rows) \<and> hit_rows s hs (drop (s - k) rows))"

fun hit_infos :: "(nat \<times> nat list) ltree \<Rightarrow> (int list \<times> nat \<times> nat \<times> nat list) list \<Rightarrow> bool" where
  "hit_infos I [] = True"
| "hit_infos I ((xs, n, r) # cs) = (lt_get I n = Some r \<and> hit_infos I cs)"

lemma hit_chars_iff: "hit_chars row n xs \<longleftrightarrow> (\<forall>x \<in> set xs. row_trans row x = n)"
  by (induction row n xs rule: hit_chars.induct) (auto simp: row_trans_def)

lemma hit_row_iff: "hit_row cs (row # rows) \<longleftrightarrow> (\<forall>(xs, n, r) \<in> set cs. hit_chars row n xs)"
  by (induction cs) auto

lemma hit_infos_iff: "hit_infos I cs \<longleftrightarrow> (\<forall>(xs, n, r) \<in> set cs. lt_get I n = Some r)"
  by (induction cs) auto

definition ragel_hits_ok :: "ragel_tables \<Rightarrow> ragel_hits \<Rightarrow> bool" where
  "ragel_hits_ok T hs \<longleftrightarrow>
     hit_rows 1 hs (ragel_rows T) \<and> hit_infos (ragel_itree T) (concat (map snd hs))"

lemma hit_rows_nth:
  assumes "hit_rows k hs (drop (k - 1) rows)" and "1 \<le> k" and "(s, cs) \<in> set hs"
  shows "0 < s \<and> s - 1 < length rows \<and>
    (\<forall>(xs, n, r) \<in> set cs. \<forall>x \<in> set xs. row_trans (rows ! (s - 1)) x = n)"
  using assms
proof (induction hs arbitrary: k)
  case (Cons h hs)
  obtain s' cs' where h: "h = (s', cs')" by force
  from Cons.prems h have d: "drop (s' - k) (drop (k - 1) rows) = drop (s' - 1) rows" "k \<le> s'" by simp_all
  show ?case
  proof (cases "(s, cs) = (s', cs')")
    case True
    then obtain row rs where "drop (s - 1) rows = row # rs"
      using Cons.prems h d by (cases "drop (s - 1) rows") auto
    moreover from this have "s - 1 < length rows" by (cases "s - 1 < length rows") auto
    moreover from calculation have "rows ! (s - 1) = row" by (simp add: Cons_nth_drop_Suc [symmetric])
    ultimately show ?thesis using Cons.prems h d True by (fastforce simp: hit_row_iff hit_chars_iff)
  next
    case False
    then have "(s, cs) \<in> set hs" using Cons.prems(3) h by auto
    moreover have "hit_rows s' hs (drop (s' - 1) rows)" "1 \<le> s'" using Cons.prems(1,2) h d by simp_all
    ultimately show ?thesis using Cons.IH [of s'] by simp
  qed
qed simp

context ragel_machine
begin

lemma row_step:
  assumes cs: "0 < cs" "cs < n_states"
  shows "cs - 1 < length (ragel_rows T) \<and>
    (\<exists>r. lt_get (ragel_itree T) (row_trans (ragel_rows T ! (cs - 1)) c) = Some r \<and> ragel_step T cs c = Inr r)"
proof -
  obtain d where d: "cs = Suc d" using cs by (cases cs) auto
  obtain r where r: "tree_step (ragel_rtree T) (ragel_itree T) cs c = Some r" "ragel_step T cs c = Inr r"
    using tree_step_eq [OF cs, of c] by blast
  have "lt_get (ragel_rtree T) cs = (if d < length (ragel_rows T) then Some (ragel_rows T ! d) else None)"
    unfolding ragel_rtree_def lt_get_of d by simp
  then have "d < length (ragel_rows T)" "lt_get (ragel_rtree T) cs = Some (ragel_rows T ! d)"
    using tree_row [OF cs] by (auto split: if_splits)
  then show ?thesis using r d by (cases "ragel_rows T ! d") (auto simp: tree_step_def row_trans_def)
qed

lemma all_rows_step:
  assumes "ragel_all_rows T c G Q" and cs: "0 < cs" "cs < n_states"
  shows "\<exists>r. ragel_step T cs c = Inr r \<and> Q (Some r)"
  using assms(1) row_step [OF cs, of c] unfolding ragel_all_rows_def all_rows_iff
  by (metis in_set_conv_nth list_all_iff nth_mem)

lemma hits_step:
  assumes "ragel_hits_ok T hs" and "list_all (\<lambda>(s, cs). s < n_states) hs"
  shows "list_all (\<lambda>(s, cs). list_all (\<lambda>(xs, n, r). list_all (\<lambda>x. ragel_step T s x = Inr r) xs) cs) hs"
proof -
  have "ragel_step T s x = Inr r" if "(s, cs) \<in> set hs" "(xs, n, r) \<in> set cs" "x \<in> set xs" for s cs xs n r x
  proof -
    have "0 < s" "row_trans (ragel_rows T ! (s - 1)) x = n"
      using hit_rows_nth [of 1 hs "ragel_rows T" s cs] assms(1) that by (fastforce simp: ragel_hits_ok_def)+
    moreover have "s < n_states" "lt_get (ragel_itree T) n = Some r"
      using assms that by (fastforce simp: ragel_hits_ok_def list_all_iff hit_infos_iff)+
    ultimately show ?thesis using row_step [of s x] by auto
  qed
  then show ?thesis by (fastforce simp: list_all_iff)
qed

end

end
