(* ===== verification/Header_Block.thy ===== *)
theory Header_Block
  imports Rfc822 Ragel_Trees
begin

text \<open>
  Reading a block of headers: what \<^verbatim>\<open>ragel_read_rtsp_headers\<close> and
  \<^verbatim>\<open>ragel_read_http_headers\<close> of \<^verbatim>\<open>ragel_request_line.c\<close> have in common. The two functions
  are the same program over different tables, with different numbers for the actions and
  different headers; they run from-state actions before each character and do not check
  for the end of the buffer. The locale \<open>header_block\<close> is the contract of the tables under
  which both are proved correct.
\<close>

section \<open>The driver with from-state actions\<close>

text \<open>
  \<open>input\<close> is the memory from \<open>p\<close> on, beyond the end of the message too; reading behind it
  is an error. The result is the state, the position and the variables at \<^verbatim>\<open>_out\<close>.
\<close>

fun ragel_exec_from ::
    "ragel_tables \<Rightarrow> nat list \<Rightarrow> (nat \<Rightarrow> nat \<Rightarrow> 'st \<Rightarrow> 'st flow result) \<Rightarrow>
     (nat \<Rightarrow> char \<Rightarrow> nat \<Rightarrow> 'st \<Rightarrow> 'st flow result) \<Rightarrow> nat \<Rightarrow> nat \<Rightarrow> string \<Rightarrow> 'st \<Rightarrow>
     (nat \<times> nat \<times> 'st) result" where
  "ragel_exec_from T fr on_from act cs p input st =
     (case arr fr cs of
        Inl err \<Rightarrow> Inl err
      | Inr a \<Rightarrow>
          (case ragel_action_list (r_actions T) a of
             Inl err \<Rightarrow> Inl err
           | Inr ids \<Rightarrow>
               (case ragel_acts (\<lambda>i c. on_from i) ids NUL p st of
                  Inl err \<Rightarrow> Inl err
                | Inr (Leave st') \<Rightarrow> Inr (cs, Suc p, st')
                | Inr (Go st') \<Rightarrow>
                    (case input of
                       [] \<Rightarrow> Inl Out_Of_Bounds
                     | c # rest \<Rightarrow>
                         (case ragel_step T cs (c_char c) of
                            Inl err \<Rightarrow> Inl err
                          | Inr (cs', ids') \<Rightarrow>
                              (case ragel_acts act ids' c p st' of
                                 Inl err \<Rightarrow> Inl err
                               | Inr (Leave st'') \<Rightarrow> Inr (cs', Suc p, st'')
                               | Inr (Go st'') \<Rightarrow>
                                   if cs' = 0 then Inr (0, p, st'')
                                   else ragel_exec_from T fr on_from act cs' (Suc p) rest st''))))))"

declare ragel_exec_from.simps [simp del]

section \<open>The actions\<close>

record header_scan =
  hdr_code :: RFC822_Header
  header_str :: "nat option"
  header_len :: nat
  hdr_table :: header_table
  read_size :: "nat option"

text \<open>
  \<open>a_str\<close> and \<open>a_len\<close> are the numbers of the actions that mark a value and its length;
  the other actions set the code of the header.
\<close>

definition header_act ::
    "(nat \<Rightarrow> RFC822_Header) \<Rightarrow> nat \<Rightarrow> nat \<Rightarrow> nat \<Rightarrow> char \<Rightarrow> nat \<Rightarrow> header_scan \<Rightarrow>
     header_scan flow result" where
  "header_act code a_str a_len i c p st =
     (if i < a_str then Inr (Go (st\<lparr>hdr_code := code i\<rparr>))
      else if i = a_str then Inr (Go (st\<lparr>header_str := Some p\<rparr>))
      else if i = a_len then
        (case header_str st of
           None \<Rightarrow> Inl Null_Dereference
         | Some m \<Rightarrow> Inr (Go (st\<lparr>header_len := p - m\<rparr>)))
      else Inr (Go st))"

text \<open>The end of a header line (\<open>a_line\<close>), and the end of the block (\<open>a_end\<close>).\<close>

definition header_line_end :: "string \<Rightarrow> nat \<Rightarrow> header_scan \<Rightarrow> header_scan flow result" where
  "header_line_end msg p st =
     (let reset = (\<lambda>st. st\<lparr>hdr_code := Header__Invalid, header_str := None, header_len := 0,
                           read_size := Some p\<rparr>) in
      if hdr_code st \<noteq> Header__Invalid \<and> hdr_code st \<noteq> Header__Unsupported then
        (case header_str st of
           None \<Rightarrow> Inl Null_Dereference
         | Some m \<Rightarrow>
             Inr (Go (reset (st\<lparr>hdr_table := rfc822_headers_set (hdr_table st) (hdr_code st)
                                  (g_strndup (drop m msg) (header_len st))\<rparr>))))
      else Inr (Go (reset st)))"

definition header_from ::
    "string \<Rightarrow> nat \<Rightarrow> nat \<Rightarrow> nat \<Rightarrow> nat \<Rightarrow> header_scan \<Rightarrow> header_scan flow result" where
  "header_from msg a_line a_end i p st =
     (if i = a_line then header_line_end msg p st
      else if i = a_end then Inr (Leave (st\<lparr>read_size := Some p\<rparr>))
      else Inr (Go st))"

definition header_start :: "header_table \<Rightarrow> header_scan" where
  "header_start t = \<lparr>hdr_code = Header__Invalid, header_str = None, header_len = 0,
                     hdr_table = t, read_size = None\<rparr>"

text \<open>
  The returned number, the table that \<^verbatim>\<open>headers\<close> points to, and what was written to
  \<^verbatim>\<open>*read_size\<close>, if anything was. \<open>msg\<close> is the memory at the pointer, \<open>len\<close> the length
  that the caller gives.
\<close>

definition ragel_read_headers ::
    "ragel_tables \<Rightarrow> nat list \<Rightarrow> (nat \<Rightarrow> RFC822_Header) \<Rightarrow> nat \<Rightarrow> nat \<Rightarrow> nat \<Rightarrow> nat \<Rightarrow> nat \<Rightarrow>
     header_table \<Rightarrow> string \<Rightarrow> nat \<Rightarrow> (int \<times> header_table \<times> nat option) result" where
  "ragel_read_headers T fr code a_str a_len a_line a_end first_final t msg len =
     (case ragel_exec_from T fr (header_from msg a_line a_end) (header_act code a_str a_len)
             1 0 msg (header_start t) of
        Inl err \<Rightarrow> Inl err
      | Inr (cs, p, st) \<Rightarrow>
          Inr (if cs < first_final then (if p = len then 0 else -1) else 1,
               hdr_table st, read_size st))"

section \<open>The contract of the tables\<close>

text \<open>
  Labels: 0 for a state in which \<^verbatim>\<open>header_str\<close> may be NULL, 1 where it is set, 2 for the
  state behind a line, which it enters set and leaves NULL.
\<close>

fun header_label_run :: "nat \<Rightarrow> nat \<Rightarrow> bool \<Rightarrow> nat list \<Rightarrow> bool option" where
  "header_label_run a_str a_len b [] = Some b"
| "header_label_run a_str a_len b (i # ids) =
     (if i = a_str then header_label_run a_str a_len True ids
      else if i = a_len \<and> \<not> b then None
      else header_label_run a_str a_len b ids)"

definition header_label_ok :: "nat \<Rightarrow> nat \<Rightarrow> nat \<Rightarrow> nat \<Rightarrow> nat list \<Rightarrow> bool" where
  "header_label_ok a_str a_len l l' ids =
     (case header_label_run a_str a_len (l = 1) ids of
        None \<Rightarrow> False
      | Some b \<Rightarrow> l' = 0 \<or> b)"

text \<open>Characters of values, and white space in them.\<close>

definition header_visible :: "int list" where
  "header_visible = [33..126]"

definition header_blank :: "int list" where
  "header_blank = [9, 32]"

definition header_quiet_state :: "nat \<Rightarrow> nat \<Rightarrow> bool" where
  "header_quiet_state fin t \<longleftrightarrow> t \<noteq> 6 \<and> t \<noteq> fin"

definition header_steps_ok ::
    "ragel_trow ltree \<Rightarrow> (nat \<times> nat list) ltree \<Rightarrow> nat \<Rightarrow> nat \<Rightarrow> nat \<Rightarrow> nat \<Rightarrow> nat \<Rightarrow> bool" where
  "header_steps_ok R I a_str a_len fin crs val \<longleftrightarrow>
     tree_class R I 5 header_visible (val, [a_str]) \<and>
     tree_class R I val header_visible (val, []) \<and>
     tree_class R I val header_blank (val, [a_len]) \<and>
     tree_step R I 4 32 = Some (5, [a_str]) \<and> tree_step R I val 13 = Some (crs, [a_len]) \<and>
     tree_step R I crs 10 = Some (6, []) \<and> tree_step R I 1 13 = Some (2, []) \<and>
     tree_step R I 6 13 = Some (2, []) \<and> tree_step R I 2 10 = Some (fin, [])"

text \<open>The name of a header, from either state that starts a line, up to the colon.\<close>

fun header_name_ok ::
    "ragel_trow ltree \<Rightarrow> (nat \<times> nat list) ltree \<Rightarrow> nat \<Rightarrow> RFC822_Header \<times> nat \<Rightarrow> bool" where
  "header_name_ok R I fin (h, i) \<longleftrightarrow>
     tree_quiet R I (header_quiet_state fin) 1 (map c_char (header_name h @ '':'')) (4, [0, i]) \<and>
     tree_quiet R I (header_quiet_state fin) 6 (map c_char (header_name h @ '':'')) (4, [0, i])"

locale header_block = ragel_machine T n_acts
  for T :: ragel_tables and n_acts :: nat +
  fixes fr :: "nat list"
    and code :: "nat \<Rightarrow> RFC822_Header"
    and a_str a_len a_line a_end fin crs val :: nat
    and L :: "nat list"
    and known :: "RFC822_Header list" and code_ids :: "nat list"
  assumes numbers: "a_str \<noteq> 0" "a_len = Suc a_str" "a_line \<noteq> a_end" "fin \<noteq> 6" "6 < n_states"
      "n_states = Suc fin" "0 < crs" "crs < fin" "crs \<noteq> 6" "0 < val" "val < fin" "val \<noteq> 6" "5 < fin"
    and from_len: "length fr = n_states"
    and from_ids: "cs < n_states \<Longrightarrow> ragel_action_list (r_actions T) (fr ! cs) =
      Inr (if cs = 6 then [a_line] else if cs = fin then [a_end] else [])"
    and labels: "ragel_labels_ok T (header_label_ok a_str a_len) L" "L ! 1 = 0" "L ! 6 = 2" "L ! fin = 0"
    and stop_check: "ragel_stops T 9 126"
    and steps_check: "header_steps_ok (ragel_rtree T) (ragel_itree T) a_str a_len fin crs val"
    and names_check: "list_all (header_name_ok (ragel_rtree T) (ragel_itree T) fin) (zip known code_ids)"
      "map code code_ids = known" "list_all (\<lambda>i. i < a_str) code_ids"
    and known_named: "h \<in> set known \<Longrightarrow> named_header h"
begin

lemma stops: "0 < cs \<Longrightarrow> cs < n_states \<Longrightarrow> x < 9 \<or> 126 < x \<Longrightarrow> ragel_step T cs x = Inr (0, [])"
  by (rule stops_step [OF stop_check])

lemma one_step:
  assumes "tree_step (ragel_rtree T) (ragel_itree T) cs c = Some r" and "0 < cs" and "cs < n_states"
  shows "ragel_step T cs c = Inr r"
  using tree_step_eq [OF assms(2,3), of c] assms(1) by auto

lemma class_steps:
  "x \<in> set header_visible \<Longrightarrow> ragel_step T 5 x = Inr (val, [a_str])"
  "x \<in> set header_visible \<Longrightarrow> ragel_step T val x = Inr (val, [])"
  "x \<in> set header_blank \<Longrightarrow> ragel_step T val x = Inr (val, [a_len])"
  using steps_check numbers(5-13) unfolding header_steps_ok_def
  by (auto intro: tree_class_step)

lemma steps:
  "ragel_step T 4 32 = Inr (5, [a_str])" "ragel_step T val 13 = Inr (crs, [a_len])"
  "ragel_step T crs 10 = Inr (6, [])" "cs \<in> {1, 6} \<Longrightarrow> ragel_step T cs 13 = Inr (2, [])"
  "ragel_step T 2 10 = Inr (fin, [])"
  using steps_check numbers(5-13) unfolding header_steps_ok_def
  by (auto intro!: one_step)

lemmas value_first = class_steps(1)
lemmas value_visible = class_steps(2)
lemmas value_blank = class_steps(3)
lemmas line_steps = steps(1-3)
lemmas block_steps = steps(4,5)

lemma names:
  assumes "h \<in> set known" and cs: "cs \<in> {1, 6}"
  shows "\<exists>i. ragel_quiet T (header_quiet_state fin) cs (map c_char (header_name h @ '':'')) (4, [0, i]) \<and>
          i < a_str \<and> code i = h"
proof -
  have len: "length code_ids = length known" using names_check(2) by (metis length_map)
  obtain j where j: "j < length known" "known ! j = h"
    using assms(1) by (auto simp: in_set_conv_nth)
  then have "header_name_ok (ragel_rtree T) (ragel_itree T) fin (h, code_ids ! j)" "code_ids ! j < a_str"
    using names_check(1,3) len by (auto simp: list_all_length)
  moreover have "code (code_ids ! j) = h"
    using names_check(2) j len nth_map [of j code_ids code] by simp
  moreover have "ragel_quiet T (header_quiet_state fin) cs (map c_char (header_name h @ '':'')) (4, [0, code_ids ! j])"
    using calculation(1) cs numbers by (auto intro!: tree_quiet_ragel)
  ultimately show ?thesis by blast
qed

abbreviation from_act :: "string \<Rightarrow> nat \<Rightarrow> nat \<Rightarrow> header_scan \<Rightarrow> header_scan flow result" where
  "from_act msg \<equiv> header_from msg a_line a_end"

abbreviation tr_act :: "nat \<Rightarrow> char \<Rightarrow> nat \<Rightarrow> header_scan \<Rightarrow> header_scan flow result" where
  "tr_act \<equiv> header_act code a_str a_len"

abbreviation exec :: "string \<Rightarrow> nat \<Rightarrow> nat \<Rightarrow> string \<Rightarrow> header_scan \<Rightarrow> (nat \<times> nat \<times> header_scan) result" where
  "exec msg \<equiv> ragel_exec_from T fr (from_act msg) tr_act"

text \<open>What the from-state actions leave, by state.\<close>

definition entry :: "string \<Rightarrow> nat \<Rightarrow> nat \<Rightarrow> header_scan \<Rightarrow> header_scan flow result" where
  "entry msg cs p st =
     (if cs = 6 then header_line_end msg p st
      else if cs = fin then Inr (Leave (st\<lparr>read_size := Some p\<rparr>))
      else Inr (Go st))"

lemma exec_unfold:
  assumes "cs < n_states"
  shows "exec msg cs p input st =
     (case entry msg cs p st of
        Inl err \<Rightarrow> Inl err
      | Inr (Leave st') \<Rightarrow> Inr (cs, Suc p, st')
      | Inr (Go st') \<Rightarrow>
          (case input of
             [] \<Rightarrow> Inl Out_Of_Bounds
           | c # rest \<Rightarrow>
               (case ragel_step T cs (c_char c) of
                  Inl err \<Rightarrow> Inl err
                | Inr (cs', ids') \<Rightarrow>
                    (case ragel_acts tr_act ids' c p st' of
                       Inl err \<Rightarrow> Inl err
                     | Inr (Leave st'') \<Rightarrow> Inr (cs', Suc p, st'')
                     | Inr (Go st'') \<Rightarrow>
                         if cs' = 0 then Inr (0, p, st'')
                         else exec msg cs' (Suc p) rest st''))))"
proof -
  have "ragel_acts (\<lambda>i c. from_act msg i) ids NUL p st = entry msg cs p st"
    if "ids = (if cs = 6 then [a_line] else if cs = fin then [a_end] else [])" for ids
    using that numbers
    by (auto simp: entry_def header_from_def header_line_end_def Let_def split: option.splits)
  then show ?thesis
    using from_ids [OF assms] from_len assms
    by (simp add: ragel_exec_from.simps [of _ _ _ _ cs p input st] arr_def)
qed

lemma exec_step:
  assumes "entry msg cs p st = Inr (Go st')" and "ragel_step T cs (c_char c) = Inr (cs', ids)"
    and "ragel_acts tr_act ids c p st' = Inr (Go st'')" and "cs' \<noteq> 0" and "cs < n_states"
  shows "exec msg cs p (c # rest) st = exec msg cs' (Suc p) rest st''"
  using assms by (simp add: exec_unfold)

end

section \<open>It returns when a byte behind the message stops it\<close>

context header_block
begin

definition good :: "nat \<Rightarrow> header_scan \<Rightarrow> bool" where
  "good l st \<longleftrightarrow> (l \<noteq> 0 \<longrightarrow> header_str st \<noteq> None)"

definition read_upto :: "nat \<Rightarrow> header_scan \<Rightarrow> bool" where
  "read_upto p st \<longleftrightarrow> (case read_size st of None \<Rightarrow> True | Some k \<Rightarrow> k \<le> p)"

lemma acts_run:
  assumes "header_label_run a_str a_len b ids = Some b'" and "b \<longrightarrow> header_str st \<noteq> None"
  shows "\<exists>st'. ragel_acts tr_act ids c p st = Inr (Go st') \<and> (b' \<longrightarrow> header_str st' \<noteq> None) \<and>
           read_size st' = read_size st"
  using assms
proof (induction ids arbitrary: b st)
  case (Cons i ids)
  have "\<exists>b1 st1. tr_act i c p st = Inr (Go st1) \<and> header_label_run a_str a_len b1 ids = Some b' \<and>
      (b1 \<longrightarrow> header_str st1 \<noteq> None) \<and> read_size st1 = read_size st"
    using Cons.prems numbers by (auto simp: header_act_def split: if_splits option.splits)
  then obtain b1 st1 where st1: "tr_act i c p st = Inr (Go st1)" "read_size st1 = read_size st"
      and "header_label_run a_str a_len b1 ids = Some b'" "b1 \<longrightarrow> header_str st1 \<noteq> None"
    by blast
  from Cons.IH [OF this(3,4)] show ?case using st1 by auto
qed auto

lemma entry_good:
  assumes "good (L ! cs) st" and "read_upto p st"
  shows "\<exists>fl. entry msg cs p st = Inr fl \<and>
     (case fl of
        Leave st' \<Rightarrow> cs = fin \<and> read_size st' = Some p
      | Go st' \<Rightarrow> cs \<noteq> fin \<and> (L ! cs = 1 \<longrightarrow> header_str st' \<noteq> None) \<and> read_upto p st')"
  using assms labels numbers
  by (auto simp: entry_def header_line_end_def good_def read_upto_def Let_def split: option.splits)

lemma exec_returns:
  assumes "0 < cs" "cs < n_states" "good (L ! cs) st" "read_upto p st" "stop_byte msg n" "p \<le> n"
  shows "\<exists>cs' p' st'. exec msg cs p (drop p msg) st = Inr (cs', p', st') \<and> read_upto n st' \<and>
           (cs' = 0 \<and> p' \<le> n \<or> cs' = fin \<and> read_size st' = Some (p' - 1) \<and> p' \<le> Suc n)"
  using assms
proof (induction "n - p" arbitrary: cs p st)
  case (0 p cs st)
  then have p: "p = n" by simp
  obtain fl where fl: "entry msg cs p st = Inr fl" "case fl of
        Leave st' \<Rightarrow> cs = fin \<and> read_size st' = Some p
      | Go st' \<Rightarrow> cs \<noteq> fin \<and> (L ! cs = 1 \<longrightarrow> header_str st' \<noteq> None) \<and> read_upto p st'"
    using entry_good 0 by blast
  have "drop p msg = msg ! n # drop (Suc n) msg"
    using "0.prems"(5) p by (simp add: stop_byte_def Cons_nth_drop_Suc)
  moreover have "ragel_step T cs (c_char (msg ! n)) = Inr (0, [])"
    using stops "0.prems" by (simp add: stop_byte_def)
  ultimately show ?case
    using fl "0.prems" p by (cases fl) (auto simp: exec_unfold read_upto_def)
next
  case (Suc k p cs st)
  obtain fl where fl: "entry msg cs p st = Inr fl" "case fl of
        Leave st' \<Rightarrow> cs = fin \<and> read_size st' = Some p
      | Go st' \<Rightarrow> cs \<noteq> fin \<and> (L ! cs = 1 \<longrightarrow> header_str st' \<noteq> None) \<and> read_upto p st'"
    using entry_good Suc by blast
  show ?case
  proof (cases fl)
    case (Leave st')
    then show ?thesis using fl Suc.prems by (auto simp: exec_unfold read_upto_def)
  next
    case (Go st')
    have dr: "drop p msg = msg ! p # drop (Suc p) msg"
      using Suc.prems(5,6) by (simp add: stop_byte_def Cons_nth_drop_Suc)
    obtain cs' ids where step: "ragel_step T cs (c_char (msg ! p)) = Inr (cs', ids)" "cs' < n_states"
      using step_total [OF Suc.prems(1,2)] by blast
    then have "header_label_ok a_str a_len (L ! cs) (L ! cs') ids"
      using labels_step [OF labels(1) Suc.prems(1,2)] by blast
    then obtain b where b: "header_label_run a_str a_len (L ! cs = 1) ids = Some b" "L ! cs' = 0 \<or> b"
      by (auto simp: header_label_ok_def split: option.splits)
    have "L ! cs = 1 \<longrightarrow> header_str st' \<noteq> None" using fl Go by simp
    from acts_run [OF b(1) this] obtain st'' where
      st'': "ragel_acts tr_act ids (msg ! p) p st' = Inr (Go st'')" "b \<longrightarrow> header_str st'' \<noteq> None"
        "read_size st'' = read_size st'" by blast
    have up: "read_upto (Suc p) st''" "read_upto n st''"
      using fl Go st''(3) Suc.hyps(2) by (auto simp: read_upto_def split: option.splits)
    show ?thesis
    proof (cases "cs' = 0")
      case True
      then show ?thesis
        using fl Go dr step st'' up(2) Suc.prems by (auto simp: exec_unfold)
    next
      case False
      have "good (L ! cs') st''" using b(2) st''(2) by (auto simp: good_def)
      then have "\<exists>c p' st'. exec msg cs' (Suc p) (drop (Suc p) msg) st'' = Inr (c, p', st') \<and>
          read_upto n st' \<and>
          (c = 0 \<and> p' \<le> n \<or> c = fin \<and> read_size st' = Some (p' - 1) \<and> p' \<le> Suc n)"
        using Suc.hyps(1) [of "Suc p" cs'] Suc.hyps(2) Suc.prems False step(2) up by simp
      moreover have "exec msg cs p (drop p msg) st = exec msg cs' (Suc p) (drop (Suc p) msg) st''"
        unfolding dr using fl Go step st'' False Suc.prems by (intro exec_step) auto
      ultimately show ?thesis by simp
    qed
  qed
qed

lemma read_headers_returns:
  assumes "stop_byte msg len"
  shows "\<exists>r t' k. ragel_read_headers T fr code a_str a_len a_line a_end fin t msg len = Inr (r, t', k) \<and>
     r \<in> {-1, 0, 1} \<and> (r = 1 \<longrightarrow> k \<noteq> None) \<and> (case k of None \<Rightarrow> True | Some n \<Rightarrow> n \<le> len)"
proof -
  have "good (L ! 1) (header_start t)" "read_upto 0 (header_start t)"
    using labels by (auto simp: good_def read_upto_def header_start_def)
  from exec_returns [OF _ _ this assms] numbers obtain cs' p' st' where
    "exec msg 1 0 msg (header_start t) = Inr (cs', p', st')" "read_upto len st'"
    "cs' = 0 \<and> p' \<le> len \<or> cs' = fin \<and> read_size st' = Some (p' - 1) \<and> p' \<le> Suc len"
    by (auto simp: drop_zero)
  then show ?thesis
    using numbers by (auto simp: ragel_read_headers_def read_upto_def split: option.splits)
qed

end

section \<open>It reads what a client writes\<close>

definition header_value :: "string \<Rightarrow> bool" where
  "header_value v \<longleftrightarrow>
     v \<noteq> [] \<and> c_char (hd v) \<in> set header_visible \<and>
     list_all (\<lambda>c. c_char c \<in> set header_visible \<or> c_char c \<in> set header_blank) v"

definition header_lines :: "(RFC822_Header \<times> string) list \<Rightarrow> string" where
  "header_lines hs = concat (map (\<lambda>(h, v). header_line h v) hs)"

definition headers_set_all :: "(RFC822_Header \<times> string) list \<Rightarrow> header_table \<Rightarrow> header_table" where
  "headers_set_all hs t = fold (\<lambda>(h, v) t. rfc822_headers_set t h v) hs t"

lemma header_value_no_NUL:
  assumes "header_value v"
  shows "NUL \<notin> set v"
proof
  assume "NUL \<in> set v"
  then have "c_char NUL \<in> set header_visible \<or> c_char NUL \<in> set header_blank"
    using assms by (auto simp: header_value_def list_all_iff)
  then show False by (simp add: header_visible_def header_blank_def del: upto_rec_numeral)
qed

lemma c_char_line [simp]:
  "c_char (CHR '' '') = 32" "c_char (CHR 0x0D) = 13" "c_char (CHR 0x0A) = 10"
  by (simp_all add: c_char_def)

context header_block
begin

lemma entry_quiet: "header_quiet_state fin cs \<Longrightarrow> entry msg cs p st = Inr (Go st)"
  by (simp add: entry_def header_quiet_state_def)

lemma exec_quiet:
  assumes "ragel_quiet T (header_quiet_state fin) cs (map c_char w) (t, ids)"
    and "entry msg cs p st = Inr (Go st1)" and "0 < cs" and "cs < n_states" and "t \<noteq> 0"
    and "\<And>c q. ragel_acts tr_act ids c q st1 = Inr (Go st2)"
  shows "exec msg cs p (w @ rest) st = exec msg t (p + length w) rest st2"
  using assms(1-4)
proof (induction w arbitrary: cs p st)
  case (Cons c w)
  show ?case
  proof (cases w)
    case Nil
    then show ?thesis using Cons.prems assms(5,6) by (simp add: exec_step)
  next
    case (Cons d w')
    then obtain u where u: "ragel_step T cs (c_char c) = Inr (u, [])" "u \<noteq> 0" "header_quiet_state fin u"
        "ragel_quiet T (header_quiet_state fin) u (map c_char w) (t, ids)"
      using Cons.prems(1) by auto
    have "u < n_states" using step_total [OF Cons.prems(3,4), of "c_char c"] u(1) by fastforce
    then have "exec msg u (Suc p) (w @ rest) st1 = exec msg t (Suc p + length w) rest st2"
      using Cons.IH [OF u(4) entry_quiet [OF u(3)]] u(2) by simp
    moreover have "exec msg cs p (c # w @ rest) st = exec msg u (Suc p) (w @ rest) st1"
      using Cons.prems u by (intro exec_step) auto
    ultimately show ?thesis by simp
  qed
qed simp

lemma exec_quiet_stop:
  assumes "ragel_quiet T (header_quiet_state fin) cs (map c_char w) (0, [])"
    and "entry msg cs p st = Inr (Go st1)" and "0 < cs" and "cs < n_states"
  shows "exec msg cs p (w @ rest) st = Inr (0, p + length w - 1, st1)"
  using assms
proof (induction w arbitrary: cs p st)
  case (Cons c w)
  show ?case
  proof (cases w)
    case Nil
    then show ?thesis using Cons.prems by (simp add: exec_unfold)
  next
    case (Cons d w')
    then obtain u where u: "ragel_step T cs (c_char c) = Inr (u, [])" "u \<noteq> 0" "header_quiet_state fin u"
        "ragel_quiet T (header_quiet_state fin) u (map c_char w) (0, [])"
      using Cons.prems(1) by auto
    have "u < n_states" using step_total [OF Cons.prems(3,4), of "c_char c"] u(1) by fastforce
    then have "exec msg u (Suc p) (w @ rest) st1 = Inr (0, Suc p + length w - 1, st1)"
      using Cons.IH [OF u(4) entry_quiet [OF u(3)]] u(2) by simp
    moreover have "exec msg cs p (c # w @ rest) st = exec msg u (Suc p) (w @ rest) st1"
      using Cons.prems u by (intro exec_step) auto
    ultimately show ?thesis using Cons by simp
  qed
qed simp

lemma val_quiet: "header_quiet_state fin val" "header_quiet_state fin crs" "header_quiet_state fin 4"
    "header_quiet_state fin 5" "header_quiet_state fin 2" "header_quiet_state fin (Suc 0)"
  using numbers by (auto simp: header_quiet_state_def)

lemma exec_value:
  assumes "list_all (\<lambda>c. c_char c \<in> set header_visible \<or> c_char c \<in> set header_blank) v"
    and "header_str st = Some m"
  shows "\<exists>n. exec msg val p (v @ rest) st = exec msg val (p + length v) rest (st\<lparr>header_len := n\<rparr>)"
  using assms
proof (induction v arbitrary: p st)
  case Nil
  have "st\<lparr>header_len := header_len st\<rparr> = st" by simp
  then show ?case by (metis add_0_right append_Nil list.size(3))
next
  case (Cons c v)
  obtain n where "exec msg val p (c # v @ rest) st = exec msg val (Suc p) (v @ rest) (st\<lparr>header_len := n\<rparr>)"
  proof (cases "c_char c \<in> set header_visible")
    case True
    then have "exec msg val p (c # v @ rest) st = exec msg val (Suc p) (v @ rest) st"
      using numbers value_visible by (intro exec_step) (auto simp: entry_quiet [OF val_quiet(1)])
    then show ?thesis using that [of "header_len st"] by simp
  next
    case False
    then have "c_char c \<in> set header_blank" using Cons.prems by simp
    then have "exec msg val p (c # v @ rest) st = exec msg val (Suc p) (v @ rest) (st\<lparr>header_len := p - m\<rparr>)"
      using numbers value_blank Cons.prems(2)
      by (intro exec_step) (auto simp: entry_quiet [OF val_quiet(1)] header_act_def)
    then show ?thesis using that by blast
  qed
  moreover obtain n' where "exec msg val (Suc p) (v @ rest) (st\<lparr>header_len := n\<rparr>) =
      exec msg val (Suc p + length v) rest (st\<lparr>header_len := n, header_len := n'\<rparr>)"
    using Cons.IH [of "st\<lparr>header_len := n\<rparr>" "Suc p"] Cons.prems by auto
  ultimately show ?case by auto
qed

lemma exec_line:
  assumes h: "h \<in> set known" and v: "header_value v" and cs: "cs \<in> {1, 6}"
    and st1: "entry msg cs p st = Inr (Go st1)"
  shows "exec msg cs p (header_line h v @ rest) st =
           exec msg 6 (p + length (header_line h v)) rest
             (st1\<lparr>hdr_code := h, header_str := Some (p + length (header_name h) + 2),
                  header_len := length v\<rparr>)"
proof -
  obtain i where i: "ragel_quiet T (header_quiet_state fin) cs (map c_char (header_name h @ '':'')) (4, [0, i])"
      "i < a_str" "code i = h"
    using names [OF h cs] by blast
  obtain c v' where cv: "v = c # v'" using v by (auto simp: header_value_def neq_Nil_conv)
  let ?w = "header_name h @ '':''" and ?tail = "CHR 0x0D # CHR 0x0A # rest"
  let ?st2 = "st1\<lparr>hdr_code := h\<rparr>"
  let ?m = "p + length ?w + 1"
  have "exec msg cs p (?w @ '' '' @ v @ ?tail) st =
      exec msg 4 (p + length ?w) (CHR '' '' # v @ ?tail) ?st2"
    using exec_quiet [OF i(1) st1, of ?st2 "'' '' @ v @ ?tail"] cs i(2,3) numbers
    by (auto simp: header_act_def)
  also have "\<dots> = exec msg 5 ?m (c # v' @ ?tail) (?st2\<lparr>header_str := Some (p + length ?w)\<rparr>)"
    using numbers line_steps cv
    by (subst exec_step) (auto simp: entry_quiet [OF val_quiet(3)] header_act_def)
  also have "\<dots> = exec msg val (Suc ?m) (v' @ ?tail) (?st2\<lparr>header_str := Some ?m\<rparr>)"
    using numbers value_first v cv
    by (subst exec_step) (auto simp: entry_quiet [OF val_quiet(4)] header_act_def header_value_def)
  also obtain n where "\<dots> = exec msg val (Suc ?m + length v') ?tail
      (?st2\<lparr>header_str := Some ?m, header_len := n\<rparr>)"
    using exec_value [of v' "?st2\<lparr>header_str := Some ?m\<rparr>" ?m msg "Suc ?m" ?tail] v cv
    by (auto simp: header_value_def)
  also have "\<dots> = exec msg crs (?m + length v + 1) (CHR 0x0A # rest)
      (?st2\<lparr>header_str := Some ?m, header_len := length v\<rparr>)"
    using numbers line_steps cv
    by (subst exec_step) (auto simp: entry_quiet [OF val_quiet(1)] header_act_def)
  also have "\<dots> = exec msg 6 (?m + length v + 2) rest
      (?st2\<lparr>header_str := Some ?m, header_len := length v\<rparr>)"
    using numbers line_steps by (subst exec_step) (auto simp: entry_quiet [OF val_quiet(2)])
  finally show ?thesis by (simp add: header_line_def ENDLINE_def add.assoc)
qed

lemma entry_line_end:
  assumes "h \<in> set known" and "header_value v" and "msg = pre @ header_line h v @ rest"
  shows "entry msg 6 (length (pre @ header_line h v))
      (st1\<lparr>hdr_code := h, header_str := Some (length pre + length (header_name h) + 2),
            header_len := length v\<rparr>) =
     Inr (Go (st1\<lparr>hdr_code := Header__Invalid, header_str := None, header_len := 0,
       hdr_table := rfc822_headers_set (hdr_table st1) h v,
       read_size := Some (length (pre @ header_line h v))\<rparr>))"
proof -
  have "drop (length pre + length (header_name h) + 2) msg = v @ ENDLINE @ rest"
    using assms(3) by (simp add: header_line_def)
  moreover have "h \<noteq> Header__Invalid" "h \<noteq> Header__Unsupported"
    using known_named [OF assms(1)] by (auto simp: named_header_def)
  ultimately show ?thesis
    by (simp add: entry_def header_line_end_def Let_def g_strndup_value [OF header_value_no_NUL [OF assms(2)]])
qed

lemma exec_lines:
  assumes "list_all (\<lambda>(h, v). h \<in> set known \<and> header_value v) hs" and "cs \<in> {1, 6}"
    and "entry msg cs (length pre) st = Inr (Go st1)" and "hdr_code st1 = Header__Invalid"
    and "msg = pre @ header_lines hs @ ENDLINE @ rest"
  shows "\<exists>st'. exec msg cs (length pre) (header_lines hs @ ENDLINE @ rest) st =
      Inr (fin, Suc (length (pre @ header_lines hs @ ENDLINE)), st') \<and>
      hdr_table st' = headers_set_all hs (hdr_table st1) \<and>
      read_size st' = Some (length (pre @ header_lines hs @ ENDLINE))"
  using assms
proof (induction hs arbitrary: cs pre st st1)
  case Nil
  have "exec msg cs (length pre) (CHR 0x0D # CHR 0x0A # rest) st =
      exec msg 2 (Suc (length pre)) (CHR 0x0A # rest) st1"
    using Nil.prems block_steps(1) numbers by (intro exec_step) auto
  also have "\<dots> = exec msg fin (Suc (Suc (length pre))) rest st1"
    using block_steps(2) numbers by (intro exec_step) (auto simp: entry_quiet [OF val_quiet(5)])
  also have "\<dots> = Inr (fin, Suc (Suc (Suc (length pre))), st1\<lparr>read_size := Some (Suc (Suc (length pre)))\<rparr>)"
    using numbers(4,6) by (simp add: exec_unfold entry_def)
  finally show ?case by (simp add: header_lines_def headers_set_all_def ENDLINE_def)
next
  case (Cons hv hs)
  obtain h v where hv: "hv = (h, v)" by (cases hv)
  have ok: "h \<in> set known" "header_value v" using Cons.prems(1) hv by auto
  let ?rest = "header_lines hs @ ENDLINE @ rest"
  have msg: "msg = pre @ header_line h v @ ?rest"
    using Cons.prems(5) hv by (simp add: header_lines_def)
  note line = exec_line [OF ok Cons.prems(2,3), of ?rest]
  note e = entry_line_end [OF ok msg, of st1]
  have msg': "msg = (pre @ header_line h v) @ header_lines hs @ ENDLINE @ rest"
    using msg by simp
  have "list_all (\<lambda>(h, v). h \<in> set known \<and> header_value v) hs" "6 \<in> {1, 6 :: nat}"
    using Cons.prems(1) by auto
  from Cons.IH [OF this e _ msg'] show ?case
    using line hv by (simp add: header_lines_def headers_set_all_def add.assoc)
qed

lemma read_headers_lines:
  assumes "list_all (\<lambda>(h, v). h \<in> set known \<and> header_value v) hs"
  shows "ragel_read_headers T fr code a_str a_len a_line a_end fin t (header_lines hs @ ENDLINE @ rest) len =
     Inr (1, headers_set_all hs t, Some (length (header_lines hs @ ENDLINE)))"
proof -
  let ?msg = "header_lines hs @ ENDLINE @ rest"
  have e: "entry ?msg 1 (length []) (header_start t) = Inr (Go (header_start t))"
    using entry_quiet [OF val_quiet(6)] by simp
  have "\<exists>st'. exec ?msg 1 0 ?msg (header_start t) =
      Inr (fin, Suc (length (header_lines hs @ ENDLINE)), st') \<and>
      hdr_table st' = headers_set_all hs t \<and> read_size st' = Some (length (header_lines hs @ ENDLINE))"
    using exec_lines [OF assms _ e, of rest] by (simp add: header_start_def)
  then show ?thesis by (auto simp: ragel_read_headers_def)
qed

end

end
