(* ===== verification/RTSP_Headers_Tables.thy ===== *)
theory RTSP_Headers_Tables
  imports Ragel_Labels
begin

text \<open>
  The tables of the scanner for RTSP header blocks of \<^verbatim>\<open>ragel_request_line.c\<close>, entry by
  entry, and their well-formedness.
\<close>

definition rtsp_headers_actions :: "nat list" where
  "rtsp_headers_actions =
    [0, 1, 0, 1, 23, 1, 24, 1, 25, 1, 26, 2, 0, 1, 2, 0, 2, 2, 0, 3, 2, 0, 4, 2, 0, 5, 2, 0, 6,
     2, 0, 7, 2, 0, 8, 2, 0, 9, 2, 0, 10, 2, 0, 11, 2, 0, 12, 2, 0, 13, 2, 0, 14, 2, 0, 15, 2,
     0, 16, 2, 0, 17, 2, 0, 18, 2, 0, 19, 2, 0, 20, 2, 0, 21, 2, 0, 22, 2, 23, 24]"

definition rtsp_headers_key_offsets :: "nat list" where
  "rtsp_headers_key_offsets =
    [0, 0, 32, 34, 45, 49, 55, 87, 102, 115, 128, 141, 152, 165, 178, 191, 204, 217, 230, 243,
     256, 269, 282, 295, 306, 319, 332, 345, 358, 371, 384, 397, 410, 421, 436, 449, 462, 475,
     488, 501, 512, 529, 542, 555, 568, 579, 592, 605, 618, 631, 644, 655, 668, 681, 694, 705,
     718, 731, 742, 755, 768, 781, 792, 805, 818, 831, 844, 857, 870, 883, 894, 909, 922, 935,
     948, 959, 972, 985, 998, 1011, 1024, 1037, 1050, 1061, 1074, 1087, 1100, 1113, 1124, 1141,
     1154, 1167, 1180, 1191, 1206, 1219, 1232, 1245, 1258, 1269] @
    [1282, 1295, 1308, 1321, 1332, 1345, 1356, 1369, 1382, 1395, 1408, 1419, 1434, 1449, 1462,
     1475, 1488, 1499, 1512, 1525, 1538, 1551, 1562, 1575, 1588, 1601, 1612, 1627, 1640, 1653,
     1666, 1679, 1692, 1705, 1718, 1729, 1742, 1755, 1768, 1781, 1794, 1807, 1820, 1831, 1846,
     1859, 1872, 1885, 1898, 1911, 1924, 1937, 1950, 1963, 1974, 1987, 2000, 2011, 2024, 2037,
     2050, 2063, 2076, 2087, 2089, 2095]"

definition rtsp_headers_trans_keys_1 :: "int list" where
  "rtsp_headers_trans_keys_1 =
    [10, 13, 65, 66, 67, 68, 76, 80, 82, 83, 84, 85, 95, 97, 98, 99, 100, 108, 112, 114, 115,
     116, 117, 126, 45, 46, 48, 57, 69, 90, 101, 122, 10, 13, 58, 95, 126, 45, 46, 48, 57, 65,
     90, 97, 122, 9, 32, 33, 126, 9, 10, 13, 32, 33, 126, 10, 13, 65, 66, 67, 68, 76, 80, 82,
     83, 84, 85, 95, 97, 98, 99, 100, 108, 112, 114, 115, 116, 117, 126, 45, 46, 48, 57, 69,
     90, 101, 122, 58, 76, 85, 95, 108, 117, 126, 45, 46, 48, 57, 65, 90] @
    [97, 122, 58, 76, 95, 108, 126, 45, 46, 48, 57, 65, 90, 97, 122, 58, 79, 95, 111, 126, 45,
     46, 48, 57, 65, 90, 97, 122, 58, 87, 95, 119, 126, 45, 46, 48, 57, 65, 90, 97, 122, 58,
     95, 126, 45, 46, 48, 57, 65, 90, 97, 122, 58, 84, 95, 116, 126, 45, 46, 48, 57, 65, 90,
     97, 122, 58, 72, 95, 104, 126, 45, 46, 48, 57, 65, 90, 97, 122, 58, 79, 95, 111, 126, 45,
     46, 48, 57, 65, 90, 97, 122, 58, 82, 95, 114, 126, 45, 46, 48, 57] @
    [65, 90, 97, 122, 58, 73, 95, 105, 126, 45, 46, 48, 57, 65, 90, 97, 122, 58, 90, 95, 122,
     126, 45, 46, 48, 57, 65, 89, 97, 121, 58, 65, 95, 97, 126, 45, 46, 48, 57, 66, 90, 98,
     122, 58, 84, 95, 116, 126, 45, 46, 48, 57, 65, 90, 97, 122, 58, 73, 95, 105, 126, 45, 46,
     48, 57, 65, 90, 97, 122, 58, 79, 95, 111, 126, 45, 46, 48, 57, 65, 90, 97, 122, 58, 78,
     95, 110, 126, 45, 46, 48, 57, 65, 90, 97, 122, 58, 95, 126, 45, 46] @
    [48, 57, 65, 90, 97, 122, 58, 65, 95, 97, 126, 45, 46, 48, 57, 66, 90, 98, 122, 58, 78, 95,
     110, 126, 45, 46, 48, 57, 65, 90, 97, 122, 58, 68, 95, 100, 126, 45, 46, 48, 57, 65, 90,
     97, 122, 58, 87, 95, 119, 126, 45, 46, 48, 57, 65, 90, 97, 122, 58, 73, 95, 105, 126, 45,
     46, 48, 57, 65, 90, 97, 122, 58, 68, 95, 100, 126, 45, 46, 48, 57, 65, 90, 97, 122, 58,
     84, 95, 116, 126, 45, 46, 48, 57, 65, 90, 97, 122, 58, 72, 95] @
    [104, 126, 45, 46, 48, 57, 65, 90, 97, 122, 58, 95, 126, 45, 46, 48, 57, 65, 90, 97, 122,
     58, 79, 83, 95, 111, 115, 126, 45, 46, 48, 57, 65, 90, 97, 122, 58, 78, 95, 110, 126, 45,
     46, 48, 57, 65, 90, 97, 122, 58, 84, 95, 116, 126, 45, 46, 48, 57, 65, 90, 97, 122, 58,
     69, 95, 101, 126, 45, 46, 48, 57, 65, 90, 97, 122, 58, 78, 95, 110, 126, 45, 46, 48, 57,
     65, 90, 97, 122, 58, 84, 95, 116, 126, 45, 46, 48, 57, 65, 90, 97] @
    [122, 45, 46, 58, 95, 126, 48, 57, 65, 90, 97, 122, 58, 66, 76, 84, 95, 98, 108, 116, 126,
     45, 46, 48, 57, 65, 90, 97, 122, 58, 65, 95, 97, 126, 45, 46, 48, 57, 66, 90, 98, 122, 58,
     83, 95, 115, 126, 45, 46, 48, 57, 65, 90, 97, 122, 58, 69, 95, 101, 126, 45, 46, 48, 57,
     65, 90, 97, 122, 58, 95, 126, 45, 46, 48, 57, 65, 90, 97, 122, 58, 69, 95, 101, 126, 45,
     46, 48, 57, 65, 90, 97, 122, 58, 78, 95, 110, 126, 45, 46, 48] @
    [57, 65, 90, 97, 122, 58, 71, 95, 103, 126, 45, 46, 48, 57, 65, 90, 97, 122, 58, 84, 95,
     116, 126, 45, 46, 48, 57, 65, 90, 97, 122, 58, 72, 95, 104, 126, 45, 46, 48, 57, 65, 90,
     97, 122, 58, 95, 126, 45, 46, 48, 57, 65, 90, 97, 122, 58, 89, 95, 121, 126, 45, 46, 48,
     57, 65, 90, 97, 122, 58, 80, 95, 112, 126, 45, 46, 48, 57, 65, 90, 97, 122, 58, 69, 95,
     101, 126, 45, 46, 48, 57, 65, 90, 97, 122, 58, 95, 126, 45, 46, 48] @
    [57, 65, 90, 97, 122, 58, 69, 95, 101, 126, 45, 46, 48, 57, 65, 90, 97, 122, 58, 81, 95,
     113, 126, 45, 46, 48, 57, 65, 90, 97, 122, 58, 95, 126, 45, 46, 48, 57, 65, 90, 97, 122,
     58, 65, 95, 97, 126, 45, 46, 48, 57, 66, 90, 98, 122, 58, 84, 95, 116, 126, 45, 46, 48,
     57, 65, 90, 97, 122, 58, 69, 95, 101, 126, 45, 46, 48, 57, 65, 90, 97, 122, 58, 95, 126,
     45, 46, 48, 57, 65, 90, 97, 122, 58, 79, 95, 111, 126, 45, 46, 48] @
    [57, 65, 90, 97, 122, 58, 67, 95, 99, 126, 45, 46, 48, 57, 65, 90, 97, 122, 58, 65, 95, 97,
     126, 45, 46, 48, 57, 66, 90, 98, 122, 58, 84, 95, 116, 126, 45, 46, 48, 57, 65, 90, 97,
     122, 58, 73, 95, 105, 126, 45, 46, 48, 57, 65, 90, 97, 122, 58, 79, 95, 111, 126, 45, 46,
     48, 57, 65, 90, 97, 122, 58, 78, 95, 110, 126, 45, 46, 48, 57, 65, 90, 97, 122, 58, 95,
     126, 45, 46, 48, 57, 65, 90, 97, 122, 58, 82, 85, 95, 114, 117] @
    [126, 45, 46, 48, 57, 65, 90, 97, 122, 58, 79, 95, 111, 126, 45, 46, 48, 57, 65, 90, 97,
     122, 58, 88, 95, 120, 126, 45, 46, 48, 57, 65, 90, 97, 122, 58, 89, 95, 121, 126, 45, 46,
     48, 57, 65, 90, 97, 122, 45, 46, 58, 95, 126, 48, 57, 65, 90, 97, 122, 58, 82, 95, 114,
     126, 45, 46, 48, 57, 65, 90, 97, 122, 58, 69, 95, 101, 126, 45, 46, 48, 57, 65, 90, 97,
     122, 58, 81, 95, 113, 126, 45, 46, 48, 57, 65, 90, 97, 122, 58, 85] @
    [95, 117, 126, 45, 46, 48, 57, 65, 90, 97, 122, 58, 73, 95, 105, 126, 45, 46, 48, 57, 65,
     90, 97, 122, 58, 82, 95, 114, 126, 45, 46, 48, 57, 65, 90, 97, 122, 58, 69, 95, 101, 126,
     45, 46, 48, 57, 65, 90, 97, 122, 58, 95, 126, 45, 46, 48, 57, 65, 90, 97, 122, 58, 66, 95,
     98, 126, 45, 46, 48, 57, 65, 90, 97, 122, 58, 76, 95, 108, 126, 45, 46, 48, 57, 65, 90,
     97, 122, 58, 73, 95, 105, 126, 45, 46, 48, 57, 65, 90, 97, 122] @
    [58, 67, 95, 99, 126, 45, 46, 48, 57, 65, 90, 97, 122, 58, 95, 126, 45, 46, 48, 57, 65, 90,
     97, 122, 58, 65, 69, 84, 95, 97, 101, 116, 126, 45, 46, 48, 57, 66, 90, 98, 122, 58, 78,
     95, 110, 126, 45, 46, 48, 57, 65, 90, 97, 122, 58, 71, 95, 103, 126, 45, 46, 48, 57, 65,
     90, 97, 122, 58, 69, 95, 101, 126, 45, 46, 48, 57, 65, 90, 97, 122, 58, 95, 126, 45, 46,
     48, 57, 65, 90, 97, 122, 58]"

definition rtsp_headers_trans_keys_2 :: "int list" where
  "rtsp_headers_trans_keys_2 =
    [70, 81, 95, 102, 113, 126, 45, 46, 48, 57, 65, 90, 97, 122, 58, 69, 95, 101, 126, 45, 46,
     48, 57, 65, 90, 97, 122, 58, 82, 95, 114, 126, 45, 46, 48, 57, 65, 90, 97, 122, 58, 69,
     95, 101, 126, 45, 46, 48, 57, 65, 90, 97, 122, 58, 82, 95, 114, 126, 45, 46, 48, 57, 65,
     90, 97, 122, 58, 95, 126, 45, 46, 48, 57, 65, 90, 97, 122, 58, 85, 95, 117, 126, 45, 46,
     48, 57, 65, 90, 97, 122, 58, 73, 95, 105, 126, 45, 46, 48, 57, 65] @
    [90, 97, 122, 58, 82, 95, 114, 126, 45, 46, 48, 57, 65, 90, 97, 122, 58, 69, 95, 101, 126,
     45, 46, 48, 57, 65, 90, 97, 122, 58, 95, 126, 45, 46, 48, 57, 65, 90, 97, 122, 58, 80, 95,
     112, 126, 45, 46, 48, 57, 65, 90, 97, 122, 45, 46, 58, 95, 126, 48, 57, 65, 90, 97, 122,
     58, 73, 95, 105, 126, 45, 46, 48, 57, 65, 90, 97, 122, 58, 78, 95, 110, 126, 45, 46, 48,
     57, 65, 90, 97, 122, 58, 70, 95, 102, 126, 45, 46, 48, 57, 65] @
    [90, 97, 122, 58, 79, 95, 111, 126, 45, 46, 48, 57, 65, 90, 97, 122, 58, 95, 126, 45, 46,
     48, 57, 65, 90, 97, 122, 58, 69, 80, 95, 101, 112, 126, 45, 46, 48, 57, 65, 90, 97, 122,
     58, 82, 83, 95, 114, 115, 126, 45, 46, 48, 57, 65, 90, 97, 122, 58, 86, 95, 118, 126, 45,
     46, 48, 57, 65, 90, 97, 122, 58, 69, 95, 101, 126, 45, 46, 48, 57, 65, 90, 97, 122, 58,
     82, 95, 114, 126, 45, 46, 48, 57, 65, 90, 97, 122, 58, 95, 126, 45] @
    [46, 48, 57, 65, 90, 97, 122, 58, 83, 95, 115, 126, 45, 46, 48, 57, 65, 90, 97, 122, 58,
     73, 95, 105, 126, 45, 46, 48, 57, 65, 90, 97, 122, 58, 79, 95, 111, 126, 45, 46, 48, 57,
     65, 90, 97, 122, 58, 78, 95, 110, 126, 45, 46, 48, 57, 65, 90, 97, 122, 58, 95, 126, 45,
     46, 48, 57, 65, 90, 97, 122, 58, 69, 95, 101, 126, 45, 46, 48, 57, 65, 90, 97, 122, 58,
     69, 95, 101, 126, 45, 46, 48, 57, 65, 90, 97, 122, 58, 68, 95, 100] @
    [126, 45, 46, 48, 57, 65, 90, 97, 122, 58, 95, 126, 45, 46, 48, 57, 65, 90, 97, 122, 58,
     73, 82, 95, 105, 114, 126, 45, 46, 48, 57, 65, 90, 97, 122, 58, 77, 95, 109, 126, 45, 46,
     48, 57, 65, 90, 97, 122, 58, 69, 95, 101, 126, 45, 46, 48, 57, 65, 90, 97, 122, 58, 83,
     95, 115, 126, 45, 46, 48, 57, 65, 90, 97, 122, 58, 84, 95, 116, 126, 45, 46, 48, 57, 65,
     90, 97, 122, 58, 65, 95, 97, 126, 45, 46, 48, 57, 66, 90, 98, 122] @
    [58, 77, 95, 109, 126, 45, 46, 48, 57, 65, 90, 97, 122, 58, 80, 95, 112, 126, 45, 46, 48,
     57, 65, 90, 97, 122, 58, 95, 126, 45, 46, 48, 57, 65, 90, 97, 122, 58, 65, 95, 97, 126,
     45, 46, 48, 57, 66, 90, 98, 122, 58, 78, 95, 110, 126, 45, 46, 48, 57, 65, 90, 97, 122,
     58, 83, 95, 115, 126, 45, 46, 48, 57, 65, 90, 97, 122, 58, 80, 95, 112, 126, 45, 46, 48,
     57, 65, 90, 97, 122, 58, 79, 95, 111, 126, 45, 46, 48, 57, 65, 90] @
    [97, 122, 58, 82, 95, 114, 126, 45, 46, 48, 57, 65, 90, 97, 122, 58, 84, 95, 116, 126, 45,
     46, 48, 57, 65, 90, 97, 122, 58, 95, 126, 45, 46, 48, 57, 65, 90, 97, 122, 58, 78, 83, 95,
     110, 115, 126, 45, 46, 48, 57, 65, 90, 97, 122, 58, 83, 95, 115, 126, 45, 46, 48, 57, 65,
     90, 97, 122, 58, 85, 95, 117, 126, 45, 46, 48, 57, 65, 90, 97, 122, 58, 80, 95, 112, 126,
     45, 46, 48, 57, 65, 90, 97, 122, 58, 80, 95, 112, 126, 45, 46] @
    [48, 57, 65, 90, 97, 122, 58, 79, 95, 111, 126, 45, 46, 48, 57, 65, 90, 97, 122, 58, 82,
     95, 114, 126, 45, 46, 48, 57, 65, 90, 97, 122, 58, 84, 95, 116, 126, 45, 46, 48, 57, 65,
     90, 97, 122, 58, 69, 95, 101, 126, 45, 46, 48, 57, 65, 90, 97, 122, 58, 68, 95, 100, 126,
     45, 46, 48, 57, 65, 90, 97, 122, 58, 95, 126, 45, 46, 48, 57, 65, 90, 97, 122, 58, 69, 95,
     101, 126, 45, 46, 48, 57, 65, 90, 97, 122, 58, 82, 95, 114, 126] @
    [45, 46, 48, 57, 65, 90, 97, 122, 45, 46, 58, 95, 126, 48, 57, 65, 90, 97, 122, 58, 65, 95,
     97, 126, 45, 46, 48, 57, 66, 90, 98, 122, 58, 71, 95, 103, 126, 45, 46, 48, 57, 65, 90,
     97, 122, 58, 69, 95, 101, 126, 45, 46, 48, 57, 65, 90, 97, 122, 58, 78, 95, 110, 126, 45,
     46, 48, 57, 65, 90, 97, 122, 58, 84, 95, 116, 126, 45, 46, 48, 57, 65, 90, 97, 122, 58,
     95, 126, 45, 46, 48, 57, 65, 90, 97, 122, 10, 13, 9, 10, 13] @
    [32, 33, 126, 0]"

definition rtsp_headers_trans_keys :: "int list" where
  "rtsp_headers_trans_keys = rtsp_headers_trans_keys_1 @ rtsp_headers_trans_keys_2"

definition rtsp_headers_single_lengths :: "nat list" where
  "rtsp_headers_single_lengths =
    [0, 24, 2, 3, 2, 4, 24, 7, 5, 5, 5, 3, 5, 5, 5, 5, 5, 5, 5, 5, 5, 5, 5, 3, 5, 5, 5, 5, 5,
     5, 5, 5, 3, 7, 5, 5, 5, 5, 5, 5, 9, 5, 5, 5, 3, 5, 5, 5, 5, 5, 3, 5, 5, 5, 3, 5, 5, 3, 5,
     5, 5, 3, 5, 5, 5, 5, 5, 5, 5, 3, 7, 5, 5, 5, 5, 5, 5, 5, 5, 5, 5, 5, 3, 5, 5, 5, 5, 3, 9,
     5, 5, 5, 3, 7, 5, 5, 5, 5, 3, 5] @
    [5, 5, 5, 3, 5, 5, 5, 5, 5, 5, 3, 7, 7, 5, 5, 5, 3, 5, 5, 5, 5, 3, 5, 5, 5, 3, 7, 5, 5, 5,
     5, 5, 5, 5, 3, 5, 5, 5, 5, 5, 5, 5, 3, 7, 5, 5, 5, 5, 5, 5, 5, 5, 5, 3, 5, 5, 5, 5, 5, 5,
     5, 5, 3, 2, 4, 0]"

definition rtsp_headers_range_lengths :: "nat list" where
  "rtsp_headers_range_lengths =
    [0, 4, 0, 4, 1, 1, 4, 4, 4, 4, 4, 4, 4, 4, 4, 4, 4, 4, 4, 4, 4, 4, 4, 4, 4, 4, 4, 4, 4, 4,
     4, 4, 4, 4, 4, 4, 4, 4, 4, 3, 4, 4, 4, 4, 4, 4, 4, 4, 4, 4, 4, 4, 4, 4, 4, 4, 4, 4, 4, 4,
     4, 4, 4, 4, 4, 4, 4, 4, 4, 4, 4, 4, 4, 4, 3, 4, 4, 4, 4, 4, 4, 4, 4, 4, 4, 4, 4, 4, 4, 4,
     4, 4, 4, 4, 4, 4, 4, 4, 4, 4] @
    [4, 4, 4, 4, 4, 3, 4, 4, 4, 4, 4, 4, 4, 4, 4, 4, 4, 4, 4, 4, 4, 4, 4, 4, 4, 4, 4, 4, 4, 4,
     4, 4, 4, 4, 4, 4, 4, 4, 4, 4, 4, 4, 4, 4, 4, 4, 4, 4, 4, 4, 4, 4, 4, 4, 4, 4, 3, 4, 4, 4,
     4, 4, 4, 0, 1, 0]"

definition rtsp_headers_index_offsets :: "nat list" where
  "rtsp_headers_index_offsets =
    [0, 0, 29, 32, 40, 44, 50, 79, 91, 101, 111, 121, 129, 139, 149, 159, 169, 179, 189, 199,
     209, 219, 229, 239, 247, 257, 267, 277, 287, 297, 307, 317, 327, 335, 347, 357, 367, 377,
     387, 397, 406, 420, 430, 440, 450, 458, 468, 478, 488, 498, 508, 516, 526, 536, 546, 554,
     564, 574, 582, 592, 602, 612, 620, 630, 640, 650, 660, 670, 680, 690, 698, 710, 720, 730,
     740, 749, 759, 769, 779, 789, 799, 809, 819, 827, 837, 847, 857, 867, 875, 889, 899, 909,
     919, 927, 939, 949, 959, 969, 979, 987] @
    [997, 1007, 1017, 1027, 1035, 1045, 1054, 1064, 1074, 1084, 1094, 1102, 1114, 1126, 1136,
     1146, 1156, 1164, 1174, 1184, 1194, 1204, 1212, 1222, 1232, 1242, 1250, 1262, 1272, 1282,
     1292, 1302, 1312, 1322, 1332, 1340, 1350, 1360, 1370, 1380, 1390, 1400, 1410, 1418, 1430,
     1440, 1450, 1460, 1470, 1480, 1490, 1500, 1510, 1520, 1528, 1538, 1548, 1557, 1567, 1577,
     1587, 1597, 1607, 1615, 1618, 1624]"

definition rtsp_headers_indicies_1 :: "nat list" where
  "rtsp_headers_indicies_1 =
    [0, 2, 4, 5, 6, 7, 8, 9, 10, 11, 12, 13, 3, 4, 5, 6, 7, 8, 9, 10, 11, 12, 13, 3, 3, 3, 3,
     3, 1, 0, 2, 1, 14, 3, 3, 3, 3, 3, 3, 1, 15, 15, 16, 1, 17, 18, 19, 17, 16, 1, 0, 2, 4, 5,
     6, 7, 8, 9, 10, 11, 12, 13, 3, 4, 5, 6, 7, 8, 9, 10, 11, 12, 13, 3, 3, 3, 3, 3, 1, 14, 20,
     21, 3, 20, 21, 3, 3, 3, 3, 3, 1, 14, 22, 3, 22, 3, 3, 3, 3, 3] @
    [1, 14, 23, 3, 23, 3, 3, 3, 3, 3, 1, 14, 24, 3, 24, 3, 3, 3, 3, 3, 1, 25, 3, 3, 3, 3, 3, 3,
     1, 14, 26, 3, 26, 3, 3, 3, 3, 3, 1, 14, 27, 3, 27, 3, 3, 3, 3, 3, 1, 14, 28, 3, 28, 3, 3,
     3, 3, 3, 1, 14, 29, 3, 29, 3, 3, 3, 3, 3, 1, 14, 30, 3, 30, 3, 3, 3, 3, 3, 1, 14, 31, 3,
     31, 3, 3, 3, 3, 3, 1, 14, 32, 3, 32, 3, 3, 3, 3, 3, 1, 14] @
    [33, 3, 33, 3, 3, 3, 3, 3, 1, 14, 34, 3, 34, 3, 3, 3, 3, 3, 1, 14, 35, 3, 35, 3, 3, 3, 3,
     3, 1, 14, 36, 3, 36, 3, 3, 3, 3, 3, 1, 37, 3, 3, 3, 3, 3, 3, 1, 14, 38, 3, 38, 3, 3, 3, 3,
     3, 1, 14, 39, 3, 39, 3, 3, 3, 3, 3, 1, 14, 40, 3, 40, 3, 3, 3, 3, 3, 1, 14, 41, 3, 41, 3,
     3, 3, 3, 3, 1, 14, 42, 3, 42, 3, 3, 3, 3, 3, 1, 14, 43, 3] @
    [43, 3, 3, 3, 3, 3, 1, 14, 44, 3, 44, 3, 3, 3, 3, 3, 1, 14, 45, 3, 45, 3, 3, 3, 3, 3, 1,
     46, 3, 3, 3, 3, 3, 3, 1, 14, 47, 48, 3, 47, 48, 3, 3, 3, 3, 3, 1, 14, 49, 3, 49, 3, 3, 3,
     3, 3, 1, 14, 50, 3, 50, 3, 3, 3, 3, 3, 1, 14, 51, 3, 51, 3, 3, 3, 3, 3, 1, 14, 52, 3, 52,
     3, 3, 3, 3, 3, 1, 14, 53, 3, 53, 3, 3, 3, 3, 3, 1, 54, 3, 14] @
    [3, 3, 3, 3, 3, 1, 14, 55, 56, 57, 3, 55, 56, 57, 3, 3, 3, 3, 3, 1, 14, 58, 3, 58, 3, 3, 3,
     3, 3, 1, 14, 59, 3, 59, 3, 3, 3, 3, 3, 1, 14, 60, 3, 60, 3, 3, 3, 3, 3, 1, 61, 3, 3, 3, 3,
     3, 3, 1, 14, 62, 3, 62, 3, 3, 3, 3, 3, 1, 14, 63, 3, 63, 3, 3, 3, 3, 3, 1, 14, 64, 3, 64,
     3, 3, 3, 3, 3, 1, 14, 65, 3, 65, 3, 3, 3, 3, 3, 1, 14, 66] @
    [3, 66, 3, 3, 3, 3, 3, 1, 67, 3, 3, 3, 3, 3, 3, 1, 14, 68, 3, 68, 3, 3, 3, 3, 3, 1, 14, 69,
     3, 69, 3, 3, 3, 3, 3, 1, 14, 70, 3, 70, 3, 3, 3, 3, 3, 1, 71, 3, 3, 3, 3, 3, 3, 1, 14, 72,
     3, 72, 3, 3, 3, 3, 3, 1, 14, 73, 3, 73, 3, 3, 3, 3, 3, 1, 74, 3, 3, 3, 3, 3, 3, 1, 14, 75,
     3, 75, 3, 3, 3, 3, 3, 1, 14, 76, 3, 76, 3, 3, 3, 3] @
    [3, 1, 14, 77, 3, 77, 3, 3, 3, 3, 3, 1, 78, 3, 3, 3, 3, 3, 3, 1, 14, 79, 3, 79, 3, 3, 3, 3,
     3, 1, 14, 80, 3, 80, 3, 3, 3, 3, 3, 1, 14, 81, 3, 81, 3, 3, 3, 3, 3, 1, 14, 82, 3, 82, 3,
     3, 3, 3, 3, 1, 14, 83, 3, 83, 3, 3, 3, 3, 3, 1, 14, 84, 3, 84, 3, 3, 3, 3, 3, 1, 14, 85,
     3, 85, 3, 3, 3, 3, 3, 1, 86, 3, 3, 3, 3, 3, 3, 1, 14, 87] @
    [88, 3, 87, 88, 3, 3, 3, 3, 3, 1, 14, 89, 3, 89, 3, 3, 3, 3, 3, 1, 14, 90, 3, 90, 3, 3, 3,
     3, 3, 1, 14, 91, 3, 91, 3, 3, 3, 3, 3, 1, 92, 3, 14, 3, 3, 3, 3, 3, 1, 14, 93, 3, 93, 3,
     3, 3, 3, 3, 1, 14, 94, 3, 94, 3, 3, 3, 3, 3, 1, 14, 95, 3, 95, 3, 3, 3, 3, 3, 1, 14, 96,
     3, 96, 3, 3, 3, 3, 3, 1, 14, 97, 3, 97, 3, 3, 3, 3, 3, 1, 14] @
    [98, 3, 98, 3, 3, 3, 3, 3, 1, 14, 99, 3, 99, 3, 3, 3, 3, 3, 1, 100, 3, 3, 3, 3, 3, 3, 1,
     14, 101, 3, 101, 3, 3, 3, 3, 3, 1, 14, 102, 3, 102, 3, 3, 3, 3, 3, 1, 14, 103, 3, 103, 3,
     3, 3, 3, 3, 1, 14, 104, 3, 104, 3, 3, 3, 3, 3, 1, 105, 3, 3, 3, 3, 3, 3, 1, 14, 106, 107,
     108, 3, 106, 107, 108, 3, 3, 3, 3, 3, 1, 14, 109, 3, 109, 3, 3, 3, 3, 3, 1, 14] @
    [110, 3, 110, 3, 3, 3, 3, 3, 1, 14, 111, 3, 111, 3, 3, 3, 3, 3, 1, 112, 3, 3, 3, 3, 3, 3,
     1, 14, 113, 114, 3, 113, 114, 3, 3, 3, 3, 3, 1, 14, 115, 3, 115, 3, 3, 3, 3, 3, 1, 14,
     116, 3, 116, 3, 3, 3, 3, 3, 1, 14, 117, 3, 117, 3, 3, 3, 3, 3, 1, 14, 118, 3, 118, 3, 3,
     3, 3, 3, 1, 119, 3, 3, 3, 3, 3, 3, 1, 14, 120, 3, 120, 3, 3, 3, 3, 3, 1, 14, 121, 3] @
    [121, 3, 3, 3, 3, 3, 1, 14, 122, 3, 122, 3, 3, 3, 3, 3, 1, 14, 123, 3, 123, 3, 3, 3, 3, 3,
     1, 124, 3, 3, 3, 3, 3, 3, 1, 14, 125, 3, 125, 3, 3, 3, 3, 3, 1, 126, 3, 14, 3, 3, 3, 3, 3,
     1, 14, 127, 3, 127, 3, 3, 3, 3, 3, 1, 14, 128, 3, 128, 3, 3, 3, 3, 3, 1, 14, 129, 3, 129,
     3, 3, 3, 3, 3, 1, 14, 130, 3, 130, 3, 3, 3, 3, 3, 1, 131, 3, 3, 3, 3, 3] @
    [3, 1, 14, 132, 133, 3, 132, 133, 3, 3, 3, 3, 3, 1, 14, 134, 135, 3, 134, 135, 3, 3, 3, 3,
     3, 1, 14, 136, 3, 136, 3, 3, 3, 3, 3, 1, 14, 137, 3, 137, 3, 3, 3, 3, 3, 1, 14, 138, 3,
     138, 3, 3, 3, 3, 3, 1, 139, 3, 3, 3, 3, 3, 3, 1, 14, 140, 3, 140, 3, 3, 3, 3, 3, 1, 14,
     141, 3, 141, 3, 3, 3, 3, 3, 1, 14, 142, 3, 142, 3, 3, 3, 3]"

definition rtsp_headers_indicies_2 :: "nat list" where
  "rtsp_headers_indicies_2 =
    [3, 1, 14, 143, 3, 143, 3, 3, 3, 3, 3, 1, 144, 3, 3, 3, 3, 3, 3, 1, 14, 145, 3, 145, 3, 3,
     3, 3, 3, 1, 14, 146, 3, 146, 3, 3, 3, 3, 3, 1, 14, 147, 3, 147, 3, 3, 3, 3, 3, 1, 148, 3,
     3, 3, 3, 3, 3, 1, 14, 149, 150, 3, 149, 150, 3, 3, 3, 3, 3, 1, 14, 151, 3, 151, 3, 3, 3,
     3, 3, 1, 14, 152, 3, 152, 3, 3, 3, 3, 3, 1, 14, 153, 3, 153, 3, 3, 3, 3, 3, 1] @
    [14, 154, 3, 154, 3, 3, 3, 3, 3, 1, 14, 155, 3, 155, 3, 3, 3, 3, 3, 1, 14, 156, 3, 156, 3,
     3, 3, 3, 3, 1, 14, 157, 3, 157, 3, 3, 3, 3, 3, 1, 158, 3, 3, 3, 3, 3, 3, 1, 14, 159, 3,
     159, 3, 3, 3, 3, 3, 1, 14, 160, 3, 160, 3, 3, 3, 3, 3, 1, 14, 161, 3, 161, 3, 3, 3, 3, 3,
     1, 14, 162, 3, 162, 3, 3, 3, 3, 3, 1, 14, 163, 3, 163, 3, 3, 3, 3, 3, 1, 14, 164] @
    [3, 164, 3, 3, 3, 3, 3, 1, 14, 165, 3, 165, 3, 3, 3, 3, 3, 1, 166, 3, 3, 3, 3, 3, 3, 1, 14,
     167, 168, 3, 167, 168, 3, 3, 3, 3, 3, 1, 14, 169, 3, 169, 3, 3, 3, 3, 3, 1, 14, 170, 3,
     170, 3, 3, 3, 3, 3, 1, 14, 171, 3, 171, 3, 3, 3, 3, 3, 1, 14, 172, 3, 172, 3, 3, 3, 3, 3,
     1, 14, 173, 3, 173, 3, 3, 3, 3, 3, 1, 14, 174, 3, 174, 3, 3, 3, 3, 3, 1, 14, 175] @
    [3, 175, 3, 3, 3, 3, 3, 1, 14, 176, 3, 176, 3, 3, 3, 3, 3, 1, 14, 177, 3, 177, 3, 3, 3, 3,
     3, 1, 178, 3, 3, 3, 3, 3, 3, 1, 14, 179, 3, 179, 3, 3, 3, 3, 3, 1, 14, 180, 3, 180, 3, 3,
     3, 3, 3, 1, 181, 3, 14, 3, 3, 3, 3, 3, 1, 14, 182, 3, 182, 3, 3, 3, 3, 3, 1, 14, 183, 3,
     183, 3, 3, 3, 3, 3, 1, 14, 184, 3, 184, 3, 3, 3, 3, 3, 1, 14, 185, 3, 185, 3] @
    [3, 3, 3, 3, 1, 14, 186, 3, 186, 3, 3, 3, 3, 3, 1, 187, 3, 3, 3, 3, 3, 3, 1, 188, 189, 1,
     190, 18, 19, 190, 191, 1, 1, 0]"

definition rtsp_headers_indicies :: "nat list" where
  "rtsp_headers_indicies = rtsp_headers_indicies_1 @ rtsp_headers_indicies_2"

definition rtsp_headers_trans_targs :: "nat list" where
  "rtsp_headers_trans_targs =
    [165, 0, 2, 3, 7, 24, 33, 58, 62, 70, 88, 111, 126, 143, 4, 5, 164, 5, 6, 163, 8, 12, 9,
     10, 11, 4, 13, 14, 15, 16, 17, 18, 19, 20, 21, 22, 23, 4, 25, 26, 27, 28, 29, 30, 31, 32,
     4, 34, 55, 35, 36, 37, 38, 39, 40, 41, 45, 51, 42, 43, 44, 4, 46, 47, 48, 49, 50, 4, 52,
     53, 54, 4, 56, 57, 4, 59, 60, 61, 4, 63, 64, 65, 66, 67, 68, 69, 4, 71, 83, 72, 73, 74,
     75, 76, 77, 78, 79, 80, 81, 82] @
    [4, 84, 85, 86, 87, 4, 89, 93, 104, 90, 91, 92, 4, 94, 99, 95, 96, 97, 98, 4, 100, 101,
     102, 103, 4, 105, 106, 107, 108, 109, 110, 4, 112, 122, 113, 117, 114, 115, 116, 4, 118,
     119, 120, 121, 4, 123, 124, 125, 4, 127, 135, 128, 129, 130, 131, 132, 133, 134, 4, 136,
     137, 138, 139, 140, 141, 142, 4, 144, 154, 145, 146, 147, 148, 149, 150, 151, 152, 153, 4,
     155, 156, 157, 158, 159, 160, 161, 162, 4, 6, 163, 164, 164]"

definition rtsp_headers_trans_actions :: "nat list" where
  "rtsp_headers_trans_actions =
    [0, 0, 0, 0, 0, 0, 0, 0, 0, 0, 0, 0, 0, 0, 1, 3, 3, 77, 5, 5, 0, 0, 0, 0, 0, 11, 0, 0, 0,
     0, 0, 0, 0, 0, 0, 0, 0, 14, 0, 0, 0, 0, 0, 0, 0, 0, 17, 0, 0, 0, 0, 0, 0, 0, 0, 0, 0, 0,
     0, 0, 0, 23, 0, 0, 0, 0, 0, 26, 0, 0, 0, 29, 0, 0, 20, 0, 0, 0, 32, 0, 0, 0, 0, 0, 0, 0,
     35, 0, 0, 0, 0, 0, 0, 0, 0, 0, 0, 0, 0, 0] @
    [38, 0, 0, 0, 0, 41, 0, 0, 0, 0, 0, 0, 47, 0, 0, 0, 0, 0, 0, 50, 0, 0, 0, 0, 53, 0, 0, 0,
     0, 0, 0, 44, 0, 0, 0, 0, 0, 0, 0, 56, 0, 0, 0, 0, 59, 0, 0, 0, 62, 0, 0, 0, 0, 0, 0, 0, 0,
     0, 65, 0, 0, 0, 0, 0, 0, 0, 68, 0, 0, 0, 0, 0, 0, 0, 0, 0, 0, 0, 71, 0, 0, 0, 0, 0, 0, 0,
     0, 74, 0, 0, 5, 0]"

definition rtsp_headers_from_state_actions :: "nat list" where
  "rtsp_headers_from_state_actions =
    [0, 0, 0, 0, 0, 0, 7, 0, 0, 0, 0, 0, 0, 0, 0, 0, 0, 0, 0, 0, 0, 0, 0, 0, 0, 0, 0, 0, 0, 0,
     0, 0, 0, 0, 0, 0, 0, 0, 0, 0, 0, 0, 0, 0, 0, 0, 0, 0, 0, 0, 0, 0, 0, 0, 0, 0, 0, 0, 0, 0,
     0, 0, 0, 0, 0, 0, 0, 0, 0, 0, 0, 0, 0, 0, 0, 0, 0, 0, 0, 0, 0, 0, 0, 0, 0, 0, 0, 0, 0, 0,
     0, 0, 0, 0, 0, 0, 0, 0, 0, 0] @
    [0, 0, 0, 0, 0, 0, 0, 0, 0, 0, 0, 0, 0, 0, 0, 0, 0, 0, 0, 0, 0, 0, 0, 0, 0, 0, 0, 0, 0, 0,
     0, 0, 0, 0, 0, 0, 0, 0, 0, 0, 0, 0, 0, 0, 0, 0, 0, 0, 0, 0, 0, 0, 0, 0, 0, 0, 0, 0, 0, 0,
     0, 0, 0, 0, 0, 9]"

definition rtsp_headers_tables :: ragel_tables where
  "rtsp_headers_tables =
     \<lparr>r_actions = rtsp_headers_actions,
      r_key_offsets = rtsp_headers_key_offsets,
      r_trans_keys = rtsp_headers_trans_keys,
      r_single_lengths = rtsp_headers_single_lengths,
      r_range_lengths = rtsp_headers_range_lengths,
      r_index_offsets = rtsp_headers_index_offsets,
      r_indicies = rtsp_headers_indicies,
      r_trans_targs = rtsp_headers_trans_targs,
      r_trans_actions = rtsp_headers_trans_actions\<rparr>"

lemmas rtsp_headers_tables_defs =
  rtsp_headers_actions_def
  rtsp_headers_key_offsets_def
  rtsp_headers_trans_keys_1_def
  rtsp_headers_trans_keys_2_def
  rtsp_headers_trans_keys_def
  rtsp_headers_single_lengths_def
  rtsp_headers_range_lengths_def
  rtsp_headers_index_offsets_def
  rtsp_headers_indicies_1_def
  rtsp_headers_indicies_2_def
  rtsp_headers_indicies_def
  rtsp_headers_trans_targs_def
  rtsp_headers_trans_actions_def
  rtsp_headers_from_state_actions_def

lemma rtsp_headers_tables_sel [simp]:
  "r_actions rtsp_headers_tables = rtsp_headers_actions"
  "r_key_offsets rtsp_headers_tables = rtsp_headers_key_offsets"
  "r_trans_keys rtsp_headers_tables = rtsp_headers_trans_keys"
  "r_single_lengths rtsp_headers_tables = rtsp_headers_single_lengths"
  "r_range_lengths rtsp_headers_tables = rtsp_headers_range_lengths"
  "r_index_offsets rtsp_headers_tables = rtsp_headers_index_offsets"
  "r_indicies rtsp_headers_tables = rtsp_headers_indicies"
  "r_trans_targs rtsp_headers_tables = rtsp_headers_trans_targs"
  "r_trans_actions rtsp_headers_tables = rtsp_headers_trans_actions"
  by (simp_all add: rtsp_headers_tables_def)

section \<open>Well-formedness\<close>

lemma rtsp_headers_lengths [simp]:
  "length rtsp_headers_key_offsets = 166"
  "length rtsp_headers_trans_targs = 192"
  "length rtsp_headers_trans_actions = 192"
  "length rtsp_headers_indicies = 1626"
  by (simp_all add: rtsp_headers_tables_defs)

lemma rtsp_headers_rows_ok:
  "ragel_rows_ok (tl rtsp_headers_key_offsets) (tl rtsp_headers_single_lengths) (tl rtsp_headers_range_lengths)
     (tl rtsp_headers_index_offsets) 0 0 rtsp_headers_trans_keys 1626"
  by (simp add: rtsp_headers_tables_defs)

lemma rtsp_headers_indicies_ok: "list_all (\<lambda>t. t < 192) rtsp_headers_indicies"
  by (simp add: rtsp_headers_tables_defs)

lemma rtsp_headers_targs_ok: "list_all (\<lambda>s. s < 166) rtsp_headers_trans_targs"
  by (simp add: rtsp_headers_tables_defs)

lemma rtsp_headers_actions_ok: "list_all (ragel_action_ok rtsp_headers_actions 27) rtsp_headers_trans_actions"
  by (simp add: rtsp_headers_tables_defs ragel_action_ok_def ragel_action_list_def arr_def)

lemma rtsp_headers_tables_wf: "ragel_wf rtsp_headers_tables 27"
  using rtsp_headers_rows_ok rtsp_headers_indicies_ok rtsp_headers_targs_ok rtsp_headers_actions_ok
  by (simp add: ragel_wf_def)

interpretation rtsp_headers: ragel_machine rtsp_headers_tables 27
  by unfold_locales (rule rtsp_headers_tables_wf)

end
