(* ===== verification/RTSP_Headers.thy ===== *)
theory RTSP_Headers
  imports Header_Block RTSP_Headers_Tables
begin

text \<open>
  \<^verbatim>\<open>ragel_read_rtsp_headers\<close> of \<^verbatim>\<open>ragel_request_line.c\<close>: its tables satisfy the contract of
  the header blocks, so that it returns whenever a byte behind the message stops it and it
  reads every block of known headers back.
\<close>

section \<open>The function\<close>

text \<open>The actions that set the code of the header.\<close>

fun rtsp_header_action :: "nat \<Rightarrow> RFC822_Header" where
  "rtsp_header_action i =
     (if i = 0 then Header__Unsupported
      else if i = 1 then Header_Allow
      else if i = 2 then Header_Authorization
      else if i = 3 then Header_Bandwidth
      else if i = 4 then Header_CSeq
      else if i = 5 then Header_Content_Base
      else if i = 6 then Header_Content_Length
      else if i = 7 then Header_Content_Type
      else if i = 8 then Header_Date
      else if i = 9 then Header_Location
      else if i = 10 then Header_Proxy_Require
      else if i = 11 then Header_Public
      else if i = 12 then Header_RTP_Info
      else if i = 13 then Header_Range
      else if i = 14 then Header_Referer
      else if i = 15 then Header_Require
      else if i = 16 then Header_Server
      else if i = 17 then Header_Session
      else if i = 18 then Header_Speed
      else if i = 19 then Header_Timestamp
      else if i = 20 then Header_Transport
      else if i = 21 then Header_Unsupported
      else if i = 22 then Header_User_Agent
      else Header__Invalid)"

definition ragel_read_rtsp_headers ::
    "header_table \<Rightarrow> string \<Rightarrow> nat \<Rightarrow> (int \<times> header_table \<times> nat option) result" where
  "ragel_read_rtsp_headers =
     ragel_read_headers rtsp_headers_tables rtsp_headers_from_state_actions rtsp_header_action 23 24 25 26 165"

section \<open>The contract\<close>

definition rtsp_known_headers :: "RFC822_Header list" where
  "rtsp_known_headers =
    [Header_Allow, Header_Authorization, Header_Bandwidth, Header_CSeq, Header_Content_Base,
     Header_Content_Length, Header_Content_Type, Header_Date, Header_Location,
     Header_Proxy_Require, Header_Public, Header_RTP_Info, Header_Range, Header_Referer,
     Header_Require, Header_Server, Header_Session, Header_Speed, Header_Timestamp,
     Header_Transport, Header_Unsupported, Header_User_Agent]"

definition rtsp_headers_labels :: "nat list" where
  "rtsp_headers_labels =
    replicate 5 0 @ [1] @ [2] @ replicate 156 0 @ replicate 2 1 @ [0]"

lemma rtsp_headers_labels_ok:
  "ragel_labels_ok rtsp_headers_tables (header_label_ok 23 24) rtsp_headers_labels"
  by (simp add: ragel_labels_ok_def rtsp_headers_tables_defs rtsp_headers_labels_def ragel_ids_def
      header_label_ok_def replicate_numeral)

lemma rtsp_headers_stops: "ragel_stops rtsp_headers_tables 9 126"
  by (simp add: ragel_stops_def ragel_itree_def rtsp_headers_tables_defs ragel_ids_def)

lemma rtsp_headers_from:
  "rtsp_headers_from_state_actions = replicate 6 0 @ [7] @ replicate 158 0 @ [9]"
  by (simp add: rtsp_headers_from_state_actions_def replicate_numeral)

lemma rtsp_headers_from_ids:
  assumes "cs < 166"
  shows "ragel_action_list rtsp_headers_actions (rtsp_headers_from_state_actions ! cs) =
    Inr (if cs = 6 then [25] else if cs = 165 then [26] else [])"
proof -
  have "rtsp_headers_from_state_actions ! cs = (if cs = 6 then 7 else if cs = 165 then 9 else 0)"
    using assms by (auto simp: rtsp_headers_from nth_append nth_Cons')
  moreover have "ragel_action_list rtsp_headers_actions 7 = Inr [25]"
      "ragel_action_list rtsp_headers_actions 9 = Inr [26]"
      "ragel_action_list rtsp_headers_actions 0 = Inr []"
    by (simp_all add: rtsp_headers_actions_def ragel_action_list_def arr_def)
  ultimately show ?thesis by simp
qed

lemma rtsp_headers_steps:
  "header_steps_ok (ragel_rtree rtsp_headers_tables) (ragel_itree rtsp_headers_tables) 23 24 165 163 164"
  by (simp add: header_steps_ok_def ragel_rtree_def ragel_itree_def rtsp_headers_tables_defs ragel_ids_def
      header_visible_def header_blank_def tree_step_def row_index_def)

lemma rtsp_headers_names:
  "list_all (header_name_ok (ragel_rtree rtsp_headers_tables) (ragel_itree rtsp_headers_tables) 165)
     (zip rtsp_known_headers [1, 2, 3, 4, 5, 6, 7, 8, 9, 10, 11, 12, 13, 14, 15, 16, 17, 18, 19, 20, 21, 22])"
  by (simp add: ragel_rtree_def ragel_itree_def rtsp_headers_tables_defs ragel_ids_def rtsp_known_headers_def
      header_quiet_state_def tree_step_def row_index_def header_name_def c_char_def)

interpretation rtsp_block: header_block rtsp_headers_tables 27 rtsp_headers_from_state_actions
  rtsp_header_action 23 24 25 26 165 163 164
  rtsp_headers_labels rtsp_known_headers "[1, 2, 3, 4, 5, 6, 7, 8, 9, 10, 11, 12, 13, 14, 15, 16, 17, 18, 19, 20, 21, 22]"
proof
  show "ragel_labels_ok rtsp_headers_tables (header_label_ok 23 24) rtsp_headers_labels"
    by (rule rtsp_headers_labels_ok)
  show "ragel_stops rtsp_headers_tables 9 126" by (rule rtsp_headers_stops)
  show "header_steps_ok (ragel_rtree rtsp_headers_tables) (ragel_itree rtsp_headers_tables) 23 24 165 163 164"
    by (rule rtsp_headers_steps)
  show "list_all (header_name_ok (ragel_rtree rtsp_headers_tables) (ragel_itree rtsp_headers_tables) 165)
     (zip rtsp_known_headers [1, 2, 3, 4, 5, 6, 7, 8, 9, 10, 11, 12, 13, 14, 15, 16, 17, 18, 19, 20, 21, 22])" by (rule rtsp_headers_names)
  show "map rtsp_header_action [1, 2, 3, 4, 5, 6, 7, 8, 9, 10, 11, 12, 13, 14, 15, 16, 17, 18, 19, 20, 21, 22] = rtsp_known_headers"
    by (simp add: rtsp_known_headers_def)
  show "ragel_action_list (r_actions rtsp_headers_tables) (rtsp_headers_from_state_actions ! cs) =
      Inr (if cs = 6 then [25] else if cs = 165 then [26] else [])"
    if "cs < length (r_key_offsets rtsp_headers_tables)" for cs
    using that rtsp_headers_from_ids by simp
  show "length rtsp_headers_from_state_actions = length (r_key_offsets rtsp_headers_tables)"
    by (simp add: rtsp_headers_from)
  show "named_header h" if "h \<in> set rtsp_known_headers" for h
    using that by (auto simp: rtsp_known_headers_def named_header_def)
qed (simp_all add: rtsp_headers_labels_def rtsp_known_headers_def nth_append nth_Cons')

section \<open>Properties\<close>

text \<open>C11. Reading a block of RTSP headers returns, without reading outside the tables or
  copying from a NULL pointer, whenever the byte behind the message is one that the scanner
  stops at: the result is -1, 0 or 1, what it writes to \<^verbatim>\<open>*read_size\<close> is at most the length of
  the message, and it writes it whenever it returns 1.\<close>

theorem rtsp_headers_returns:
  assumes "stop_byte msg len"
  shows "\<exists>r t' k. ragel_read_rtsp_headers t msg len = Inr (r, t', k) \<and> r \<in> {-1, 0, 1} \<and>
     (r = 1 \<longrightarrow> k \<noteq> None) \<and> (case k of None \<Rightarrow> True | Some n \<Rightarrow> n \<le> len)"
  unfolding ragel_read_rtsp_headers_def by (rule rtsp_block.read_headers_returns [OF assms])

theorem rtsp_headers_returns_witness:
  "stop_byte (''CSeq: 1'' @ [NUL]) 7 \<and>
   (\<exists>r t' k. ragel_read_rtsp_headers Map.empty (''CSeq: 1'' @ [NUL]) 7 = Inr (r, t', k) \<and>
      r \<in> {-1, 0, 1} \<and> (r = 1 \<longrightarrow> k \<noteq> None) \<and> (case k of None \<Rightarrow> True | Some n \<Rightarrow> n \<le> 7))"
proof -
  have stop: "stop_byte (''CSeq: 1'' @ [NUL]) 7" by (simp add: stop_byte_def)
  from rtsp_headers_returns [OF stop, of Map.empty] stop show ?thesis by blast
qed

text \<open>C2. Round trip: reading the lines that a client writes for any list of known headers
  with printable values, up to the empty line, returns 1, enters exactly these headers into
  the table (later lines replacing earlier ones) and reports the length of the block,
  whatever follows it in memory.\<close>

theorem rtsp_headers_round_trip:
  assumes "list_all (\<lambda>(h, v). h \<in> set rtsp_known_headers \<and> header_value v) hs"
  shows "ragel_read_rtsp_headers t (header_lines hs @ ENDLINE @ rest) len =
     Inr (1, headers_set_all hs t, Some (length (header_lines hs @ ENDLINE)))"
  unfolding ragel_read_rtsp_headers_def by (rule rtsp_block.read_headers_lines [OF assms])

theorem rtsp_headers_round_trip_witness:
  "ragel_read_rtsp_headers Map.empty
     (''CSeq: 7'' @ ENDLINE @ ''Session: 0a'' @ ENDLINE @ ENDLINE) 24 =
   Inr (1, [Header_CSeq \<mapsto> ''7'', Header_Session \<mapsto> ''0a''], Some 24)"
proof -
  have "list_all (\<lambda>(h, v). h \<in> set rtsp_known_headers \<and> header_value v)
      [(Header_CSeq, ''7''), (Header_Session, ''0a'')]"
    by (simp add: rtsp_known_headers_def header_value_def header_visible_def c_char_def)
  from rtsp_headers_round_trip [OF this, of Map.empty "[]" 24] show ?thesis
    by (simp add: header_lines_def header_line_def header_name_def headers_set_all_def
        rfc822_headers_set_def ENDLINE_def)
qed

text \<open>The states on the beginning of a line.\<close>

lemma rtsp_headers_CSeq:
  "tree_word (ragel_rtree rtsp_headers_tables) (ragel_itree rtsp_headers_tables)
     (header_quiet_state 165) (tree_step (ragel_rtree rtsp_headers_tables)
       (ragel_itree rtsp_headers_tables) 1 67) [83, 101, 113, 0] (0, [])"
  by (simp add: ragel_rtree_def ragel_itree_def rtsp_headers_tables_defs ragel_ids_def
      header_quiet_state_def tree_step_def row_index_def)


end
