(* ===== verification/HTTP_Headers_Tables.thy ===== *)
theory HTTP_Headers_Tables
  imports Ragel_Labels
begin

text \<open>
  The tables of the scanner for HTTP header blocks of \<^verbatim>\<open>ragel_request_line.c\<close>, entry by
  entry, and their well-formedness.
\<close>

definition http_headers_actions :: "nat list" where
  "http_headers_actions =
    [0, 1, 0, 1, 11, 1, 12, 1, 13, 1, 14, 2, 0, 1, 2, 0, 2, 2, 0, 3, 2, 0, 4, 2, 0, 5, 2, 0, 6,
     2, 0, 7, 2, 0, 8, 2, 0, 9, 2, 0, 10, 2, 11, 12]"

definition http_headers_key_offsets :: "nat list" where
  "http_headers_key_offsets =
    [0, 0, 26, 28, 39, 43, 49, 75, 90, 103, 116, 129, 140, 153, 166, 179, 192, 205, 218, 231,
     242, 255, 270, 283, 296, 309, 322, 335, 348, 359, 372, 385, 398, 409, 424, 437, 450, 463,
     476, 489, 500, 513, 526, 539, 550, 563, 576, 589, 600, 613, 626, 639, 652, 665, 678, 689,
     702, 715, 728, 741, 754, 765, 778, 791, 804, 817, 830, 841, 854, 867, 880, 891, 904, 917,
     930, 943, 956, 967, 978, 991, 1004, 1017, 1030, 1043, 1056, 1069, 1082, 1095, 1108, 1121,
     1134, 1147, 1158, 1160, 1166]"

definition http_headers_trans_keys :: "int list" where
  "http_headers_trans_keys =
    [10, 13, 67, 68, 69, 80, 83, 85, 88, 95, 99, 100, 101, 112, 115, 117, 120, 126, 45, 46, 48,
     57, 65, 90, 97, 122, 10, 13, 58, 95, 126, 45, 46, 48, 57, 65, 90, 97, 122, 9, 32, 33, 126,
     9, 10, 13, 32, 33, 126, 10, 13, 67, 68, 69, 80, 83, 85, 88, 95, 99, 100, 101, 112, 115,
     117, 120, 126, 45, 46, 48, 57, 65, 90, 97, 122, 58, 65, 79, 95, 97, 111, 126, 45, 46, 48,
     57, 66, 90, 98, 122, 58, 67, 95, 99, 126, 45, 46, 48, 57, 65] @
    [90, 97, 122, 58, 72, 95, 104, 126, 45, 46, 48, 57, 65, 90, 97, 122, 58, 69, 95, 101, 126,
     45, 46, 48, 57, 65, 90, 97, 122, 45, 46, 58, 95, 126, 48, 57, 65, 90, 97, 122, 58, 67, 95,
     99, 126, 45, 46, 48, 57, 65, 90, 97, 122, 58, 79, 95, 111, 126, 45, 46, 48, 57, 65, 90,
     97, 122, 58, 78, 95, 110, 126, 45, 46, 48, 57, 65, 90, 97, 122, 58, 84, 95, 116, 126, 45,
     46, 48, 57, 65, 90, 97, 122, 58, 82, 95, 114, 126, 45, 46, 48] @
    [57, 65, 90, 97, 122, 58, 79, 95, 111, 126, 45, 46, 48, 57, 65, 90, 97, 122, 58, 76, 95,
     108, 126, 45, 46, 48, 57, 65, 90, 97, 122, 58, 95, 126, 45, 46, 48, 57, 65, 90, 97, 122,
     58, 78, 95, 110, 126, 45, 46, 48, 57, 65, 90, 97, 122, 58, 78, 84, 95, 110, 116, 126, 45,
     46, 48, 57, 65, 90, 97, 122, 58, 69, 95, 101, 126, 45, 46, 48, 57, 65, 90, 97, 122, 58,
     67, 95, 99, 126, 45, 46, 48, 57, 65, 90, 97, 122, 58, 84, 95, 116] @
    [126, 45, 46, 48, 57, 65, 90, 97, 122, 58, 73, 95, 105, 126, 45, 46, 48, 57, 65, 90, 97,
     122, 58, 79, 95, 111, 126, 45, 46, 48, 57, 65, 90, 97, 122, 58, 78, 95, 110, 126, 45, 46,
     48, 57, 65, 90, 97, 122, 58, 95, 126, 45, 46, 48, 57, 65, 90, 97, 122, 58, 69, 95, 101,
     126, 45, 46, 48, 57, 65, 90, 97, 122, 58, 78, 95, 110, 126, 45, 46, 48, 57, 65, 90, 97,
     122, 58, 84, 95, 116, 126, 45, 46, 48, 57, 65, 90, 97, 122, 45, 46] @
    [58, 95, 126, 48, 57, 65, 90, 97, 122, 58, 76, 84, 95, 108, 116, 126, 45, 46, 48, 57, 65,
     90, 97, 122, 58, 69, 95, 101, 126, 45, 46, 48, 57, 65, 90, 97, 122, 58, 78, 95, 110, 126,
     45, 46, 48, 57, 65, 90, 97, 122, 58, 71, 95, 103, 126, 45, 46, 48, 57, 65, 90, 97, 122,
     58, 84, 95, 116, 126, 45, 46, 48, 57, 65, 90, 97, 122, 58, 72, 95, 104, 126, 45, 46, 48,
     57, 65, 90, 97, 122, 58, 95, 126, 45, 46, 48, 57, 65, 90, 97, 122] @
    [58, 89, 95, 121, 126, 45, 46, 48, 57, 65, 90, 97, 122, 58, 80, 95, 112, 126, 45, 46, 48,
     57, 65, 90, 97, 122, 58, 69, 95, 101, 126, 45, 46, 48, 57, 65, 90, 97, 122, 58, 95, 126,
     45, 46, 48, 57, 65, 90, 97, 122, 58, 65, 95, 97, 126, 45, 46, 48, 57, 66, 90, 98, 122, 58,
     84, 95, 116, 126, 45, 46, 48, 57, 65, 90, 97, 122, 58, 69, 95, 101, 126, 45, 46, 48, 57,
     65, 90, 97, 122, 58, 95, 126, 45, 46, 48, 57, 65, 90, 97, 122] @
    [58, 88, 95, 120, 126, 45, 46, 48, 57, 65, 90, 97, 122, 58, 80, 95, 112, 126, 45, 46, 48,
     57, 65, 90, 97, 122, 58, 73, 95, 105, 126, 45, 46, 48, 57, 65, 90, 97, 122, 58, 82, 95,
     114, 126, 45, 46, 48, 57, 65, 90, 97, 122, 58, 69, 95, 101, 126, 45, 46, 48, 57, 65, 90,
     97, 122, 58, 83, 95, 115, 126, 45, 46, 48, 57, 65, 90, 97, 122, 58, 95, 126, 45, 46, 48,
     57, 65, 90, 97, 122, 58, 82, 95, 114, 126, 45, 46, 48, 57, 65, 90] @
    [97, 122, 58, 65, 95, 97, 126, 45, 46, 48, 57, 66, 90, 98, 122, 58, 71, 95, 103, 126, 45,
     46, 48, 57, 65, 90, 97, 122, 58, 77, 95, 109, 126, 45, 46, 48, 57, 65, 90, 97, 122, 58,
     65, 95, 97, 126, 45, 46, 48, 57, 66, 90, 98, 122, 58, 95, 126, 45, 46, 48, 57, 65, 90, 97,
     122, 58, 69, 95, 101, 126, 45, 46, 48, 57, 65, 90, 97, 122, 58, 82, 95, 114, 126, 45, 46,
     48, 57, 65, 90, 97, 122, 58, 86, 95, 118, 126, 45, 46, 48, 57] @
    [65, 90, 97, 122, 58, 69, 95, 101, 126, 45, 46, 48, 57, 65, 90, 97, 122, 58, 82, 95, 114,
     126, 45, 46, 48, 57, 65, 90, 97, 122, 58, 95, 126, 45, 46, 48, 57, 65, 90, 97, 122, 58,
     83, 95, 115, 126, 45, 46, 48, 57, 65, 90, 97, 122, 58, 69, 95, 101, 126, 45, 46, 48, 57,
     65, 90, 97, 122, 58, 82, 95, 114, 126, 45, 46, 48, 57, 65, 90, 97, 122, 45, 46, 58, 95,
     126, 48, 57, 65, 90, 97, 122, 58, 65, 95, 97, 126, 45, 46, 48, 57] @
    [66, 90, 98, 122, 58, 71, 95, 103, 126, 45, 46, 48, 57, 65, 90, 97, 122, 58, 69, 95, 101,
     126, 45, 46, 48, 57, 65, 90, 97, 122, 58, 78, 95, 110, 126, 45, 46, 48, 57, 65, 90, 97,
     122, 58, 84, 95, 116, 126, 45, 46, 48, 57, 65, 90, 97, 122, 58, 95, 126, 45, 46, 48, 57,
     65, 90, 97, 122, 45, 46, 58, 95, 126, 48, 57, 65, 90, 97, 122, 58, 83, 95, 115, 126, 45,
     46, 48, 57, 65, 90, 97, 122, 58, 69, 95, 101, 126, 45, 46, 48, 57] @
    [65, 90, 97, 122, 58, 83, 95, 115, 126, 45, 46, 48, 57, 65, 90, 97, 122, 58, 83, 95, 115,
     126, 45, 46, 48, 57, 65, 90, 97, 122, 58, 73, 95, 105, 126, 45, 46, 48, 57, 65, 90, 97,
     122, 58, 79, 95, 111, 126, 45, 46, 48, 57, 65, 90, 97, 122, 58, 78, 95, 110, 126, 45, 46,
     48, 57, 65, 90, 97, 122, 58, 67, 95, 99, 126, 45, 46, 48, 57, 65, 90, 97, 122, 58, 79, 95,
     111, 126, 45, 46, 48, 57, 65, 90, 97, 122, 58, 79, 95, 111, 126] @
    [45, 46, 48, 57, 65, 90, 97, 122, 58, 75, 95, 107, 126, 45, 46, 48, 57, 65, 90, 97, 122,
     58, 73, 95, 105, 126, 45, 46, 48, 57, 65, 90, 97, 122, 58, 69, 95, 101, 126, 45, 46, 48,
     57, 65, 90, 97, 122, 58, 95, 126, 45, 46, 48, 57, 65, 90, 97, 122, 10, 13, 9, 10, 13, 32,
     33, 126, 0]"

definition http_headers_single_lengths :: "nat list" where
  "http_headers_single_lengths =
    [0, 18, 2, 3, 2, 4, 18, 7, 5, 5, 5, 5, 5, 5, 5, 5, 5, 5, 5, 3, 5, 7, 5, 5, 5, 5, 5, 5, 3,
     5, 5, 5, 5, 7, 5, 5, 5, 5, 5, 3, 5, 5, 5, 3, 5, 5, 5, 3, 5, 5, 5, 5, 5, 5, 3, 5, 5, 5, 5,
     5, 3, 5, 5, 5, 5, 5, 3, 5, 5, 5, 5, 5, 5, 5, 5, 5, 3, 5, 5, 5, 5, 5, 5, 5, 5, 5, 5, 5, 5,
     5, 5, 3, 2, 4, 0]"

definition http_headers_range_lengths :: "nat list" where
  "http_headers_range_lengths =
    [0, 4, 0, 4, 1, 1, 4, 4, 4, 4, 4, 3, 4, 4, 4, 4, 4, 4, 4, 4, 4, 4, 4, 4, 4, 4, 4, 4, 4, 4,
     4, 4, 3, 4, 4, 4, 4, 4, 4, 4, 4, 4, 4, 4, 4, 4, 4, 4, 4, 4, 4, 4, 4, 4, 4, 4, 4, 4, 4, 4,
     4, 4, 4, 4, 4, 4, 4, 4, 4, 4, 3, 4, 4, 4, 4, 4, 4, 3, 4, 4, 4, 4, 4, 4, 4, 4, 4, 4, 4, 4,
     4, 4, 0, 1, 0]"

definition http_headers_index_offsets :: "nat list" where
  "http_headers_index_offsets =
    [0, 0, 23, 26, 34, 38, 44, 67, 79, 89, 99, 109, 118, 128, 138, 148, 158, 168, 178, 188,
     196, 206, 218, 228, 238, 248, 258, 268, 278, 286, 296, 306, 316, 325, 337, 347, 357, 367,
     377, 387, 395, 405, 415, 425, 433, 443, 453, 463, 471, 481, 491, 501, 511, 521, 531, 539,
     549, 559, 569, 579, 589, 597, 607, 617, 627, 637, 647, 655, 665, 675, 685, 694, 704, 714,
     724, 734, 744, 752, 761, 771, 781, 791, 801, 811, 821, 831, 841, 851, 861, 871, 881, 891,
     899, 902, 908]"

definition http_headers_indicies :: "nat list" where
  "http_headers_indicies =
    [0, 2, 4, 5, 6, 7, 8, 9, 10, 3, 4, 5, 6, 7, 8, 9, 10, 3, 3, 3, 3, 3, 1, 0, 2, 1, 11, 3, 3,
     3, 3, 3, 3, 1, 12, 12, 13, 1, 14, 15, 16, 14, 13, 1, 0, 2, 4, 5, 6, 7, 8, 9, 10, 3, 4, 5,
     6, 7, 8, 9, 10, 3, 3, 3, 3, 3, 1, 11, 17, 18, 3, 17, 18, 3, 3, 3, 3, 3, 1, 11, 19, 3, 19,
     3, 3, 3, 3, 3, 1, 11, 20, 3, 20, 3, 3, 3, 3, 3, 1, 11] @
    [21, 3, 21, 3, 3, 3, 3, 3, 1, 22, 3, 11, 3, 3, 3, 3, 3, 1, 11, 23, 3, 23, 3, 3, 3, 3, 3, 1,
     11, 24, 3, 24, 3, 3, 3, 3, 3, 1, 11, 25, 3, 25, 3, 3, 3, 3, 3, 1, 11, 26, 3, 26, 3, 3, 3,
     3, 3, 1, 11, 27, 3, 27, 3, 3, 3, 3, 3, 1, 11, 28, 3, 28, 3, 3, 3, 3, 3, 1, 11, 29, 3, 29,
     3, 3, 3, 3, 3, 1, 30, 3, 3, 3, 3, 3, 3, 1, 11, 31, 3, 31] @
    [3, 3, 3, 3, 3, 1, 11, 32, 33, 3, 32, 33, 3, 3, 3, 3, 3, 1, 11, 34, 3, 34, 3, 3, 3, 3, 3,
     1, 11, 35, 3, 35, 3, 3, 3, 3, 3, 1, 11, 36, 3, 36, 3, 3, 3, 3, 3, 1, 11, 37, 3, 37, 3, 3,
     3, 3, 3, 1, 11, 38, 3, 38, 3, 3, 3, 3, 3, 1, 11, 39, 3, 39, 3, 3, 3, 3, 3, 1, 40, 3, 3, 3,
     3, 3, 3, 1, 11, 41, 3, 41, 3, 3, 3, 3, 3, 1, 11, 42, 3, 42] @
    [3, 3, 3, 3, 3, 1, 11, 43, 3, 43, 3, 3, 3, 3, 3, 1, 44, 3, 11, 3, 3, 3, 3, 3, 1, 11, 45,
     46, 3, 45, 46, 3, 3, 3, 3, 3, 1, 11, 47, 3, 47, 3, 3, 3, 3, 3, 1, 11, 48, 3, 48, 3, 3, 3,
     3, 3, 1, 11, 49, 3, 49, 3, 3, 3, 3, 3, 1, 11, 50, 3, 50, 3, 3, 3, 3, 3, 1, 11, 51, 3, 51,
     3, 3, 3, 3, 3, 1, 52, 3, 3, 3, 3, 3, 3, 1, 11, 53, 3, 53, 3] @
    [3, 3, 3, 3, 1, 11, 54, 3, 54, 3, 3, 3, 3, 3, 1, 11, 55, 3, 55, 3, 3, 3, 3, 3, 1, 56, 3, 3,
     3, 3, 3, 3, 1, 11, 57, 3, 57, 3, 3, 3, 3, 3, 1, 11, 58, 3, 58, 3, 3, 3, 3, 3, 1, 11, 59,
     3, 59, 3, 3, 3, 3, 3, 1, 60, 3, 3, 3, 3, 3, 3, 1, 11, 61, 3, 61, 3, 3, 3, 3, 3, 1, 11, 62,
     3, 62, 3, 3, 3, 3, 3, 1, 11, 63, 3, 63, 3, 3, 3, 3, 3] @
    [1, 11, 64, 3, 64, 3, 3, 3, 3, 3, 1, 11, 65, 3, 65, 3, 3, 3, 3, 3, 1, 11, 66, 3, 66, 3, 3,
     3, 3, 3, 1, 67, 3, 3, 3, 3, 3, 3, 1, 11, 68, 3, 68, 3, 3, 3, 3, 3, 1, 11, 69, 3, 69, 3, 3,
     3, 3, 3, 1, 11, 70, 3, 70, 3, 3, 3, 3, 3, 1, 11, 71, 3, 71, 3, 3, 3, 3, 3, 1, 11, 72, 3,
     72, 3, 3, 3, 3, 3, 1, 73, 3, 3, 3, 3, 3, 3, 1, 11, 74, 3] @
    [74, 3, 3, 3, 3, 3, 1, 11, 75, 3, 75, 3, 3, 3, 3, 3, 1, 11, 76, 3, 76, 3, 3, 3, 3, 3, 1,
     11, 77, 3, 77, 3, 3, 3, 3, 3, 1, 11, 78, 3, 78, 3, 3, 3, 3, 3, 1, 79, 3, 3, 3, 3, 3, 3, 1,
     11, 80, 3, 80, 3, 3, 3, 3, 3, 1, 11, 81, 3, 81, 3, 3, 3, 3, 3, 1, 11, 82, 3, 82, 3, 3, 3,
     3, 3, 1, 83, 3, 11, 3, 3, 3, 3, 3, 1, 11, 84, 3, 84, 3, 3] @
    [3, 3, 3, 1, 11, 85, 3, 85, 3, 3, 3, 3, 3, 1, 11, 86, 3, 86, 3, 3, 3, 3, 3, 1, 11, 87, 3,
     87, 3, 3, 3, 3, 3, 1, 11, 88, 3, 88, 3, 3, 3, 3, 3, 1, 89, 3, 3, 3, 3, 3, 3, 1, 90, 3, 11,
     3, 3, 3, 3, 3, 1, 11, 91, 3, 91, 3, 3, 3, 3, 3, 1, 11, 92, 3, 92, 3, 3, 3, 3, 3, 1, 11,
     93, 3, 93, 3, 3, 3, 3, 3, 1, 11, 94, 3, 94, 3, 3, 3, 3, 3] @
    [1, 11, 95, 3, 95, 3, 3, 3, 3, 3, 1, 11, 96, 3, 96, 3, 3, 3, 3, 3, 1, 11, 97, 3, 97, 3, 3,
     3, 3, 3, 1, 11, 98, 3, 98, 3, 3, 3, 3, 3, 1, 11, 99, 3, 99, 3, 3, 3, 3, 3, 1, 11, 100, 3,
     100, 3, 3, 3, 3, 3, 1, 11, 101, 3, 101, 3, 3, 3, 3, 3, 1, 11, 102, 3, 102, 3, 3, 3, 3, 3,
     1, 11, 103, 3, 103, 3, 3, 3, 3, 3, 1, 104, 3, 3, 3, 3, 3, 3, 1, 105] @
    [106, 1, 107, 15, 16, 107, 108, 1, 1, 0]"

definition http_headers_trans_targs :: "nat list" where
  "http_headers_trans_targs =
    [94, 0, 2, 3, 7, 44, 48, 55, 61, 67, 77, 4, 5, 93, 5, 6, 92, 8, 20, 9, 10, 11, 12, 13, 14,
     15, 16, 17, 18, 19, 4, 21, 22, 29, 23, 24, 25, 26, 27, 28, 4, 30, 31, 32, 33, 34, 40, 35,
     36, 37, 38, 39, 4, 41, 42, 43, 4, 45, 46, 47, 4, 49, 50, 51, 52, 53, 54, 4, 56, 57, 58,
     59, 60, 4, 62, 63, 64, 65, 66, 4, 68, 69, 70, 71, 72, 73, 74, 75, 76, 4, 78, 79, 80, 81,
     82, 83, 84, 85, 86, 87] @
    [88, 89, 90, 91, 4, 6, 92, 93, 93]"

definition http_headers_trans_actions :: "nat list" where
  "http_headers_trans_actions =
    [0, 0, 0, 0, 0, 0, 0, 0, 0, 0, 0, 1, 3, 3, 41, 5, 5, 0, 0, 0, 0, 0, 0, 0, 0, 0, 0, 0, 0, 0,
     11, 0, 0, 0, 0, 0, 0, 0, 0, 0, 14, 0, 0, 0, 0, 0, 0, 0, 0, 0, 0, 0, 17, 0, 0, 0, 20, 0, 0,
     0, 23, 0, 0, 0, 0, 0, 0, 26, 0, 0, 0, 0, 0, 29, 0, 0, 0, 0, 0, 32, 0, 0, 0, 0, 0, 0, 0, 0,
     0, 35, 0, 0, 0, 0, 0, 0, 0, 0, 0, 0] @
    [0, 0, 0, 0, 38, 0, 0, 5, 0]"

definition http_headers_from_state_actions :: "nat list" where
  "http_headers_from_state_actions =
    [0, 0, 0, 0, 0, 0, 7, 0, 0, 0, 0, 0, 0, 0, 0, 0, 0, 0, 0, 0, 0, 0, 0, 0, 0, 0, 0, 0, 0, 0,
     0, 0, 0, 0, 0, 0, 0, 0, 0, 0, 0, 0, 0, 0, 0, 0, 0, 0, 0, 0, 0, 0, 0, 0, 0, 0, 0, 0, 0, 0,
     0, 0, 0, 0, 0, 0, 0, 0, 0, 0, 0, 0, 0, 0, 0, 0, 0, 0, 0, 0, 0, 0, 0, 0, 0, 0, 0, 0, 0, 0,
     0, 0, 0, 0, 9]"

definition http_headers_tables :: ragel_tables where
  "http_headers_tables =
     \<lparr>r_actions = http_headers_actions,
      r_key_offsets = http_headers_key_offsets,
      r_trans_keys = http_headers_trans_keys,
      r_single_lengths = http_headers_single_lengths,
      r_range_lengths = http_headers_range_lengths,
      r_index_offsets = http_headers_index_offsets,
      r_indicies = http_headers_indicies,
      r_trans_targs = http_headers_trans_targs,
      r_trans_actions = http_headers_trans_actions\<rparr>"

lemmas http_headers_tables_defs =
  http_headers_actions_def
  http_headers_key_offsets_def
  http_headers_trans_keys_def
  http_headers_single_lengths_def
  http_headers_range_lengths_def
  http_headers_index_offsets_def
  http_headers_indicies_def
  http_headers_trans_targs_def
  http_headers_trans_actions_def
  http_headers_from_state_actions_def

lemma http_headers_tables_sel [simp]:
  "r_actions http_headers_tables = http_headers_actions"
  "r_key_offsets http_headers_tables = http_headers_key_offsets"
  "r_trans_keys http_headers_tables = http_headers_trans_keys"
  "r_single_lengths http_headers_tables = http_headers_single_lengths"
  "r_range_lengths http_headers_tables = http_headers_range_lengths"
  "r_index_offsets http_headers_tables = http_headers_index_offsets"
  "r_indicies http_headers_tables = http_headers_indicies"
  "r_trans_targs http_headers_tables = http_headers_trans_targs"
  "r_trans_actions http_headers_tables = http_headers_trans_actions"
  by (simp_all add: http_headers_tables_def)

section \<open>Well-formedness\<close>

lemma http_headers_lengths [simp]:
  "length http_headers_key_offsets = 95"
  "length http_headers_trans_targs = 109"
  "length http_headers_trans_actions = 109"
  "length http_headers_indicies = 910"
  by (simp_all add: http_headers_tables_defs)

lemma http_headers_rows_ok:
  "ragel_rows_ok (tl http_headers_key_offsets) (tl http_headers_single_lengths) (tl http_headers_range_lengths)
     (tl http_headers_index_offsets) 0 0 http_headers_trans_keys 910"
  by (simp add: http_headers_tables_defs)

lemma http_headers_indicies_ok: "list_all (\<lambda>t. t < 109) http_headers_indicies"
  by (simp add: http_headers_tables_defs)

lemma http_headers_targs_ok: "list_all (\<lambda>s. s < 95) http_headers_trans_targs"
  by (simp add: http_headers_tables_defs)

lemma http_headers_actions_ok: "list_all (ragel_action_ok http_headers_actions 15) http_headers_trans_actions"
  by (simp add: http_headers_tables_defs ragel_action_ok_def ragel_action_list_def arr_def)

lemma http_headers_tables_wf: "ragel_wf http_headers_tables 15"
  using http_headers_rows_ok http_headers_indicies_ok http_headers_targs_ok http_headers_actions_ok
  by (simp add: ragel_wf_def)

interpretation http_headers: ragel_machine http_headers_tables 15
  by unfold_locales (rule http_headers_tables_wf)

end
