(* ===== verification/HTTP_Headers.thy ===== *)
theory HTTP_Headers
  imports Header_Block HTTP_Headers_Tables
begin

text \<open>
  \<^verbatim>\<open>ragel_read_http_headers\<close> of \<^verbatim>\<open>ragel_request_line.c\<close>: its tables satisfy the contract of
  the header blocks, so that it returns whenever a byte behind the message stops it and it
  reads every block of known headers back.
\<close>

section \<open>The function\<close>

text \<open>The actions that set the code of the header.\<close>

fun http_header_action :: "nat \<Rightarrow> RFC822_Header" where
  "http_header_action i =
     (if i = 0 then Header__Unsupported
      else if i = 1 then Header_Cache_Control
      else if i = 2 then Header_Connection
      else if i = 3 then Header_Content_Length
      else if i = 4 then Header_Content_Type
      else if i = 5 then Header_Date
      else if i = 6 then Header_Expires
      else if i = 7 then Header_Pragma
      else if i = 8 then Header_Server
      else if i = 9 then Header_User_Agent
      else if i = 10 then Header_x_sessioncookie
      else Header__Invalid)"

definition ragel_read_http_headers ::
    "header_table \<Rightarrow> string \<Rightarrow> nat \<Rightarrow> (int \<times> header_table \<times> nat option) result" where
  "ragel_read_http_headers =
     ragel_read_headers http_headers_tables http_headers_from_state_actions http_header_action 11 12 13 14 94"

section \<open>The contract\<close>

definition http_known_headers :: "RFC822_Header list" where
  "http_known_headers =
    [Header_Cache_Control, Header_Connection, Header_Content_Length, Header_Content_Type,
     Header_Date, Header_Expires, Header_Pragma, Header_Server, Header_User_Agent,
     Header_x_sessioncookie]"

definition http_headers_labels :: "nat list" where
  "http_headers_labels =
    replicate 5 0 @ [1] @ [2] @ replicate 85 0 @ replicate 2 1 @ [0]"

lemma http_headers_labels_ok:
  "ragel_labels_ok http_headers_tables (header_label_ok 11 12) http_headers_labels"
  by (simp add: ragel_labels_ok_def http_headers_tables_defs http_headers_labels_def ragel_ids_def
      header_label_ok_def replicate_numeral)

lemma http_headers_stops: "ragel_stops http_headers_tables 9 126"
  by (simp add: ragel_stops_def ragel_itree_def http_headers_tables_defs ragel_ids_def)

lemma http_headers_from:
  "http_headers_from_state_actions = replicate 6 0 @ [7] @ replicate 87 0 @ [9]"
  by (simp add: http_headers_from_state_actions_def replicate_numeral)

lemma http_headers_from_ids:
  assumes "cs < 95"
  shows "ragel_action_list http_headers_actions (http_headers_from_state_actions ! cs) =
    Inr (if cs = 6 then [13] else if cs = 94 then [14] else [])"
proof -
  have "http_headers_from_state_actions ! cs = (if cs = 6 then 7 else if cs = 94 then 9 else 0)"
    using assms by (auto simp: http_headers_from nth_append nth_Cons')
  moreover have "ragel_action_list http_headers_actions 7 = Inr [13]"
      "ragel_action_list http_headers_actions 9 = Inr [14]"
      "ragel_action_list http_headers_actions 0 = Inr []"
    by (simp_all add: http_headers_actions_def ragel_action_list_def arr_def)
  ultimately show ?thesis by simp
qed

lemma http_headers_steps:
  "header_steps_ok (ragel_rtree http_headers_tables) (ragel_itree http_headers_tables) 11 12 94 92 93"
  by (simp add: header_steps_ok_def ragel_rtree_def ragel_itree_def http_headers_tables_defs ragel_ids_def
      header_visible_def header_blank_def tree_step_def row_index_def)

lemma http_headers_names:
  "list_all (header_name_ok (ragel_rtree http_headers_tables) (ragel_itree http_headers_tables) 94)
     (zip http_known_headers [1, 2, 3, 4, 5, 6, 7, 8, 9, 10])"
  by (simp add: ragel_rtree_def ragel_itree_def http_headers_tables_defs ragel_ids_def http_known_headers_def
      header_quiet_state_def tree_step_def row_index_def header_name_def c_char_def)

interpretation http_block: header_block http_headers_tables 15 http_headers_from_state_actions
  http_header_action 11 12 13 14 94 92 93
  http_headers_labels http_known_headers "[1, 2, 3, 4, 5, 6, 7, 8, 9, 10]"
proof
  show "ragel_labels_ok http_headers_tables (header_label_ok 11 12) http_headers_labels"
    by (rule http_headers_labels_ok)
  show "ragel_stops http_headers_tables 9 126" by (rule http_headers_stops)
  show "header_steps_ok (ragel_rtree http_headers_tables) (ragel_itree http_headers_tables) 11 12 94 92 93"
    by (rule http_headers_steps)
  show "list_all (header_name_ok (ragel_rtree http_headers_tables) (ragel_itree http_headers_tables) 94)
     (zip http_known_headers [1, 2, 3, 4, 5, 6, 7, 8, 9, 10])" by (rule http_headers_names)
  show "map http_header_action [1, 2, 3, 4, 5, 6, 7, 8, 9, 10] = http_known_headers"
    by (simp add: http_known_headers_def)
  show "ragel_action_list (r_actions http_headers_tables) (http_headers_from_state_actions ! cs) =
      Inr (if cs = 6 then [13] else if cs = 94 then [14] else [])"
    if "cs < length (r_key_offsets http_headers_tables)" for cs
    using that http_headers_from_ids by simp
  show "length http_headers_from_state_actions = length (r_key_offsets http_headers_tables)"
    by (simp add: http_headers_from)
  show "named_header h" if "h \<in> set http_known_headers" for h
    using that by (auto simp: http_known_headers_def named_header_def)
qed (simp_all add: http_headers_labels_def http_known_headers_def nth_append nth_Cons')

section \<open>Properties\<close>

text \<open>C13. Reading a block of HTTP headers: the lines of any list of known headers with
  printable values are read back, and the function returns -1, 0 or 1 on every message whose
  next byte in memory stops the scanner.\<close>

theorem http_headers_correct:
  "(list_all (\<lambda>(h, v). h \<in> set http_known_headers \<and> header_value v) hs \<longrightarrow>
      ragel_read_http_headers t (header_lines hs @ ENDLINE @ rest) len =
        Inr (1, headers_set_all hs t, Some (length (header_lines hs @ ENDLINE)))) \<and>
   (stop_byte msg len \<longrightarrow>
      (\<exists>r t' k. ragel_read_http_headers t msg len = Inr (r, t', k) \<and> r \<in> {-1, 0, 1} \<and>
         (r = 1 \<longrightarrow> k \<noteq> None) \<and> (case k of None \<Rightarrow> True | Some n \<Rightarrow> n \<le> len)))"
  unfolding ragel_read_http_headers_def
  using http_block.read_headers_lines [of hs t rest len] http_block.read_headers_returns [of msg len t]
  by blast

theorem http_headers_correct_witness:
  "ragel_read_http_headers Map.empty (''x-sessioncookie: 9'' @ ENDLINE @ ENDLINE) 22 =
   Inr (1, [Header_x_sessioncookie \<mapsto> ''9''], Some 22)"
proof -
  have "list_all (\<lambda>(h, v). h \<in> set http_known_headers \<and> header_value v)
      [(Header_x_sessioncookie, ''9'')]"
    by (simp add: http_known_headers_def header_value_def header_visible_def c_char_def)
  then show ?thesis
    using http_headers_correct [of "[(Header_x_sessioncookie, ''9'')]" Map.empty "[]" 22 "[]"]
    by (simp add: header_lines_def header_line_def header_name_def headers_set_all_def
        rfc822_headers_set_def ENDLINE_def)
qed

end
