(* ===== verification/Request_Line_Tables.thy ===== *)
theory Request_Line_Tables
  imports Ragel_Labels
begin

text \<open>
  The tables of the request-line scanner of \<^verbatim>\<open>ragel_request_line.c\<close>, entry by entry, and
  their well-formedness.
\<close>

definition request_line_actions :: "nat list" where
  "request_line_actions =
    [0, 1, 15, 1, 17, 1, 18, 1, 25, 2, 5, 19, 2, 12, 20, 2, 15, 18, 2, 15, 22, 2, 16, 21, 3, 5,
     6, 19, 3, 5, 7, 19, 3, 5, 8, 19, 3, 5, 9, 19, 3, 5, 10, 19, 3, 5, 11, 19, 3, 12, 13, 20,
     3, 12, 14, 20, 3, 17, 0, 23, 3, 17, 1, 23, 3, 17, 2, 24, 3, 17, 3, 24, 3, 17, 4, 24]"

definition request_line_key_offsets :: "nat list" where
  "request_line_key_offsets =
    [0, 0, 10, 21, 24, 33, 36, 44, 51, 55, 62, 67, 69, 78, 87, 96, 104, 112, 116, 123, 128,
     132, 141, 146, 151, 160, 169, 178, 186, 194, 198, 205, 210, 214, 222, 227, 242, 253, 265,
     277, 289, 301, 313, 325, 337, 348, 360, 372, 384, 396, 408, 420, 431, 444, 456, 468, 480,
     491, 503, 515, 526, 538, 550, 562, 574, 585, 597, 609, 621, 633, 645, 657, 669, 680, 692,
     703, 715, 727, 738, 750, 762, 774, 785, 785, 785]"

definition request_line_trans_keys :: "int list" where
  "request_line_trans_keys =
    [95, 126, 45, 46, 48, 57, 65, 90, 97, 122, 32, 95, 126, 45, 46, 48, 57, 65, 90, 97, 122,
     32, 33, 126, 32, 72, 82, 33, 64, 65, 90, 91, 126, 32, 33, 126, 32, 47, 33, 64, 65, 90, 91,
     126, 32, 33, 47, 48, 57, 58, 126, 32, 46, 33, 126, 32, 33, 47, 48, 57, 58, 126, 10, 13,
     32, 33, 126, 10, 13, 32, 47, 84, 33, 64, 65, 90, 91, 126, 32, 47, 84, 33, 64, 65, 90, 91,
     126, 32, 47, 80, 33, 64, 65, 90, 91, 126, 32, 47, 33, 64] @
    [65, 90, 91, 126, 32, 49, 33, 47, 48, 57, 58, 126, 32, 46, 33, 126, 32, 33, 47, 48, 57, 58,
     126, 10, 13, 32, 33, 126, 32, 46, 33, 126, 32, 48, 49, 33, 47, 50, 57, 58, 126, 10, 13,
     32, 33, 126, 10, 13, 32, 33, 126, 32, 47, 84, 33, 64, 65, 90, 91, 126, 32, 47, 83, 33, 64,
     65, 90, 91, 126, 32, 47, 80, 33, 64, 65, 90, 91, 126, 32, 47, 33, 64, 65, 90, 91, 126, 32,
     49, 33, 47, 48, 57, 58, 126, 32, 46, 33, 126, 32, 33] @
    [47, 48, 57, 58, 126, 10, 13, 32, 33, 126, 32, 46, 33, 126, 32, 48, 33, 47, 49, 57, 58,
     126, 10, 13, 32, 33, 126, 68, 79, 80, 83, 84, 95, 126, 45, 46, 48, 57, 65, 90, 97, 122,
     32, 95, 126, 45, 46, 48, 57, 65, 90, 97, 122, 32, 69, 95, 126, 45, 46, 48, 57, 65, 90, 97,
     122, 32, 83, 95, 126, 45, 46, 48, 57, 65, 90, 97, 122, 32, 67, 95, 126, 45, 46, 48, 57,
     65, 90, 97, 122, 32, 82, 95, 126, 45, 46, 48, 57, 65, 90, 97] @
    [122, 32, 73, 95, 126, 45, 46, 48, 57, 65, 90, 97, 122, 32, 66, 95, 126, 45, 46, 48, 57,
     65, 90, 97, 122, 32, 69, 95, 126, 45, 46, 48, 57, 65, 90, 97, 122, 32, 95, 126, 45, 46,
     48, 57, 65, 90, 97, 122, 32, 80, 95, 126, 45, 46, 48, 57, 65, 90, 97, 122, 32, 84, 95,
     126, 45, 46, 48, 57, 65, 90, 97, 122, 32, 73, 95, 126, 45, 46, 48, 57, 65, 90, 97, 122,
     32, 79, 95, 126, 45, 46, 48, 57, 65, 90, 97, 122, 32, 78, 95, 126] @
    [45, 46, 48, 57, 65, 90, 97, 122, 32, 83, 95, 126, 45, 46, 48, 57, 65, 90, 97, 122, 32, 95,
     126, 45, 46, 48, 57, 65, 90, 97, 122, 32, 65, 76, 95, 126, 45, 46, 48, 57, 66, 90, 97,
     122, 32, 85, 95, 126, 45, 46, 48, 57, 65, 90, 97, 122, 32, 83, 95, 126, 45, 46, 48, 57,
     65, 90, 97, 122, 32, 69, 95, 126, 45, 46, 48, 57, 65, 90, 97, 122, 32, 95, 126, 45, 46,
     48, 57, 65, 90, 97, 122, 32, 65, 95, 126, 45, 46, 48, 57, 66] @
    [90, 97, 122, 32, 89, 95, 126, 45, 46, 48, 57, 65, 90, 97, 122, 32, 95, 126, 45, 46, 48,
     57, 65, 90, 97, 122, 32, 69, 95, 126, 45, 46, 48, 57, 65, 90, 97, 122, 32, 84, 95, 126,
     45, 46, 48, 57, 65, 90, 97, 122, 32, 85, 95, 126, 45, 46, 48, 57, 65, 90, 97, 122, 32, 80,
     95, 126, 45, 46, 48, 57, 65, 90, 97, 122, 32, 95, 126, 45, 46, 48, 57, 65, 90, 97, 122,
     32, 69, 95, 126, 45, 46, 48, 57, 65, 90, 97, 122, 32, 65, 95] @
    [126, 45, 46, 48, 57, 66, 90, 97, 122, 32, 82, 95, 126, 45, 46, 48, 57, 65, 90, 97, 122,
     32, 68, 95, 126, 45, 46, 48, 57, 65, 90, 97, 122, 32, 79, 95, 126, 45, 46, 48, 57, 65, 90,
     97, 122, 32, 87, 95, 126, 45, 46, 48, 57, 65, 90, 97, 122, 32, 78, 95, 126, 45, 46, 48,
     57, 65, 90, 97, 122, 32, 95, 126, 45, 46, 48, 57, 65, 90, 97, 122, 71, 80, 95, 126, 45,
     46, 48, 57, 65, 90, 97, 122, 32, 95, 126, 45, 46, 48, 57, 65] @
    [90, 97, 122, 32, 69, 95, 126, 45, 46, 48, 57, 65, 90, 97, 122, 32, 84, 95, 126, 45, 46,
     48, 57, 65, 90, 97, 122, 32, 95, 126, 45, 46, 48, 57, 65, 90, 97, 122, 32, 79, 95, 126,
     45, 46, 48, 57, 65, 90, 97, 122, 32, 83, 95, 126, 45, 46, 48, 57, 65, 90, 97, 122, 32, 84,
     95, 126, 45, 46, 48, 57, 65, 90, 97, 122, 32, 95, 126, 45, 46, 48, 57, 65, 90, 97, 122, 0]"

definition request_line_single_lengths :: "nat list" where
  "request_line_single_lengths =
    [0, 2, 3, 1, 3, 1, 2, 1, 2, 1, 3, 2, 3, 3, 3, 2, 2, 2, 1, 3, 2, 3, 3, 3, 3, 3, 3, 2, 2, 2,
     1, 3, 2, 2, 3, 7, 3, 4, 4, 4, 4, 4, 4, 4, 3, 4, 4, 4, 4, 4, 4, 3, 5, 4, 4, 4, 3, 4, 4, 3,
     4, 4, 4, 4, 3, 4, 4, 4, 4, 4, 4, 4, 3, 4, 3, 4, 4, 3, 4, 4, 4, 3, 0, 0, 0]"

definition request_line_range_lengths :: "nat list" where
  "request_line_range_lengths =
    [0, 4, 4, 1, 3, 1, 3, 3, 1, 3, 1, 0, 3, 3, 3, 3, 3, 1, 3, 1, 1, 3, 1, 1, 3, 3, 3, 3, 3, 1,
     3, 1, 1, 3, 1, 4, 4, 4, 4, 4, 4, 4, 4, 4, 4, 4, 4, 4, 4, 4, 4, 4, 4, 4, 4, 4, 4, 4, 4, 4,
     4, 4, 4, 4, 4, 4, 4, 4, 4, 4, 4, 4, 4, 4, 4, 4, 4, 4, 4, 4, 4, 4, 0, 0, 0]"

definition request_line_index_offsets :: "nat list" where
  "request_line_index_offsets =
    [0, 0, 7, 15, 18, 25, 28, 34, 39, 43, 48, 53, 56, 63, 70, 77, 83, 89, 93, 98, 103, 107,
     114, 119, 124, 131, 138, 145, 151, 157, 161, 166, 171, 175, 181, 186, 198, 206, 215, 224,
     233, 242, 251, 260, 269, 277, 286, 295, 304, 313, 322, 331, 339, 349, 358, 367, 376, 384,
     393, 402, 410, 419, 428, 437, 446, 454, 463, 472, 481, 490, 499, 508, 517, 525, 534, 542,
     551, 560, 568, 577, 586, 595, 603, 604, 605]"

definition request_line_indicies :: "nat list" where
  "request_line_indicies =
    [0, 0, 0, 0, 0, 0, 1, 2, 3, 3, 3, 3, 3, 3, 1, 4, 5, 1, 6, 9, 10, 7, 8, 7, 1, 6, 7, 1, 6,
     11, 7, 12, 7, 1, 6, 7, 13, 7, 1, 6, 14, 7, 1, 6, 7, 15, 7, 1, 16, 17, 6, 7, 1, 18, 19, 1,
     6, 11, 20, 7, 12, 7, 1, 6, 11, 21, 7, 12, 7, 1, 6, 11, 22, 7, 12, 7, 1, 6, 23, 7, 12, 7,
     1, 6, 25, 7, 24, 7, 1, 6, 26, 7, 1, 6, 7, 27, 7, 1, 28, 29] @
    [6, 7, 1, 6, 30, 7, 1, 6, 31, 32, 7, 15, 7, 1, 33, 34, 6, 7, 1, 35, 36, 6, 7, 1, 6, 11, 37,
     7, 12, 7, 1, 6, 11, 38, 7, 12, 7, 1, 6, 11, 39, 7, 12, 7, 1, 6, 40, 7, 12, 7, 1, 6, 42, 7,
     41, 7, 1, 6, 43, 7, 1, 6, 7, 44, 7, 1, 45, 46, 6, 7, 1, 6, 47, 7, 1, 6, 48, 7, 15, 7, 1,
     49, 50, 6, 7, 1, 52, 53, 54, 55, 56, 51, 51, 51, 51, 51, 51, 1, 57, 51] @
    [51, 51, 51, 51, 51, 1, 57, 58, 51, 51, 51, 51, 51, 51, 1, 57, 59, 51, 51, 51, 51, 51, 51,
     1, 57, 60, 51, 51, 51, 51, 51, 51, 1, 57, 61, 51, 51, 51, 51, 51, 51, 1, 57, 62, 51, 51,
     51, 51, 51, 51, 1, 57, 63, 51, 51, 51, 51, 51, 51, 1, 57, 64, 51, 51, 51, 51, 51, 51, 1,
     65, 51, 51, 51, 51, 51, 51, 1, 57, 66, 51, 51, 51, 51, 51, 51, 1, 57, 67, 51, 51, 51, 51,
     51, 51, 1, 57, 68, 51, 51, 51] @
    [51, 51, 51, 1, 57, 69, 51, 51, 51, 51, 51, 51, 1, 57, 70, 51, 51, 51, 51, 51, 51, 1, 57,
     71, 51, 51, 51, 51, 51, 51, 1, 72, 51, 51, 51, 51, 51, 51, 1, 57, 73, 74, 51, 51, 51, 51,
     51, 51, 1, 57, 75, 51, 51, 51, 51, 51, 51, 1, 57, 76, 51, 51, 51, 51, 51, 51, 1, 57, 77,
     51, 51, 51, 51, 51, 51, 1, 78, 51, 51, 51, 51, 51, 51, 1, 57, 79, 51, 51, 51, 51, 51, 51,
     1, 57, 80, 51, 51, 51, 51, 51] @
    [51, 1, 81, 51, 51, 51, 51, 51, 51, 1, 57, 82, 51, 51, 51, 51, 51, 51, 1, 57, 83, 51, 51,
     51, 51, 51, 51, 1, 57, 84, 51, 51, 51, 51, 51, 51, 1, 57, 85, 51, 51, 51, 51, 51, 51, 1,
     86, 51, 51, 51, 51, 51, 51, 1, 57, 87, 51, 51, 51, 51, 51, 51, 1, 57, 88, 51, 51, 51, 51,
     51, 51, 1, 57, 89, 51, 51, 51, 51, 51, 51, 1, 57, 90, 51, 51, 51, 51, 51, 51, 1, 57, 91,
     51, 51, 51, 51, 51, 51, 1, 57] @
    [92, 51, 51, 51, 51, 51, 51, 1, 57, 93, 51, 51, 51, 51, 51, 51, 1, 94, 51, 51, 51, 51, 51,
     51, 1, 96, 97, 95, 95, 95, 95, 95, 95, 1, 98, 95, 95, 95, 95, 95, 95, 1, 98, 99, 95, 95,
     95, 95, 95, 95, 1, 98, 100, 95, 95, 95, 95, 95, 95, 1, 101, 95, 95, 95, 95, 95, 95, 1, 98,
     102, 95, 95, 95, 95, 95, 95, 1, 98, 103, 95, 95, 95, 95, 95, 95, 1, 98, 104, 95, 95, 95,
     95, 95, 95, 1, 105, 95, 95, 95, 95] @
    [95, 95, 1, 1, 1, 1, 0]"

definition request_line_trans_targs :: "nat list" where
  "request_line_trans_targs =
    [2, 0, 3, 2, 4, 5, 4, 5, 6, 12, 24, 7, 6, 8, 9, 10, 82, 11, 82, 11, 13, 14, 15, 16, 17, 20,
     18, 19, 82, 11, 21, 22, 23, 82, 11, 82, 11, 25, 26, 27, 28, 29, 32, 30, 31, 82, 11, 33,
     34, 82, 11, 36, 37, 45, 52, 60, 65, 83, 38, 39, 40, 41, 42, 43, 44, 83, 46, 47, 48, 49,
     50, 51, 83, 53, 57, 54, 55, 56, 83, 58, 59, 83, 61, 62, 63, 64, 83, 66, 67, 68, 69, 70,
     71, 72, 83, 74, 75, 78, 84, 76] @
    [77, 84, 79, 80, 81, 84]"

definition request_line_trans_actions :: "nat list" where
  "request_line_trans_actions =
    [1, 0, 21, 0, 15, 1, 5, 0, 18, 18, 18, 0, 0, 0, 0, 0, 3, 3, 0, 0, 0, 0, 0, 0, 0, 0, 0, 0,
     72, 72, 0, 0, 0, 64, 64, 68, 68, 0, 0, 0, 0, 0, 0, 0, 0, 60, 60, 0, 0, 56, 56, 0, 0, 0, 0,
     0, 0, 9, 0, 0, 0, 0, 0, 0, 0, 24, 0, 0, 0, 0, 0, 0, 28, 0, 0, 0, 0, 0, 32, 0, 0, 36, 0, 0,
     0, 0, 40, 0, 0, 0, 0, 0, 0, 0, 44, 0, 0, 0, 12, 0] @
    [0, 48, 0, 0, 0, 52]"

definition request_line_to_state_actions :: "nat list" where
  "request_line_to_state_actions =
    [0, 0, 0, 0, 0, 0, 0, 0, 0, 0, 0, 0, 0, 0, 0, 0, 0, 0, 0, 0, 0, 0, 0, 0, 0, 0, 0, 0, 0, 0,
     0, 0, 0, 0, 0, 0, 0, 0, 0, 0, 0, 0, 0, 0, 0, 0, 0, 0, 0, 0, 0, 0, 0, 0, 0, 0, 0, 0, 0, 0,
     0, 0, 0, 0, 0, 0, 0, 0, 0, 0, 0, 0, 0, 0, 0, 0, 0, 0, 0, 0, 0, 0, 7, 0, 0]"

definition request_line_tables :: ragel_tables where
  "request_line_tables =
     \<lparr>r_actions = request_line_actions,
      r_key_offsets = request_line_key_offsets,
      r_trans_keys = request_line_trans_keys,
      r_single_lengths = request_line_single_lengths,
      r_range_lengths = request_line_range_lengths,
      r_index_offsets = request_line_index_offsets,
      r_indicies = request_line_indicies,
      r_trans_targs = request_line_trans_targs,
      r_trans_actions = request_line_trans_actions\<rparr>"

lemmas request_line_tables_defs =
  request_line_actions_def
  request_line_key_offsets_def
  request_line_trans_keys_def
  request_line_single_lengths_def
  request_line_range_lengths_def
  request_line_index_offsets_def
  request_line_indicies_def
  request_line_trans_targs_def
  request_line_trans_actions_def
  request_line_to_state_actions_def

lemma request_line_tables_sel [simp]:
  "r_actions request_line_tables = request_line_actions"
  "r_key_offsets request_line_tables = request_line_key_offsets"
  "r_trans_keys request_line_tables = request_line_trans_keys"
  "r_single_lengths request_line_tables = request_line_single_lengths"
  "r_range_lengths request_line_tables = request_line_range_lengths"
  "r_index_offsets request_line_tables = request_line_index_offsets"
  "r_indicies request_line_tables = request_line_indicies"
  "r_trans_targs request_line_tables = request_line_trans_targs"
  "r_trans_actions request_line_tables = request_line_trans_actions"
  by (simp_all add: request_line_tables_def)

section \<open>Well-formedness\<close>

lemma request_line_lengths [simp]:
  "length request_line_key_offsets = 85"
  "length request_line_trans_targs = 106"
  "length request_line_trans_actions = 106"
  "length request_line_indicies = 607"
  by (simp_all add: request_line_tables_defs)

lemma request_line_rows_ok:
  "ragel_rows_ok (tl request_line_key_offsets) (tl request_line_single_lengths) (tl request_line_range_lengths)
     (tl request_line_index_offsets) 0 0 request_line_trans_keys 607"
  by (simp add: request_line_tables_defs)

lemma request_line_indicies_ok: "list_all (\<lambda>t. t < 106) request_line_indicies"
  by (simp add: request_line_tables_defs)

lemma request_line_targs_ok: "list_all (\<lambda>s. s < 85) request_line_trans_targs"
  by (simp add: request_line_tables_defs)

lemma request_line_actions_ok: "list_all (ragel_action_ok request_line_actions 26) request_line_trans_actions"
  by (simp add: request_line_tables_defs ragel_action_ok_def ragel_action_list_def arr_def)

lemma request_line_tables_wf: "ragel_wf request_line_tables 26"
  using request_line_rows_ok request_line_indicies_ok request_line_targs_ok request_line_actions_ok
  by (simp add: ragel_wf_def)

interpretation request_line: ragel_machine request_line_tables 26
  by unfold_locales (rule request_line_tables_wf)

end
