(* ===== verification/Request_Line.thy ===== *)
theory Request_Line
  imports Rfc822 Ragel_Trees Request_Line_Tables
begin

text \<open>
  The parser of the request line, \<^verbatim>\<open>ragel_parse_request_line\<close> of
  \<^verbatim>\<open>ragel_request_line.c\<close>. Its machine calls a sub-machine: at the end of the line it goes
  back to the first character of the method and reads it again with the method names of
  the protocol that it found at the end. The driver does not check for the end of the
  buffer.
\<close>

section \<open>The scanner's variables and actions\<close>

text \<open>
  Pointers are positions in the memory at \<^verbatim>\<open>msg\<close>; \<open>None\<close> is NULL, or a variable that was not
  set yet. \<^verbatim>\<open>p\<close> may be one before the method, so it is an integer.
\<close>

record request_scan =
  rl_cs :: nat
  rl_top :: nat
  rl_stack :: "nat option list"
  rl_p :: int
  rl_s :: "int option"
  rl_pp :: "int option"
  rl_method_code :: nat
  rl_protocol_code :: RFC822_Protocol
  rl_method_str :: "int option"
  rl_method_len :: int
  rl_protocol_str :: "int option"
  rl_protocol_len :: int
  rl_object_str :: "int option"
  rl_object_len :: int

text \<open>An action is followed by the next one, by \<^verbatim>\<open>goto _again\<close> or by \<^verbatim>\<open>goto _out\<close>.\<close>

datatype 'st jump = Next 'st | Again 'st | Out 'st

definition rl_mark ::
    "request_scan \<Rightarrow> (int \<Rightarrow> int \<Rightarrow> request_scan) \<Rightarrow> request_scan jump result" where
  "rl_mark st f =
     (case rl_s st of
        None \<Rightarrow> Inl Null_Dereference
      | Some s \<Rightarrow> Inr (Next (f s (rl_p st - s))))"

text \<open>\<open>{p = pp; cs = stack[--top]; goto _again;}\<close>\<close>

definition rl_return :: "request_scan \<Rightarrow> request_scan jump result" where
  "rl_return st =
     (case rl_pp st of
        None \<Rightarrow> Inl Uninitialised
      | Some q \<Rightarrow>
          if rl_top st = 0 then Inl Out_Of_Bounds
          else
            (case arr (rl_stack st) (rl_top st - 1) of
               Inl err \<Rightarrow> Inl err
             | Inr None \<Rightarrow> Inl Uninitialised
             | Inr (Some cs) \<Rightarrow>
                 Inr (Again (st\<lparr>rl_p := q, rl_top := rl_top st - 1, rl_cs := cs\<rparr>))))"

text \<open>\<open>{pp = p; p = method_str - 1; stack[top++] = cs; cs = entry; goto _again;}\<close>\<close>

definition rl_call :: "nat \<Rightarrow> request_scan \<Rightarrow> request_scan jump result" where
  "rl_call entry st =
     (case rl_method_str st of
        None \<Rightarrow> Inl Null_Dereference
      | Some m \<Rightarrow>
          if rl_top st < length (rl_stack st) then
            Inr (Again (st\<lparr>rl_pp := Some (rl_p st), rl_p := m - 1,
                          rl_stack := (rl_stack st)[rl_top st := Some (rl_cs st)],
                          rl_top := rl_top st + 1, rl_cs := entry\<rparr>))
          else Inl Out_Of_Bounds)"

definition request_act :: "nat \<Rightarrow> request_scan \<Rightarrow> request_scan jump result" where
  "request_act i st =
     (if i = 0 then Inr (Next (st\<lparr>rl_protocol_code := RFC822_Protocol_RTSP10\<rparr>))
      else if i = 1 then
        Inr (Next (st\<lparr>rl_protocol_code := RFC822_Protocol_RTSP_UnsupportedVersion\<rparr>))
      else if i = 2 then Inr (Next (st\<lparr>rl_protocol_code := RFC822_Protocol_HTTP10\<rparr>))
      else if i = 3 then Inr (Next (st\<lparr>rl_protocol_code := RFC822_Protocol_HTTP11\<rparr>))
      else if i = 4 then
        Inr (Next (st\<lparr>rl_protocol_code := RFC822_Protocol_HTTP_UnsupportedVersion\<rparr>))
      else if i = 5 then
        Inr (Next (st\<lparr>rl_method_code := rtsp_method_code RTSP_Method__Unsupported\<rparr>))
      else if i = 6 then
        Inr (Next (st\<lparr>rl_method_code := rtsp_method_code RTSP_Method_DESCRIBE\<rparr>))
      else if i = 7 then
        Inr (Next (st\<lparr>rl_method_code := rtsp_method_code RTSP_Method_OPTIONS\<rparr>))
      else if i = 8 then
        Inr (Next (st\<lparr>rl_method_code := rtsp_method_code RTSP_Method_PAUSE\<rparr>))
      else if i = 9 then
        Inr (Next (st\<lparr>rl_method_code := rtsp_method_code RTSP_Method_PLAY\<rparr>))
      else if i = 10 then
        Inr (Next (st\<lparr>rl_method_code := rtsp_method_code RTSP_Method_SETUP\<rparr>))
      else if i = 11 then
        Inr (Next (st\<lparr>rl_method_code := rtsp_method_code RTSP_Method_TEARDOWN\<rparr>))
      else if i = 12 then
        Inr (Next (st\<lparr>rl_method_code := http_method_code HTTP_Method__Unsupported\<rparr>))
      else if i = 13 then
        Inr (Next (st\<lparr>rl_method_code := http_method_code HTTP_Method_GET\<rparr>))
      else if i = 14 then
        Inr (Next (st\<lparr>rl_method_code := http_method_code HTTP_Method_POST\<rparr>))
      else if i = 15 then Inr (Next (st\<lparr>rl_s := Some (rl_p st)\<rparr>))
      else if i = 16 then
        rl_mark st (\<lambda>s n. st\<lparr>rl_method_str := Some s, rl_method_len := n\<rparr>)
      else if i = 17 then
        rl_mark st (\<lambda>s n. st\<lparr>rl_protocol_str := Some s, rl_protocol_len := n\<rparr>)
      else if i = 18 then
        rl_mark st (\<lambda>s n. st\<lparr>rl_object_str := Some s, rl_object_len := n\<rparr>)
      else if i = 19 then rl_return st
      else if i = 20 then rl_return st
      else if i = 21 then Inr (Next (st\<lparr>rl_method_code := 1\<rparr>))
      else if i = 22 then Inr (Next (st\<lparr>rl_protocol_code := RFC822_Protocol_Unsupported\<rparr>))
      else if i = 23 then rl_call 35 st
      else if i = 24 then rl_call 73 st
      else if i = 25 then Inr (Out (st\<lparr>rl_p := rl_p st + 1\<rparr>))
      else Inr (Next st))"

fun request_acts :: "nat list \<Rightarrow> request_scan \<Rightarrow> request_scan jump result" where
  "request_acts [] st = Inr (Again st)"
| "request_acts (i # ids) st =
     (case request_act i st of
        Inl err \<Rightarrow> Inl err
      | Inr (Next st') \<Rightarrow> request_acts ids st'
      | Inr (Again st') \<Rightarrow> Inr (Again st')
      | Inr (Out st') \<Rightarrow> Inr (Out st'))"

section \<open>The driver\<close>

text \<open>From \<^verbatim>\<open>_again\<close> to \<^verbatim>\<open>_resume\<close> or \<^verbatim>\<open>_out\<close>.\<close>

definition request_again :: "request_scan \<Rightarrow> request_scan jump result" where
  "request_again st =
     (case arr request_line_to_state_actions (rl_cs st) of
        Inl err \<Rightarrow> Inl err
      | Inr a \<Rightarrow>
          (case ragel_action_list request_line_actions a of
             Inl err \<Rightarrow> Inl err
           | Inr ids \<Rightarrow>
               (case request_acts ids st of
                  Inr (Again st') \<Rightarrow>
                    (if rl_cs st' = 0 then Inr (Out st')
                     else Inr (Again (st'\<lparr>rl_p := rl_p st' + 1\<rparr>)))
                | r \<Rightarrow> r)))"

text \<open>One turn, from \<^verbatim>\<open>_resume\<close> on. \<open>msg\<close> is the memory, beyond the end of the message too.\<close>

definition request_turn :: "string \<Rightarrow> request_scan \<Rightarrow> request_scan jump result" where
  "request_turn msg st =
     (if rl_p st < 0 then Inl Out_Of_Bounds
      else
        (case arr msg (nat (rl_p st)) of
           Inl err \<Rightarrow> Inl err
         | Inr c \<Rightarrow>
             (case ragel_step request_line_tables (rl_cs st) (c_char c) of
                Inl err \<Rightarrow> Inl err
              | Inr (cs', ids) \<Rightarrow>
                  (case request_acts ids (st\<lparr>rl_cs := cs'\<rparr>) of
                     Inl err \<Rightarrow> Inl err
                   | Inr (Again st') \<Rightarrow> request_again st'
                   | Inr (Next st') \<Rightarrow> request_again st'
                   | Inr (Out st') \<Rightarrow> Inr (Out st')))))"

text \<open>The loop; \<open>None\<close> would be a run that never ends.\<close>

partial_function (option) request_run :: "string \<Rightarrow> request_scan \<Rightarrow> request_scan result option" where
  "request_run msg st =
     (case request_turn msg st of
        Inl err \<Rightarrow> Some (Inl err)
      | Inr (Out st') \<Rightarrow> Some (Inr st')
      | Inr (Again st') \<Rightarrow> request_run msg st'
      | Inr (Next st') \<Rightarrow> request_run msg st')"

text \<open>\<open>stack\<close> has two elements, which are not initialised.\<close>

definition request_start :: request_scan where
  "request_start =
     \<lparr>rl_cs = 1, rl_top = 0, rl_stack = [None, None], rl_p = 0, rl_s = None, rl_pp = None,
      rl_method_code = rtsp_method_code RTSP_Method__Invalid,
      rl_protocol_code = RFC822_Protocol_Invalid,
      rl_method_str = None, rl_method_len = 0, rl_protocol_str = None, rl_protocol_len = 0,
      rl_object_str = None, rl_object_len = 0\<rparr>"

definition request_copy :: "string \<Rightarrow> int option \<Rightarrow> int \<Rightarrow> string option" where
  "request_copy msg str len =
     (case str of None \<Rightarrow> None | Some m \<Rightarrow> Some (g_strndup (drop (nat m) msg) (nat len)))"

text \<open>
  The returned number, (size\_t)(-1) being -1 here, and the request that \<^verbatim>\<open>req\<close> points to.
\<close>

definition ragel_parse_request_line ::
    "string \<Rightarrow> nat \<Rightarrow> RFC822_Request \<Rightarrow> (int \<times> RFC822_Request) result option" where
  "ragel_parse_request_line msg len req =
     (case request_run msg request_start of
        None \<Rightarrow> None
      | Some (Inl err) \<Rightarrow> Some (Inl err)
      | Some (Inr st) \<Rightarrow>
          Some (Inr
            (if rl_cs st < 82 then (if rl_p st = int len then 0 else -1, req)
             else
               (rl_p st,
                req\<lparr>proto := rl_protocol_code st, method_id := rl_method_code st,
                    method_str := request_copy msg (rl_method_str st) (rl_method_len st),
                    protocol_str := request_copy msg (rl_protocol_str st) (rl_protocol_len st),
                    object := request_copy msg (rl_object_str st) (rl_object_len st)\<rparr>))))"

section \<open>It returns when a byte behind the message stops it\<close>

text \<open>
  The label of a state: its kind (0 the main machine, 1 the sub-machines, 2 the ends of the
  sub-machines, 3 the error state, 4 the final state) and how far the line was read: 1
  \<^verbatim>\<open>s\<close> is set, 2 the method too, 3 its number, 4 the object, 5 the protocol.
\<close>

fun rl_run :: "nat \<Rightarrow> nat list \<Rightarrow> nat option" where
  "rl_run v [] = Some v"
| "rl_run v (i # ids) =
     (if i < 5 \<or> i = 22 then rl_run v ids
      else if i = 15 then rl_run (max v 1) ids
      else if i = 16 then (if v = 1 then rl_run 2 ids else None)
      else if i = 21 then (if v = 2 then rl_run 3 ids else None)
      else if i = 17 then (if v = 4 then rl_run 5 ids else None)
      else if i = 18 then (if 3 \<le> v then rl_run (max v 4) ids else None)
      else if (i = 23 \<or> i = 24) \<and> ids = [] \<and> v = 5 then Some 5
      else None)"

fun rl_sub :: "nat list \<Rightarrow> bool" where
  "rl_sub [] = False"
| "rl_sub [i] = (i = 19 \<or> i = 20)"
| "rl_sub (i # j # ids) = (4 < i \<and> i < 15 \<and> rl_sub (j # ids))"

fun rl_ok :: "nat \<times> nat \<Rightarrow> nat \<times> nat \<Rightarrow> nat list \<Rightarrow> bool" where
  "rl_ok (k, v) (k', v') ids =
     (if k' = 3 then ids = []
      else if k = 0 then
        (k' = 0 \<or> k' = 4) \<and> (case rl_run v ids of None \<Rightarrow> False | Some w \<Rightarrow> v' \<le> w)
      else if k = 1 then k' = 1 \<and> ids = [] \<or> k' = 2 \<and> rl_sub ids
      else False)"

definition rl_labels :: "(nat \<times> nat) list" where
  "rl_labels =
     [(3, 0), (0, 0), (0, 1), (0, 3), (0, 4), (0, 3)] @ replicate 5 (0, 4) @ [(0, 5)] @
     replicate 23 (0, 4) @ replicate 47 (1, 5) @ [(4, 5), (2, 5), (2, 5)]"

lemma rl_labels_ok: "ragel_labels_ok request_line_tables rl_ok rl_labels"
  by (simp add: ragel_labels_ok_def request_line_tables_defs rl_labels_def ragel_ids_def
      replicate_numeral)

lemma rl_stops: "ragel_stops request_line_tables 9 126"
  by (simp add: ragel_stops_def ragel_itree_def request_line_tables_defs ragel_ids_def)

lemma rl_kind:
  assumes "cs < 85"
  shows "fst (rl_labels ! cs) = 3 \<longleftrightarrow> cs = 0" "fst (rl_labels ! cs) = 4 \<longleftrightarrow> cs = 82"
    "snd (rl_labels ! cs) \<le> 5"
  using assms by (auto simp: rl_labels_def nth_append nth_Cons')

lemma rl_sub_level:
  assumes "cs < 85" and "fst (rl_labels ! cs) = 1"
  shows "snd (rl_labels ! cs) = 5"
  using assms by (auto simp: rl_labels_def nth_append nth_Cons' split: if_splits)

lemma rl_label_at [simp]:
  "rl_labels ! 35 = (1, 5)" "rl_labels ! 73 = (1, 5)" "rl_labels ! Suc 0 = (0, 0)" "length rl_labels = 85"
  by (simp_all add: rl_labels_def nth_append nth_Cons')

lemma request_again_eq:
  assumes "rl_cs st < 85"
  shows "request_again st =
     (if rl_cs st = 82 then Inr (Out (st\<lparr>rl_p := rl_p st + 1\<rparr>))
      else if rl_cs st = 0 then Inr (Out st)
      else Inr (Again (st\<lparr>rl_p := rl_p st + 1\<rparr>)))"
proof -
  have table: "request_line_to_state_actions = replicate 82 0 @ [7, 0, 0]"
    by (simp add: request_line_to_state_actions_def replicate_numeral)
  have "arr request_line_to_state_actions (rl_cs st) = Inr (if rl_cs st = 82 then 7 else 0)"
    using assms by (auto simp: table arr_def nth_append nth_Cons')
  moreover have "ragel_action_list request_line_actions 7 = Inr [25]"
      "ragel_action_list request_line_actions 0 = Inr []"
    by (simp_all add: request_line_actions_def ragel_action_list_def arr_def)
  ultimately show ?thesis by (simp add: request_again_def request_act_def)
qed

definition rl_lev :: "int \<Rightarrow> nat \<Rightarrow> request_scan \<Rightarrow> bool" where
  "rl_lev n v st \<longleftrightarrow>
     (1 \<le> v \<longrightarrow> (\<exists>s. rl_s st = Some s \<and> 0 \<le> s \<and> s \<le> n)) \<and>
     (2 \<le> v \<longrightarrow> (\<exists>m. rl_method_str st = Some m \<and> 0 \<le> m \<and> m \<le> n)) \<and>
     (3 \<le> v \<longrightarrow> 0 < rl_method_code st) \<and> rl_method_code st < 8 \<and>
     (4 \<le> v \<longrightarrow> rl_object_str st \<noteq> None) \<and> (5 \<le> v \<longrightarrow> rl_protocol_str st \<noteq> None)"

lemma rl_lev_mono: "rl_lev n v st \<Longrightarrow> w \<le> v \<Longrightarrow> rl_lev n w st"
  by (auto simp: rl_lev_def)

lemma rl_lev_cong [simp]:
  "rl_lev n v (st\<lparr>rl_p := p\<rparr>) = rl_lev n v st"
  "rl_lev n v (st\<lparr>rl_cs := c\<rparr>) = rl_lev n v st"
  "rl_lev n v (st\<lparr>rl_protocol_code := pc\<rparr>) = rl_lev n v st"
  "rl_lev n v (st\<lparr>rl_top := t\<rparr>) = rl_lev n v st"
  "rl_lev n v (st\<lparr>rl_pp := q\<rparr>) = rl_lev n v st"
  "rl_lev n v (st\<lparr>rl_stack := sk\<rparr>) = rl_lev n v st"
  by (simp_all add: rl_lev_def)

text \<open>What the actions of a transition of the main machine leave.\<close>

definition rl_same :: "request_scan \<Rightarrow> request_scan \<Rightarrow> bool" where
  "rl_same st st' \<longleftrightarrow>
     rl_cs st' = rl_cs st \<and> rl_p st' = rl_p st \<and> rl_top st' = rl_top st \<and> rl_stack st' = rl_stack st"

definition rl_called :: "request_scan \<Rightarrow> request_scan \<Rightarrow> bool" where
  "rl_called st st' \<longleftrightarrow>
     (rl_cs st' = 35 \<or> rl_cs st' = 73) \<and> rl_pp st' = Some (rl_p st) \<and>
     (\<exists>m. rl_method_str st' = Some m \<and> rl_p st' = m - 1) \<and>
     rl_top st' = rl_top st + 1 \<and> rl_stack st' = (rl_stack st)[rl_top st := Some (rl_cs st)]"

lemma request_act_main:
  assumes "rl_run v (i # ids) = Some w" and "rl_lev n v st" and "0 \<le> rl_p st" and "rl_p st \<le> n"
    and "i \<noteq> 23" and "i \<noteq> 24"
  shows "\<exists>v' st'. request_act i st = Inr (Next st') \<and> rl_run v' ids = Some w \<and> rl_lev n v' st' \<and>
           rl_same st st'"
proof -
  consider "i < 5 \<or> i = 22" | "i = 21" | "i = 15" | "i = 16" | "i = 17" | "i = 18"
    using assms(1,5,6) by (auto split: if_splits)
  then show ?thesis
  proof cases
    case 1
    then have "i \<in> {0, 1, 2, 3, 4, 22}" by auto
    then show ?thesis
      using assms by (intro exI [of _ v]) (auto simp: request_act_def rl_same_def)
  next
    case 2
    then show ?thesis using assms
      by (intro exI [of _ 3]) (auto simp: request_act_def rl_same_def rl_lev_def split: if_splits)
  next
    case 3
    then show ?thesis using assms
      by (intro exI [of _ "max v 1"]) (auto simp: request_act_def rl_same_def rl_lev_def)
  next
    case 4
    then show ?thesis using assms
      by (intro exI [of _ 2]) (auto simp: request_act_def rl_same_def rl_lev_def rl_mark_def split: if_splits)
  next
    case 5
    then show ?thesis using assms
      by (intro exI [of _ 5]) (auto simp: request_act_def rl_same_def rl_lev_def rl_mark_def split: if_splits)
  next
    case 6
    then show ?thesis using assms
      by (intro exI [of _ "max v 4"])
         (auto simp: request_act_def rl_same_def rl_lev_def rl_mark_def split: if_splits)
  qed
qed

lemma request_acts_main:
  assumes "rl_run v ids = Some w" and "rl_lev n v st" and "0 \<le> rl_p st" and "rl_p st \<le> n"
    and "rl_top st < length (rl_stack st)"
  shows "\<exists>st'. request_acts ids st = Inr (Again st') \<and> rl_lev n w st' \<and>
           (rl_same st st' \<or> w = 5 \<and> rl_called st st')"
  using assms
proof (induction ids arbitrary: v st)
  case Nil
  then show ?case by (auto simp: rl_same_def)
next
  case (Cons i ids)
  show ?case
  proof (cases "i = 23 \<or> i = 24")
    case True
    then have v: "v = 5" "ids = []" "w = 5" using Cons.prems(1) by (auto split: if_splits)
    then obtain m where m: "rl_method_str st = Some m" "0 \<le> m" "m \<le> n"
      using Cons.prems(2) by (auto simp: rl_lev_def)
    let ?st = "st\<lparr>rl_pp := Some (rl_p st), rl_p := m - 1,
      rl_stack := (rl_stack st)[rl_top st := Some (rl_cs st)], rl_top := rl_top st + 1,
      rl_cs := (if i = 23 then 35 else 73)\<rparr>"
    have "request_acts (i # ids) st = Inr (Again ?st)"
      using True v m Cons.prems by (auto simp: request_act_def rl_call_def)
    moreover have "rl_called st ?st" using m by (simp add: rl_called_def)
    moreover have "rl_lev n w ?st" using Cons.prems(2) v by simp
    ultimately show ?thesis using v by blast
  next
    case False
    then obtain v' st1 where st1: "request_act i st = Inr (Next st1)" "rl_run v' ids = Some w"
        "rl_lev n v' st1" "rl_same st st1"
      using request_act_main [OF Cons.prems(1-4)] by blast
    then obtain st' where "request_acts ids st1 = Inr (Again st')" "rl_lev n w st'"
        "rl_same st1 st' \<or> w = 5 \<and> rl_called st1 st'"
      using Cons.IH [of v' st1] Cons.prems by (auto simp: rl_same_def)
    then show ?thesis using st1 by (auto simp: rl_same_def rl_called_def)
  qed
qed

lemma request_act_code:
  assumes "4 < i" and "i < 15"
  shows "request_act i st = Inr (Next (st\<lparr>rl_method_code := [1, 2, 3, 4, 5, 6, 7, 1, 2, 3] ! (i - 5)\<rparr>))"
proof -
  have range: "set [5..<15] = {5, 6, 7, 8, 9, 10, 11, 12, 13, 14 :: nat}"
    by (simp del: set_upt)
  have "i \<in> set [5..<15]" using assms unfolding set_upt atLeastLessThan_iff by simp
  then have "i \<in> {5, 6, 7, 8, 9, 10, 11, 12, 13, 14}" by (simp only: range)
  then show ?thesis by (elim insertE emptyE) (simp_all add: request_act_def)
qed

lemma request_acts_sub:
  assumes "rl_sub ids" and "rl_lev n v st" and "rl_top st = 1" and "length (rl_stack st) = 2"
    and "rl_stack st ! 0 = Some c" and "rl_pp st = Some q"
  shows "\<exists>st'. request_acts ids st = Inr (Again st') \<and> rl_lev n v st' \<and> rl_cs st' = c \<and> rl_p st' = q \<and>
           rl_top st' = 0 \<and> length (rl_stack st') = 2"
  using assms
proof (induction ids arbitrary: st rule: rl_sub.induct)
  case (2 i)
  then show ?case by (auto simp: request_act_def rl_return_def arr_def)
next
  case (3 i j ids)
  then have act: "request_act i st =
      Inr (Next (st\<lparr>rl_method_code := [1, 2, 3, 4, 5, 6, 7, 1, 2, 3] ! (i - 5)\<rparr>))" (is "_ = Inr (Next ?st)")
    using request_act_code [of i st] by simp
  have "i < 15" using "3.prems"(1) by simp
  then have "i - 5 < 10" by simp
  then have "[1, 2, 3, 4, 5, 6, 7, 1, 2, 3] ! (i - 5) \<in> set [1, 2, 3, 4, 5, 6, 7, 1, 2, 3 :: nat]"
    by (intro nth_mem) simp
  then have "rl_lev n v ?st" using "3.prems"(2) by (auto simp: rl_lev_def)
  then show ?case using "3.IH" [of ?st] "3.prems" act by auto
qed simp

text \<open>The invariant of the loop, \<open>n\<close> being the position of a byte that stops the machine.\<close>

definition rl_sub_inv :: "int \<Rightarrow> request_scan \<Rightarrow> bool" where
  "rl_sub_inv n st \<longleftrightarrow>
     rl_top st = 1 \<and>
     (\<exists>c q. rl_stack st ! 0 = Some c \<and> 0 < c \<and> c < 85 \<and> (fst (rl_labels ! c) = 0 \<or> c = 82) \<and>
            rl_pp st = Some q \<and> 0 \<le> q \<and> q < n)"

definition rl_inv :: "int \<Rightarrow> request_scan \<Rightarrow> bool" where
  "rl_inv n st \<longleftrightarrow>
     0 < rl_cs st \<and> rl_cs st < 85 \<and> 0 \<le> rl_p st \<and> rl_p st \<le> n \<and> length (rl_stack st) = 2 \<and>
     rl_lev n (snd (rl_labels ! rl_cs st)) st \<and>
     (fst (rl_labels ! rl_cs st) = 0 \<and> rl_top st = 0 \<or>
      fst (rl_labels ! rl_cs st) = 1 \<and> rl_sub_inv n st)"

definition rl_measure :: "int \<Rightarrow> request_scan \<Rightarrow> nat" where
  "rl_measure n st =
     (if fst (rl_labels ! rl_cs st) = 0 then nat (n - rl_p st) * nat (n + 3) + nat (n + 2)
      else nat (n - the (rl_pp st)) * nat (n + 3) + nat (n - rl_p st))"

definition rl_final :: "int \<Rightarrow> request_scan \<Rightarrow> bool" where
  "rl_final n st \<longleftrightarrow>
     0 \<le> rl_p st \<and> rl_p st \<le> n \<and>
     (rl_cs st = 0 \<or>
      rl_cs st = 82 \<and> 0 < rl_p st \<and> 0 < rl_method_code st \<and> rl_method_code st < 8 \<and>
        rl_method_str st \<noteq> None \<and> rl_object_str st \<noteq> None \<and> rl_protocol_str st \<noteq> None)"

text \<open>Behind \<^verbatim>\<open>_again\<close> in the main machine: the next turn, or the end.\<close>

lemma rl_again_main:
  assumes "rl_lev n (snd (rl_labels ! rl_cs st)) st" and "fst (rl_labels ! rl_cs st) = 0 \<or> rl_cs st = 82"
    and "rl_top st = 0" and "0 < rl_cs st" and "rl_cs st < 85" and "length (rl_stack st) = 2"
    and "0 \<le> rl_p st" and "rl_p st < n"
  shows "\<exists>r. request_again st = Inr r \<and>
     (case r of
        Next st' \<Rightarrow> False
      | Again st' \<Rightarrow> rl_inv n st' \<and> fst (rl_labels ! rl_cs st') = 0 \<and> rl_p st' = rl_p st + 1
      | Out st' \<Rightarrow> rl_final n st')"
proof (cases "rl_cs st = 82")
  case True
  have "rl_labels ! 82 = (4, 5)" by (simp add: rl_labels_def nth_append nth_Cons')
  then show ?thesis
    using True assms by (auto simp: request_again_eq rl_final_def rl_lev_def)
next
  case False
  then show ?thesis using assms by (auto simp: request_again_eq rl_inv_def)
qed

lemma measure_less:
  fixes a b n :: int
  assumes "0 \<le> b" and "b < a" and "0 \<le> n"
  shows "nat b * nat (n + 3) + nat (n + 2) < nat a * nat (n + 3)"
proof -
  have "Suc (nat b) \<le> nat a" using assms by simp
  then have "Suc (nat b) * nat (n + 3) \<le> nat a * nat (n + 3)" by (rule mult_le_mono1)
  then have "nat b * nat (n + 3) + nat (n + 3) \<le> nat a * nat (n + 3)" by simp
  moreover have "nat (n + 2) < nat (n + 3)" using assms(3) by simp
  ultimately show ?thesis by linarith
qed

lemma rl_turn_main:
  assumes inv: "rl_inv n st" and k: "fst (rl_labels ! rl_cs st) = 0" and p: "rl_p st < n"
    and ok: "rl_ok (rl_labels ! rl_cs st) (rl_labels ! cs') ids" and cs': "cs' < 85" "cs' \<noteq> 0"
  shows "\<exists>st1 r. request_acts ids (st\<lparr>rl_cs := cs'\<rparr>) = Inr (Again st1) \<and> request_again st1 = Inr r \<and>
     (case r of
        Next st' \<Rightarrow> False
      | Again st' \<Rightarrow> rl_inv n st' \<and> rl_measure n st' < rl_measure n st
      | Out st' \<Rightarrow> rl_final n st')"
proof -
  obtain v where v: "rl_labels ! rl_cs st = (0, v)" using k by (metis prod.collapse)
  obtain k' v' where l': "rl_labels ! cs' = (k', v')" by fastforce
  have "k' \<noteq> 3" "v' \<le> 5" using rl_kind [OF cs'(1)] cs'(2) l' by auto
  then obtain w where w: "k' = 0 \<or> k' = 4" "rl_run v ids = Some w" "v' \<le> w"
    using ok v l' by (auto split: option.splits)
  have lev: "rl_lev n v (st\<lparr>rl_cs := cs'\<rparr>)" and top: "rl_top st = 0" "length (rl_stack st) = 2"
    using inv v by (auto simp: rl_inv_def)
  from request_acts_main [OF w(2) lev] inv top obtain st1 where
    st1: "request_acts ids (st\<lparr>rl_cs := cs'\<rparr>) = Inr (Again st1)" "rl_lev n w st1"
      "rl_same (st\<lparr>rl_cs := cs'\<rparr>) st1 \<or> w = 5 \<and> rl_called (st\<lparr>rl_cs := cs'\<rparr>) st1"
    by (auto simp: rl_inv_def)
  have kind: "fst (rl_labels ! cs') = 0 \<or> cs' = 82"
    using w(1) l' rl_kind [OF cs'(1)] by auto
  from st1(3) show ?thesis
  proof
    assume same: "rl_same (st\<lparr>rl_cs := cs'\<rparr>) st1"
    then have "rl_lev n (snd (rl_labels ! rl_cs st1)) st1"
      using rl_lev_mono [OF st1(2) w(3)] l' by (simp add: rl_same_def)
    with same have "\<exists>r. request_again st1 = Inr r \<and>
       (case r of
          Next st' \<Rightarrow> False
        | Again st' \<Rightarrow> rl_inv n st' \<and> fst (rl_labels ! rl_cs st') = 0 \<and> rl_p st' = rl_p st1 + 1
        | Out st' \<Rightarrow> rl_final n st')"
      using kind cs' top inv p by (intro rl_again_main) (auto simp: rl_same_def rl_inv_def)
    moreover have "rl_measure n st' < rl_measure n st"
      if "fst (rl_labels ! rl_cs st') = 0" "rl_p st' = rl_p st + 1" for st'
      using that v p measure_less [of "n - rl_p st'" "n - rl_p st" n] inv
      by (auto simp: rl_measure_def rl_inv_def)
    ultimately show ?thesis using st1(1) same by (fastforce simp: rl_same_def split: jump.splits)
  next
    assume "w = 5 \<and> rl_called (st\<lparr>rl_cs := cs'\<rparr>) st1"
    then have w4: "w = 5" and called: "rl_called (st\<lparr>rl_cs := cs'\<rparr>) st1" by auto
    then obtain m where m: "rl_method_str st1 = Some m" "rl_p st1 = m - 1"
      by (auto simp: rl_called_def)
    have m': "0 \<le> m" "m \<le> n" using st1(2) w4 m by (auto simp: rl_lev_def)
    have cs1: "rl_cs st1 = 35 \<or> rl_cs st1 = 73" using called by (simp add: rl_called_def)
    then have again: "request_again st1 = Inr (Again (st1\<lparr>rl_p := m\<rparr>))"
      using m by (auto simp: request_again_eq)
    have lab: "rl_labels ! rl_cs st1 = (1, 5)" using cs1 by auto
    have sub: "rl_sub_inv n (st1\<lparr>rl_p := m\<rparr>)"
      using called top inv p cs' kind by (auto simp: rl_sub_inv_def rl_called_def rl_inv_def)
    have "rl_inv n (st1\<lparr>rl_p := m\<rparr>)"
      using sub lab st1(2) w4 m' cs1 called top by (auto simp: rl_inv_def rl_called_def)
    moreover have "rl_measure n (st1\<lparr>rl_p := m\<rparr>) < rl_measure n st"
    proof -
      have "rl_pp st1 = Some (rl_p st)" using called by (simp add: rl_called_def)
      then show ?thesis using lab v m' by (auto simp: rl_measure_def)
    qed
    ultimately show ?thesis using st1(1) again by auto
  qed
qed

lemma rl_turn_sub:
  assumes inv: "rl_inv n st" and k: "fst (rl_labels ! rl_cs st) = 1" and p: "rl_p st < n"
    and ok: "rl_ok (rl_labels ! rl_cs st) (rl_labels ! cs') ids" and cs': "cs' < 85" "cs' \<noteq> 0"
  shows "\<exists>st1 r. request_acts ids (st\<lparr>rl_cs := cs'\<rparr>) = Inr (Again st1) \<and> request_again st1 = Inr r \<and>
     (case r of
        Next st' \<Rightarrow> False
      | Again st' \<Rightarrow> rl_inv n st' \<and> rl_measure n st' < rl_measure n st
      | Out st' \<Rightarrow> rl_final n st')"
proof -
  obtain v where v: "rl_labels ! rl_cs st = (1, v)" using k by (metis prod.collapse)
  obtain k' v' where l': "rl_labels ! cs' = (k', v')" by fastforce
  have k': "k' \<noteq> 3" using rl_kind [OF cs'(1)] cs'(2) l' by auto
  then have alts: "k' = 1 \<and> ids = [] \<or> k' = 2 \<and> rl_sub ids" using ok v l' by simp
  have sub: "rl_sub_inv n st" "length (rl_stack st) = 2" "rl_lev n v st" "0 \<le> rl_p st"
    using inv v by (auto simp: rl_inv_def)
  have v4: "v = 5"
    using v rl_sub_level [of "rl_cs st"] inv by (auto simp: rl_inv_def)
  obtain c q where cq: "rl_stack st ! 0 = Some c" "0 < c" "c < 85"
      "fst (rl_labels ! c) = 0 \<or> c = 82" "rl_pp st = Some q" "0 \<le> q" "q < n" "rl_top st = 1"
    using sub(1) by (auto simp: rl_sub_inv_def)
  from alts show ?thesis
  proof
    assume a: "k' = 1 \<and> ids = []"
    then have "request_again (st\<lparr>rl_cs := cs'\<rparr>) = Inr (Again (st\<lparr>rl_cs := cs', rl_p := rl_p st + 1\<rparr>))"
      using cs' l' rl_kind(2) [OF cs'(1)] by (simp add: request_again_eq)
    moreover have "v' = 5" using l' a rl_sub_level [OF cs'(1)] by simp
    then have "rl_inv n (st\<lparr>rl_cs := cs', rl_p := rl_p st + 1\<rparr>)"
      using sub v4 l' a cs' p by (auto simp: rl_inv_def rl_sub_inv_def)
    moreover have "rl_measure n (st\<lparr>rl_cs := cs', rl_p := rl_p st + 1\<rparr>) < rl_measure n st"
      using l' a v p by (simp add: rl_measure_def)
    ultimately show ?thesis using a by auto
  next
    assume a: "k' = 2 \<and> rl_sub ids"
    have "\<exists>st'. request_acts ids (st\<lparr>rl_cs := cs'\<rparr>) = Inr (Again st') \<and> rl_lev n v st' \<and>
        rl_cs st' = c \<and> rl_p st' = q \<and> rl_top st' = 0 \<and> length (rl_stack st') = 2"
      using a sub cq by (intro request_acts_sub) auto
    then obtain st1 where st1: "request_acts ids (st\<lparr>rl_cs := cs'\<rparr>) = Inr (Again st1)"
        "rl_lev n v st1" "rl_cs st1 = c" "rl_p st1 = q" "rl_top st1 = 0" "length (rl_stack st1) = 2"
      by blast
    have "rl_lev n (snd (rl_labels ! rl_cs st1)) st1"
      using rl_lev_mono [OF st1(2)] rl_kind(3) [OF cq(3)] v4 st1(3) by simp
    then have "\<exists>r. request_again st1 = Inr r \<and>
       (case r of
          Next st' \<Rightarrow> False
        | Again st' \<Rightarrow> rl_inv n st' \<and> fst (rl_labels ! rl_cs st') = 0 \<and> rl_p st' = rl_p st1 + 1
        | Out st' \<Rightarrow> rl_final n st')"
      using st1 cq by (intro rl_again_main) auto
    moreover have "rl_measure n st' < rl_measure n st"
      if "fst (rl_labels ! rl_cs st') = 0" "rl_p st' = q + 1" for st'
      using that v cq measure_less [of "n - rl_p st'" "n - q" n]
      by (auto simp: rl_measure_def)
    ultimately show ?thesis using st1 by (fastforce split: jump.splits)
  qed
qed

lemma rl_turn:
  assumes inv: "rl_inv (int len) st" and stop: "stop_byte msg len"
  shows "\<exists>r. request_turn msg st = Inr r \<and>
     (case r of
        Next st' \<Rightarrow> False
      | Again st' \<Rightarrow> rl_inv (int len) st' \<and> rl_measure (int len) st' < rl_measure (int len) st
      | Out st' \<Rightarrow> rl_final (int len) st')"
proof -
  have p: "0 \<le> rl_p st" "rl_p st \<le> int len" and cs: "0 < rl_cs st" "rl_cs st < 85"
      and kind: "fst (rl_labels ! rl_cs st) = 0 \<or> fst (rl_labels ! rl_cs st) = 1"
    using inv by (auto simp: rl_inv_def)
  have "nat (rl_p st) \<le> len" using p(2) by (simp add: nat_le_iff)
  then have "nat (rl_p st) < length msg" using stop by (auto simp: stop_byte_def)
  then have msg: "arr msg (nat (rl_p st)) = Inr (msg ! nat (rl_p st))" by (simp add: arr_def)
  let ?c = "c_char (msg ! nat (rl_p st))"
  obtain cs' ids where step: "ragel_step request_line_tables (rl_cs st) ?c = Inr (cs', ids)" "cs' < 85"
    by (rule request_line.step_total [of "rl_cs st" ?c]) (use cs in simp_all)
  have ok: "rl_ok (rl_labels ! rl_cs st) (rl_labels ! cs') ids"
    using request_line.labels_step [OF rl_labels_ok, of "rl_cs st" ?c] step cs by simp
  have turn: "request_turn msg st =
      (case request_acts ids (st\<lparr>rl_cs := cs'\<rparr>) of
         Inl err \<Rightarrow> Inl err
       | Inr (Again st') \<Rightarrow> request_again st'
       | Inr (Next st') \<Rightarrow> request_again st'
       | Inr (Out st') \<Rightarrow> Inr (Out st'))"
    using p msg step by (simp add: request_turn_def)
  show ?thesis
  proof (cases "cs' = 0")
    case True
    then have "ids = []" using ok rl_kind(1) [OF step(2)] by (cases "rl_labels ! rl_cs st"; cases "rl_labels ! cs'") auto
    then show ?thesis using turn True p by (simp add: request_again_eq rl_final_def)
  next
    case False
    have "rl_p st < int len"
    proof (rule ccontr)
      assume "\<not> rl_p st < int len"
      then have "nat (rl_p st) = len" using p by simp
      then have "ragel_step request_line_tables (rl_cs st) ?c = Inr (0, [])"
        using stop cs
        by (intro ragel_machine.stops_step [OF request_line.ragel_machine_axioms rl_stops])
           (auto simp: stop_byte_def)
      then show False using step False by simp
    qed
    with kind rl_turn_main [OF inv _ _ ok step(2) False] rl_turn_sub [OF inv _ _ ok step(2) False]
    obtain st1 r where "request_acts ids (st\<lparr>rl_cs := cs'\<rparr>) = Inr (Again st1)" "request_again st1 = Inr r"
        "case r of
          Next st' \<Rightarrow> False
        | Again st' \<Rightarrow> rl_inv (int len) st' \<and> rl_measure (int len) st' < rl_measure (int len) st
        | Out st' \<Rightarrow> rl_final (int len) st'"
      by blast
    then show ?thesis using turn by auto
  qed
qed

lemma request_run_total:
  assumes "rl_inv (int len) st" and "stop_byte msg len"
  shows "\<exists>st'. request_run msg st = Some (Inr st') \<and> rl_final (int len) st'"
  using assms(1)
proof (induction "rl_measure (int len) st" arbitrary: st rule: less_induct)
  case less
  from rl_turn [OF less.prems assms(2)] obtain r where r: "request_turn msg st = Inr r"
      "case r of
          Next st' \<Rightarrow> False
        | Again st' \<Rightarrow> rl_inv (int len) st' \<and> rl_measure (int len) st' < rl_measure (int len) st
        | Out st' \<Rightarrow> rl_final (int len) st'" by blast
  then show ?case using less.hyps by (cases r) (auto simp: request_run.simps [of msg st])
qed

section \<open>What an RTSP client writes\<close>

definition visible_chars :: "int list" where
  "visible_chars = [33..126]"

text \<open>The methods of RTSP that have a name, with the actions that recognise them.\<close>

definition rtsp_methods_named :: "(RTSP_Method \<times> string) list" where
  "rtsp_methods_named =
    [(RTSP_Method_DESCRIBE, ''DESCRIBE''), (RTSP_Method_OPTIONS, ''OPTIONS''),
     (RTSP_Method_PAUSE, ''PAUSE''), (RTSP_Method_PLAY, ''PLAY''),
     (RTSP_Method_SETUP, ''SETUP''), (RTSP_Method_TEARDOWN, ''TEARDOWN'')]"

text \<open>
  A name is read twice: in the main machine (from its second character on, in state 2), and
  from state 35 on, where its last transition sets the number of the method.
\<close>

definition rl_quiet_state :: "nat \<Rightarrow> bool" where
  "rl_quiet_state t \<longleftrightarrow> t \<noteq> 82 \<and> t < 85"

fun rl_method_ok ::
    "ragel_trow ltree \<Rightarrow> (nat \<times> nat list) ltree \<Rightarrow> RTSP_Method \<times> string \<Rightarrow> bool" where
  "rl_method_ok R I (m, w) \<longleftrightarrow>
     tree_step R I 1 (c_char (hd w)) = Some (2, [15]) \<and>
     tree_quiet R I rl_quiet_state 2 (map c_char (tl w @ '' '')) (3, [16, 21]) \<and>
     tree_quiet R I rl_quiet_state 35 (map c_char (w @ '' '')) (83, [5, rtsp_method_code m + 4, 19])"

definition rl_steps_ok :: "ragel_trow ltree \<Rightarrow> (nat \<times> nat list) ltree \<Rightarrow> bool" where
  "rl_steps_ok R I \<longleftrightarrow>
     tree_class R I 3 visible_chars (5, [15]) \<and> tree_class R I 5 visible_chars (5, []) \<and>
     tree_step R I 5 32 = Some (4, [18]) \<and> tree_step R I 4 82 = Some (24, [15, 22]) \<and>
     tree_quiet R I rl_quiet_state 24 [84, 83, 80, 47, 49, 46, 48, 13] (11, [17, 0, 23]) \<and>
     tree_step R I 11 10 = Some (82, [])"

lemma rl_steps:
  "rl_steps_ok (ragel_rtree request_line_tables) (ragel_itree request_line_tables)"
  by (simp add: rl_steps_ok_def ragel_rtree_def ragel_itree_def request_line_tables_defs ragel_ids_def
      visible_chars_def tree_step_def row_index_def rl_quiet_state_def)

lemma rl_methods:
  "list_all (rl_method_ok (ragel_rtree request_line_tables) (ragel_itree request_line_tables))
     rtsp_methods_named"
  by (simp add: ragel_rtree_def ragel_itree_def request_line_tables_defs ragel_ids_def
      rtsp_methods_named_def tree_step_def row_index_def rl_quiet_state_def c_char_def)

lemma run_step:
  assumes "msg = pre @ c # post" and "rl_p st = int (length pre)"
    and "ragel_step request_line_tables (rl_cs st) (c_char c) = Inr (cs', ids)"
    and "request_acts ids (st\<lparr>rl_cs := cs'\<rparr>) = Inr (Again st1)"
    and "rl_cs st1 < 85" and "rl_cs st1 \<noteq> 0" and "rl_cs st1 \<noteq> 82"
  shows "request_run msg st = request_run msg (st1\<lparr>rl_p := rl_p st1 + 1\<rparr>)"
proof -
  have "arr msg (nat (rl_p st)) = Inr c"
    using assms(1,2) by (simp add: arr_def)
  then have "request_turn msg st = request_again st1"
    using assms(2-4) by (simp add: request_turn_def)
  then show ?thesis
    using assms(5-7) by (simp add: request_run.simps [of msg st] request_again_eq)
qed

lemma request_run_out: "request_turn msg st = Inr (Out st') \<Longrightarrow> request_run msg st = Some (Inr st')"
  by (simp add: request_run.simps [of msg st])

lemma run_stay:
  assumes "\<And>x. x \<in> set cls \<Longrightarrow> ragel_step request_line_tables cs x = Inr (cs, [])"
    and "0 < cs" and "cs < 85" and "cs \<noteq> 82"
    and "msg = pre @ w @ post" and "rl_p st = int (length pre)" and "rl_cs st = cs"
    and "list_all (\<lambda>c. c_char c \<in> set cls) w"
  shows "request_run msg st = request_run msg (st\<lparr>rl_p := int (length (pre @ w))\<rparr>)"
  using assms(5-8)
proof (induction w arbitrary: pre st)
  case Nil
  then have "st\<lparr>rl_p := int (length (pre @ []))\<rparr> = st" by simp
  then show ?case by simp
next
  case (Cons c w)
  have "request_run msg st = request_run msg (st\<lparr>rl_cs := cs, rl_p := rl_p (st\<lparr>rl_cs := cs\<rparr>) + 1\<rparr>)"
    by (rule run_step [of msg pre c "w @ post" st cs "[]" "st\<lparr>rl_cs := cs\<rparr>"])
       (use Cons.prems assms(1-4) in auto)
  also have "st\<lparr>rl_cs := cs, rl_p := rl_p (st\<lparr>rl_cs := cs\<rparr>) + 1\<rparr> = st\<lparr>rl_p := int (length (pre @ [c]))\<rparr>"
    using Cons.prems by simp
  also have "request_run msg \<dots> = request_run msg (st\<lparr>rl_p := int (length ((pre @ [c]) @ w))\<rparr>)"
    using Cons.IH [of "pre @ [c]" "st\<lparr>rl_p := int (length (pre @ [c]))\<rparr>"] Cons.prems by simp
  finally show ?case by simp
qed

lemma run_step_to:
  assumes "ragel_step request_line_tables (rl_cs st) (c_char c) = Inr (cs', ids)"
    and "msg = pre @ c # post" and "rl_p st = int (length pre)"
    and "request_acts ids (st\<lparr>rl_cs := cs'\<rparr>) = Inr (Again sa)"
    and "rl_cs sa < 85 \<and> rl_cs sa \<noteq> 0 \<and> rl_cs sa \<noteq> 82" and "sb = sa\<lparr>rl_p := rl_p sa + 1\<rparr>"
  shows "request_run msg st = request_run msg sb"
  using run_step [of msg pre c post st cs' ids sa] assms by simp

text \<open>A quiet word, up to the actions of its last character.\<close>

lemma run_quiet:
  assumes "ragel_quiet request_line_tables rl_quiet_state (rl_cs st) (map c_char w) (t, ids)"
    and "msg = pre @ w @ post" and "rl_p st = int (length pre)" and "rl_cs st = cs"
    and "request_acts ids (st\<lparr>rl_p := int (length (pre @ w)) - 1, rl_cs := t\<rparr>) = Inr (Again st1)"
    and "rl_cs st1 < 85" and "rl_cs st1 \<noteq> 0" and "rl_cs st1 \<noteq> 82"
  shows "request_run msg st = request_run msg (st1\<lparr>rl_p := rl_p st1 + 1\<rparr>)"
  using assms(1-5)
proof (induction w arbitrary: pre st cs)
  case (Cons c w)
  show ?case
  proof (cases w)
    case Nil
    have "st\<lparr>rl_p := int (length (pre @ c # w)) - 1, rl_cs := t\<rparr> = st\<lparr>rl_cs := t\<rparr>"
      using Nil by (simp add: Cons.prems(3) [symmetric])
    then have "request_acts ids (st\<lparr>rl_cs := t\<rparr>) = Inr (Again st1)"
      using Cons.prems(5) by simp
    then show ?thesis
      using Cons.prems(1-3) Nil assms(6-8) by (intro run_step [of msg pre c post st t ids st1]) auto
  next
    case (Cons d w')
    then obtain u where u: "ragel_step request_line_tables (rl_cs st) (c_char c) = Inr (u, [])"
        "u \<noteq> 0" "rl_quiet_state u"
        "ragel_quiet request_line_tables rl_quiet_state u (map c_char w) (t, ids)"
      using Cons.prems(1) by auto
    let ?st = "st\<lparr>rl_cs := u, rl_p := rl_p st + 1\<rparr>"
    have "request_run msg st = request_run msg ?st"
      using run_step [of msg pre c "w @ post" st u "[]" "st\<lparr>rl_cs := u\<rparr>"] Cons.prems(2,3) u
      by (simp add: rl_quiet_state_def)
    also have "\<dots> = request_run msg (st1\<lparr>rl_p := rl_p st1 + 1\<rparr>)"
      using Cons.IH [of ?st "pre @ [c]" u] Cons.prems u(4) by simp
    finally show ?thesis .
  qed
qed simp

lemma run_quiet_to:
  assumes "ragel_quiet request_line_tables rl_quiet_state (rl_cs st) (map c_char w) (t, ids)"
    and "msg = pre @ w @ post" and "rl_p st = int (length pre)"
    and "request_acts ids (st\<lparr>rl_p := int (length (pre @ w)) - 1, rl_cs := t\<rparr>) = Inr (Again sa)"
    and "rl_cs sa < 85 \<and> rl_cs sa \<noteq> 0 \<and> rl_cs sa \<noteq> 82" and "sb = sa\<lparr>rl_p := rl_p sa + 1\<rparr>"
  shows "request_run msg st = request_run msg sb"
  using run_quiet [of st w t ids msg pre post "rl_cs st" sa] assms by simp

definition rtsp_request_line :: "string \<Rightarrow> string \<Rightarrow> string" where
  "rtsp_request_line w obj = w @ '' '' @ obj @ '' RTSP/1.0'' @ ENDLINE"

lemma set_visible_chars: "x \<in> set visible_chars \<longleftrightarrow> 33 \<le> x \<and> x \<le> 126"
  unfolding visible_chars_def set_upto by simp

definition object_word :: "string \<Rightarrow> bool" where
  "object_word obj \<longleftrightarrow> obj \<noteq> [] \<and> list_all (\<lambda>c. c_char c \<in> set visible_chars) obj"

lemma rtsp_request_run:
  assumes m: "(m, w) \<in> set rtsp_methods_named" and obj: "object_word obj"
    and msg: "msg = rtsp_request_line w obj @ rest"
  shows "\<exists>st. request_run msg request_start = Some (Inr st) \<and> rl_cs st = 82 \<and>
     rl_p st = int (length (rtsp_request_line w obj)) \<and>
     rl_protocol_code st = RFC822_Protocol_RTSP10 \<and> rl_method_code st = rtsp_method_code m \<and>
     rl_method_str st = Some 0 \<and> rl_method_len st = int (length w) \<and>
     rl_object_str st = Some (int (length w) + 1) \<and> rl_object_len st = int (length obj) \<and>
     rl_protocol_str st = Some (int (length w) + int (length obj) + 2) \<and> rl_protocol_len st = 8"
proof -
  let ?R = "ragel_rtree request_line_tables" and ?I = "ragel_itree request_line_tables"
  note tq = ragel_machine.tree_quiet_ragel [OF request_line.ragel_machine_axioms]
  note tc = ragel_machine.tree_class_step [OF request_line.ragel_machine_axioms]
  have ts: "ragel_step request_line_tables cs c = Inr r"
    if "tree_step ?R ?I cs c = Some r" "0 < cs" "cs < 85" for cs c r
    using ragel_machine.tree_step_eq [OF request_line.ragel_machine_axioms, of cs c] that by auto
  have ok: "rl_method_ok ?R ?I (m, w)" using rl_methods m by (auto simp: list_all_iff)
  obtain a w' where w: "w = a # w'" using m by (auto simp: rtsp_methods_named_def)
  obtain o' obj' where o: "obj = o' # obj'" "c_char o' \<in> set visible_chars"
      "list_all (\<lambda>c. c_char c \<in> set visible_chars) obj'"
    using obj by (cases obj) (auto simp: object_word_def)
  define lw lo where "lw = int (length w)" and "lo = int (length obj)"
  let ?tail = "'' RTSP/1.0'' @ ENDLINE @ rest"
  let ?s1 = "request_start\<lparr>rl_cs := 2, rl_s := Some 0, rl_p := 1\<rparr>"
  note defs = request_act_def rl_mark_def rl_call_def rtsp_request_line_def request_start_def
    lw_def lo_def ENDLINE_def c_char_def algebra_simps
  have "request_run msg request_start = request_run msg ?s1"
    by (rule run_step_to [where pre = "[]" and c = a and cs' = 2 and ids = "[15]" and
          post = "w' @ '' '' @ obj @ ?tail" and sa = "request_start\<lparr>rl_cs := 2, rl_s := Some 0\<rparr>"])
       (use ok w msg in \<open>auto simp: defs intro!: ts\<close>)
  also let ?s2 = "?s1\<lparr>rl_cs := 3, rl_method_str := Some 0, rl_method_len := lw,
      rl_method_code := 1, rl_p := lw + 1\<rparr>"
  have "request_run msg ?s1 = request_run msg ?s2"
    by (rule run_quiet_to [where w = "w' @ '' ''" and t = 3 and ids = "[16, 21]" and pre = "[a]" and
          post = "obj @ ?tail" and sa = "?s2\<lparr>rl_p := lw\<rparr>"])
       (use ok w msg in \<open>auto simp: defs intro!: tq\<close>)
  also let ?s3 = "?s2\<lparr>rl_cs := 5, rl_s := Some (lw + 1), rl_p := lw + 2\<rparr>"
  have "request_run msg ?s2 = request_run msg ?s3"
    by (rule run_step_to [where pre = "w @ '' ''" and c = o' and cs' = 5 and ids = "[15]" and
          post = "obj' @ ?tail" and sa = "?s3\<lparr>rl_p := lw + 1\<rparr>"])
       (use tc [of 3 visible_chars "(5, [15])" "c_char o'"] rl_steps o msg in
         \<open>auto simp: defs rl_steps_ok_def\<close>)
  also let ?s4 = "?s3\<lparr>rl_p := lw + 1 + lo\<rparr>"
  have "request_run msg ?s3 = request_run msg ?s4"
  proof -
    have "?s4 = ?s3\<lparr>rl_p := int (length ((w @ '' '' @ [o']) @ obj'))\<rparr>"
      using o by (simp add: lw_def lo_def)
    then show ?thesis
      using run_stay [of visible_chars 5 msg "w @ '' '' @ [o']" obj' "?tail" ?s3]
        tc [of 5 visible_chars "(5, [])"] rl_steps o msg
      by (simp add: rtsp_request_line_def lw_def rl_steps_ok_def)
  qed
  also let ?s5 = "?s4\<lparr>rl_cs := 4, rl_object_str := Some (lw + 1), rl_object_len := lo, rl_p := lw + lo + 2\<rparr>"
  have "request_run msg ?s4 = request_run msg ?s5"
    by (rule run_step_to [where pre = "w @ '' '' @ obj" and c = "CHR '' ''" and cs' = 4 and
          ids = "[18]" and post = "''RTSP/1.0'' @ ENDLINE @ rest" and sa = "?s5\<lparr>rl_p := lw + lo + 1\<rparr>"])
       (use rl_steps msg in \<open>auto simp: defs rl_steps_ok_def intro!: ts\<close>)
  also let ?s6 = "?s5\<lparr>rl_cs := 24, rl_s := Some (lw + lo + 2),
      rl_protocol_code := RFC822_Protocol_Unsupported, rl_p := lw + lo + 3\<rparr>"
  have "request_run msg ?s5 = request_run msg ?s6"
    by (rule run_step_to [where pre = "w @ '' '' @ obj @ '' ''" and c = "CHR ''R''" and cs' = 24 and
          ids = "[15, 22]" and post = "''TSP/1.0'' @ ENDLINE @ rest" and sa = "?s6\<lparr>rl_p := lw + lo + 2\<rparr>"])
       (use rl_steps msg in \<open>auto simp: defs rl_steps_ok_def intro!: ts\<close>)
  also let ?s7 = "?s6\<lparr>rl_protocol_str := Some (lw + lo + 2), rl_protocol_len := 8,
      rl_protocol_code := RFC822_Protocol_RTSP10, rl_pp := Some (lw + lo + 10),
      rl_stack := [Some 11, None], rl_top := 1, rl_cs := 35, rl_p := 0\<rparr>"
  have "request_run msg ?s6 = request_run msg ?s7"
  proof -
    have q: "ragel_quiet request_line_tables rl_quiet_state 24
        (map c_char (''TSP/1.0'' @ [CHR 0x0D])) (11, [17, 0, 23])"
      by (rule tq) (use rl_steps in \<open>auto simp: rl_steps_ok_def c_char_def\<close>)
    show ?thesis
      by (rule run_quiet_to [where w = "''TSP/1.0'' @ [CHR 0x0D]" and t = 11 and ids = "[17, 0, 23]" and
            pre = "w @ '' '' @ obj @ '' R''" and post = "[CHR 0x0A] @ rest" and sa = "?s7\<lparr>rl_p := - 1\<rparr>"])
         (use q msg in \<open>auto simp: defs simp del: ragel_quiet.simps\<close>)
  qed
  also let ?s8 = "?s7\<lparr>rl_method_code := rtsp_method_code m, rl_top := 0, rl_cs := 11, rl_p := lw + lo + 11\<rparr>"
  have "request_run msg ?s7 = request_run msg ?s8"
  proof -
    have q: "ragel_quiet request_line_tables rl_quiet_state 35 (map c_char (w @ '' ''))
        (83, [5, rtsp_method_code m + 4, 19])"
      by (rule tq) (use ok in simp_all)
    have code: "rtsp_method_code m \<in> {2..7}"
      using m by (auto simp: rtsp_methods_named_def)
    then have acts: "request_acts [5, rtsp_method_code m + 4, 19] (st\<lparr>rl_cs := 83\<rparr>) =
        Inr (Again (st\<lparr>rl_method_code := rtsp_method_code m, rl_p := q, rl_top := 0, rl_cs := 11\<rparr>))"
      if "rl_pp st = Some q" "rl_top st = 1" "rl_stack st = [Some 11, None]" for st q
      using that m by (auto simp: rtsp_methods_named_def request_act_def rl_return_def arr_def)
    show ?thesis
      by (rule run_quiet_to [where w = "w @ '' ''" and t = 83 and ids = "[5, rtsp_method_code m + 4, 19]" and
            pre = "[]" and post = "obj @ ?tail" and sa = "?s8\<lparr>rl_p := lw + lo + 10\<rparr>"])
         (use q msg in \<open>simp_all add: acts rtsp_request_line_def del: ragel_quiet.simps request_acts.simps\<close>)
  qed
  also have "request_run msg ?s8 = Some (Inr (?s8\<lparr>rl_cs := 82, rl_p := lw + lo + 12\<rparr>))"
  proof -
    have "msg = (w @ '' '' @ obj @ '' RTSP/1.0'' @ [CHR 0x0D]) @ CHR 0x0A # rest"
      using msg by (simp add: rtsp_request_line_def ENDLINE_def)
    then have "arr msg (nat (lw + lo + 11)) = Inr (CHR 0x0A)"
      by (simp add: arr_def lw_def lo_def nat_add_distrib nth_append)
    moreover have "ragel_step request_line_tables 11 10 = Inr (82, [])"
      using rl_steps by (intro ts) (auto simp: rl_steps_ok_def)
    ultimately have "request_turn msg ?s8 = Inr (Out (?s8\<lparr>rl_cs := 82, rl_p := lw + lo + 12\<rparr>))"
      by (simp add: request_turn_def request_again_eq c_char_def lw_def lo_def)
    then show ?thesis by (rule request_run_out)
  qed
  finally show ?thesis
    by (simp add: lw_def lo_def rtsp_request_line_def ENDLINE_def)
qed

section \<open>Properties\<close>

text \<open>C10. The parser of the request line returns, on every message whose next byte in memory
  stops it: the runs forth, back to the method and on behind the line end, its stack of two
  is never left, no pointer is used before it is set, and nothing behind that byte is read.
  The result is -1 (bad), 0 (incomplete), in both cases with the request untouched, or the
  number of bytes read, at most the length, and then method, object and protocol are set and
  the number of the method is one of the enumeration.\<close>

theorem request_line_returns:
  assumes "stop_byte msg len"
  shows "\<exists>r req'. ragel_parse_request_line msg len req = Some (Inr (r, req')) \<and>
     (r \<in> {-1, 0} \<and> req' = req \<or>
      0 < r \<and> r \<le> int len \<and> 0 < method_id req' \<and> method_id req' < 8 \<and> method_str req' \<noteq> None \<and>
        object req' \<noteq> None \<and> protocol_str req' \<noteq> None)"
proof -
  have "rl_inv (int len) request_start"
    by (simp add: rl_inv_def request_start_def rl_lev_def)
  from request_run_total [OF this assms] obtain st' where
    "request_run msg request_start = Some (Inr st')" "rl_final (int len) st'" by blast
  then show ?thesis
    by (auto simp: ragel_parse_request_line_def rl_final_def request_copy_def)
qed

theorem request_line_returns_witness:
  "\<exists>r req'. ragel_parse_request_line [CHR ''G'', NUL] 1
       \<lparr>proto = RFC822_Protocol_Invalid, method_id = 0, method_str = None, object = None, uri = None,
        protocol_str = None, headers = None\<rparr> = Some (Inr (r, req')) \<and> r \<le> 1"
proof -
  have "stop_byte [CHR ''G'', NUL] 1" by (simp add: stop_byte_def)
  from request_line_returns [OF this, of "\<lparr>proto = RFC822_Protocol_Invalid, method_id = 0,
      method_str = None, object = None, uri = None, protocol_str = None, headers = None\<rparr>"]
  show ?thesis by force
qed

text \<open>C1. An RTSP/1.0 request line is parsed back into its parts: for each method that the
  server knows and each object made of visible characters, the
  parser returns the length of the line, whatever follows it, and the request has the number and
  the name of the method, the object, the protocol and its name.\<close>

theorem request_line_round_trip:
  assumes "(m, w) \<in> set rtsp_methods_named" and "object_word obj"
  shows "ragel_parse_request_line (rtsp_request_line w obj @ rest) len req =
     Some (Inr (int (length (rtsp_request_line w obj)),
       req\<lparr>proto := RFC822_Protocol_RTSP10, method_id := rtsp_method_code m, method_str := Some w,
           protocol_str := Some ''RTSP/1.0'', object := Some obj\<rparr>))"
proof -
  let ?msg = "rtsp_request_line w obj @ rest"
  obtain st where st: "request_run ?msg request_start = Some (Inr st)" "rl_cs st = 82"
     "rl_p st = int (length (rtsp_request_line w obj))"
     "rl_protocol_code st = RFC822_Protocol_RTSP10" "rl_method_code st = rtsp_method_code m"
     "rl_method_str st = Some 0" "rl_method_len st = int (length w)"
     "rl_object_str st = Some (int (length w) + 1)" "rl_object_len st = int (length obj)"
     "rl_protocol_str st = Some (int (length w) + int (length obj) + 2)" "rl_protocol_len st = 8"
    using rtsp_request_run [OF assms refl, of rest] by blast
  have vis: "NUL \<notin> set obj"
    using assms(2) set_visible_chars [of "c_char NUL"] by (auto simp: object_word_def list_all_iff c_char_def NUL_def)
  have vis2: "NUL \<notin> set w"
    using assms(1) by (auto simp: rtsp_methods_named_def NUL_def)
  have copy: "request_copy (pre @ v @ post) (Some n) k = Some v"
    if "NUL \<notin> set v" "n = int (length pre)" "k = int (length v)" for pre v post n k
    using that by (simp add: request_copy_def g_strndup_value)
  have "request_copy ?msg (Some 0) (int (length w)) = Some w"
       "request_copy ?msg (Some (int (length w) + 1)) (int (length obj)) = Some obj"
       "request_copy ?msg (Some (int (length w) + int (length obj) + 2)) 8 = Some ''RTSP/1.0''"
    using vis vis2 copy [of w 0 "[]" "int (length w)" "'' '' @ obj @ '' RTSP/1.0'' @ ENDLINE @ rest"]
      copy [of obj "int (length w) + 1" "w @ '' ''" "int (length obj)" "'' RTSP/1.0'' @ ENDLINE @ rest"]
      copy [of "''RTSP/1.0''" "int (length w) + int (length obj) + 2" "w @ '' '' @ obj @ '' ''" 8
        "ENDLINE @ rest"]
    by (simp_all add: rtsp_request_line_def NUL_def)
  then show ?thesis
    using st by (simp add: ragel_parse_request_line_def)
qed

theorem request_line_round_trip_witness:
  "ragel_parse_request_line (rtsp_request_line ''PLAY'' ''rtsp://h/a'' @ ''x'') 33
       \<lparr>proto = RFC822_Protocol_Invalid, method_id = 0, method_str = None, object = None, uri = None,
        protocol_str = None, headers = None\<rparr> =
     Some (Inr (26, \<lparr>proto = RFC822_Protocol_RTSP10, method_id = 5, method_str = Some ''PLAY'',
        object = Some ''rtsp://h/a'', uri = None, protocol_str = Some ''RTSP/1.0'', headers = None\<rparr>))"
  using request_line_round_trip [of RTSP_Method_PLAY "''PLAY''" "''rtsp://h/a''" "''x''" 33
      "\<lparr>proto = RFC822_Protocol_Invalid, method_id = 0, method_str = None, object = None, uri = None,
        protocol_str = None, headers = None\<rparr>"]
  by (simp add: rtsp_methods_named_def object_word_def set_visible_chars c_char_def
      rtsp_request_line_def ENDLINE_def)

end
