(* ===== verification/Transport_Tables.thy ===== *)
theory Transport_Tables
  imports Ragel_Labels
begin

text \<open>
  The tables of the scanner for the \<^verbatim>\<open>Transport\<close> header of \<^verbatim>\<open>ragel_transport.c\<close>, entry
  by entry, and their well-formedness.
\<close>

definition transport_actions :: "nat list" where
  "transport_actions =
    [0, 1, 1, 1, 4, 1, 6, 1, 7, 1, 14, 1, 15, 1, 16, 1, 17, 1, 18, 2, 0, 1, 2, 2, 8, 2, 2, 9,
     2, 3, 4, 2, 5, 10, 2, 5, 11, 2, 5, 12, 2, 5, 13, 3, 0, 2, 8, 3, 0, 2, 9, 3, 3, 5, 10, 3,
     3, 5, 11, 3, 3, 5, 12, 3, 3, 5, 13]"

definition transport_key_offsets :: "nat list" where
  "transport_key_offsets =
    [0, 0, 1, 2, 3, 4, 5, 6, 7, 9, 12, 13, 14, 15, 16, 24, 35, 40, 47, 55, 63, 71, 79, 87, 95,
     103, 111, 121, 129, 137, 145, 152, 160, 168, 175, 184, 195, 200, 207, 215, 223, 231, 239,
     247, 255, 263, 271, 281, 289, 297, 305, 312, 320, 328, 335, 343, 351, 358, 369, 381, 393,
     405, 417, 429, 441, 453, 465, 477, 489, 500, 509, 520, 531, 542, 549, 561, 573, 581, 593,
     605, 617, 629, 641, 653, 665, 677, 688, 700, 712, 724, 736, 748, 760, 771, 780, 791, 802,
     813, 820, 832] @
    [844, 852, 864, 876, 888, 900, 912, 924, 935, 945, 956, 961, 968, 976, 984, 992, 1000,
     1008, 1016, 1024, 1032, 1042, 1050, 1058, 1066, 1073, 1081, 1089, 1096, 1104, 1112, 1119,
     1131, 1143, 1155, 1167, 1179, 1191, 1202, 1214, 1226, 1238, 1250, 1261, 1270, 1281, 1292,
     1303, 1314, 1325, 1332, 1344, 1356, 1368, 1380, 1388, 1400, 1412, 1424, 1436, 1448, 1460,
     1472, 1484, 1496, 1508, 1519, 1528, 1539, 1550, 1561, 1568, 1580, 1592, 1600, 1612, 1624,
     1636, 1648, 1660, 1672, 1684, 1696, 1707, 1719, 1731, 1743, 1755, 1767, 1779, 1790, 1799,
     1810, 1821, 1832, 1839, 1851, 1863, 1871, 1883] @
    [1895, 1907, 1919, 1931, 1943, 1954, 1962, 1970, 1977, 1987, 1999, 2011, 2023, 2035, 2047,
     2059, 2071, 2083, 2094, 2106, 2118, 2130, 2142, 2154, 2166, 2177, 2186, 2197, 2208, 2219,
     2226, 2238, 2250, 2258, 2270, 2282, 2294, 2306, 2318, 2330, 2341, 2350, 2361, 2366, 2373,
     2381, 2389, 2397, 2405, 2413, 2421, 2429, 2437, 2447, 2455, 2463, 2471, 2478, 2486, 2494,
     2501, 2509, 2517, 2524, 2535, 2547, 2559, 2571, 2583, 2595, 2606, 2618, 2630, 2642, 2654,
     2665, 2674, 2685, 2696, 2707, 2718, 2729, 2736, 2748, 2760, 2772, 2784, 2792, 2804, 2816,
     2828, 2840, 2852, 2864, 2876, 2888, 2899, 2911, 2923, 2935] @
    [2947, 2959, 2971, 2982, 2991, 3002, 3013, 3024, 3031, 3043, 3055, 3063, 3075, 3087, 3099,
     3111, 3123, 3135, 3146, 3147, 3148, 3149, 3157, 3168, 3173, 3180, 3188, 3196, 3204, 3212,
     3220, 3228, 3236, 3244, 3254, 3262, 3270, 3278, 3285, 3293, 3301, 3308, 3316, 3324, 3331,
     3341, 3353, 3365, 3377, 3389, 3401, 3413, 3425, 3437, 3449, 3461, 3472, 3481, 3492, 3503,
     3514, 3521, 3533, 3545, 3553, 3565, 3577, 3589, 3601, 3613, 3625, 3637, 3649, 3660, 3672,
     3684, 3696, 3708, 3720, 3732, 3743, 3752, 3763, 3768, 3775, 3783, 3791, 3799, 3807, 3815,
     3823, 3831, 3839, 3849, 3857, 3865, 3873, 3880, 3888, 3896] @
    [3903, 3911, 3919, 3926, 3937, 3949, 3961, 3973, 3985, 3997, 4008, 4020, 4032, 4044, 4056,
     4067, 4076, 4087, 4098, 4109, 4120, 4131, 4138, 4150, 4162, 4174, 4186, 4194, 4206, 4218,
     4230, 4242, 4254, 4266, 4278, 4290, 4302, 4314, 4325, 4334, 4345, 4356, 4367, 4374, 4386,
     4398, 4406, 4418, 4430, 4442, 4454, 4466, 4478, 4490, 4502, 4513, 4525, 4537, 4549, 4561,
     4573, 4585, 4596, 4597, 4598, 4599, 4601, 4602, 4603, 4604, 4605, 4606, 4607, 4608, 4609,
     4610, 4617, 4628, 4633, 4640, 4648, 4656, 4664, 4672, 4680, 4688, 4696, 4704, 4714, 4722,
     4730, 4738, 4745, 4753, 4761, 4768, 4776, 4784, 4791, 4800] @
    [4812, 4824, 4836, 4848, 4860, 4872, 4884, 4896, 4907, 4919, 4931, 4943, 4955, 4967, 4979,
     4990, 4998, 5009, 5014, 5021, 5029, 5037, 5045, 5053, 5061, 5069, 5077, 5085, 5095, 5103,
     5111, 5119, 5126, 5134, 5142, 5149, 5157, 5165, 5172, 5182, 5194, 5206, 5218, 5230, 5242,
     5253, 5265, 5277, 5289, 5301, 5312, 5321, 5332, 5343, 5354, 5365, 5376, 5383, 5395, 5407,
     5419, 5431, 5439, 5451, 5463, 5475, 5487, 5499, 5511, 5523, 5535, 5546, 5558, 5570, 5582,
     5594, 5606, 5618, 5629, 5630, 5631, 5632, 5633, 5634, 5635, 5636]"

definition transport_trans_keys_1 :: "int list" where
  "transport_trans_keys_1 =
    [82, 84, 80, 47, 65, 86, 80, 47, 59, 83, 84, 85, 67, 84, 80, 59, 95, 115, 48, 57, 65, 90,
     97, 122, 0, 44, 59, 61, 95, 48, 57, 65, 90, 97, 122, 60, 32, 58, 62, 126, 0, 44, 59, 32,
     60, 62, 126, 0, 44, 59, 82, 32, 60, 62, 126, 0, 44, 59, 84, 32, 60, 62, 126, 0, 44, 59,
     80, 32, 60, 62, 126, 0, 44, 47, 59, 32, 60, 62, 126, 0, 44, 59, 65, 32, 60, 62, 126, 0,
     44, 59, 86, 32, 60, 62, 126, 0, 44, 59, 80, 32] @
    [60, 62, 126, 0, 44, 47, 59, 32, 60, 62, 126, 0, 44, 59, 83, 84, 85, 32, 60, 62, 126, 0,
     44, 59, 67, 32, 60, 62, 126, 0, 44, 59, 84, 32, 60, 62, 126, 0, 44, 59, 80, 32, 60, 62,
     126, 0, 44, 59, 32, 60, 62, 126, 0, 44, 59, 67, 32, 60, 62, 126, 0, 44, 59, 80, 32, 60,
     62, 126, 0, 44, 59, 32, 60, 62, 126, 95, 105, 115, 48, 57, 65, 90, 97, 122, 0, 44, 59, 61,
     95, 48, 57, 65, 90, 97, 122, 60, 32, 58, 62, 126] @
    [0, 44, 59, 32, 60, 62, 126, 0, 44, 59, 82, 32, 60, 62, 126, 0, 44, 59, 84, 32, 60, 62,
     126, 0, 44, 59, 80, 32, 60, 62, 126, 0, 44, 47, 59, 32, 60, 62, 126, 0, 44, 59, 65, 32,
     60, 62, 126, 0, 44, 59, 86, 32, 60, 62, 126, 0, 44, 59, 80, 32, 60, 62, 126, 0, 44, 47,
     59, 32, 60, 62, 126, 0, 44, 59, 83, 84, 85, 32, 60, 62, 126, 0, 44, 59, 67, 32, 60, 62,
     126, 0, 44, 59, 84, 32, 60, 62, 126, 0, 44, 59] @
    [80, 32, 60, 62, 126, 0, 44, 59, 32, 60, 62, 126, 0, 44, 59, 67, 32, 60, 62, 126, 0, 44,
     59, 80, 32, 60, 62, 126, 0, 44, 59, 32, 60, 62, 126, 0, 44, 59, 68, 32, 60, 62, 126, 0,
     44, 59, 80, 32, 60, 62, 126, 0, 44, 59, 32, 60, 62, 126, 95, 105, 109, 115, 117, 48, 57,
     65, 90, 97, 122, 0, 44, 59, 61, 95, 110, 48, 57, 65, 90, 97, 122, 0, 44, 59, 61, 95, 116,
     48, 57, 65, 90, 97, 122, 0, 44, 59, 61, 95, 101, 48] @
    [57, 65, 90, 97, 122, 0, 44, 59, 61, 95, 114, 48, 57, 65, 90, 97, 122, 0, 44, 59, 61, 95,
     108, 48, 57, 65, 90, 97, 122, 0, 44, 59, 61, 95, 101, 48, 57, 65, 90, 97, 122, 0, 44, 59,
     61, 95, 97, 48, 57, 65, 90, 98, 122, 0, 44, 59, 61, 95, 118, 48, 57, 65, 90, 97, 122, 0,
     44, 59, 61, 95, 101, 48, 57, 65, 90, 97, 122, 0, 44, 59, 61, 95, 100, 48, 57, 65, 90, 97,
     122, 0, 44, 59, 61, 95, 48, 57, 65, 90, 97, 122] @
    [45, 58, 60, 32, 47, 48, 57, 62, 126, 0, 44, 59, 32, 47, 48, 57, 58, 60, 62, 126, 0, 44,
     59, 32, 47, 48, 57, 58, 60, 62, 126, 0, 44, 59, 32, 47, 48, 57, 58, 60, 62, 126, 0, 44,
     59, 32, 60, 62, 126, 0, 44, 45, 59, 32, 47, 48, 57, 58, 60, 62, 126, 0, 44, 45, 59, 32,
     47, 48, 57, 58, 60, 62, 126, 0, 44, 45, 59, 32, 60, 62, 126, 0, 44, 59, 61, 95, 117, 48,
     57, 65, 90, 97, 122, 0, 44, 59, 61, 95, 108, 48] @
    [57, 65, 90, 97, 122, 0, 44, 59, 61, 95, 116, 48, 57, 65, 90, 97, 122, 0, 44, 59, 61, 95,
     105, 48, 57, 65, 90, 97, 122, 0, 44, 59, 61, 95, 99, 48, 57, 65, 90, 97, 122, 0, 44, 59,
     61, 95, 97, 48, 57, 65, 90, 98, 122, 0, 44, 59, 61, 95, 115, 48, 57, 65, 90, 97, 122, 0,
     44, 59, 61, 95, 116, 48, 57, 65, 90, 97, 122, 0, 44, 59, 61, 95, 48, 57, 65, 90, 97, 122,
     0, 44, 59, 61, 95, 116, 48, 57, 65, 90, 97, 122] @
    [0, 44, 59, 61, 95, 114, 48, 57, 65, 90, 97, 122, 0, 44, 59, 61, 95, 101, 48, 57, 65, 90,
     97, 122, 0, 44, 59, 61, 95, 97, 48, 57, 65, 90, 98, 122, 0, 44, 59, 61, 95, 109, 48, 57,
     65, 90, 97, 122, 0, 44, 59, 61, 95, 115, 48, 57, 65, 90, 97, 122, 0, 44, 59, 61, 95, 48,
     57, 65, 90, 97, 122, 45, 58, 60, 32, 47, 48, 57, 62, 126, 0, 44, 59, 32, 47, 48, 57, 58,
     60, 62, 126, 0, 44, 59, 32, 47, 48, 57, 58, 60] @
    [62, 126, 0, 44, 59, 32, 47, 48, 57, 58, 60, 62, 126, 0, 44, 59, 32, 60, 62, 126, 0, 44,
     45, 59, 32, 47, 48, 57, 58, 60, 62, 126, 0, 44, 45, 59, 32, 47, 48, 57, 58, 60, 62, 126,
     0, 44, 45, 59, 32, 60, 62, 126, 0, 44, 59, 61, 95, 110, 48, 57, 65, 90, 97, 122, 0, 44,
     59, 61, 95, 105, 48, 57, 65, 90, 97, 122, 0, 44, 59, 61, 95, 99, 48, 57, 65, 90, 97, 122,
     0, 44, 59, 61, 95, 97, 48, 57, 65, 90, 98, 122] @
    [0, 44, 59, 61, 95, 115, 48, 57, 65, 90, 97, 122, 0, 44, 59, 61, 95, 116, 48, 57, 65, 90,
     97, 122, 0, 44, 59, 61, 95, 48, 57, 65, 90, 97, 122, 95, 99, 105, 115, 48, 57, 65, 90, 97,
     122, 0, 44, 59, 61, 95, 48, 57, 65, 90, 97, 122, 60, 32, 58, 62, 126, 0, 44, 59, 32, 60,
     62, 126, 0, 44, 59, 82, 32, 60, 62, 126, 0, 44, 59, 84, 32, 60, 62, 126, 0, 44, 59, 80,
     32, 60, 62, 126, 0, 44, 47, 59, 32, 60, 62, 126] @
    [0, 44, 59, 65, 32, 60, 62, 126, 0, 44, 59, 86, 32, 60, 62, 126, 0, 44, 59, 80, 32, 60, 62,
     126, 0, 44, 47, 59, 32, 60, 62, 126, 0, 44, 59, 83, 84, 85, 32, 60, 62, 126, 0, 44, 59,
     67, 32, 60, 62, 126, 0, 44, 59, 84, 32, 60, 62, 126, 0, 44, 59, 80, 32, 60, 62, 126, 0,
     44, 59, 32, 60, 62, 126, 0, 44, 59, 67, 32, 60, 62, 126, 0, 44, 59, 80, 32, 60, 62, 126,
     0, 44, 59, 32, 60, 62, 126, 0, 44, 59, 68] @
    [32, 60, 62, 126, 0, 44, 59, 80, 32, 60, 62, 126, 0, 44, 59, 32, 60, 62, 126, 95, 99, 105,
     109, 115, 117, 48, 57, 65, 90, 97, 122, 0, 44, 59, 61, 95, 108, 48, 57, 65, 90, 97, 122,
     0, 44, 59, 61, 95, 105, 48, 57, 65, 90, 97, 122, 0, 44, 59, 61, 95, 101, 48, 57, 65, 90,
     97, 122, 0, 44, 59, 61, 95, 110, 48, 57, 65, 90, 97, 122, 0, 44, 59, 61, 95, 116, 48, 57,
     65, 90, 97, 122, 0]"

definition transport_trans_keys_2 :: "int list" where
  "transport_trans_keys_2 =
    [44, 59, 61, 95, 48, 57, 65, 90, 97, 122, 0, 44, 59, 61, 95, 112, 48, 57, 65, 90, 97, 122,
     0, 44, 59, 61, 95, 111, 48, 57, 65, 90, 97, 122, 0, 44, 59, 61, 95, 114, 48, 57, 65, 90,
     97, 122, 0, 44, 59, 61, 95, 116, 48, 57, 65, 90, 97, 122, 0, 44, 59, 61, 95, 48, 57, 65,
     90, 97, 122, 45, 58, 60, 32, 47, 48, 57, 62, 126, 0, 44, 59, 32, 47, 48, 57, 58, 60, 62,
     126, 0, 44, 59, 32, 47, 48, 57, 58, 60, 62, 126] @
    [0, 44, 59, 32, 47, 48, 57, 58, 60, 62, 126, 0, 44, 59, 32, 47, 48, 57, 58, 60, 62, 126, 0,
     44, 59, 32, 47, 48, 57, 58, 60, 62, 126, 0, 44, 59, 32, 60, 62, 126, 0, 44, 45, 59, 32,
     47, 48, 57, 58, 60, 62, 126, 0, 44, 45, 59, 32, 47, 48, 57, 58, 60, 62, 126, 0, 44, 45,
     59, 32, 47, 48, 57, 58, 60, 62, 126, 0, 44, 45, 59, 32, 47, 48, 57, 58, 60, 62, 126, 0,
     44, 45, 59, 32, 60, 62, 126, 0, 44, 59, 61] @
    [95, 110, 48, 57, 65, 90, 97, 122, 0, 44, 59, 61, 95, 116, 48, 57, 65, 90, 97, 122, 0, 44,
     59, 61, 95, 101, 48, 57, 65, 90, 97, 122, 0, 44, 59, 61, 95, 114, 48, 57, 65, 90, 97, 122,
     0, 44, 59, 61, 95, 108, 48, 57, 65, 90, 97, 122, 0, 44, 59, 61, 95, 101, 48, 57, 65, 90,
     97, 122, 0, 44, 59, 61, 95, 97, 48, 57, 65, 90, 98, 122, 0, 44, 59, 61, 95, 118, 48, 57,
     65, 90, 97, 122, 0, 44, 59, 61, 95, 101, 48, 57] @
    [65, 90, 97, 122, 0, 44, 59, 61, 95, 100, 48, 57, 65, 90, 97, 122, 0, 44, 59, 61, 95, 48,
     57, 65, 90, 97, 122, 45, 58, 60, 32, 47, 48, 57, 62, 126, 0, 44, 59, 32, 47, 48, 57, 58,
     60, 62, 126, 0, 44, 59, 32, 47, 48, 57, 58, 60, 62, 126, 0, 44, 59, 32, 47, 48, 57, 58,
     60, 62, 126, 0, 44, 59, 32, 60, 62, 126, 0, 44, 45, 59, 32, 47, 48, 57, 58, 60, 62, 126,
     0, 44, 45, 59, 32, 47, 48, 57, 58, 60, 62, 126] @
    [0, 44, 45, 59, 32, 60, 62, 126, 0, 44, 59, 61, 95, 117, 48, 57, 65, 90, 97, 122, 0, 44,
     59, 61, 95, 108, 48, 57, 65, 90, 97, 122, 0, 44, 59, 61, 95, 116, 48, 57, 65, 90, 97, 122,
     0, 44, 59, 61, 95, 105, 48, 57, 65, 90, 97, 122, 0, 44, 59, 61, 95, 99, 48, 57, 65, 90,
     97, 122, 0, 44, 59, 61, 95, 97, 48, 57, 65, 90, 98, 122, 0, 44, 59, 61, 95, 115, 48, 57,
     65, 90, 97, 122, 0, 44, 59, 61, 95, 116, 48, 57] @
    [65, 90, 97, 122, 0, 44, 59, 61, 95, 48, 57, 65, 90, 97, 122, 0, 44, 59, 61, 95, 116, 48,
     57, 65, 90, 97, 122, 0, 44, 59, 61, 95, 114, 48, 57, 65, 90, 97, 122, 0, 44, 59, 61, 95,
     101, 48, 57, 65, 90, 97, 122, 0, 44, 59, 61, 95, 97, 48, 57, 65, 90, 98, 122, 0, 44, 59,
     61, 95, 109, 48, 57, 65, 90, 97, 122, 0, 44, 59, 61, 95, 115, 48, 57, 65, 90, 97, 122, 0,
     44, 59, 61, 95, 48, 57, 65, 90, 97, 122, 45, 58] @
    [60, 32, 47, 48, 57, 62, 126, 0, 44, 59, 32, 47, 48, 57, 58, 60, 62, 126, 0, 44, 59, 32,
     47, 48, 57, 58, 60, 62, 126, 0, 44, 59, 32, 47, 48, 57, 58, 60, 62, 126, 0, 44, 59, 32,
     60, 62, 126, 0, 44, 45, 59, 32, 47, 48, 57, 58, 60, 62, 126, 0, 44, 45, 59, 32, 47, 48,
     57, 58, 60, 62, 126, 0, 44, 45, 59, 32, 60, 62, 126, 0, 44, 59, 61, 95, 110, 48, 57, 65,
     90, 97, 122, 0, 44, 59, 61, 95, 105, 48, 57, 65] @
    [90, 97, 122, 0, 44, 59, 61, 95, 99, 48, 57, 65, 90, 97, 122, 0, 44, 59, 61, 95, 97, 48,
     57, 65, 90, 98, 122, 0, 44, 59, 61, 95, 115, 48, 57, 65, 90, 97, 122, 0, 44, 59, 61, 95,
     116, 48, 57, 65, 90, 97, 122, 0, 44, 59, 61, 95, 48, 57, 65, 90, 97, 122, 0, 44, 59, 68,
     32, 60, 62, 126, 0, 44, 59, 80, 32, 60, 62, 126, 0, 44, 59, 32, 60, 62, 126, 95, 109, 115,
     117, 48, 57, 65, 90, 97, 122, 0, 44, 59, 61, 95] @
    [117, 48, 57, 65, 90, 97, 122, 0, 44, 59, 61, 95, 108, 48, 57, 65, 90, 97, 122, 0, 44, 59,
     61, 95, 116, 48, 57, 65, 90, 97, 122, 0, 44, 59, 61, 95, 105, 48, 57, 65, 90, 97, 122, 0,
     44, 59, 61, 95, 99, 48, 57, 65, 90, 97, 122, 0, 44, 59, 61, 95, 97, 48, 57, 65, 90, 98,
     122, 0, 44, 59, 61, 95, 115, 48, 57, 65, 90, 97, 122, 0, 44, 59, 61, 95, 116, 48, 57, 65,
     90, 97, 122, 0, 44, 59, 61, 95, 48, 57, 65, 90] @
    [97, 122, 0, 44, 59, 61, 95, 116, 48, 57, 65, 90, 97, 122, 0, 44, 59, 61, 95, 114, 48, 57,
     65, 90, 97, 122, 0, 44, 59, 61, 95, 101, 48, 57, 65, 90, 97, 122, 0, 44, 59, 61, 95, 97,
     48, 57, 65, 90, 98, 122, 0, 44, 59, 61, 95, 109, 48, 57, 65, 90, 97, 122, 0, 44, 59, 61,
     95, 115, 48, 57, 65, 90, 97, 122, 0, 44, 59, 61, 95, 48, 57, 65, 90, 97, 122, 45, 58, 60,
     32, 47, 48, 57, 62, 126, 0, 44, 59, 32, 47, 48] @
    [57, 58, 60, 62, 126, 0, 44, 59, 32, 47, 48, 57, 58, 60, 62, 126, 0, 44, 59, 32, 47, 48,
     57, 58, 60, 62, 126, 0, 44, 59, 32, 60, 62, 126, 0, 44, 45, 59, 32, 47, 48, 57, 58, 60,
     62, 126, 0, 44, 45, 59, 32, 47, 48, 57, 58, 60, 62, 126, 0, 44, 45, 59, 32, 60, 62, 126,
     0, 44, 59, 61, 95, 110, 48, 57, 65, 90, 97, 122, 0, 44, 59, 61, 95, 105, 48, 57, 65, 90,
     97, 122, 0, 44, 59, 61, 95, 99, 48, 57, 65, 90] @
    [97, 122, 0, 44, 59, 61, 95, 97, 48, 57, 65, 90, 98, 122, 0, 44, 59, 61, 95, 115, 48, 57,
     65, 90, 97, 122, 0, 44, 59, 61, 95, 116, 48, 57, 65, 90, 97, 122, 0, 44, 59, 61, 95, 48,
     57, 65, 90, 97, 122, 95, 99, 115, 48, 57, 65, 90, 97, 122, 0, 44, 59, 61, 95, 48, 57, 65,
     90, 97, 122, 60, 32, 58, 62, 126, 0, 44, 59, 32, 60, 62, 126, 0, 44, 59, 82, 32, 60, 62,
     126, 0, 44, 59, 84, 32, 60, 62, 126, 0, 44, 59]"

definition transport_trans_keys_3 :: "int list" where
  "transport_trans_keys_3 =
    [80, 32, 60, 62, 126, 0, 44, 47, 59, 32, 60, 62, 126, 0, 44, 59, 65, 32, 60, 62, 126, 0,
     44, 59, 86, 32, 60, 62, 126, 0, 44, 59, 80, 32, 60, 62, 126, 0, 44, 47, 59, 32, 60, 62,
     126, 0, 44, 59, 83, 84, 85, 32, 60, 62, 126, 0, 44, 59, 67, 32, 60, 62, 126, 0, 44, 59,
     84, 32, 60, 62, 126, 0, 44, 59, 80, 32, 60, 62, 126, 0, 44, 59, 32, 60, 62, 126, 0, 44,
     59, 67, 32, 60, 62, 126, 0, 44, 59, 80, 32, 60] @
    [62, 126, 0, 44, 59, 32, 60, 62, 126, 0, 44, 59, 68, 32, 60, 62, 126, 0, 44, 59, 80, 32,
     60, 62, 126, 0, 44, 59, 32, 60, 62, 126, 95, 99, 109, 115, 117, 48, 57, 65, 90, 97, 122,
     0, 44, 59, 61, 95, 108, 48, 57, 65, 90, 97, 122, 0, 44, 59, 61, 95, 105, 48, 57, 65, 90,
     97, 122, 0, 44, 59, 61, 95, 101, 48, 57, 65, 90, 97, 122, 0, 44, 59, 61, 95, 110, 48, 57,
     65, 90, 97, 122, 0, 44, 59, 61, 95, 116, 48, 57, 65] @
    [90, 97, 122, 0, 44, 59, 61, 95, 48, 57, 65, 90, 97, 122, 0, 44, 59, 61, 95, 112, 48, 57,
     65, 90, 97, 122, 0, 44, 59, 61, 95, 111, 48, 57, 65, 90, 97, 122, 0, 44, 59, 61, 95, 114,
     48, 57, 65, 90, 97, 122, 0, 44, 59, 61, 95, 116, 48, 57, 65, 90, 97, 122, 0, 44, 59, 61,
     95, 48, 57, 65, 90, 97, 122, 45, 58, 60, 32, 47, 48, 57, 62, 126, 0, 44, 59, 32, 47, 48,
     57, 58, 60, 62, 126, 0, 44, 59, 32, 47, 48, 57] @
    [58, 60, 62, 126, 0, 44, 59, 32, 47, 48, 57, 58, 60, 62, 126, 0, 44, 59, 32, 47, 48, 57,
     58, 60, 62, 126, 0, 44, 59, 32, 47, 48, 57, 58, 60, 62, 126, 0, 44, 59, 32, 60, 62, 126,
     0, 44, 45, 59, 32, 47, 48, 57, 58, 60, 62, 126, 0, 44, 45, 59, 32, 47, 48, 57, 58, 60, 62,
     126, 0, 44, 45, 59, 32, 47, 48, 57, 58, 60, 62, 126, 0, 44, 45, 59, 32, 47, 48, 57, 58,
     60, 62, 126, 0, 44, 45, 59, 32, 60, 62, 126] @
    [0, 44, 59, 61, 95, 117, 48, 57, 65, 90, 97, 122, 0, 44, 59, 61, 95, 108, 48, 57, 65, 90,
     97, 122, 0, 44, 59, 61, 95, 116, 48, 57, 65, 90, 97, 122, 0, 44, 59, 61, 95, 105, 48, 57,
     65, 90, 97, 122, 0, 44, 59, 61, 95, 99, 48, 57, 65, 90, 97, 122, 0, 44, 59, 61, 95, 97,
     48, 57, 65, 90, 98, 122, 0, 44, 59, 61, 95, 115, 48, 57, 65, 90, 97, 122, 0, 44, 59, 61,
     95, 116, 48, 57, 65, 90, 97, 122, 0, 44, 59, 61] @
    [95, 48, 57, 65, 90, 97, 122, 0, 44, 59, 61, 95, 116, 48, 57, 65, 90, 97, 122, 0, 44, 59,
     61, 95, 114, 48, 57, 65, 90, 97, 122, 0, 44, 59, 61, 95, 101, 48, 57, 65, 90, 97, 122, 0,
     44, 59, 61, 95, 97, 48, 57, 65, 90, 98, 122, 0, 44, 59, 61, 95, 109, 48, 57, 65, 90, 97,
     122, 0, 44, 59, 61, 95, 115, 48, 57, 65, 90, 97, 122, 0, 44, 59, 61, 95, 48, 57, 65, 90,
     97, 122, 45, 58, 60, 32, 47, 48, 57, 62, 126, 0] @
    [44, 59, 32, 47, 48, 57, 58, 60, 62, 126, 0, 44, 59, 32, 47, 48, 57, 58, 60, 62, 126, 0,
     44, 59, 32, 47, 48, 57, 58, 60, 62, 126, 0, 44, 59, 32, 60, 62, 126, 0, 44, 45, 59, 32,
     47, 48, 57, 58, 60, 62, 126, 0, 44, 45, 59, 32, 47, 48, 57, 58, 60, 62, 126, 0, 44, 45,
     59, 32, 60, 62, 126, 0, 44, 59, 61, 95, 110, 48, 57, 65, 90, 97, 122, 0, 44, 59, 61, 95,
     105, 48, 57, 65, 90, 97, 122, 0, 44, 59, 61, 95] @
    [99, 48, 57, 65, 90, 97, 122, 0, 44, 59, 61, 95, 97, 48, 57, 65, 90, 98, 122, 0, 44, 59,
     61, 95, 115, 48, 57, 65, 90, 97, 122, 0, 44, 59, 61, 95, 116, 48, 57, 65, 90, 97, 122, 0,
     44, 59, 61, 95, 48, 57, 65, 90, 97, 122, 67, 80, 59, 95, 105, 48, 57, 65, 90, 97, 122, 0,
     44, 59, 61, 95, 48, 57, 65, 90, 97, 122, 60, 32, 58, 62, 126, 0, 44, 59, 32, 60, 62, 126,
     0, 44, 59, 82, 32, 60, 62, 126, 0, 44, 59, 84] @
    [32, 60, 62, 126, 0, 44, 59, 80, 32, 60, 62, 126, 0, 44, 47, 59, 32, 60, 62, 126, 0, 44,
     59, 65, 32, 60, 62, 126, 0, 44, 59, 86, 32, 60, 62, 126, 0, 44, 59, 80, 32, 60, 62, 126,
     0, 44, 47, 59, 32, 60, 62, 126, 0, 44, 59, 83, 84, 85, 32, 60, 62, 126, 0, 44, 59, 67, 32,
     60, 62, 126, 0, 44, 59, 84, 32, 60, 62, 126, 0, 44, 59, 80, 32, 60, 62, 126, 0, 44, 59,
     32, 60, 62, 126, 0, 44, 59, 67, 32, 60, 62] @
    [126, 0, 44, 59, 80, 32, 60, 62, 126, 0, 44, 59, 32, 60, 62, 126, 0, 44, 59, 68, 32, 60,
     62, 126, 0, 44, 59, 80, 32, 60, 62, 126, 0, 44, 59, 32, 60, 62, 126, 95, 105, 109, 117,
     48, 57, 65, 90, 97, 122, 0, 44, 59, 61, 95, 110, 48, 57, 65, 90, 97, 122, 0, 44, 59, 61,
     95, 116, 48, 57, 65, 90, 97, 122, 0, 44, 59, 61, 95, 101, 48, 57, 65, 90, 97, 122, 0, 44,
     59, 61, 95, 114, 48, 57, 65, 90, 97, 122, 0, 44, 59] @
    [61, 95, 108, 48, 57, 65, 90, 97, 122, 0, 44, 59, 61, 95, 101, 48, 57, 65, 90, 97, 122, 0,
     44, 59, 61, 95, 97, 48, 57, 65, 90, 98, 122, 0, 44, 59, 61, 95, 118, 48, 57, 65, 90, 97,
     122, 0, 44, 59, 61, 95, 101, 48, 57, 65, 90, 97, 122, 0, 44, 59, 61, 95, 100, 48, 57, 65,
     90, 97, 122, 0, 44, 59, 61, 95, 48, 57, 65, 90, 97, 122, 45, 58, 60, 32, 47, 48, 57, 62,
     126, 0, 44, 59, 32, 47, 48, 57, 58, 60, 62, 126] @
    [0, 44, 59, 32, 47, 48, 57, 58, 60, 62, 126, 0, 44, 59, 32, 47, 48, 57, 58, 60, 62, 126, 0,
     44, 59, 32, 60, 62, 126, 0, 44, 45, 59, 32, 47, 48, 57, 58, 60, 62, 126, 0, 44, 45, 59,
     32, 47, 48, 57, 58, 60, 62, 126, 0, 44, 45, 59, 32, 60, 62, 126, 0, 44, 59, 61, 95, 117,
     48, 57, 65, 90, 97, 122, 0, 44, 59, 61, 95, 108, 48, 57, 65, 90, 97, 122, 0, 44, 59, 61,
     95, 116, 48, 57, 65, 90, 97, 122, 0, 44, 59]"

definition transport_trans_keys_4 :: "int list" where
  "transport_trans_keys_4 =
    [61, 95, 105, 48, 57, 65, 90, 97, 122, 0, 44, 59, 61, 95, 99, 48, 57, 65, 90, 97, 122, 0,
     44, 59, 61, 95, 97, 48, 57, 65, 90, 98, 122, 0, 44, 59, 61, 95, 115, 48, 57, 65, 90, 97,
     122, 0, 44, 59, 61, 95, 116, 48, 57, 65, 90, 97, 122, 0, 44, 59, 61, 95, 48, 57, 65, 90,
     97, 122, 0, 44, 59, 61, 95, 110, 48, 57, 65, 90, 97, 122, 0, 44, 59, 61, 95, 105, 48, 57,
     65, 90, 97, 122, 0, 44, 59, 61, 95, 99, 48, 57] @
    [65, 90, 97, 122, 0, 44, 59, 61, 95, 97, 48, 57, 65, 90, 98, 122, 0, 44, 59, 61, 95, 115,
     48, 57, 65, 90, 97, 122, 0, 44, 59, 61, 95, 116, 48, 57, 65, 90, 97, 122, 0, 44, 59, 61,
     95, 48, 57, 65, 90, 97, 122, 95, 99, 105, 48, 57, 65, 90, 97, 122, 0, 44, 59, 61, 95, 48,
     57, 65, 90, 97, 122, 60, 32, 58, 62, 126, 0, 44, 59, 32, 60, 62, 126, 0, 44, 59, 82, 32,
     60, 62, 126, 0, 44, 59, 84, 32, 60, 62, 126, 0] @
    [44, 59, 80, 32, 60, 62, 126, 0, 44, 47, 59, 32, 60, 62, 126, 0, 44, 59, 65, 32, 60, 62,
     126, 0, 44, 59, 86, 32, 60, 62, 126, 0, 44, 59, 80, 32, 60, 62, 126, 0, 44, 47, 59, 32,
     60, 62, 126, 0, 44, 59, 83, 84, 85, 32, 60, 62, 126, 0, 44, 59, 67, 32, 60, 62, 126, 0,
     44, 59, 84, 32, 60, 62, 126, 0, 44, 59, 80, 32, 60, 62, 126, 0, 44, 59, 32, 60, 62, 126,
     0, 44, 59, 67, 32, 60, 62, 126, 0, 44, 59, 80] @
    [32, 60, 62, 126, 0, 44, 59, 32, 60, 62, 126, 0, 44, 59, 68, 32, 60, 62, 126, 0, 44, 59,
     80, 32, 60, 62, 126, 0, 44, 59, 32, 60, 62, 126, 95, 99, 105, 109, 117, 48, 57, 65, 90,
     97, 122, 0, 44, 59, 61, 95, 108, 48, 57, 65, 90, 97, 122, 0, 44, 59, 61, 95, 105, 48, 57,
     65, 90, 97, 122, 0, 44, 59, 61, 95, 101, 48, 57, 65, 90, 97, 122, 0, 44, 59, 61, 95, 110,
     48, 57, 65, 90, 97, 122, 0, 44, 59, 61, 95, 116, 48] @
    [57, 65, 90, 97, 122, 0, 44, 59, 61, 95, 48, 57, 65, 90, 97, 122, 0, 44, 59, 61, 95, 112,
     48, 57, 65, 90, 97, 122, 0, 44, 59, 61, 95, 111, 48, 57, 65, 90, 97, 122, 0, 44, 59, 61,
     95, 114, 48, 57, 65, 90, 97, 122, 0, 44, 59, 61, 95, 116, 48, 57, 65, 90, 97, 122, 0, 44,
     59, 61, 95, 48, 57, 65, 90, 97, 122, 45, 58, 60, 32, 47, 48, 57, 62, 126, 0, 44, 59, 32,
     47, 48, 57, 58, 60, 62, 126, 0, 44, 59, 32, 47] @
    [48, 57, 58, 60, 62, 126, 0, 44, 59, 32, 47, 48, 57, 58, 60, 62, 126, 0, 44, 59, 32, 47,
     48, 57, 58, 60, 62, 126, 0, 44, 59, 32, 47, 48, 57, 58, 60, 62, 126, 0, 44, 59, 32, 60,
     62, 126, 0, 44, 45, 59, 32, 47, 48, 57, 58, 60, 62, 126, 0, 44, 45, 59, 32, 47, 48, 57,
     58, 60, 62, 126, 0, 44, 45, 59, 32, 47, 48, 57, 58, 60, 62, 126, 0, 44, 45, 59, 32, 47,
     48, 57, 58, 60, 62, 126, 0, 44, 45, 59, 32, 60] @
    [62, 126, 0, 44, 59, 61, 95, 110, 48, 57, 65, 90, 97, 122, 0, 44, 59, 61, 95, 116, 48, 57,
     65, 90, 97, 122, 0, 44, 59, 61, 95, 101, 48, 57, 65, 90, 97, 122, 0, 44, 59, 61, 95, 114,
     48, 57, 65, 90, 97, 122, 0, 44, 59, 61, 95, 108, 48, 57, 65, 90, 97, 122, 0, 44, 59, 61,
     95, 101, 48, 57, 65, 90, 97, 122, 0, 44, 59, 61, 95, 97, 48, 57, 65, 90, 98, 122, 0, 44,
     59, 61, 95, 118, 48, 57, 65, 90, 97, 122, 0, 44] @
    [59, 61, 95, 101, 48, 57, 65, 90, 97, 122, 0, 44, 59, 61, 95, 100, 48, 57, 65, 90, 97, 122,
     0, 44, 59, 61, 95, 48, 57, 65, 90, 97, 122, 45, 58, 60, 32, 47, 48, 57, 62, 126, 0, 44,
     59, 32, 47, 48, 57, 58, 60, 62, 126, 0, 44, 59, 32, 47, 48, 57, 58, 60, 62, 126, 0, 44,
     59, 32, 47, 48, 57, 58, 60, 62, 126, 0, 44, 59, 32, 60, 62, 126, 0, 44, 45, 59, 32, 47,
     48, 57, 58, 60, 62, 126, 0, 44, 45, 59, 32, 47] @
    [48, 57, 58, 60, 62, 126, 0, 44, 45, 59, 32, 60, 62, 126, 0, 44, 59, 61, 95, 117, 48, 57,
     65, 90, 97, 122, 0, 44, 59, 61, 95, 108, 48, 57, 65, 90, 97, 122, 0, 44, 59, 61, 95, 116,
     48, 57, 65, 90, 97, 122, 0, 44, 59, 61, 95, 105, 48, 57, 65, 90, 97, 122, 0, 44, 59, 61,
     95, 99, 48, 57, 65, 90, 97, 122, 0, 44, 59, 61, 95, 97, 48, 57, 65, 90, 98, 122, 0, 44,
     59, 61, 95, 115, 48, 57, 65, 90, 97, 122, 0, 44] @
    [59, 61, 95, 116, 48, 57, 65, 90, 97, 122, 0, 44, 59, 61, 95, 48, 57, 65, 90, 97, 122, 0,
     44, 59, 61, 95, 110, 48, 57, 65, 90, 97, 122, 0, 44, 59, 61, 95, 105, 48, 57, 65, 90, 97,
     122, 0, 44, 59, 61, 95, 99, 48, 57, 65, 90, 97, 122, 0, 44, 59, 61, 95, 97, 48, 57, 65,
     90, 98, 122, 0, 44, 59, 61, 95, 115, 48, 57, 65, 90, 97, 122, 0, 44, 59, 61, 95, 116, 48,
     57, 65, 90, 97, 122, 0, 44, 59, 61, 95, 48, 57] @
    [65, 90, 97, 122, 68, 80, 59, 109, 117, 117, 108, 116, 105, 99, 97, 115, 116, 59, 95, 48,
     57, 65, 90, 97, 122, 0, 44, 59, 61, 95, 48, 57, 65, 90, 97, 122, 60, 32, 58, 62, 126, 0,
     44, 59, 32, 60, 62, 126, 0, 44, 59, 82, 32, 60, 62, 126, 0, 44, 59, 84, 32, 60, 62, 126,
     0, 44, 59, 80, 32, 60, 62, 126, 0, 44, 47, 59, 32, 60, 62, 126, 0, 44, 59, 65, 32, 60, 62,
     126, 0, 44, 59, 86, 32, 60, 62, 126, 0, 44, 59, 80] @
    [32, 60, 62, 126, 0, 44, 47, 59, 32, 60, 62, 126, 0, 44, 59, 83, 84, 85, 32, 60, 62, 126,
     0, 44, 59, 67, 32, 60, 62, 126, 0, 44, 59, 84, 32, 60, 62, 126, 0, 44, 59, 80, 32, 60, 62,
     126, 0, 44, 59, 32, 60, 62, 126, 0, 44, 59, 67, 32, 60, 62, 126, 0, 44, 59, 80, 32, 60,
     62, 126, 0, 44, 59, 32, 60, 62, 126, 0, 44, 59, 68, 32, 60, 62, 126, 0, 44, 59, 80, 32,
     60, 62, 126, 0, 44, 59, 32, 60, 62, 126, 95]"

definition transport_trans_keys_5 :: "int list" where
  "transport_trans_keys_5 =
    [109, 117, 48, 57, 65, 90, 97, 122, 0, 44, 59, 61, 95, 117, 48, 57, 65, 90, 97, 122, 0, 44,
     59, 61, 95, 108, 48, 57, 65, 90, 97, 122, 0, 44, 59, 61, 95, 116, 48, 57, 65, 90, 97, 122,
     0, 44, 59, 61, 95, 105, 48, 57, 65, 90, 97, 122, 0, 44, 59, 61, 95, 99, 48, 57, 65, 90,
     97, 122, 0, 44, 59, 61, 95, 97, 48, 57, 65, 90, 98, 122, 0, 44, 59, 61, 95, 115, 48, 57,
     65, 90, 97, 122, 0, 44, 59, 61, 95, 116, 48, 57] @
    [65, 90, 97, 122, 0, 44, 59, 61, 95, 48, 57, 65, 90, 97, 122, 0, 44, 59, 61, 95, 110, 48,
     57, 65, 90, 97, 122, 0, 44, 59, 61, 95, 105, 48, 57, 65, 90, 97, 122, 0, 44, 59, 61, 95,
     99, 48, 57, 65, 90, 97, 122, 0, 44, 59, 61, 95, 97, 48, 57, 65, 90, 98, 122, 0, 44, 59,
     61, 95, 115, 48, 57, 65, 90, 97, 122, 0, 44, 59, 61, 95, 116, 48, 57, 65, 90, 97, 122, 0,
     44, 59, 61, 95, 48, 57, 65, 90, 97, 122, 95, 99] @
    [48, 57, 65, 90, 97, 122, 0, 44, 59, 61, 95, 48, 57, 65, 90, 97, 122, 60, 32, 58, 62, 126,
     0, 44, 59, 32, 60, 62, 126, 0, 44, 59, 82, 32, 60, 62, 126, 0, 44, 59, 84, 32, 60, 62,
     126, 0, 44, 59, 80, 32, 60, 62, 126, 0, 44, 47, 59, 32, 60, 62, 126, 0, 44, 59, 65, 32,
     60, 62, 126, 0, 44, 59, 86, 32, 60, 62, 126, 0, 44, 59, 80, 32, 60, 62, 126, 0, 44, 47,
     59, 32, 60, 62, 126, 0, 44, 59, 83, 84, 85, 32] @
    [60, 62, 126, 0, 44, 59, 67, 32, 60, 62, 126, 0, 44, 59, 84, 32, 60, 62, 126, 0, 44, 59,
     80, 32, 60, 62, 126, 0, 44, 59, 32, 60, 62, 126, 0, 44, 59, 67, 32, 60, 62, 126, 0, 44,
     59, 80, 32, 60, 62, 126, 0, 44, 59, 32, 60, 62, 126, 0, 44, 59, 68, 32, 60, 62, 126, 0,
     44, 59, 80, 32, 60, 62, 126, 0, 44, 59, 32, 60, 62, 126, 95, 99, 109, 117, 48, 57, 65, 90,
     97, 122, 0, 44, 59, 61, 95, 108, 48, 57, 65, 90] @
    [97, 122, 0, 44, 59, 61, 95, 105, 48, 57, 65, 90, 97, 122, 0, 44, 59, 61, 95, 101, 48, 57,
     65, 90, 97, 122, 0, 44, 59, 61, 95, 110, 48, 57, 65, 90, 97, 122, 0, 44, 59, 61, 95, 116,
     48, 57, 65, 90, 97, 122, 0, 44, 59, 61, 95, 48, 57, 65, 90, 97, 122, 0, 44, 59, 61, 95,
     112, 48, 57, 65, 90, 97, 122, 0, 44, 59, 61, 95, 111, 48, 57, 65, 90, 97, 122, 0, 44, 59,
     61, 95, 114, 48, 57, 65, 90, 97, 122, 0, 44, 59] @
    [61, 95, 116, 48, 57, 65, 90, 97, 122, 0, 44, 59, 61, 95, 48, 57, 65, 90, 97, 122, 45, 58,
     60, 32, 47, 48, 57, 62, 126, 0, 44, 59, 32, 47, 48, 57, 58, 60, 62, 126, 0, 44, 59, 32,
     47, 48, 57, 58, 60, 62, 126, 0, 44, 59, 32, 47, 48, 57, 58, 60, 62, 126, 0, 44, 59, 32,
     47, 48, 57, 58, 60, 62, 126, 0, 44, 59, 32, 47, 48, 57, 58, 60, 62, 126, 0, 44, 59, 32,
     60, 62, 126, 0, 44, 45, 59, 32, 47, 48, 57, 58] @
    [60, 62, 126, 0, 44, 45, 59, 32, 47, 48, 57, 58, 60, 62, 126, 0, 44, 45, 59, 32, 47, 48,
     57, 58, 60, 62, 126, 0, 44, 45, 59, 32, 47, 48, 57, 58, 60, 62, 126, 0, 44, 45, 59, 32,
     60, 62, 126, 0, 44, 59, 61, 95, 117, 48, 57, 65, 90, 97, 122, 0, 44, 59, 61, 95, 108, 48,
     57, 65, 90, 97, 122, 0, 44, 59, 61, 95, 116, 48, 57, 65, 90, 97, 122, 0, 44, 59, 61, 95,
     105, 48, 57, 65, 90, 97, 122, 0, 44, 59, 61, 95] @
    [99, 48, 57, 65, 90, 97, 122, 0, 44, 59, 61, 95, 97, 48, 57, 65, 90, 98, 122, 0, 44, 59,
     61, 95, 115, 48, 57, 65, 90, 97, 122, 0, 44, 59, 61, 95, 116, 48, 57, 65, 90, 97, 122, 0,
     44, 59, 61, 95, 48, 57, 65, 90, 97, 122, 0, 44, 59, 61, 95, 110, 48, 57, 65, 90, 97, 122,
     0, 44, 59, 61, 95, 105, 48, 57, 65, 90, 97, 122, 0, 44, 59, 61, 95, 99, 48, 57, 65, 90,
     97, 122, 0, 44, 59, 61, 95, 97, 48, 57, 65, 90] @
    [98, 122, 0, 44, 59, 61, 95, 115, 48, 57, 65, 90, 97, 122, 0, 44, 59, 61, 95, 116, 48, 57,
     65, 90, 97, 122, 0, 44, 59, 61, 95, 48, 57, 65, 90, 97, 122, 110, 105, 99, 97, 115, 116,
     59, 0]"

definition transport_trans_keys :: "int list" where
  "transport_trans_keys = transport_trans_keys_1 @ transport_trans_keys_2 @ transport_trans_keys_3 @ transport_trans_keys_4 @ transport_trans_keys_5"

definition transport_single_lengths :: "nat list" where
  "transport_single_lengths =
    [0, 1, 1, 1, 1, 1, 1, 1, 2, 3, 1, 1, 1, 1, 2, 5, 1, 3, 4, 4, 4, 4, 4, 4, 4, 4, 6, 4, 4, 4,
     3, 4, 4, 3, 3, 5, 1, 3, 4, 4, 4, 4, 4, 4, 4, 4, 6, 4, 4, 4, 3, 4, 4, 3, 4, 4, 3, 5, 6, 6,
     6, 6, 6, 6, 6, 6, 6, 6, 5, 3, 3, 3, 3, 3, 4, 4, 4, 6, 6, 6, 6, 6, 6, 6, 6, 5, 6, 6, 6, 6,
     6, 6, 5, 3, 3, 3, 3, 3, 4, 4] @
    [4, 6, 6, 6, 6, 6, 6, 5, 4, 5, 1, 3, 4, 4, 4, 4, 4, 4, 4, 4, 6, 4, 4, 4, 3, 4, 4, 3, 4, 4,
     3, 6, 6, 6, 6, 6, 6, 5, 6, 6, 6, 6, 5, 3, 3, 3, 3, 3, 3, 3, 4, 4, 4, 4, 4, 6, 6, 6, 6, 6,
     6, 6, 6, 6, 6, 5, 3, 3, 3, 3, 3, 4, 4, 4, 6, 6, 6, 6, 6, 6, 6, 6, 5, 6, 6, 6, 6, 6, 6, 5,
     3, 3, 3, 3, 3, 4, 4, 4, 6, 6] @
    [6, 6, 6, 6, 5, 4, 4, 3, 4, 6, 6, 6, 6, 6, 6, 6, 6, 5, 6, 6, 6, 6, 6, 6, 5, 3, 3, 3, 3, 3,
     4, 4, 4, 6, 6, 6, 6, 6, 6, 5, 3, 5, 1, 3, 4, 4, 4, 4, 4, 4, 4, 4, 6, 4, 4, 4, 3, 4, 4, 3,
     4, 4, 3, 5, 6, 6, 6, 6, 6, 5, 6, 6, 6, 6, 5, 3, 3, 3, 3, 3, 3, 3, 4, 4, 4, 4, 4, 6, 6, 6,
     6, 6, 6, 6, 6, 5, 6, 6, 6, 6] @
    [6, 6, 5, 3, 3, 3, 3, 3, 4, 4, 4, 6, 6, 6, 6, 6, 6, 5, 1, 1, 1, 2, 5, 1, 3, 4, 4, 4, 4, 4,
     4, 4, 4, 6, 4, 4, 4, 3, 4, 4, 3, 4, 4, 3, 4, 6, 6, 6, 6, 6, 6, 6, 6, 6, 6, 5, 3, 3, 3, 3,
     3, 4, 4, 4, 6, 6, 6, 6, 6, 6, 6, 6, 5, 6, 6, 6, 6, 6, 6, 5, 3, 5, 1, 3, 4, 4, 4, 4, 4, 4,
     4, 4, 6, 4, 4, 4, 3, 4, 4, 3] @
    [4, 4, 3, 5, 6, 6, 6, 6, 6, 5, 6, 6, 6, 6, 5, 3, 3, 3, 3, 3, 3, 3, 4, 4, 4, 4, 4, 6, 6, 6,
     6, 6, 6, 6, 6, 6, 6, 5, 3, 3, 3, 3, 3, 4, 4, 4, 6, 6, 6, 6, 6, 6, 6, 6, 5, 6, 6, 6, 6, 6,
     6, 5, 1, 1, 1, 2, 1, 1, 1, 1, 1, 1, 1, 1, 1, 1, 5, 1, 3, 4, 4, 4, 4, 4, 4, 4, 4, 6, 4, 4,
     4, 3, 4, 4, 3, 4, 4, 3, 3, 6] @
    [6, 6, 6, 6, 6, 6, 6, 5, 6, 6, 6, 6, 6, 6, 5, 2, 5, 1, 3, 4, 4, 4, 4, 4, 4, 4, 4, 6, 4, 4,
     4, 3, 4, 4, 3, 4, 4, 3, 4, 6, 6, 6, 6, 6, 5, 6, 6, 6, 6, 5, 3, 3, 3, 3, 3, 3, 3, 4, 4, 4,
     4, 4, 6, 6, 6, 6, 6, 6, 6, 6, 5, 6, 6, 6, 6, 6, 6, 5, 1, 1, 1, 1, 1, 1, 1, 0]"

definition transport_range_lengths :: "nat list" where
  "transport_range_lengths =
    [0, 0, 0, 0, 0, 0, 0, 0, 0, 0, 0, 0, 0, 0, 3, 3, 2, 2, 2, 2, 2, 2, 2, 2, 2, 2, 2, 2, 2, 2,
     2, 2, 2, 2, 3, 3] @
    replicate 21 2 @
    [3, 3, 3, 3, 3, 3, 3, 3, 3, 3, 3, 3, 3, 4, 4, 4, 2, 4, 4, 2, 3, 3, 3, 3, 3, 3, 3, 3, 3, 3,
     3, 3, 3, 3, 3, 3, 3, 4, 4, 4, 2, 4, 4, 2, 3, 3, 3, 3, 3, 3, 3, 3, 3] @
    replicate 21 2 @
    [3, 3, 3, 3, 3, 3, 3, 3, 3, 3, 3, 3, 3, 4, 4, 4, 4, 4, 2, 4, 4, 4, 4, 2, 3, 3, 3, 3, 3, 3,
     3, 3, 3, 3, 3, 3, 4, 4, 4, 2, 4, 4, 2, 3, 3, 3, 3, 3, 3, 3, 3, 3, 3, 3, 3, 3, 3, 3, 3, 3,
     4, 4, 4, 2, 4, 4, 2, 3, 3, 3, 3, 3, 3, 3, 2, 2, 2, 3, 3, 3, 3, 3, 3, 3, 3, 3, 3, 3, 3, 3,
     3, 3, 3, 3, 3, 4, 4, 4, 2, 4] @
    [4, 2, 3, 3, 3, 3, 3, 3, 3, 3, 3] @
    replicate 21 2 @
    [3, 3, 3, 3, 3, 3, 3, 3, 3, 3, 3, 3, 3, 4, 4, 4, 4, 4, 2, 4, 4, 4, 4, 2, 3, 3, 3, 3, 3, 3,
     3, 3, 3, 3, 3, 3, 3, 3, 3, 3, 3, 4, 4, 4, 2, 4, 4, 2, 3, 3, 3, 3, 3, 3, 3, 0, 0, 0, 3, 3] @
    replicate 21 2 @
    [3, 3, 3, 3, 3, 3, 3, 3, 3, 3, 3, 3, 3, 4, 4, 4, 2, 4, 4, 2, 3, 3, 3, 3, 3, 3, 3, 3, 3, 3,
     3, 3, 3, 3, 3, 3, 3, 3] @
    replicate 21 2 @
    [3, 3, 3, 3, 3, 3, 3, 3, 3, 3, 3, 3, 3, 4, 4, 4, 4, 4, 2, 4, 4, 4, 4, 2, 3, 3, 3, 3, 3, 3,
     3, 3, 3, 3, 3, 3, 4, 4, 4, 2, 4, 4, 2, 3, 3, 3, 3, 3, 3, 3, 3, 3, 3, 3, 3, 3, 3, 3, 3, 0,
     0, 0, 0, 0, 0, 0, 0, 0, 0, 0, 0, 0, 3, 3] @
    replicate 21 2 @
    [3, 3, 3, 3, 3, 3, 3, 3, 3, 3, 3, 3, 3, 3, 3, 3, 3, 3, 3] @
    replicate 21 2 @
    [3, 3, 3, 3, 3, 3, 3, 3, 3, 3, 3, 3, 3, 4, 4, 4, 4, 4, 2, 4, 4, 4, 4, 2, 3, 3, 3, 3, 3, 3,
     3, 3, 3, 3, 3, 3, 3, 3, 3, 3, 0, 0, 0, 0, 0, 0, 0, 0]"

definition transport_index_offsets :: "nat list" where
  "transport_index_offsets =
    [0, 0, 2, 4, 6, 8, 10, 12, 14, 17, 21, 23, 25, 27, 29, 35, 44, 48, 54, 61, 68, 75, 82, 89,
     96, 103, 110, 119, 126, 133, 140, 146, 153, 160, 166, 173, 182, 186, 192, 199, 206, 213,
     220, 227, 234, 241, 248, 257, 264, 271, 278, 284, 291, 298, 304, 311, 318, 324, 333, 343,
     353, 363, 373, 383, 393, 403, 413, 423, 433, 442, 449, 457, 465, 473, 479, 488, 497, 504,
     514, 524, 534, 544, 554, 564, 574, 584, 593, 603, 613, 623, 633, 643, 653, 662, 669, 677,
     685, 693, 699, 708] @
    [717, 724, 734, 744, 754, 764, 774, 784, 793, 801, 810, 814, 820, 827, 834, 841, 848, 855,
     862, 869, 876, 885, 892, 899, 906, 912, 919, 926, 932, 939, 946, 952, 962, 972, 982, 992,
     1002, 1012, 1021, 1031, 1041, 1051, 1061, 1070, 1077, 1085, 1093, 1101, 1109, 1117, 1123,
     1132, 1141, 1150, 1159, 1166, 1176, 1186, 1196, 1206, 1216, 1226, 1236, 1246, 1256, 1266,
     1275, 1282, 1290, 1298, 1306, 1312, 1321, 1330, 1337, 1347, 1357, 1367, 1377, 1387, 1397,
     1407, 1417, 1426, 1436, 1446, 1456, 1466, 1476, 1486, 1495, 1502, 1510, 1518, 1526, 1532,
     1541, 1550, 1557, 1567] @
    [1577, 1587, 1597, 1607, 1617, 1626, 1633, 1640, 1646, 1654, 1664, 1674, 1684, 1694, 1704,
     1714, 1724, 1734, 1743, 1753, 1763, 1773, 1783, 1793, 1803, 1812, 1819, 1827, 1835, 1843,
     1849, 1858, 1867, 1874, 1884, 1894, 1904, 1914, 1924, 1934, 1943, 1950, 1959, 1963, 1969,
     1976, 1983, 1990, 1997, 2004, 2011, 2018, 2025, 2034, 2041, 2048, 2055, 2061, 2068, 2075,
     2081, 2088, 2095, 2101, 2110, 2120, 2130, 2140, 2150, 2160, 2169, 2179, 2189, 2199, 2209,
     2218, 2225, 2233, 2241, 2249, 2257, 2265, 2271, 2280, 2289, 2298, 2307, 2314, 2324, 2334,
     2344, 2354, 2364, 2374, 2384, 2394, 2403, 2413, 2423, 2433] @
    [2443, 2453, 2463, 2472, 2479, 2487, 2495, 2503, 2509, 2518, 2527, 2534, 2544, 2554, 2564,
     2574, 2584, 2594, 2603, 2605, 2607, 2609, 2615, 2624, 2628, 2634, 2641, 2648, 2655, 2662,
     2669, 2676, 2683, 2690, 2699, 2706, 2713, 2720, 2726, 2733, 2740, 2746, 2753, 2760, 2766,
     2774, 2784, 2794, 2804, 2814, 2824, 2834, 2844, 2854, 2864, 2874, 2883, 2890, 2898, 2906,
     2914, 2920, 2929, 2938, 2945, 2955, 2965, 2975, 2985, 2995, 3005, 3015, 3025, 3034, 3044,
     3054, 3064, 3074, 3084, 3094, 3103, 3110, 3119, 3123, 3129, 3136, 3143, 3150, 3157, 3164,
     3171, 3178, 3185, 3194, 3201, 3208, 3215, 3221, 3228, 3235] @
    [3241, 3248, 3255, 3261, 3270, 3280, 3290, 3300, 3310, 3320, 3329, 3339, 3349, 3359, 3369,
     3378, 3385, 3393, 3401, 3409, 3417, 3425, 3431, 3440, 3449, 3458, 3467, 3474, 3484, 3494,
     3504, 3514, 3524, 3534, 3544, 3554, 3564, 3574, 3583, 3590, 3598, 3606, 3614, 3620, 3629,
     3638, 3645, 3655, 3665, 3675, 3685, 3695, 3705, 3715, 3725, 3734, 3744, 3754, 3764, 3774,
     3784, 3794, 3803, 3805, 3807, 3809, 3812, 3814, 3816, 3818, 3820, 3822, 3824, 3826, 3828,
     3830, 3835, 3844, 3848, 3854, 3861, 3868, 3875, 3882, 3889, 3896, 3903, 3910, 3919, 3926,
     3933, 3940, 3946, 3953, 3960, 3966, 3973, 3980, 3986, 3993] @
    [4003, 4013, 4023, 4033, 4043, 4053, 4063, 4073, 4082, 4092, 4102, 4112, 4122, 4132, 4142,
     4151, 4157, 4166, 4170, 4176, 4183, 4190, 4197, 4204, 4211, 4218, 4225, 4232, 4241, 4248,
     4255, 4262, 4268, 4275, 4282, 4288, 4295, 4302, 4308, 4316, 4326, 4336, 4346, 4356, 4366,
     4375, 4385, 4395, 4405, 4415, 4424, 4431, 4439, 4447, 4455, 4463, 4471, 4477, 4486, 4495,
     4504, 4513, 4520, 4530, 4540, 4550, 4560, 4570, 4580, 4590, 4600, 4609, 4619, 4629, 4639,
     4649, 4659, 4669, 4678, 4680, 4682, 4684, 4686, 4688, 4690, 4692]"

definition transport_indicies_1 :: "nat list" where
  "transport_indicies_1 =
    [0, 1, 3, 2, 4, 2, 5, 2, 6, 2, 7, 2, 8, 2, 9, 10, 2, 11, 12, 13, 2, 14, 2, 15, 2, 16, 2,
     17, 2, 18, 19, 18, 18, 18, 2, 20, 21, 22, 23, 18, 18, 18, 18, 2, 24, 24, 24, 2, 20, 25,
     22, 24, 24, 2, 20, 25, 22, 26, 24, 24, 2, 20, 25, 22, 27, 24, 24, 2, 20, 25, 22, 28, 24,
     24, 2, 20, 25, 29, 22, 24, 24, 2, 20, 25, 22, 30, 24, 24, 2, 20, 25, 22, 31, 24, 24, 2,
     20, 25, 22, 32] @
    [24, 24, 2, 20, 25, 33, 34, 24, 24, 2, 20, 25, 22, 35, 36, 37, 24, 24, 2, 20, 25, 22, 38,
     24, 24, 2, 20, 25, 22, 39, 24, 24, 2, 20, 25, 22, 40, 24, 24, 2, 20, 25, 17, 24, 24, 2,
     20, 25, 22, 41, 24, 24, 2, 20, 25, 22, 42, 24, 24, 2, 20, 25, 43, 24, 24, 2, 44, 45, 46,
     44, 44, 44, 2, 20, 21, 47, 48, 44, 44, 44, 44, 2, 49, 49, 49, 2, 20, 50, 47, 49, 49, 2,
     20, 50, 47, 51, 49, 49, 2, 20] @
    [50, 47, 52, 49, 49, 2, 20, 50, 47, 53, 49, 49, 2, 20, 50, 54, 47, 49, 49, 2, 20, 50, 47,
     55, 49, 49, 2, 20, 50, 47, 56, 49, 49, 2, 20, 50, 47, 57, 49, 49, 2, 20, 50, 58, 59, 49,
     49, 2, 20, 50, 47, 60, 61, 62, 49, 49, 2, 20, 50, 47, 63, 49, 49, 2, 20, 50, 47, 64, 49,
     49, 2, 20, 50, 47, 65, 49, 49, 2, 20, 50, 66, 49, 49, 2, 20, 50, 47, 67, 49, 49, 2, 20,
     50, 47, 68, 49, 49, 2, 20, 50] @
    [43, 49, 49, 2, 20, 50, 47, 69, 49, 49, 2, 20, 50, 47, 70, 49, 49, 2, 20, 50, 59, 49, 49,
     2, 44, 45, 71, 46, 72, 44, 44, 44, 2, 20, 21, 47, 48, 44, 73, 44, 44, 44, 2, 20, 21, 47,
     48, 44, 74, 44, 44, 44, 2, 20, 21, 47, 48, 44, 75, 44, 44, 44, 2, 20, 21, 47, 48, 44, 76,
     44, 44, 44, 2, 20, 21, 47, 48, 44, 77, 44, 44, 44, 2, 20, 21, 47, 48, 44, 78, 44, 44, 44,
     2, 20, 21, 47, 48, 44, 79, 44] @
    [44, 44, 2, 20, 21, 47, 48, 44, 80, 44, 44, 44, 2, 20, 21, 47, 48, 44, 81, 44, 44, 44, 2,
     20, 21, 47, 48, 44, 82, 44, 44, 44, 2, 20, 21, 47, 83, 44, 44, 44, 44, 2, 84, 49, 49, 49,
     85, 49, 2, 86, 87, 89, 49, 88, 49, 49, 2, 90, 91, 93, 49, 92, 49, 49, 2, 90, 91, 93, 49,
     94, 49, 49, 2, 90, 91, 93, 49, 49, 2, 20, 50, 95, 47, 49, 96, 49, 49, 2, 20, 50, 95, 47,
     49, 97, 49, 49, 2, 20, 50, 95] @
    [47, 49, 49, 2, 20, 21, 47, 48, 44, 98, 44, 44, 44, 2, 20, 21, 47, 48, 44, 99, 44, 44, 44,
     2, 20, 21, 47, 48, 44, 100, 44, 44, 44, 2, 20, 21, 47, 48, 44, 101, 44, 44, 44, 2, 20, 21,
     47, 48, 44, 102, 44, 44, 44, 2, 20, 21, 47, 48, 44, 103, 44, 44, 44, 2, 20, 21, 47, 48,
     44, 104, 44, 44, 44, 2, 20, 21, 47, 48, 44, 105, 44, 44, 44, 2, 20, 21, 106, 48, 44, 44,
     44, 44, 2, 20, 21, 47, 48, 44, 107, 44] @
    [44, 44, 2, 20, 21, 47, 48, 44, 108, 44, 44, 44, 2, 20, 21, 47, 48, 44, 109, 44, 44, 44, 2,
     20, 21, 47, 48, 44, 110, 44, 44, 44, 2, 20, 21, 47, 48, 44, 111, 44, 44, 44, 2, 20, 21,
     47, 48, 44, 112, 44, 44, 44, 2, 20, 21, 47, 113, 44, 44, 44, 44, 2, 114, 49, 49, 49, 115,
     49, 2, 116, 117, 119, 49, 118, 49, 49, 2, 120, 121, 123, 49, 122, 49, 49, 2, 120, 121,
     123, 49, 124, 49, 49, 2, 120, 121, 123, 49, 49, 2, 20] @
    [50, 125, 47, 49, 126, 49, 49, 2, 20, 50, 125, 47, 49, 127, 49, 49, 2, 20, 50, 125, 47, 49,
     49, 2, 20, 21, 47, 48, 44, 128, 44, 44, 44, 2, 20, 21, 47, 48, 44, 129, 44, 44, 44, 2, 20,
     21, 47, 48, 44, 130, 44, 44, 44, 2, 20, 21, 47, 48, 44, 131, 44, 44, 44, 2, 20, 21, 47,
     48, 44, 132, 44, 44, 44, 2, 20, 21, 47, 48, 44, 133, 44, 44, 44, 2, 20, 21, 134, 48, 44,
     44, 44, 44, 2, 135, 136, 137, 138, 135, 135, 135] @
    [2, 20, 21, 139, 140, 135, 135, 135, 135, 2, 141, 141, 141, 2, 20, 142, 139, 141, 141, 2,
     20, 142, 139, 143, 141, 141, 2, 20, 142, 139, 144, 141, 141, 2, 20, 142, 139, 145, 141,
     141, 2, 20, 142, 146, 139, 141, 141, 2, 20, 142, 139, 147, 141, 141, 2, 20, 142, 139, 148,
     141, 141, 2, 20, 142, 139, 149, 141, 141, 2, 20, 142, 150, 151, 141, 141, 2, 20, 142, 139,
     152, 153, 154, 141, 141, 2, 20, 142, 139, 155, 141, 141, 2, 20, 142, 139, 156, 141, 141,
     2, 20] @
    [142, 139, 157, 141, 141, 2, 20, 142, 158, 141, 141, 2, 20, 142, 139, 159, 141, 141, 2, 20,
     142, 139, 160, 141, 141, 2, 20, 142, 161, 141, 141, 2, 20, 142, 139, 162, 141, 141, 2, 20,
     142, 139, 163, 141, 141, 2, 20, 142, 151, 141, 141, 2, 135, 136, 137, 164, 138, 165, 135,
     135, 135, 2, 20, 21, 139, 140, 135, 166, 135, 135, 135, 2, 20, 21, 139, 140, 135, 167,
     135, 135, 135, 2, 20, 21, 139, 140, 135, 168, 135, 135, 135, 2, 20, 21, 139, 140, 135,
     169, 135, 135] @
    [135, 2, 20, 21, 139, 140, 135, 170, 135, 135, 135, 2, 20, 21, 139, 140, 171, 135, 135,
     135, 2, 20, 21, 139, 140, 135, 172, 135, 135, 135, 2, 20, 21, 139, 140, 135, 173, 135,
     135, 135, 2, 20, 21, 139, 140, 135, 174, 135, 135, 135, 2, 20, 21, 139, 140, 135, 175,
     135, 135, 135, 2, 20, 21, 139, 176, 135, 135, 135, 135, 2, 177, 141, 141, 141, 178, 141,
     2, 179, 180, 182, 141, 181, 141, 141, 2, 183, 184, 186, 141, 185, 141, 141, 2, 183, 184,
     186, 141, 187, 141, 141] @
    [2, 183, 184, 186, 141, 188, 141, 141, 2, 183, 184, 186, 141, 189, 141, 141, 2, 183, 184,
     186, 141, 141, 2, 20, 142, 190, 139, 141, 191, 141, 141, 2, 20, 142, 190, 139, 141, 192,
     141, 141, 2, 20, 142, 190, 139, 141, 193, 141, 141, 2, 20, 142, 190, 139, 141, 194, 141,
     141, 2, 20, 142, 190, 139, 141, 141, 2, 20, 21, 139, 140, 135, 195, 135, 135, 135, 2, 20,
     21, 139, 140, 135, 196, 135, 135, 135, 2, 20, 21, 139, 140, 135, 197]"

definition transport_indicies_2 :: "nat list" where
  "transport_indicies_2 =
    [135, 135, 135, 2, 20, 21, 139, 140, 135, 198, 135, 135, 135, 2, 20, 21, 139, 140, 135,
     199, 135, 135, 135, 2, 20, 21, 139, 140, 135, 200, 135, 135, 135, 2, 20, 21, 139, 140,
     135, 201, 135, 135, 135, 2, 20, 21, 139, 140, 135, 202, 135, 135, 135, 2, 20, 21, 139,
     140, 135, 203, 135, 135, 135, 2, 20, 21, 139, 140, 135, 204, 135, 135, 135, 2, 20, 21,
     139, 205, 135, 135, 135, 135, 2, 206, 141, 141, 141, 207, 141, 2, 86, 208, 210, 141, 209,
     141, 141, 2, 90, 211] @
    [213, 141, 212, 141, 141, 2, 90, 211, 213, 141, 214, 141, 141, 2, 90, 211, 213, 141, 141,
     2, 20, 142, 215, 139, 141, 216, 141, 141, 2, 20, 142, 215, 139, 141, 217, 141, 141, 2, 20,
     142, 215, 139, 141, 141, 2, 20, 21, 139, 140, 135, 218, 135, 135, 135, 2, 20, 21, 139,
     140, 135, 219, 135, 135, 135, 2, 20, 21, 139, 140, 135, 220, 135, 135, 135, 2, 20, 21,
     139, 140, 135, 221, 135, 135, 135, 2, 20, 21, 139, 140, 135, 222, 135, 135, 135, 2, 20,
     21, 139, 140, 135] @
    [223, 135, 135, 135, 2, 20, 21, 139, 140, 135, 224, 135, 135, 135, 2, 20, 21, 139, 140,
     135, 225, 135, 135, 135, 2, 20, 21, 226, 140, 135, 135, 135, 135, 2, 20, 21, 139, 140,
     135, 227, 135, 135, 135, 2, 20, 21, 139, 140, 135, 228, 135, 135, 135, 2, 20, 21, 139,
     140, 135, 229, 135, 135, 135, 2, 20, 21, 139, 140, 135, 230, 135, 135, 135, 2, 20, 21,
     139, 140, 135, 231, 135, 135, 135, 2, 20, 21, 139, 140, 135, 232, 135, 135, 135, 2, 20,
     21, 139, 233, 135, 135] @
    [135, 135, 2, 234, 141, 141, 141, 235, 141, 2, 116, 236, 238, 141, 237, 141, 141, 2, 120,
     239, 241, 141, 240, 141, 141, 2, 120, 239, 241, 141, 242, 141, 141, 2, 120, 239, 241, 141,
     141, 2, 20, 142, 243, 139, 141, 244, 141, 141, 2, 20, 142, 243, 139, 141, 245, 141, 141,
     2, 20, 142, 243, 139, 141, 141, 2, 20, 21, 139, 140, 135, 246, 135, 135, 135, 2, 20, 21,
     139, 140, 135, 247, 135, 135, 135, 2, 20, 21, 139, 140, 135, 248, 135, 135, 135, 2, 20,
     21, 139, 140, 135] @
    [249, 135, 135, 135, 2, 20, 21, 139, 140, 135, 250, 135, 135, 135, 2, 20, 21, 139, 140,
     135, 251, 135, 135, 135, 2, 20, 21, 134, 140, 135, 135, 135, 135, 2, 20, 25, 22, 252, 24,
     24, 2, 20, 25, 22, 253, 24, 24, 2, 20, 25, 34, 24, 24, 2, 18, 254, 19, 255, 18, 18, 18, 2,
     20, 21, 22, 23, 18, 256, 18, 18, 18, 2, 20, 21, 22, 23, 18, 257, 18, 18, 18, 2, 20, 21,
     22, 23, 18, 258, 18, 18, 18, 2, 20, 21, 22, 23, 18, 259, 18, 18] @
    [18, 2, 20, 21, 22, 23, 18, 260, 18, 18, 18, 2, 20, 21, 22, 23, 18, 261, 18, 18, 18, 2, 20,
     21, 22, 23, 18, 262, 18, 18, 18, 2, 20, 21, 22, 23, 18, 263, 18, 18, 18, 2, 20, 21, 264,
     23, 18, 18, 18, 18, 2, 20, 21, 22, 23, 18, 265, 18, 18, 18, 2, 20, 21, 22, 23, 18, 266,
     18, 18, 18, 2, 20, 21, 22, 23, 18, 267, 18, 18, 18, 2, 20, 21, 22, 23, 18, 268, 18, 18,
     18, 2, 20, 21, 22, 23, 18, 269, 18, 18, 18] @
    [2, 20, 21, 22, 23, 18, 270, 18, 18, 18, 2, 20, 21, 22, 271, 18, 18, 18, 18, 2, 272, 24,
     24, 24, 273, 24, 2, 116, 274, 276, 24, 275, 24, 24, 2, 120, 277, 279, 24, 278, 24, 24, 2,
     120, 277, 279, 24, 280, 24, 24, 2, 120, 277, 279, 24, 24, 2, 20, 25, 281, 22, 24, 282, 24,
     24, 2, 20, 25, 281, 22, 24, 283, 24, 24, 2, 20, 25, 281, 22, 24, 24, 2, 20, 21, 22, 23,
     18, 284, 18, 18, 18, 2, 20, 21, 22, 23, 18, 285, 18, 18] @
    [18, 2, 20, 21, 22, 23, 18, 286, 18, 18, 18, 2, 20, 21, 22, 23, 18, 287, 18, 18, 18, 2, 20,
     21, 22, 23, 18, 288, 18, 18, 18, 2, 20, 21, 22, 23, 18, 289, 18, 18, 18, 2, 20, 21, 290,
     23, 18, 18, 18, 18, 2, 291, 292, 293, 291, 291, 291, 2, 20, 21, 294, 295, 291, 291, 291,
     291, 2, 296, 296, 296, 2, 20, 297, 294, 296, 296, 2, 20, 297, 294, 298, 296, 296, 2, 20,
     297, 294, 299, 296, 296, 2, 20, 297, 294, 300, 296, 296, 2, 20, 297] @
    [301, 294, 296, 296, 2, 20, 297, 294, 302, 296, 296, 2, 20, 297, 294, 303, 296, 296, 2, 20,
     297, 294, 304, 296, 296, 2, 20, 297, 305, 306, 296, 296, 2, 20, 297, 294, 307, 308, 309,
     296, 296, 2, 20, 297, 294, 310, 296, 296, 2, 20, 297, 294, 311, 296, 296, 2, 20, 297, 294,
     312, 296, 296, 2, 20, 297, 313, 296, 296, 2, 20, 297, 294, 314, 296, 296, 2, 20, 297, 294,
     315, 296, 296, 2, 20, 297, 161, 296, 296, 2, 20, 297, 294, 316, 296, 296, 2, 20, 297, 294,
     317] @
    [296, 296, 2, 20, 297, 306, 296, 296, 2, 291, 292, 318, 293, 319, 291, 291, 291, 2, 20, 21,
     294, 295, 291, 320, 291, 291, 291, 2, 20, 21, 294, 295, 291, 321, 291, 291, 291, 2, 20,
     21, 294, 295, 291, 322, 291, 291, 291, 2, 20, 21, 294, 295, 291, 323, 291, 291, 291, 2,
     20, 21, 294, 295, 291, 324, 291, 291, 291, 2, 20, 21, 294, 295, 325, 291, 291, 291, 2, 20,
     21, 294, 295, 291, 326, 291, 291, 291, 2, 20, 21, 294, 295, 291, 327, 291, 291, 291, 2,
     20, 21, 294] @
    [295, 291, 328, 291, 291, 291, 2, 20, 21, 294, 295, 291, 329, 291, 291, 291, 2, 20, 21,
     294, 330, 291, 291, 291, 291, 2, 331, 296, 296, 296, 332, 296, 2, 179, 333, 335, 296, 334,
     296, 296, 2, 183, 336, 338, 296, 337, 296, 296, 2, 183, 336, 338, 296, 339, 296, 296, 2,
     183, 336, 338, 296, 340, 296, 296, 2, 183, 336, 338, 296, 341, 296, 296, 2, 183, 336, 338,
     296, 296, 2, 20, 297, 342, 294, 296, 343, 296, 296, 2, 20, 297, 342, 294, 296, 344, 296,
     296, 2, 20, 297, 342] @
    [294, 296, 345, 296, 296, 2, 20, 297, 342, 294, 296, 346, 296, 296, 2, 20, 297, 342, 294,
     296, 296, 2, 20, 21, 294, 295, 291, 347, 291, 291, 291, 2, 20, 21, 294, 295, 291, 348,
     291, 291, 291, 2, 20, 21, 294, 295, 291, 349, 291, 291, 291, 2, 20, 21, 294, 295, 291,
     350, 291, 291, 291, 2, 20, 21, 294, 295, 291, 351, 291, 291, 291, 2, 20, 21, 294, 295,
     291, 352, 291, 291, 291, 2, 20, 21, 294, 295, 291, 353, 291, 291, 291, 2, 20, 21, 294,
     295, 291, 354, 291, 291]"

definition transport_indicies_3 :: "nat list" where
  "transport_indicies_3 =
    [291, 2, 20, 21, 355, 295, 291, 291, 291, 291, 2, 20, 21, 294, 295, 291, 356, 291, 291,
     291, 2, 20, 21, 294, 295, 291, 357, 291, 291, 291, 2, 20, 21, 294, 295, 291, 358, 291,
     291, 291, 2, 20, 21, 294, 295, 291, 359, 291, 291, 291, 2, 20, 21, 294, 295, 291, 360,
     291, 291, 291, 2, 20, 21, 294, 295, 291, 361, 291, 291, 291, 2, 20, 21, 294, 362, 291,
     291, 291, 291, 2, 363, 296, 296, 296, 364, 296, 2, 116, 365, 367, 296, 366, 296, 296, 2,
     120, 368, 370, 296, 369] @
    [296, 296, 2, 120, 368, 370, 296, 371, 296, 296, 2, 120, 368, 370, 296, 296, 2, 20, 297,
     372, 294, 296, 373, 296, 296, 2, 20, 297, 372, 294, 296, 374, 296, 296, 2, 20, 297, 372,
     294, 296, 296, 2, 20, 21, 294, 295, 291, 375, 291, 291, 291, 2, 20, 21, 294, 295, 291,
     376, 291, 291, 291, 2, 20, 21, 294, 295, 291, 377, 291, 291, 291, 2, 20, 21, 294, 295,
     291, 378, 291, 291, 291, 2, 20, 21, 294, 295, 291, 379, 291, 291, 291, 2, 20, 21, 294,
     295, 291, 380, 291, 291] @
    [291, 2, 20, 21, 290, 295, 291, 291, 291, 291, 2, 381, 2, 382, 2, 383, 2, 384, 385, 384,
     384, 384, 2, 20, 21, 386, 387, 384, 384, 384, 384, 2, 388, 388, 388, 2, 20, 389, 386, 388,
     388, 2, 20, 389, 386, 390, 388, 388, 2, 20, 389, 386, 391, 388, 388, 2, 20, 389, 386, 392,
     388, 388, 2, 20, 389, 393, 386, 388, 388, 2, 20, 389, 386, 394, 388, 388, 2, 20, 389, 386,
     395, 388, 388, 2, 20, 389, 386, 396, 388, 388, 2, 20, 389, 397, 398, 388, 388, 2, 20, 389] @
    [386, 399, 400, 401, 388, 388, 2, 20, 389, 386, 402, 388, 388, 2, 20, 389, 386, 403, 388,
     388, 2, 20, 389, 386, 404, 388, 388, 2, 20, 389, 66, 388, 388, 2, 20, 389, 386, 405, 388,
     388, 2, 20, 389, 386, 406, 388, 388, 2, 20, 389, 383, 388, 388, 2, 20, 389, 386, 407, 388,
     388, 2, 20, 389, 386, 408, 388, 388, 2, 20, 389, 398, 388, 388, 2, 384, 385, 409, 410,
     384, 384, 384, 2, 20, 21, 386, 387, 384, 411, 384, 384, 384, 2, 20, 21, 386, 387, 384,
     412, 384, 384] @
    [384, 2, 20, 21, 386, 387, 384, 413, 384, 384, 384, 2, 20, 21, 386, 387, 384, 414, 384,
     384, 384, 2, 20, 21, 386, 387, 384, 415, 384, 384, 384, 2, 20, 21, 386, 387, 384, 416,
     384, 384, 384, 2, 20, 21, 386, 387, 384, 417, 384, 384, 384, 2, 20, 21, 386, 387, 384,
     418, 384, 384, 384, 2, 20, 21, 386, 387, 384, 419, 384, 384, 384, 2, 20, 21, 386, 387,
     384, 420, 384, 384, 384, 2, 20, 21, 386, 421, 384, 384, 384, 384, 2, 422, 388, 388, 388,
     423, 388, 2, 86, 424] @
    [426, 388, 425, 388, 388, 2, 90, 427, 429, 388, 428, 388, 388, 2, 90, 427, 429, 388, 430,
     388, 388, 2, 90, 427, 429, 388, 388, 2, 20, 389, 431, 386, 388, 432, 388, 388, 2, 20, 389,
     431, 386, 388, 433, 388, 388, 2, 20, 389, 431, 386, 388, 388, 2, 20, 21, 386, 387, 384,
     434, 384, 384, 384, 2, 20, 21, 386, 387, 384, 435, 384, 384, 384, 2, 20, 21, 386, 387,
     384, 436, 384, 384, 384, 2, 20, 21, 386, 387, 384, 437, 384, 384, 384, 2, 20, 21, 386,
     387, 384, 438, 384] @
    [384, 384, 2, 20, 21, 386, 387, 384, 439, 384, 384, 384, 2, 20, 21, 386, 387, 384, 440,
     384, 384, 384, 2, 20, 21, 386, 387, 384, 441, 384, 384, 384, 2, 20, 21, 442, 387, 384,
     384, 384, 384, 2, 20, 21, 386, 387, 384, 443, 384, 384, 384, 2, 20, 21, 386, 387, 384,
     444, 384, 384, 384, 2, 20, 21, 386, 387, 384, 445, 384, 384, 384, 2, 20, 21, 386, 387,
     384, 446, 384, 384, 384, 2, 20, 21, 386, 387, 384, 447, 384, 384, 384, 2, 20, 21, 386,
     387, 384, 448, 384, 384] @
    [384, 2, 20, 21, 449, 387, 384, 384, 384, 384, 2, 450, 451, 452, 450, 450, 450, 2, 20, 21,
     453, 454, 450, 450, 450, 450, 2, 455, 455, 455, 2, 20, 456, 453, 455, 455, 2, 20, 456,
     453, 457, 455, 455, 2, 20, 456, 453, 458, 455, 455, 2, 20, 456, 453, 459, 455, 455, 2, 20,
     456, 460, 453, 455, 455, 2, 20, 456, 453, 461, 455, 455, 2, 20, 456, 453, 462, 455, 455,
     2, 20, 456, 453, 463, 455, 455, 2, 20, 456, 464, 465, 455, 455, 2, 20, 456, 453, 466, 467,
     468, 455] @
    [455, 2, 20, 456, 453, 469, 455, 455, 2, 20, 456, 453, 470, 455, 455, 2, 20, 456, 453, 471,
     455, 455, 2, 20, 456, 158, 455, 455, 2, 20, 456, 453, 472, 455, 455, 2, 20, 456, 453, 473,
     455, 455, 2, 20, 456, 474, 455, 455, 2, 20, 456, 453, 475, 455, 455, 2, 20, 456, 453, 476,
     455, 455, 2, 20, 456, 465, 455, 455, 2, 450, 451, 452, 477, 478, 450, 450, 450, 2, 20, 21,
     453, 454, 450, 479, 450, 450, 450, 2, 20, 21, 453, 454, 450, 480, 450, 450, 450, 2, 20, 21] @
    [453, 454, 450, 481, 450, 450, 450, 2, 20, 21, 453, 454, 450, 482, 450, 450, 450, 2, 20,
     21, 453, 454, 450, 483, 450, 450, 450, 2, 20, 21, 453, 454, 484, 450, 450, 450, 2, 20, 21,
     453, 454, 450, 485, 450, 450, 450, 2, 20, 21, 453, 454, 450, 486, 450, 450, 450, 2, 20,
     21, 453, 454, 450, 487, 450, 450, 450, 2, 20, 21, 453, 454, 450, 488, 450, 450, 450, 2,
     20, 21, 453, 489, 450, 450, 450, 450, 2, 490, 455, 455, 455, 491, 455, 2, 179, 492, 494,
     455, 493, 455, 455] @
    [2, 183, 495, 497, 455, 496, 455, 455, 2, 183, 495, 497, 455, 498, 455, 455, 2, 183, 495,
     497, 455, 499, 455, 455, 2, 183, 495, 497, 455, 500, 455, 455, 2, 183, 495, 497, 455, 455,
     2, 20, 456, 501, 453, 455, 502, 455, 455, 2, 20, 456, 501, 453, 455, 503, 455, 455, 2, 20,
     456, 501, 453, 455, 504, 455, 455, 2, 20, 456, 501, 453, 455, 505, 455, 455, 2, 20, 456,
     501, 453, 455, 455, 2, 20, 21, 453, 454, 450, 506, 450, 450, 450, 2, 20, 21, 453, 454,
     450, 507, 450, 450] @
    [450, 2, 20, 21, 453, 454, 450, 508, 450, 450, 450, 2, 20, 21, 453, 454, 450, 509, 450,
     450, 450, 2, 20, 21, 453, 454, 450, 510, 450, 450, 450, 2, 20, 21, 453, 454, 450, 511,
     450, 450, 450, 2, 20, 21, 453, 454, 450, 512, 450, 450, 450, 2, 20, 21, 453, 454, 450,
     513, 450, 450, 450, 2, 20, 21, 453, 454, 450, 514, 450, 450, 450, 2, 20, 21, 453, 454,
     450, 515, 450, 450, 450, 2, 20, 21, 453, 516, 450, 450, 450, 450, 2, 517, 455, 455, 455,
     518, 455, 2, 86, 519]"

definition transport_indicies_4 :: "nat list" where
  "transport_indicies_4 =
    [521, 455, 520, 455, 455, 2, 90, 522, 524, 455, 523, 455, 455, 2, 90, 522, 524, 455, 525,
     455, 455, 2, 90, 522, 524, 455, 455, 2, 20, 456, 526, 453, 455, 527, 455, 455, 2, 20, 456,
     526, 453, 455, 528, 455, 455, 2, 20, 456, 526, 453, 455, 455, 2, 20, 21, 453, 454, 450,
     529, 450, 450, 450, 2, 20, 21, 453, 454, 450, 530, 450, 450, 450, 2, 20, 21, 453, 454,
     450, 531, 450, 450, 450, 2, 20, 21, 453, 454, 450, 532, 450, 450, 450, 2, 20, 21, 453,
     454, 450, 533, 450] @
    [450, 450, 2, 20, 21, 453, 454, 450, 534, 450, 450, 450, 2, 20, 21, 453, 454, 450, 535,
     450, 450, 450, 2, 20, 21, 453, 454, 450, 536, 450, 450, 450, 2, 20, 21, 537, 454, 450,
     450, 450, 450, 2, 20, 21, 453, 454, 450, 538, 450, 450, 450, 2, 20, 21, 453, 454, 450,
     539, 450, 450, 450, 2, 20, 21, 453, 454, 450, 540, 450, 450, 450, 2, 20, 21, 453, 454,
     450, 541, 450, 450, 450, 2, 20, 21, 453, 454, 450, 542, 450, 450, 450, 2, 20, 21, 453,
     454, 450, 543, 450, 450] @
    [450, 2, 20, 21, 449, 454, 450, 450, 450, 450, 2, 544, 2, 545, 2, 10, 2, 546, 547, 2, 548,
     2, 549, 2, 550, 2, 551, 2, 552, 2, 553, 2, 554, 2, 555, 2, 556, 2, 557, 557, 557, 557, 2,
     20, 21, 558, 559, 557, 557, 557, 557, 2, 560, 560, 560, 2, 20, 561, 558, 560, 560, 2, 20,
     561, 558, 562, 560, 560, 2, 20, 561, 558, 563, 560, 560, 2, 20, 561, 558, 564, 560, 560,
     2, 20, 561, 565, 558, 560, 560, 2, 20, 561, 558, 566, 560, 560, 2, 20, 561, 558] @
    [567, 560, 560, 2, 20, 561, 558, 568, 560, 560, 2, 20, 561, 569, 570, 560, 560, 2, 20, 561,
     558, 571, 572, 573, 560, 560, 2, 20, 561, 558, 574, 560, 560, 2, 20, 561, 558, 575, 560,
     560, 2, 20, 561, 558, 576, 560, 560, 2, 20, 561, 17, 560, 560, 2, 20, 561, 558, 577, 560,
     560, 2, 20, 561, 558, 578, 560, 560, 2, 20, 561, 383, 560, 560, 2, 20, 561, 558, 579, 560,
     560, 2, 20, 561, 558, 580, 560, 560, 2, 20, 561, 570, 560, 560, 2, 557, 581, 582, 557,
     557, 557] @
    [2, 20, 21, 558, 559, 557, 583, 557, 557, 557, 2, 20, 21, 558, 559, 557, 584, 557, 557,
     557, 2, 20, 21, 558, 559, 557, 585, 557, 557, 557, 2, 20, 21, 558, 559, 557, 586, 557,
     557, 557, 2, 20, 21, 558, 559, 557, 587, 557, 557, 557, 2, 20, 21, 558, 559, 557, 588,
     557, 557, 557, 2, 20, 21, 558, 559, 557, 589, 557, 557, 557, 2, 20, 21, 558, 559, 557,
     590, 557, 557, 557, 2, 20, 21, 556, 559, 557, 557, 557, 557, 2, 20, 21, 558, 559, 557,
     591, 557, 557, 557, 2] @
    [20, 21, 558, 559, 557, 592, 557, 557, 557, 2, 20, 21, 558, 559, 557, 593, 557, 557, 557,
     2, 20, 21, 558, 559, 557, 594, 557, 557, 557, 2, 20, 21, 558, 559, 557, 595, 557, 557,
     557, 2, 20, 21, 558, 559, 557, 596, 557, 557, 557, 2, 20, 21, 597, 559, 557, 557, 557,
     557, 2, 598, 599, 598, 598, 598, 2, 20, 21, 600, 601, 598, 598, 598, 598, 2, 602, 602,
     602, 2, 20, 603, 600, 602, 602, 2, 20, 603, 600, 604, 602, 602, 2, 20, 603, 600, 605, 602,
     602, 2, 20, 603] @
    [600, 606, 602, 602, 2, 20, 603, 607, 600, 602, 602, 2, 20, 603, 600, 608, 602, 602, 2, 20,
     603, 600, 609, 602, 602, 2, 20, 603, 600, 610, 602, 602, 2, 20, 603, 611, 612, 602, 602,
     2, 20, 603, 600, 613, 614, 615, 602, 602, 2, 20, 603, 600, 616, 602, 602, 2, 20, 603, 600,
     617, 602, 602, 2, 20, 603, 600, 618, 602, 602, 2, 20, 603, 313, 602, 602, 2, 20, 603, 600,
     619, 602, 602, 2, 20, 603, 600, 620, 602, 602, 2, 20, 603, 474, 602, 602, 2, 20, 603, 600,
     621] @
    [602, 602, 2, 20, 603, 600, 622, 602, 602, 2, 20, 603, 612, 602, 602, 2, 598, 599, 623,
     624, 598, 598, 598, 2, 20, 21, 600, 601, 598, 625, 598, 598, 598, 2, 20, 21, 600, 601,
     598, 626, 598, 598, 598, 2, 20, 21, 600, 601, 598, 627, 598, 598, 598, 2, 20, 21, 600,
     601, 598, 628, 598, 598, 598, 2, 20, 21, 600, 601, 598, 629, 598, 598, 598, 2, 20, 21,
     600, 601, 630, 598, 598, 598, 2, 20, 21, 600, 601, 598, 631, 598, 598, 598, 2, 20, 21,
     600, 601, 598, 632, 598] @
    [598, 598, 2, 20, 21, 600, 601, 598, 633, 598, 598, 598, 2, 20, 21, 600, 601, 598, 634,
     598, 598, 598, 2, 20, 21, 600, 635, 598, 598, 598, 598, 2, 636, 602, 602, 602, 637, 602,
     2, 179, 638, 640, 602, 639, 602, 602, 2, 183, 641, 643, 602, 642, 602, 602, 2, 183, 641,
     643, 602, 644, 602, 602, 2, 183, 641, 643, 602, 645, 602, 602, 2, 183, 641, 643, 602, 646,
     602, 602, 2, 183, 641, 643, 602, 602, 2, 20, 603, 647, 600, 602, 648, 602, 602, 2, 20,
     603, 647, 600, 602, 649] @
    [602, 602, 2, 20, 603, 647, 600, 602, 650, 602, 602, 2, 20, 603, 647, 600, 602, 651, 602,
     602, 2, 20, 603, 647, 600, 602, 602, 2, 20, 21, 600, 601, 598, 652, 598, 598, 598, 2, 20,
     21, 600, 601, 598, 653, 598, 598, 598, 2, 20, 21, 600, 601, 598, 654, 598, 598, 598, 2,
     20, 21, 600, 601, 598, 655, 598, 598, 598, 2, 20, 21, 600, 601, 598, 656, 598, 598, 598,
     2, 20, 21, 600, 601, 598, 657, 598, 598, 598, 2, 20, 21, 600, 601, 598, 658, 598, 598,
     598, 2, 20, 21] @
    [600, 601, 598, 659, 598, 598, 598, 2, 20, 21, 660, 601, 598, 598, 598, 598, 2, 20, 21,
     600, 601, 598, 661, 598, 598, 598, 2, 20, 21, 600, 601, 598, 662, 598, 598, 598, 2, 20,
     21, 600, 601, 598, 663, 598, 598, 598, 2, 20, 21, 600, 601, 598, 664, 598, 598, 598, 2,
     20, 21, 600, 601, 598, 665, 598, 598, 598, 2, 20, 21, 600, 601, 598, 666, 598, 598, 598,
     2, 20, 21, 597, 601, 598, 598, 598, 598, 2, 667, 2, 668, 2, 669, 2, 670, 2, 671, 2, 672,
     2, 597, 2] @
    [1, 0]"

definition transport_indicies :: "nat list" where
  "transport_indicies = transport_indicies_1 @ transport_indicies_2 @ transport_indicies_3 @ transport_indicies_4"

definition transport_trans_targs :: "nat list" where
  "transport_trans_targs =
    [2, 0, 0, 3, 4, 5, 6, 7, 8, 9, 465, 10, 318, 462, 11, 12, 13, 14, 15, 218, 585, 1, 14, 16,
     17, 18, 19, 20, 21, 22, 23, 24, 25, 26, 208, 27, 31, 205, 28, 29, 30, 32, 33, 34, 35, 58,
     86, 34, 36, 37, 38, 39, 40, 41, 42, 43, 44, 45, 46, 57, 47, 51, 54, 48, 49, 50, 34, 52,
     53, 55, 56, 77, 101, 59, 60, 61, 62, 63, 64, 65, 66, 67, 68, 69, 70, 74, 585, 38, 71, 34,
     585, 38, 72, 34, 73, 70, 75, 76, 78, 79] @
    [80, 81, 82, 83, 84, 85, 34, 87, 88, 89, 90, 91, 92, 93, 94, 98, 585, 38, 95, 34, 585, 38,
     96, 34, 97, 94, 99, 100, 102, 103, 104, 105, 106, 107, 108, 109, 132, 155, 183, 108, 110,
     111, 112, 113, 114, 115, 116, 117, 118, 119, 120, 131, 121, 125, 128, 122, 123, 124, 108,
     126, 127, 108, 129, 130, 174, 198, 133, 134, 135, 136, 137, 138, 139, 140, 141, 142, 143,
     144, 150, 585, 112, 145, 108, 585, 112, 146, 108, 147, 148, 149, 144, 151, 152, 153, 154,
     156, 157, 158, 159, 160] @
    [161, 162, 163, 164, 165, 166, 167, 171, 112, 168, 108, 112, 169, 108, 170, 167, 172, 173,
     175, 176, 177, 178, 179, 180, 181, 182, 108, 184, 185, 186, 187, 188, 189, 190, 191, 195,
     112, 192, 108, 112, 193, 108, 194, 191, 196, 197, 199, 200, 201, 202, 203, 204, 206, 207,
     209, 233, 210, 211, 212, 213, 214, 215, 216, 217, 14, 219, 220, 221, 222, 223, 224, 225,
     226, 230, 18, 227, 14, 18, 228, 14, 229, 226, 231, 232, 234, 235, 236, 237, 238, 239, 240,
     241, 264, 296, 240, 242, 243, 244, 245, 246] @
    [247, 248, 249, 250, 251, 252, 263, 253, 257, 260, 254, 255, 256, 240, 258, 259, 261, 262,
     287, 311, 265, 266, 267, 268, 269, 270, 271, 272, 273, 274, 275, 276, 282, 244, 277, 240,
     244, 278, 240, 279, 280, 281, 276, 283, 284, 285, 286, 288, 289, 290, 291, 292, 293, 294,
     295, 240, 297, 298, 299, 300, 301, 302, 303, 304, 308, 244, 305, 240, 244, 306, 240, 307,
     304, 309, 310, 312, 313, 314, 315, 316, 317, 319, 320, 321, 322, 345, 321, 323, 324, 325,
     326, 327, 328, 329, 330, 331, 332, 333, 344, 334] @
    [338, 341, 335, 336, 337, 339, 340, 342, 343, 364, 373, 346, 347, 348, 349, 350, 351, 352,
     353, 354, 355, 356, 357, 361, 325, 358, 321, 325, 359, 321, 360, 357, 362, 363, 365, 366,
     367, 368, 369, 370, 371, 372, 321, 374, 375, 376, 377, 378, 379, 380, 381, 404, 427, 380,
     382, 383, 384, 385, 386, 387, 388, 389, 390, 391, 392, 403, 393, 397, 400, 394, 395, 396,
     398, 399, 380, 401, 402, 446, 455, 405, 406, 407, 408, 409, 410, 411, 412, 413, 414, 415,
     416, 422, 384, 417, 380, 384, 418, 380, 419, 420] @
    [421, 416, 423, 424, 425, 426, 428, 429, 430, 431, 432, 433, 434, 435, 436, 437, 438, 439,
     443, 384, 440, 380, 384, 441, 380, 442, 439, 444, 445, 447, 448, 449, 450, 451, 452, 453,
     454, 380, 456, 457, 458, 459, 460, 461, 463, 464, 466, 578, 467, 468, 469, 470, 471, 472,
     473, 474, 475, 476, 475, 477, 478, 479, 480, 481, 482, 483, 484, 485, 486, 487, 498, 488,
     492, 495, 489, 490, 491, 493, 494, 496, 497, 499, 508, 500, 501, 502, 503, 504, 505, 506,
     507, 509, 510, 511, 512, 513, 514, 515, 516, 539] @
    [515, 517, 518, 519, 520, 521, 522, 523, 524, 525, 526, 527, 538, 528, 532, 535, 529, 530,
     531, 533, 534, 536, 537, 562, 571, 540, 541, 542, 543, 544, 545, 546, 547, 548, 549, 550,
     551, 557, 519, 552, 515, 519, 553, 515, 554, 555, 556, 551, 558, 559, 560, 561, 563, 564,
     565, 566, 567, 568, 569, 570, 515, 572, 573, 574, 575, 576, 577, 579, 580, 581, 582, 583,
     584]"

definition transport_trans_actions :: "nat list" where
  "transport_trans_actions =
    [15, 0, 17, 0, 0, 0, 0, 0, 0, 0, 9, 0, 0, 0, 0, 0, 0, 13, 0, 0, 0, 0, 0, 0, 0, 0, 15, 0, 0,
     0, 0, 0, 0, 0, 9, 0, 0, 0, 0, 0, 0, 0, 0, 11, 0, 0, 0, 0, 0, 0, 0, 15, 0, 0, 0, 0, 0, 0,
     0, 9, 0, 0, 0, 0, 0, 0, 13, 0, 0, 0, 0, 0, 0, 0, 0, 0, 0, 0, 0, 0, 0, 0, 0, 0, 51, 28, 55,
     55, 28, 55, 34, 34, 3, 34, 3, 31, 3, 3, 0, 0] @
    [0, 0, 0, 0, 0, 0, 7, 0, 0, 0, 0, 0, 0, 0, 59, 28, 63, 63, 28, 63, 40, 40, 3, 40, 3, 37, 3,
     3, 0, 0, 0, 0, 0, 0, 5, 0, 0, 0, 0, 0, 0, 0, 0, 15, 0, 0, 0, 0, 0, 0, 0, 9, 0, 0, 0, 0, 0,
     0, 13, 0, 0, 11, 0, 0, 0, 0, 0, 0, 0, 0, 0, 0, 0, 0, 0, 0, 0, 43, 19, 47, 47, 19, 47, 25,
     25, 1, 25, 1, 1, 1, 22, 1, 1, 1, 1, 0, 0, 0, 0, 0] @
    [0, 0, 0, 0, 0, 0, 51, 28, 55, 28, 55, 34, 3, 34, 3, 31, 3, 3, 0, 0, 0, 0, 0, 0, 0, 0, 7,
     0, 0, 0, 0, 0, 0, 0, 59, 28, 63, 28, 63, 40, 3, 40, 3, 37, 3, 3, 0, 0, 0, 0, 0, 0, 0, 0,
     0, 0, 0, 0, 0, 0, 0, 0, 0, 0, 7, 0, 0, 0, 0, 0, 0, 0, 59, 28, 63, 28, 63, 40, 3, 40, 3,
     37, 3, 3, 0, 0, 0, 0, 0, 0, 5, 0, 0, 0, 0, 0, 0, 0, 15, 0] @
    [0, 0, 0, 0, 0, 0, 9, 0, 0, 0, 0, 0, 0, 13, 0, 0, 0, 0, 0, 0, 0, 0, 0, 0, 0, 0, 0, 0, 0, 0,
     0, 43, 19, 47, 19, 47, 25, 1, 25, 1, 1, 1, 22, 1, 1, 1, 1, 0, 0, 0, 0, 0, 0, 0, 0, 7, 0,
     0, 0, 0, 0, 0, 0, 59, 28, 63, 28, 63, 40, 3, 40, 3, 37, 3, 3, 0, 0, 0, 0, 0, 0, 0, 0, 11,
     0, 0, 0, 0, 0, 0, 15, 0, 0, 0, 0, 0, 0, 0, 9] @
    replicate 23 0 @
    [51, 28, 55, 28, 55, 34, 3, 34, 3, 31, 3, 3, 0, 0, 0, 0, 0, 0, 0, 0, 7, 0, 0, 0, 0, 0, 0,
     5, 0, 0, 0, 0, 0, 0, 0, 15, 0, 0, 0, 0, 0, 0, 0, 9, 0, 0, 0, 0, 0, 0, 0, 0, 11, 0, 0, 0,
     0, 0, 0, 0, 0, 0, 0, 0, 0, 0, 0, 0, 43, 19, 47, 19, 47, 25, 1, 25, 1, 1, 1, 22, 1, 1, 1,
     1, 0, 0, 0, 0, 0, 0, 0, 0, 0, 0, 0, 51, 28, 55, 28, 55] @
    [34, 3, 34, 3, 31, 3, 3, 0, 0, 0, 0, 0, 0, 0, 0, 7, 0, 0, 0, 0, 0, 0, 0, 0, 0, 0, 0, 0, 0,
     0, 0, 0, 0, 0, 7, 0, 0, 0, 0, 0, 15, 0, 0, 0, 0, 0, 0, 0, 9] @
    replicate 26 0 @
    [5, 0, 0, 0, 0, 0, 0, 15, 0, 0, 0, 0, 0, 0, 0, 9] @
    replicate 23 0 @
    [43, 19, 47, 19, 47, 25, 1, 25, 1, 1, 1, 22, 1, 1, 1, 1, 0, 0, 0, 0, 0, 0, 0, 0, 7, 0, 0,
     0, 0, 0, 0, 0, 0, 0, 0, 0, 0]"

definition transport_eof_actions :: "nat list" where
  "transport_eof_actions =
    [0, 0] @
    replicate 583 17 @
    [0]"

definition transport_tables :: ragel_tables where
  "transport_tables =
     \<lparr>r_actions = transport_actions,
      r_key_offsets = transport_key_offsets,
      r_trans_keys = transport_trans_keys,
      r_single_lengths = transport_single_lengths,
      r_range_lengths = transport_range_lengths,
      r_index_offsets = transport_index_offsets,
      r_indicies = transport_indicies,
      r_trans_targs = transport_trans_targs,
      r_trans_actions = transport_trans_actions\<rparr>"

lemmas transport_tables_defs =
  transport_actions_def
  transport_key_offsets_def
  transport_trans_keys_1_def
  transport_trans_keys_2_def
  transport_trans_keys_3_def
  transport_trans_keys_4_def
  transport_trans_keys_5_def
  transport_trans_keys_def
  transport_single_lengths_def
  transport_range_lengths_def
  transport_index_offsets_def
  transport_indicies_1_def
  transport_indicies_2_def
  transport_indicies_3_def
  transport_indicies_4_def
  transport_indicies_def
  transport_trans_targs_def
  transport_trans_actions_def
  transport_eof_actions_def
  replicate_numeral

lemma transport_tables_sel [simp]:
  "r_actions transport_tables = transport_actions"
  "r_key_offsets transport_tables = transport_key_offsets"
  "r_trans_keys transport_tables = transport_trans_keys"
  "r_single_lengths transport_tables = transport_single_lengths"
  "r_range_lengths transport_tables = transport_range_lengths"
  "r_index_offsets transport_tables = transport_index_offsets"
  "r_indicies transport_tables = transport_indicies"
  "r_trans_targs transport_tables = transport_trans_targs"
  "r_trans_actions transport_tables = transport_trans_actions"
  by (simp_all add: transport_tables_def)

section \<open>Well-formedness\<close>

lemma transport_lengths [simp]:
  "length transport_key_offsets = 586"
  "length transport_trans_targs = 673"
  "length transport_trans_actions = 673"
  "length transport_indicies = 4694"
  by (simp_all add: transport_tables_defs)

lemma transport_rows_ok:
  "ragel_rows_ok (tl transport_key_offsets) (tl transport_single_lengths) (tl transport_range_lengths)
     (tl transport_index_offsets) 0 0 transport_trans_keys 4694"
  by (simp add: transport_tables_defs)

lemma transport_indicies_ok: "list_all (\<lambda>t. t < 673) transport_indicies"
  by (simp add: transport_tables_defs)

lemma transport_targs_ok: "list_all (\<lambda>s. s < 586) transport_trans_targs"
  by (simp add: transport_tables_defs)

lemma transport_actions_ok: "list_all (ragel_action_ok transport_actions 19) transport_trans_actions"
  by (simp add: transport_tables_defs ragel_action_ok_def ragel_action_list_def arr_def)

lemma transport_tables_wf: "ragel_wf transport_tables 19"
  using transport_rows_ok transport_indicies_ok transport_targs_ok transport_actions_ok
  by (simp add: ragel_wf_def)

interpretation transport: ragel_machine transport_tables 19
  by unfold_locales (rule transport_tables_wf)

end
