(* ===== verification/Transport.thy ===== *)
theory Transport
  imports Ragel_Trees Transport_Tables
begin

text \<open>
  The parser of the \<^verbatim>\<open>Transport\<close> header, \<^verbatim>\<open>ragel_parse_transport_header\<close> of
  \<^verbatim>\<open>ragel_transport.c\<close>: a list of the transports that a client proposes. Its error action
  drops the current transport and goes on behind the next comma.
\<close>

section \<open>The parser\<close>

datatype RTP_Protocol = RTP_UDP | RTP_TCP | RTP_SCTP

datatype transport_mode = TransportUnicast | TransportMulticast

record ParsedTransport =
  protocol :: RTP_Protocol
  mode :: transport_mode
  rtp_channel :: int
  rtcp_channel :: int

text \<open>\<^verbatim>\<open>transport\<close> is \<open>None\<close> for NULL, \<^verbatim>\<open>p\<close> a position of the header.\<close>

record transport_scan =
  tr_cs :: nat
  tr_p :: nat
  transports :: "ParsedTransport list"
  transport :: "ParsedTransport option"
  portval :: u32
  chanval :: u16

text \<open>\<^verbatim>\<open>strchr(p, ',')\<close>; \<open>s\<close> ends with the NUL of the header, and behind it is not its memory.\<close>

definition strchr_comma :: "string \<Rightarrow> nat \<Rightarrow> nat option result" where
  "strchr_comma s p =
     (if length s \<le> p then Inl Out_Of_Bounds
      else
        let w = takeWhile (\<lambda>c. c \<noteq> CHR '','') (drop p s)
        in Inr (if p + length w < length s then Some (p + length w) else None))"

definition set_transport ::
    "(ParsedTransport \<Rightarrow> ParsedTransport) \<Rightarrow> transport_scan \<Rightarrow> transport_scan result" where
  "set_transport f st =
     (case transport st of
        None \<Rightarrow> Inl Null_Dereference
      | Some t \<Rightarrow> Inr (st\<lparr>transport := Some (f t)\<rparr>))"

text \<open>Action 18: on behind the next comma, or to the end; \<^verbatim>\<open>_again\<close> adds one to \<^verbatim>\<open>p\<close>.\<close>

definition transport_error :: "string \<Rightarrow> transport_scan \<Rightarrow> transport_scan result" where
  "transport_error s st =
     (case strchr_comma s (tr_p st) of
        Inl err \<Rightarrow> Inl err
      | Inr next_transport \<Rightarrow>
          Inr (st\<lparr>transport := None, tr_cs := 1,
                 tr_p := (case next_transport of None \<Rightarrow> length s - 1 | Some n \<Rightarrow> n)\<rparr>))"

definition transport_act :: "nat \<Rightarrow> char \<Rightarrow> transport_scan \<Rightarrow> transport_scan result" where
  "transport_act i c st =
     (if i = 0 then Inr (st\<lparr>portval := 0\<rparr>)
      else if i = 1 then Inr (st\<lparr>portval := portval st * 10 + word_of_int (c_char c - 48)\<rparr>)
      else if i = 2 then
        Inr (if portval st > 0xFFFF then st\<lparr>portval := 0xFFFF\<rparr> else st)
      else if i = 3 then Inr (st\<lparr>chanval := 0\<rparr>)
      else if i = 4 then Inr (st\<lparr>chanval := chanval st * 10 + word_of_int (c_char c - 48)\<rparr>)
      else if i = 5 then Inr (if chanval st > 0xFF then st\<lparr>chanval := 0xFF\<rparr> else st)
      else if i = 6 then set_transport (\<lambda>t. t\<lparr>mode := TransportUnicast\<rparr>) st
      else if i = 7 then set_transport (\<lambda>t. t\<lparr>mode := TransportMulticast\<rparr>) st
      else if i = 8 then set_transport (\<lambda>t. t\<lparr>rtp_channel := sint (portval st)\<rparr>) st
      else if i = 9 then set_transport (\<lambda>t. t\<lparr>rtcp_channel := sint (portval st)\<rparr>) st
      else if i = 10 \<or> i = 12 then set_transport (\<lambda>t. t\<lparr>rtp_channel := uint (chanval st)\<rparr>) st
      else if i = 11 \<or> i = 13 then set_transport (\<lambda>t. t\<lparr>rtcp_channel := uint (chanval st)\<rparr>) st
      else if i = 14 then set_transport (\<lambda>t. t\<lparr>protocol := RTP_UDP\<rparr>) st
      else if i = 15 then set_transport (\<lambda>t. t\<lparr>protocol := RTP_TCP\<rparr>) st
      else if i = 16 then set_transport (\<lambda>t. t\<lparr>protocol := RTP_SCTP\<rparr>) st
      else if i = 17 then
        Inr (st\<lparr>transports :=
                 (case transport st of None \<Rightarrow> transports st | Some t \<Rightarrow> transports st @ [t]),
               transport := Some \<lparr>protocol = RTP_UDP, mode = TransportUnicast,
                                 rtp_channel = - 1, rtcp_channel = - 1\<rparr>\<rparr>)
      else Inr st)"

text \<open>The actions of a transition; action 18 leaves the loop with \<^verbatim>\<open>goto _again\<close>.\<close>

fun transport_acts :: "string \<Rightarrow> nat list \<Rightarrow> char \<Rightarrow> transport_scan \<Rightarrow> transport_scan result" where
  "transport_acts s [] c st = Inr st"
| "transport_acts s (i # ids) c st =
     (if i = 18 then transport_error s st
      else
        (case transport_act i c st of
           Inl err \<Rightarrow> Inl err
         | Inr st' \<Rightarrow> transport_acts s ids c st'))"

text \<open>
  From \<^verbatim>\<open>_test_eof\<close> on. The only action that the table names here is 18, which reads at
  \<^verbatim>\<open>pe\<close>, one behind the NUL.
\<close>

definition transport_eof :: "string \<Rightarrow> transport_scan \<Rightarrow> transport_scan result" where
  "transport_eof s st =
     (case arr transport_eof_actions (tr_cs st) of
        Inl err \<Rightarrow> Inl err
      | Inr a \<Rightarrow>
          (case ragel_action_list transport_actions a of
             Inl err \<Rightarrow> Inl err
           | Inr ids \<Rightarrow> transport_acts s ids NUL st))"

text \<open>One turn of the loop; \<open>Go\<close> is \<^verbatim>\<open>goto _resume\<close>, \<open>Leave\<close> is \<^verbatim>\<open>_out\<close>.\<close>

definition transport_turn :: "string \<Rightarrow> transport_scan \<Rightarrow> transport_scan flow result" where
  "transport_turn s st =
     (case arr s (tr_p st) of
        Inl err \<Rightarrow> Inl err
      | Inr c \<Rightarrow>
          (case ragel_step transport_tables (tr_cs st) (c_char c) of
             Inl err \<Rightarrow> Inl err
           | Inr (cs', ids) \<Rightarrow>
               (case transport_acts s ids c (st\<lparr>tr_cs := cs'\<rparr>) of
                  Inl err \<Rightarrow> Inl err
                | Inr st' \<Rightarrow>
                    if tr_cs st' = 0 then Inr (Leave st')
                    else
                      let st'' = st'\<lparr>tr_p := tr_p st' + 1\<rparr> in
                      if tr_p st'' \<noteq> length s then Inr (Go st'')
                      else
                        (case transport_eof s st'' of
                           Inl err \<Rightarrow> Inl err
                         | Inr st3 \<Rightarrow> Inr (Leave st3)))))"

lemma transport_act_p: "transport_act i c st = Inr st' \<Longrightarrow> tr_p st' = tr_p st \<and> tr_cs st' = tr_cs st"
  by (auto simp: transport_act_def set_transport_def split: if_splits option.splits)

lemma transport_acts_p:
  "transport_acts s ids c st = Inr st' \<Longrightarrow> tr_p st < length s \<Longrightarrow>
     tr_p st \<le> tr_p st' \<and> tr_p st' < length s"
proof (induction s ids c st rule: transport_acts.induct)
  case (2 s i ids c st)
  show ?case
  proof (cases "i = 18")
    case True
    then show ?thesis using 2 by (auto simp: transport_error_def strchr_comma_def Let_def)
  next
    case False
    then obtain st1 where st1: "transport_act i c st = Inr st1" "transport_acts s ids c st1 = Inr st'"
      using "2.prems" by (auto split: sum.splits)
    then show ?thesis using "2.IH" [OF False st1(1)] "2.prems" transport_act_p [OF st1(1)] by simp
  qed
qed simp

lemma transport_turn_p:
  assumes "transport_turn s st = Inr (Go st')"
  shows "tr_p st < tr_p st' \<and> tr_p st' < length s"
  using assms transport_acts_p [of s _ _ "st\<lparr>tr_cs := _\<rparr>"]
  by (fastforce simp: transport_turn_def arr_def Let_def split: sum.splits prod.splits if_splits)

function transport_run :: "string \<Rightarrow> transport_scan \<Rightarrow> transport_scan result" where
  "transport_run s st =
     (case transport_turn s st of
        Inl err \<Rightarrow> Inl err
      | Inr (Go st') \<Rightarrow> transport_run s st'
      | Inr (Leave st') \<Rightarrow> Inr st')"
  by pat_completeness auto
termination
  by (relation "measure (\<lambda>(s, st). length s - tr_p st)") (auto dest: transport_turn_p)

declare transport_run.simps [simp del]

definition transport_start :: transport_scan where
  "transport_start = \<lparr>tr_cs = 1, tr_p = 0, transports = [], transport = None, portval = 0, chanval = 0\<rparr>"

definition ragel_parse_transport_header :: "string \<Rightarrow> ParsedTransport list result" where
  "ragel_parse_transport_header header =
     (case transport_run (c_str header @ [NUL]) transport_start of
        Inl err \<Rightarrow> Inl err
      | Inr st \<Rightarrow>
          Inr (transports st @ (case transport st of None \<Rightarrow> [] | Some t \<Rightarrow> [t])))"

section \<open>Labels of its states\<close>

text \<open>
  The label of a state: 0 the error state, 1 the state behind a comma, in which \<^verbatim>\<open>transport\<close>
  may be NULL, 2 the others. The check of a transition follows whether \<^verbatim>\<open>transport\<close> is set
  and the two numbers are clamped.
\<close>

fun transport_label_run :: "bool \<Rightarrow> bool \<Rightarrow> bool \<Rightarrow> nat list \<Rightarrow> bool option" where
  "transport_label_run nn cp cc [] = Some nn"
| "transport_label_run nn cp cc (i # ids) =
     (if i = 0 \<or> i = 1 then transport_label_run nn False cc ids
      else if i = 2 then transport_label_run nn True cc ids
      else if i = 3 \<or> i = 4 then transport_label_run nn cp False ids
      else if i = 5 then transport_label_run nn cp True ids
      else if i = 8 \<or> i = 9 then (if nn \<and> cp then transport_label_run nn cp cc ids else None)
      else if i < 14 \<and> 9 < i then (if nn \<and> cc then transport_label_run nn cp cc ids else None)
      else if i < 17 then (if nn then transport_label_run nn cp cc ids else None)
      else if i = 17 then transport_label_run True cp cc ids
      else None)"

definition transport_label_ok :: "nat \<Rightarrow> nat \<Rightarrow> nat list \<Rightarrow> bool" where
  "transport_label_ok l l' ids \<longleftrightarrow>
     ids = [18] \<or> l' = 0 \<and> ids = [] \<or>
     l' \<noteq> 0 \<and> transport_label_run (l = 2) False False ids \<in> (if l' = 2 then {Some True} else {Some True, Some False})"

definition transport_labels :: "nat list" where
  "transport_labels = [0, 1] @ replicate 584 2"

lemma transport_labels_ok: "ragel_labels_ok transport_tables transport_label_ok transport_labels"
  by (simp add: ragel_labels_ok_def transport_tables_defs transport_labels_def transport_label_ok_def
      ragel_ids_def)

text \<open>On the NUL every state stops, accepts, or drops the transport.\<close>

fun transport_nul :: "(nat \<times> nat list) option \<Rightarrow> bool" where
  "transport_nul (Some (t, ids)) = (t = 0 \<or> t = 585 \<and> list_all (\<lambda>i. i \<noteq> 18) ids)"
| "transport_nul None = False"

lemma transport_nul_rows:
  "ragel_all_rows transport_tables 0 [1, 2, 20, 86, 90, 116, 120, 179, 183] transport_nul"
proof -
  have "all_rows 0 [1, 2, 20, 86, 90, 116, 120, 179, 183] (ragel_rows transport_tables)"
    by (simp add: transport_tables_defs row_index_def)
  moreover have "list_all (\<lambda>n. transport_nul (lt_get (ragel_itree transport_tables) n))
      [1, 2, 20, 86, 90, 116, 120, 179, 183]"
    by (simp add: ragel_itree_def transport_tables_defs ragel_ids_def)
  ultimately show ?thesis unfolding ragel_all_rows_def by blast
qed

lemma transport_eof_stop:
  assumes "tr_cs st = 1 \<or> tr_cs st = 585"
  shows "transport_eof s st = Inr st"
proof -
  have table: "transport_eof_actions = [0, 0] @ replicate 583 17 @ [0]"
    by (simp add: transport_eof_actions_def)
  have "arr transport_eof_actions 1 = Inr 0" "arr transport_eof_actions 585 = Inr 0"
    unfolding arr_def table by (simp_all add: nth_append nth_Cons')
  moreover have "ragel_action_list transport_actions 0 = Inr []"
    by (simp add: ragel_action_list_def arr_def transport_actions_def)
  ultimately show ?thesis using assms by (auto simp: transport_eof_def)
qed

end
