(* ===== verification/Transport_Text.thy ===== *)
theory Transport_Text
  imports Transport Text
begin

text \<open>
  What RTSP clients send in the \<^verbatim>\<open>Transport\<close> header is read back: lists of UDP transports with
  their ports and of interleaved transports with their channels.
\<close>

section \<open>Steps of the loop\<close>

lemma transport_step_to:
  assumes "ragel_step transport_tables (tr_cs st) (c_char c) = Inr (cs', ids)"
    and "s = pre @ c # post" and "post \<noteq> []" and "tr_p st = length pre"
    and "transport_acts s ids c (st\<lparr>tr_cs := cs'\<rparr>) = Inr sa" and "tr_cs sa \<noteq> 0" and "tr_p sa = length pre"
    and "sb = sa\<lparr>tr_p := Suc (tr_p sa)\<rparr>"
  shows "transport_run s st = transport_run s sb"
proof -
  have "transport_turn s st = Inr (Go sb)"
    using assms by (simp add: transport_turn_def arr_def Let_def)
  then show ?thesis by (simp add: transport_run.simps [of s st])
qed

text \<open>A quiet word, with the actions of its last character.\<close>

lemma transport_quiet_to:
  assumes "ragel_quiet transport_tables Q (tr_cs st) (map c_char w) (t, ids)"
    and "s = pre @ w @ post" and "post \<noteq> []" and "tr_p st = length pre"
    and "transport_acts s ids (last w) (st\<lparr>tr_p := length (pre @ w) - 1, tr_cs := t\<rparr>) = Inr sa"
    and "tr_cs sa \<noteq> 0" and "tr_p sa = length (pre @ w) - 1" and "sb = sa\<lparr>tr_p := length (pre @ w)\<rparr>"
  shows "transport_run s st = transport_run s sb"
  using assms(1,2,4,5,7,8)
proof (induction w arbitrary: pre st)
  case (Cons c w)
  show ?case
  proof (cases w)
    case Nil
    have "st\<lparr>tr_p := length (pre @ c # w) - 1, tr_cs := t\<rparr> = st\<lparr>tr_cs := t\<rparr>"
      using Nil by (simp add: Cons.prems(3) [symmetric])
    then have "transport_acts s ids c (st\<lparr>tr_cs := t\<rparr>) = Inr sa"
      using Cons.prems(4) Nil by simp
    then show ?thesis
      using Cons.prems Nil assms(3,6)
      by (intro transport_step_to [of st c t ids s pre post sa sb]) auto
  next
    case (Cons d w')
    then obtain u where u: "ragel_step transport_tables (tr_cs st) (c_char c) = Inr (u, [])"
        "u \<noteq> 0" "ragel_quiet transport_tables Q u (map c_char w) (t, ids)"
      using Cons.prems(1) by auto
    let ?st = "st\<lparr>tr_cs := u, tr_p := Suc (tr_p st)\<rparr>"
    have "transport_run s st = transport_run s ?st"
      using Cons.prems(2,3) u assms(3)
      by (intro transport_step_to [of st c u "[]" s pre "w @ post" "st\<lparr>tr_cs := u\<rparr>" ?st]) auto
    also have "\<dots> = transport_run s sb"
      using Cons.IH [of ?st "pre @ [c]"] Cons.prems u(3) \<open>w = d # w'\<close> by simp
    finally show ?thesis .
  qed
qed simp

section \<open>Numbers\<close>

text \<open>
  States \<open>c # ds\<close> that read a digit each, the first one with the actions \<open>a1\<close> and the others
  with \<open>a2\<close>; from each of \<open>ds\<close> the transitions on other characters are those of \<open>xs\<close>.
\<close>

abbreviation tr_step :: "nat \<Rightarrow> int \<Rightarrow> nat \<times> nat list \<Rightarrow> bool" where
  "tr_step s x r \<equiv> ragel_step transport_tables s x = Inr r"

fun ends_ok :: "nat \<Rightarrow> (int \<times> nat \<times> nat list) list \<Rightarrow> bool" where
  "ends_ok d [] = True"
| "ends_ok d ((x, r) # xs) = (tr_step d x r \<and> ends_ok d xs)"

definition digit_ints :: "int list" where
  "digit_ints = [48, 49, 50, 51, 52, 53, 54, 55, 56, 57]"

fun number_chain :: "nat list \<Rightarrow> nat list \<Rightarrow> (int \<times> nat \<times> nat list) list \<Rightarrow> nat \<Rightarrow> nat list \<Rightarrow> bool" where
  "number_chain a1 a2 xs c [] = True"
| "number_chain a1 a2 xs c (d # ds) =
     (list_all (\<lambda>x. tr_step c x (d, a1)) digit_ints \<and> ends_ok d xs \<and> d \<noteq> 0 \<and>
      number_chain a2 a2 xs d ds)"

definition digit_val :: "char \<Rightarrow> 'a::len word" where
  "digit_val c = word_of_int (c_char c - 48)"

definition digits_from :: "'a::len word \<Rightarrow> string \<Rightarrow> 'a word" where
  "digits_from v w = foldl (\<lambda>v c. v * 10 + digit_val c) v w"

abbreviation is_number :: "string \<Rightarrow> bool" where
  "is_number w \<equiv> list_all (\<lambda>c. c_char c \<in> set digit_ints) w"

text \<open>The two numbers of the scanner: ports and channels.\<close>

fun number_acts :: "bool \<Rightarrow> nat list \<times> nat list" where
  "number_acts True = ([0, 1], [1])"
| "number_acts False = ([3, 4], [4])"

fun set_number :: "bool \<Rightarrow> string \<Rightarrow> transport_scan \<Rightarrow> transport_scan" where
  "set_number True w st = st\<lparr>portval := digits_from (portval st) w\<rparr>"
| "set_number False w st = st\<lparr>chanval := digits_from (chanval st) w\<rparr>"

fun clear_number :: "bool \<Rightarrow> transport_scan \<Rightarrow> transport_scan" where
  "clear_number True st = st\<lparr>portval := 0\<rparr>"
| "clear_number False st = st\<lparr>chanval := 0\<rparr>"

lemma set_number_sel [simp]:
  "tr_cs (set_number k w st) = tr_cs st" "tr_p (set_number k w st) = tr_p st"
  "tr_cs (clear_number k st) = tr_cs st" "tr_p (clear_number k st) = tr_p st"
  by (cases k; simp)+

lemma set_number_Cons: "set_number k w (set_number k [c] st) = set_number k (c # w) st"
  by (cases k) (simp_all add: digits_from_def)

lemma set_number_Nil [simp]: "set_number k [] st = st"
  by (cases k) (simp_all add: digits_from_def)

lemma set_number_upd:
  "set_number k w (st\<lparr>tr_cs := a, tr_p := b\<rparr>) = (set_number k w st)\<lparr>tr_cs := a, tr_p := b\<rparr>"
  "clear_number k (st\<lparr>tr_cs := a\<rparr>) = (clear_number k st)\<lparr>tr_cs := a\<rparr>"
  "set_number k w (st\<lparr>tr_cs := a\<rparr>) = (set_number k w st)\<lparr>tr_cs := a\<rparr>"
  by (cases k; simp)+

lemma number_digit:
  "transport_acts s (snd (number_acts k)) c st = Inr (set_number k [c] st)"
  "transport_acts s (fst (number_acts k)) c st = Inr (set_number k [c] (clear_number k st))"
  by (cases k; simp add: transport_act_def digits_from_def digit_val_def)+

lemma ends_ok_step: "ends_ok d xs \<Longrightarrow> \<forall>(x, r) \<in> set xs. tr_step d x r"
  by (induction d xs rule: ends_ok.induct) auto

lemma number_chain_step:
  assumes "number_chain a1 a2 xs c (d # ds)"
  shows "c_char ch \<in> set digit_ints \<Longrightarrow> tr_step c (c_char ch) (d, a1)"
    and "\<forall>(x, r) \<in> set xs. tr_step d x r" and "number_chain a2 a2 xs d ds" and "0 < d"
  using assms ends_ok_step [of d xs] by (auto simp: list_all_iff)

lemma number_rest:
  assumes "number_chain a1 (snd (number_acts k)) xs c (d # ds)"
    and "is_number w" and "length w \<le> length ds" and "s = pre @ w @ post" and "post \<noteq> []"
    and "tr_p st = length pre" and "tr_cs st = d"
  shows "\<exists>q. transport_run s st = transport_run s ((set_number k w st)\<lparr>tr_cs := q, tr_p := length (pre @ w)\<rparr>) \<and>
           (\<forall>(x, r) \<in> set xs. tr_step q x r)"
  using assms
proof (induction w arbitrary: pre st a1 c d ds)
  case Nil
  then have "(set_number k [] st)\<lparr>tr_cs := d, tr_p := length (pre @ [])\<rparr> = st" by simp
  then show ?case
    using number_chain_step(2) [OF Nil.prems(1)] by (intro exI [of _ d]) (simp del: set_number.simps)
next
  case (Cons ch w)
  note c = number_chain_step [OF Cons.prems(1)]
  obtain e es where ds: "ds = e # es" using Cons.prems(3) by (cases ds) auto
  let ?sb = "(set_number k [ch] st)\<lparr>tr_cs := e, tr_p := Suc (length pre)\<rparr>"
  have "ragel_step transport_tables d (c_char ch) = Inr (e, snd (number_acts k))"
    using number_chain_step(1) [OF c(3) [unfolded ds]] Cons.prems(2) by simp
  then have "transport_run s st = transport_run s ?sb"
    using Cons.prems number_chain_step(4) [OF c(3) [unfolded ds]]
    by (intro transport_step_to [of st ch e "snd (number_acts k)" s pre "w @ post"
          "set_number k [ch] (st\<lparr>tr_cs := e\<rparr>)" ?sb])
       (simp_all add: number_digit set_number_upd)
  moreover obtain q where "transport_run s ?sb =
      transport_run s ((set_number k w ?sb)\<lparr>tr_cs := q, tr_p := length ((pre @ [ch]) @ w)\<rparr>)"
      "\<forall>(x, r) \<in> set xs. ragel_step transport_tables q x = Inr r"
    using Cons.IH [OF c(3) [unfolded ds], of "pre @ [ch]" ?sb] Cons.prems ds by auto
  ultimately show ?case
    by (intro exI [of _ q]) (simp add: set_number_upd set_number_Cons)
qed

lemma number_to:
  assumes "number_chain (fst (number_acts k)) (snd (number_acts k)) xs c ds"
    and "is_number w" and "w \<noteq> []" and "length w \<le> length ds" and "s = pre @ w @ post" and "post \<noteq> []"
    and "tr_p st = length pre" and "tr_cs st = c"
  shows "\<exists>q. transport_run s st =
             transport_run s ((set_number k w (clear_number k st))\<lparr>tr_cs := q, tr_p := length (pre @ w)\<rparr>) \<and>
           (\<forall>(x, r) \<in> set xs. tr_step q x r)"
proof -
  obtain ch w' d ds' where w: "w = ch # w'" and ds: "ds = d # ds'"
    using assms(3,4) by (cases w; cases ds) auto
  note c = number_chain_step [OF assms(1) [unfolded ds]]
  let ?sb = "(set_number k [ch] (clear_number k st))\<lparr>tr_cs := d, tr_p := Suc (length pre)\<rparr>"
  have "ragel_step transport_tables c (c_char ch) = Inr (d, fst (number_acts k))"
    using c(1) assms(2) w by simp
  then have "transport_run s st = transport_run s ?sb"
    using assms c(4) w
    by (intro transport_step_to [of st ch d "fst (number_acts k)" s pre "w' @ post"
          "set_number k [ch] (clear_number k (st\<lparr>tr_cs := d\<rparr>))" ?sb])
       (simp_all add: number_digit set_number_upd)
  moreover obtain q where "transport_run s ?sb =
      transport_run s ((set_number k w' ?sb)\<lparr>tr_cs := q, tr_p := length ((pre @ [ch]) @ w')\<rparr>)"
      "\<forall>(x, r) \<in> set xs. ragel_step transport_tables q x = Inr r"
    using number_rest [OF assms(1) [unfolded ds], of w' s "pre @ [ch]" post ?sb] assms w ds by auto
  ultimately show ?thesis
    by (intro exI [of _ q]) (simp add: set_number_upd set_number_Cons w)
qed

abbreviation tr_quiet :: "nat \<Rightarrow> int list \<Rightarrow> nat \<times> nat list \<Rightarrow> bool" where
  "tr_quiet \<equiv> ragel_quiet transport_tables (\<lambda>_. True)"

section \<open>What clients send\<close>

fun transport_text :: "ParsedTransport \<Rightarrow> string" where
  "transport_text t =
     (if protocol t = RTP_TCP then ''RTP/AVP/TCP;interleaved='' else ''RTP/AVP;unicast;client_port='') @
     print_nat (nat (rtp_channel t)) @ ''-'' @ print_nat (nat (rtcp_channel t))"

fun transports_text :: "ParsedTransport list \<Rightarrow> string" where
  "transports_text [] = []"
| "transports_text [t] = transport_text t"
| "transports_text (t # ts) = transport_text t @ '','' @ transports_text ts"

text \<open>The pairs that a client can send: ports of UDP, channels of an interleaved connection.\<close>

definition transport_ok :: "ParsedTransport \<Rightarrow> bool" where
  "transport_ok t \<longleftrightarrow>
     mode t = TransportUnicast \<and> 0 \<le> rtp_channel t \<and> 0 \<le> rtcp_channel t \<and>
     (protocol t = RTP_UDP \<and> rtp_channel t \<le> 65535 \<and> rtcp_channel t \<le> 65535 \<or>
      protocol t = RTP_TCP \<and> rtp_channel t \<le> 255 \<and> rtcp_channel t \<le> 255)"

text \<open>
  The way of the scanner through one transport, from a start state: the states behind the words
  and the digits, up to the state behind the comma.
\<close>

fun path_ok :: "bool \<Rightarrow> nat \<Rightarrow> nat \<times> nat \<times> nat \<times> nat \<times> nat list \<times> nat \<times> nat list \<times> nat \<Rightarrow> bool" where
  "path_ok True s (a, b, c, d, ds, e, es, u) =
     (tr_step s 82 (a, [17]) \<and>
      tr_quiet a [84, 80, 47, 65, 86, 80, 59] (b, [14]) \<and>
      tr_quiet b [117, 110, 105, 99, 97, 115, 116, 59] (c, [6]) \<and>
      tr_quiet c [99, 108, 105, 101, 110, 116, 95, 112, 111, 114, 116, 61] (d, []) \<and>
      number_chain [0, 1] [1] [(45, e, [2, 8])] d ds \<and>
      number_chain [0, 1] [1] [(44, u, [2, 9]), (0, 585, [2, 9])] e es \<and>
      a \<noteq> 0 \<and> b \<noteq> 0 \<and> c \<noteq> 0 \<and> d \<noteq> 0 \<and> e \<noteq> 0 \<and>
      length ds = 5 \<and> length es = 5 \<and> u \<in> {325, 384, 519})"
| "path_ok False s (a, b, c, d, ds, e, es, u) =
     (tr_step s 82 (a, [17]) \<and>
      tr_quiet a [84, 80, 47, 65, 86, 80, 47, 84, 67, 80, 59] (b, [15]) \<and>
      tr_quiet b [105, 110, 116, 101, 114, 108, 101, 97, 118, 101, 100, 61] (d, []) \<and>
      number_chain [3, 4] [4] [(45, e, [5, 10])] d ds \<and>
      number_chain [3, 4] [4] [(44, u, [5, 11]), (0, 585, [5, 11])] e es \<and>
      a \<noteq> 0 \<and> b \<noteq> 0 \<and> d \<noteq> 0 \<and> e \<noteq> 0 \<and>
      length ds = 3 \<and> length es = 3 \<and> u \<in> {325, 384, 519})"

definition transport_paths ::
    "(bool \<times> nat \<times> nat \<times> nat \<times> nat \<times> nat \<times> nat list \<times> nat \<times> nat list \<times> nat) list" where
  "transport_paths =
     [(True, 1, 2, 465, 515, 550, [557, 558, 559, 560, 561], 551, [552, 553, 554, 555, 556], 519),
      (True, 325, 326, 344, 380, 415, [422, 423, 424, 425, 426], 416, [417, 418, 419, 420, 421], 384),
      (True, 384, 385, 403, 380, 415, [422, 423, 424, 425, 426], 416, [417, 418, 419, 420, 421], 384),
      (True, 519, 520, 538, 515, 550, [557, 558, 559, 560, 561], 551, [552, 553, 554, 555, 556], 519),
      (False, 1, 2, 321, 0, 356, [361, 362, 363], 357, [358, 359, 360], 325),
      (False, 325, 326, 321, 0, 356, [361, 362, 363], 357, [358, 359, 360], 325),
      (False, 384, 385, 380, 0, 438, [443, 444, 445], 439, [440, 441, 442], 384),
      (False, 519, 520, 380, 0, 438, [443, 444, 445], 439, [440, 441, 442], 384)]"

text \<open>The transitions of these paths, checked in one pass over the tables.\<close>

definition transport_hits :: ragel_hits where
  "transport_hits =
    [(1, [([82], 0, 2, [17])]), (2, [([84], 3, 3, [])]), (3, [([80], 4, 4, [])]),
     (4, [([47], 5, 5, [])]), (5, [([65], 6, 6, [])]), (6, [([86], 7, 7, [])]),
     (7, [([80], 8, 8, [])]), (8, [([47], 9, 9, []), ([59], 10, 465, [14])]),
     (9, [([84], 12, 318, [])]), (318, [([67], 381, 319, [])]), (319, [([80], 382, 320, [])]),
     (320, [([59], 383, 321, [15])]), (321, [([105], 385, 345, [])]),
     (325, [([82], 390, 326, [17])]), (326, [([84], 391, 327, [])]),
     (327, [([80], 392, 328, [])]), (328, [([47], 393, 329, [])]), (329, [([65], 394, 330, [])]),
     (330, [([86], 395, 331, [])]), (331, [([80], 396, 332, [])]),
     (332, [([47], 397, 333, []), ([59], 398, 344, [14])]), (333, [([84], 400, 338, [])]),
     (338, [([67], 405, 339, [])]), (339, [([80], 406, 340, [])]),
     (340, [([59], 383, 321, [15])]), (344, [([117], 410, 373, [])]),
     (345, [([110], 411, 346, [])]), (346, [([116], 412, 347, [])]),
     (347, [([101], 413, 348, [])]), (348, [([114], 414, 349, [])]),
     (349, [([108], 415, 350, [])]), (350, [([101], 416, 351, [])]),
     (351, [([97], 417, 352, [])]), (352, [([118], 418, 353, [])]),
     (353, [([101], 419, 354, [])]), (354, [([100], 420, 355, [])]),
     (355, [([61], 421, 356, [])]), (356, [(digit_ints, 423, 361, [3, 4])]),
     (357, [(digit_ints, 425, 358, [3, 4])]),
     (358, [([0], 90, 585, [5, 11]), ([44], 427, 325, [5, 11]), (digit_ints, 428, 359, [4])]),
     (359, [([0], 90, 585, [5, 11]), ([44], 427, 325, [5, 11]), (digit_ints, 430, 360, [4])]),
     (360, [([0], 90, 585, [5, 11]), ([44], 427, 325, [5, 11])]),
     (361, [([45], 431, 357, [5, 10]), (digit_ints, 432, 362, [4])]),
     (362, [([45], 431, 357, [5, 10]), (digit_ints, 433, 363, [4])]),
     (363, [([45], 431, 357, [5, 10])]), (373, [([110], 443, 374, [])]),
     (374, [([105], 444, 375, [])]), (375, [([99], 445, 376, [])]),
     (376, [([97], 446, 377, [])]), (377, [([115], 447, 378, [])]),
     (378, [([116], 448, 379, [])]), (379, [([59], 449, 380, [6])]),
     (380, [([99], 451, 404, []), ([105], 452, 427, [])]), (384, [([82], 457, 385, [17])]),
     (385, [([84], 458, 386, [])]), (386, [([80], 459, 387, [])]), (387, [([47], 460, 388, [])]),
     (388, [([65], 461, 389, [])]), (389, [([86], 462, 390, [])]), (390, [([80], 463, 391, [])]),
     (391, [([47], 464, 392, []), ([59], 465, 403, [14])]), (392, [([84], 467, 397, [])]),
     (397, [([67], 472, 398, [])]), (398, [([80], 473, 399, [])]),
     (399, [([59], 474, 380, [15])]), (403, [([117], 478, 455, [])]),
     (404, [([108], 479, 405, [])]), (405, [([105], 480, 406, [])]),
     (406, [([101], 481, 407, [])]), (407, [([110], 482, 408, [])]),
     (408, [([116], 483, 409, [])]), (409, [([95], 484, 410, [])]),
     (410, [([112], 485, 411, [])]), (411, [([111], 486, 412, [])]),
     (412, [([114], 487, 413, [])]), (413, [([116], 488, 414, [])]),
     (414, [([61], 489, 415, [])]), (415, [(digit_ints, 491, 422, [0, 1])]),
     (416, [(digit_ints, 493, 417, [0, 1])]),
     (417, [([0], 183, 585, [2, 9]), ([44], 495, 384, [2, 9]), (digit_ints, 496, 418, [1])]),
     (418, [([0], 183, 585, [2, 9]), ([44], 495, 384, [2, 9]), (digit_ints, 498, 419, [1])]),
     (419, [([0], 183, 585, [2, 9]), ([44], 495, 384, [2, 9]), (digit_ints, 499, 420, [1])]),
     (420, [([0], 183, 585, [2, 9]), ([44], 495, 384, [2, 9]), (digit_ints, 500, 421, [1])]),
     (421, [([0], 183, 585, [2, 9]), ([44], 495, 384, [2, 9])]),
     (422, [([45], 501, 416, [2, 8]), (digit_ints, 502, 423, [1])]),
     (423, [([45], 501, 416, [2, 8]), (digit_ints, 503, 424, [1])]),
     (424, [([45], 501, 416, [2, 8]), (digit_ints, 504, 425, [1])]),
     (425, [([45], 501, 416, [2, 8]), (digit_ints, 505, 426, [1])]),
     (426, [([45], 501, 416, [2, 8])]), (427, [([110], 506, 428, [])]),
     (428, [([116], 507, 429, [])]), (429, [([101], 508, 430, [])]),
     (430, [([114], 509, 431, [])]), (431, [([108], 510, 432, [])]),
     (432, [([101], 511, 433, [])]), (433, [([97], 512, 434, [])]),
     (434, [([118], 513, 435, [])]), (435, [([101], 514, 436, [])]),
     (436, [([100], 515, 437, [])]), (437, [([61], 516, 438, [])]),
     (438, [(digit_ints, 518, 443, [3, 4])]), (439, [(digit_ints, 520, 440, [3, 4])]),
     (440, [([0], 90, 585, [5, 11]), ([44], 522, 384, [5, 11]), (digit_ints, 523, 441, [4])]),
     (441, [([0], 90, 585, [5, 11]), ([44], 522, 384, [5, 11]), (digit_ints, 525, 442, [4])]),
     (442, [([0], 90, 585, [5, 11]), ([44], 522, 384, [5, 11])]),
     (443, [([45], 526, 439, [5, 10]), (digit_ints, 527, 444, [4])]),
     (444, [([45], 526, 439, [5, 10]), (digit_ints, 528, 445, [4])]),
     (445, [([45], 526, 439, [5, 10])]), (455, [([110], 538, 456, [])]),
     (456, [([105], 539, 457, [])]), (457, [([99], 540, 458, [])]),
     (458, [([97], 541, 459, [])]), (459, [([115], 542, 460, [])]),
     (460, [([116], 543, 461, [])]), (461, [([59], 449, 380, [6])]),
     (465, [([117], 547, 578, [])]), (515, [([99], 599, 539, [])]),
     (519, [([82], 604, 520, [17])]), (520, [([84], 605, 521, [])]),
     (521, [([80], 606, 522, [])]), (522, [([47], 607, 523, [])]), (523, [([65], 608, 524, [])]),
     (524, [([86], 609, 525, [])]), (525, [([80], 610, 526, [])]),
     (526, [([47], 611, 527, []), ([59], 612, 538, [14])]), (527, [([84], 614, 532, [])]),
     (532, [([67], 619, 533, [])]), (533, [([80], 620, 534, [])]),
     (534, [([59], 474, 380, [15])]), (538, [([117], 624, 571, [])]),
     (539, [([108], 625, 540, [])]), (540, [([105], 626, 541, [])]),
     (541, [([101], 627, 542, [])]), (542, [([110], 628, 543, [])]),
     (543, [([116], 629, 544, [])]), (544, [([95], 630, 545, [])]),
     (545, [([112], 631, 546, [])]), (546, [([111], 632, 547, [])]),
     (547, [([114], 633, 548, [])]), (548, [([116], 634, 549, [])]),
     (549, [([61], 635, 550, [])]), (550, [(digit_ints, 637, 557, [0, 1])]),
     (551, [(digit_ints, 639, 552, [0, 1])]),
     (552, [([0], 183, 585, [2, 9]), ([44], 641, 519, [2, 9]), (digit_ints, 642, 553, [1])]),
     (553, [([0], 183, 585, [2, 9]), ([44], 641, 519, [2, 9]), (digit_ints, 644, 554, [1])]),
     (554, [([0], 183, 585, [2, 9]), ([44], 641, 519, [2, 9]), (digit_ints, 645, 555, [1])]),
     (555, [([0], 183, 585, [2, 9]), ([44], 641, 519, [2, 9]), (digit_ints, 646, 556, [1])]),
     (556, [([0], 183, 585, [2, 9]), ([44], 641, 519, [2, 9])]),
     (557, [([45], 647, 551, [2, 8]), (digit_ints, 648, 558, [1])]),
     (558, [([45], 647, 551, [2, 8]), (digit_ints, 649, 559, [1])]),
     (559, [([45], 647, 551, [2, 8]), (digit_ints, 650, 560, [1])]),
     (560, [([45], 647, 551, [2, 8]), (digit_ints, 651, 561, [1])]),
     (561, [([45], 647, 551, [2, 8])]), (571, [([110], 661, 572, [])]),
     (572, [([105], 662, 573, [])]), (573, [([99], 663, 574, [])]),
     (574, [([97], 664, 575, [])]), (575, [([115], 665, 576, [])]),
     (576, [([116], 666, 577, [])]), (577, [([59], 597, 515, [6])]),
     (578, [([110], 667, 579, [])]), (579, [([105], 668, 580, [])]),
     (580, [([99], 669, 581, [])]), (581, [([97], 670, 582, [])]),
     (582, [([115], 671, 583, [])]), (583, [([116], 672, 584, [])]),
     (584, [([59], 597, 515, [6])])]"

lemma transport_hits_ok: "ragel_hits_ok transport_tables transport_hits"
proof -
  have "hit_rows 1 transport_hits (ragel_rows transport_tables)"
    by (simp add: transport_tables_defs transport_hits_def digit_ints_def row_index_def)
  moreover have "hit_infos (ragel_itree transport_tables) (concat (map snd transport_hits))"
    by (simp add: ragel_itree_def transport_tables_defs ragel_ids_def transport_hits_def)
  ultimately show ?thesis unfolding ragel_hits_ok_def ..
qed

lemma transport_hits_step:
  "list_all (\<lambda>(s, cs). list_all (\<lambda>(xs, n, r). list_all (\<lambda>x. tr_step s x r) xs) cs) transport_hits"
  by (rule ragel_machine.hits_step [OF transport.ragel_machine_axioms transport_hits_ok])
     (simp add: transport_hits_def)

lemmas transport_steps = transport_hits_step [unfolded transport_hits_def digit_ints_def, simplified]

lemma transport_paths_ok: "list_all (\<lambda>(k, s, p). path_ok k s p) transport_paths"
  by (simp add: transport_paths_def digit_ints_def transport_steps)

lemma transport_path:
  assumes "s \<in> {1, 325, 384, 519}"
  shows "\<exists>p. path_ok k s p"
proof -
  have "(k, s) \<in> set (map (\<lambda>(k, s, p). (k, s)) transport_paths)"
    using assms by (cases k) (auto simp: transport_paths_def)
  then show ?thesis using transport_paths_ok by (fastforce simp: list_all_iff)
qed

section \<open>One transport\<close>

text \<open>The transports that the state holds so far, the one in progress included.\<close>

definition tr_done :: "transport_scan \<Rightarrow> ParsedTransport list" where
  "tr_done st = transports st @ (case transport st of None \<Rightarrow> [] | Some t \<Rightarrow> [t])"

lemma int_of_char: "(of_char c :: int) = int (of_char c)"
  by (cases c) (simp add: of_char_Char horner_sum_simps)

lemma c_char_ascii:
  "(of_char c :: nat) < 128 \<Longrightarrow> c_char c = int (of_char c)"
  by (simp add: c_char_def int_of_char)

lemma print_nat_number: "is_number (print_nat n)"
proof -
  have "c_char (digit_char d) \<in> set digit_ints" if "d < 10" for d
  proof -
    have "c_char (digit_char d) = int (48 + d)" using that by (simp add: c_char_ascii digit_char_def)
    then show ?thesis using that by (simp add: digit_ints_def) arith
  qed
  then show ?thesis using print_base_digits [of 10 n] by (auto simp: list_all_iff)
qed

lemma digits_from_read:
  assumes "is_number w"
  shows "(digits_from (of_nat v) w :: 'a::len word) = of_nat (foldl (\<lambda>n c. n * 10 + char_digit c) v w)"
  using assms
proof (induction w arbitrary: v)
  case (Cons c w)
  have r: "48 \<le> c_char c" "c_char c \<le> 57" using Cons.prems by (auto simp: digit_ints_def)
  obtain n where n: "(of_char c :: nat) = n" "(of_char c :: int) = int n" "n < 256"
    using int_of_char [of c] nat_of_char_less_256 [of c] by blast
  have "c_char c - 48 = int (char_digit c)"
    using r n(3) by (simp add: c_char_def char_digit_def Let_def n(1,2) split: if_splits)
  then have "(digit_val c :: 'a word) = of_nat (char_digit c)" by (simp add: digit_val_def)
  then show ?case using Cons.IH [of "v * 10 + char_digit c"] Cons.prems by (simp add: digits_from_def)
qed (simp add: digits_from_def)

lemma digits_from_print: "digits_from 0 (print_nat n) = of_nat n"
  using digits_from_read [OF print_nat_number, of 0 n] read_print_base [of 10 n]
  by (simp add: read_base_def)


lemma word_to:
  assumes "tr_quiet (tr_cs st) (map c_char w) (t, ids)" and "t \<noteq> 0"
    and "s = pre @ w @ post" and "post \<noteq> []" and "tr_p st = length pre"
    and "\<And>p. transport_acts s ids (last w) (st\<lparr>tr_p := p, tr_cs := t\<rparr>) = Inr (sa\<lparr>tr_cs := t, tr_p := p\<rparr>)"
  shows "transport_run s st = transport_run s (sa\<lparr>tr_cs := t, tr_p := length (pre @ w)\<rparr>)"
  using assms
  by (intro transport_quiet_to [where sa = "sa\<lparr>tr_cs := t, tr_p := length (pre @ w) - 1\<rparr>"]) auto

lemma char_to:
  assumes "ragel_step transport_tables (tr_cs st) (c_char c) = Inr (t, ids)" and "0 < t"
    and "s = pre @ c # post" and "post \<noteq> []" and "tr_p st = length pre"
    and "\<And>p. transport_acts s ids c (st\<lparr>tr_cs := t\<rparr>) = Inr (sa\<lparr>tr_cs := t, tr_p := tr_p st\<rparr>)"
  shows "transport_run s st = transport_run s (sa\<lparr>tr_cs := t, tr_p := length (pre @ [c])\<rparr>)"
  using assms by (intro transport_step_to [where sa = "sa\<lparr>tr_cs := t, tr_p := tr_p st\<rparr>"]) auto

lemma port_word:
  assumes "0 \<le> i" and "i \<le> 65535"
  shows "(of_nat (nat i) :: u32) \<le> 0xFFFF" and "sint (of_nat (nat i) :: u32) = i"
proof -
  have "uint (of_nat (nat i) :: u32) = i"
    using assms by (simp add: unsigned_of_int take_bit_int_eq_self)
  moreover have "sint (of_nat (nat i) :: u32) = i"
    using assms by (simp add: signed_of_int signed_take_bit_int_eq_self)
  ultimately show "(of_nat (nat i) :: u32) \<le> 0xFFFF" "sint (of_nat (nat i) :: u32) = i"
    using assms by (simp_all add: word_le_def del: of_nat_nat)
qed

lemma chan_word:
  assumes "0 \<le> i" and "i \<le> 255"
  shows "(of_nat (nat i) :: u16) \<le> 0xFF" and "uint (of_nat (nat i) :: u16) = i"
proof -
  show u: "uint (of_nat (nat i) :: u16) = i"
    using assms by (simp add: unsigned_of_int take_bit_int_eq_self)
  then show "(of_nat (nat i) :: u16) \<le> 0xFF"
    using assms by (simp add: word_le_def del: of_nat_nat)
qed

text \<open>The two numbers of a transport, which the actions of each kind store.\<close>

fun sep_acts :: "bool \<Rightarrow> nat list" where "sep_acts True = [2, 8]" | "sep_acts False = [5, 10]"
fun fin_acts :: "bool \<Rightarrow> nat list" where "fin_acts True = [2, 9]" | "fin_acts False = [5, 11]"

definition max_number :: "bool \<Rightarrow> int" where "max_number k = (if k then 65535 else 255)"

definition holds_number :: "bool \<Rightarrow> int \<Rightarrow> transport_scan \<Rightarrow> bool" where
  "holds_number k i st \<longleftrightarrow>
     (if k then portval st = of_nat (nat i) else chanval st = of_nat (nat i))"

lemma holds_number_upd [simp]:
  "holds_number k i (st\<lparr>tr_cs := x\<rparr>) = holds_number k i st"
  "holds_number k i (st\<lparr>tr_p := y\<rparr>) = holds_number k i st"
  "holds_number k i (st\<lparr>transport := z\<rparr>) = holds_number k i st"
  by (simp_all add: holds_number_def)

lemma number_read [simp]: "holds_number k i (set_number k (print_nat (nat i)) (clear_number k st))"
  by (cases k) (simp_all add: holds_number_def digits_from_print del: of_nat_nat)

lemma number_keeps [simp]:
  "transports (set_number k w (clear_number k st)) = transports st"
  "transport (set_number k w (clear_number k st)) = transport st"
  by (cases k; simp)+

lemma number_stored:
  assumes "holds_number k i st" and "0 \<le> i" and "i \<le> max_number k" and "transport st = Some t"
  shows "transport_acts s (sep_acts k) c st = Inr (st\<lparr>transport := Some (t\<lparr>rtp_channel := i\<rparr>)\<rparr>)"
    and "transport_acts s (fin_acts k) c st = Inr (st\<lparr>transport := Some (t\<lparr>rtcp_channel := i\<rparr>)\<rparr>)"
  using assms port_word [of i] chan_word [of i]
  by (cases k; simp add: transport_act_def set_transport_def holds_number_def max_number_def not_less
      del: of_nat_nat)+

text \<open>The end of a transport: its second number is read, but not stored yet.\<close>

definition transport_end :: "bool \<Rightarrow> string \<Rightarrow> transport_scan \<Rightarrow> nat \<Rightarrow> ParsedTransport list \<Rightarrow> ParsedTransport \<Rightarrow> bool" where
  "transport_end k S st p ts t \<longleftrightarrow>
     (\<exists>u sb. transport_run S st = transport_run S sb \<and> transports sb = ts \<and>
        transport sb = Some (t\<lparr>rtcp_channel := - 1\<rparr>) \<and> tr_p sb = p \<and>
        holds_number k (rtcp_channel t) sb \<and> u \<in> {325, 384, 519} \<and>
        tr_step (tr_cs sb) 44 (u, fin_acts k) \<and>
        tr_step (tr_cs sb) 0 (585, fin_acts k))"

lemma pair_to:
  assumes chains: "number_chain (fst (number_acts k)) (snd (number_acts k)) [(45, e, sep_acts k)] d ds"
      "number_chain (fst (number_acts k)) (snd (number_acts k)) [(44, u, fin_acts k), (0, 585, fin_acts k)] e es"
    and nums: "e \<noteq> 0" "u \<in> {325, 384, 519}"
    and len: "length (print_nat (nat (rtp_channel t))) \<le> length ds"
      "length (print_nat (nat (rtcp_channel t))) \<le> length es"
    and fits: "0 \<le> rtp_channel t" "rtp_channel t \<le> max_number k"
    and S: "S = pre @ print_nat (nat (rtp_channel t)) @ ''-'' @ print_nat (nat (rtcp_channel t)) @ post"
    and post: "post \<noteq> []"
    and st: "tr_cs st = d" "tr_p st = length pre" "transport st = Some D"
      "D\<lparr>rtp_channel := rtp_channel t\<rparr> = t\<lparr>rtcp_channel := - 1\<rparr>"
  shows "transport_end k S st (length S - length post) (transports st) t"
proof -
  let ?n = "print_nat (nat (rtp_channel t))" and ?m = "print_nat (nat (rtcp_channel t))"
  let ?a = "set_number k ?n (clear_number k st)"
  obtain q where q: "transport_run S st = transport_run S (?a\<lparr>tr_cs := q, tr_p := length (pre @ ?n)\<rparr>)"
      "ragel_step transport_tables q 45 = Inr (e, sep_acts k)"
    using number_to [OF chains(1) print_nat_number print_base_ne len(1) S _ st(2,1)] nums by auto
  let ?b = "?a\<lparr>tr_cs := q, tr_p := length (pre @ ?n)\<rparr>"
  let ?c = "?b\<lparr>transport := Some (t\<lparr>rtcp_channel := - 1\<rparr>), tr_cs := e, tr_p := length ((pre @ ?n) @ ''-'')\<rparr>"
  have "transport_acts S (sep_acts k) CHR ''-'' (?b\<lparr>tr_cs := e\<rparr>) =
      Inr (?b\<lparr>tr_cs := e, transport := Some (t\<lparr>rtcp_channel := - 1\<rparr>)\<rparr>)"
    using number_stored(1) [of k "rtp_channel t" "?b\<lparr>tr_cs := e\<rparr>" D S "CHR ''-''"] fits st(3,4) by simp
  then have "transport_run S ?b = transport_run S ?c"
    using q(2) nums S post
    by (subst char_to [where c = "CHR ''-''" and t = e and ids = "sep_acts k" and pre = "pre @ ?n" and
          post = "?m @ post" and sa = "?b\<lparr>transport := Some (t\<lparr>rtcp_channel := - 1\<rparr>)\<rparr>"])
       (simp_all add: c_char_def)
  moreover
  let ?d = "set_number k ?m (clear_number k ?c)"
  obtain r where "transport_run S ?c = transport_run S (?d\<lparr>tr_cs := r, tr_p := length (((pre @ ?n) @ ''-'') @ ?m)\<rparr>)"
      "ragel_step transport_tables r 44 = Inr (u, fin_acts k)" "ragel_step transport_tables r 0 = Inr (585, fin_acts k)"
    using number_to [OF chains(2) print_nat_number print_base_ne len(2), of S "(pre @ ?n) @ ''-''" post ?c] nums S post
    by auto
  ultimately show ?thesis
    using q(1) nums(2) S
    unfolding transport_end_def
    by (intro exI [of _ u] exI [of _ "?d\<lparr>tr_cs := r, tr_p := length (((pre @ ?n) @ ''-'') @ ?m)\<rparr>"]) simp
qed

text \<open>The words of a transport: the rest of the way to its first number.\<close>

abbreviation udp_new :: ParsedTransport where
  "udp_new \<equiv> \<lparr>protocol = RTP_UDP, mode = TransportUnicast, rtp_channel = - 1, rtcp_channel = - 1\<rparr>"

lemma begin_to:
  assumes "tr_step (tr_cs st) 82 (a, [17])" and "a \<noteq> 0"
    and "S = pre @ ''R'' @ post" and "post \<noteq> []" and "tr_p st = length pre"
  shows "transport_run S st = transport_run S (st\<lparr>transports := tr_done st, transport := Some udp_new,
           tr_cs := a, tr_p := length (pre @ ''R'')\<rparr>)"
  using assms
  by (intro char_to [where ids = "[17]"]; cases st; cases "transport st")
     (simp_all add: c_char_def transport_act_def tr_done_def)

lemma udp_one:
  assumes s: "tr_cs st \<in> {1, 325, 384, 519}" and t: "protocol t = RTP_UDP" "transport_ok t"
    and S: "S = pre @ transport_text t @ post" and post: "post \<noteq> []" and p: "tr_p st = length pre"
  shows "transport_end True S st (length S - length post) (tr_done st) t"
proof -
  obtain a b c d ds e es u where "path_ok True (tr_cs st) (a, b, c, d, ds, e, es, u)"
    using transport_path [OF s, of True] by (metis prod.exhaust)
  note path = this [unfolded path_ok.simps]
  let ?w = "''RTP/AVP;unicast;client_port=''"
  let ?r = "print_nat (nat (rtp_channel t)) @ ''-'' @ print_nat (nat (rtcp_channel t)) @ post"
  let ?a = "st\<lparr>transports := tr_done st, transport := Some udp_new\<rparr>"
  let ?b = "?a\<lparr>tr_cs := d, tr_p := length (pre @ ?w)\<rparr>"
  have ok: "mode t = TransportUnicast" "0 \<le> rtp_channel t" "rtp_channel t \<le> 65535"
      "0 \<le> rtcp_channel t" "rtcp_channel t \<le> 65535"
    using t by (auto simp: transport_ok_def)
  note S = S [unfolded transport_text.simps]
  have "transport_run S st = transport_run S (?a\<lparr>tr_cs := a, tr_p := length (pre @ ''R'')\<rparr>)"
    using path s S t p post
    by (intro begin_to [where post = "''TP/AVP;unicast;client_port='' @ ?r"]) auto
  also have "\<dots> = transport_run S (?a\<lparr>tr_cs := b, tr_p := length ((pre @ ''R'') @ ''TP/AVP;'')\<rparr>)"
    using path S t
    by (subst word_to [where w = "''TP/AVP;''" and t = b and ids = "[14]" and sa = ?a and
          pre = "pre @ ''R''" and post = "''unicast;client_port='' @ ?r"])
       (simp_all add: c_char_def transport_act_def set_transport_def del: ragel_quiet.simps)
  also have "\<dots> = transport_run S (?a\<lparr>tr_cs := c, tr_p := length ((pre @ ''RTP/AVP;'') @ ''unicast;'')\<rparr>)"
    using path S t
    by (subst word_to [where w = "''unicast;''" and t = c and ids = "[6]" and sa = ?a and
          pre = "pre @ ''RTP/AVP;''" and post = "''client_port='' @ ?r"])
       (simp_all add: c_char_def transport_act_def set_transport_def del: ragel_quiet.simps)
  also have "\<dots> = transport_run S ?b"
    using path S t
    by (subst word_to [where w = "''client_port=''" and t = d and ids = "[]" and sa = ?a and
          pre = "pre @ ''RTP/AVP;unicast;''" and post = ?r])
       (simp_all add: c_char_def del: ragel_quiet.simps)
  finally have "transport_run S st = transport_run S ?b" .
  moreover have "transport_end True S ?b (length S - length post) (transports ?b) t"
    using path S post ok t length_print_base [of 10 "nat (rtp_channel t)" 5]
      length_print_base [of 10 "nat (rtcp_channel t)" 5]
    by (intro pair_to [where d = d and e = e and ds = ds and es = es and u = u and D = udp_new and pre = "pre @ ?w"])
       (simp_all add: max_number_def nat_less_iff)
  ultimately show ?thesis by (simp add: transport_end_def)
qed

lemma tcp_one:
  assumes s: "tr_cs st \<in> {1, 325, 384, 519}" and t: "protocol t = RTP_TCP" "transport_ok t"
    and S: "S = pre @ transport_text t @ post" and post: "post \<noteq> []" and p: "tr_p st = length pre"
  shows "transport_end False S st (length S - length post) (tr_done st) t"
proof -
  obtain a b c d ds e es u where "path_ok False (tr_cs st) (a, b, c, d, ds, e, es, u)"
    using transport_path [OF s, of False] by (metis prod.exhaust)
  note path = this [unfolded path_ok.simps]
  let ?w = "''RTP/AVP/TCP;interleaved=''"
  let ?r = "print_nat (nat (rtp_channel t)) @ ''-'' @ print_nat (nat (rtcp_channel t)) @ post"
  let ?D = "udp_new\<lparr>protocol := RTP_TCP\<rparr>"
  let ?a = "st\<lparr>transports := tr_done st, transport := Some udp_new\<rparr>"
  let ?c = "?a\<lparr>transport := Some ?D\<rparr>"
  let ?b = "?c\<lparr>tr_cs := d, tr_p := length (pre @ ?w)\<rparr>"
  have ok: "mode t = TransportUnicast" "0 \<le> rtp_channel t" "rtp_channel t \<le> 255"
      "0 \<le> rtcp_channel t" "rtcp_channel t \<le> 255"
    using t by (auto simp: transport_ok_def)
  note S = S [unfolded transport_text.simps]
  have "transport_run S st = transport_run S (?a\<lparr>tr_cs := a, tr_p := length (pre @ ''R'')\<rparr>)"
    using path s S t p post
    by (intro begin_to [where post = "''TP/AVP/TCP;interleaved='' @ ?r"]) auto
  also have "\<dots> = transport_run S (?c\<lparr>tr_cs := b, tr_p := length ((pre @ ''R'') @ ''TP/AVP/TCP;'')\<rparr>)"
    using path S t
    by (subst word_to [where w = "''TP/AVP/TCP;''" and t = b and ids = "[15]" and sa = ?c and
          pre = "pre @ ''R''" and post = "''interleaved='' @ ?r"])
       (simp_all add: c_char_def transport_act_def set_transport_def del: ragel_quiet.simps)
  also have "\<dots> = transport_run S ?b"
    using path S t
    by (subst word_to [where w = "''interleaved=''" and t = d and ids = "[]" and sa = ?c and
          pre = "pre @ ''RTP/AVP/TCP;''" and post = ?r])
       (simp_all add: c_char_def del: ragel_quiet.simps)
  finally have "transport_run S st = transport_run S ?b" .
  moreover have "transport_end False S ?b (length S - length post) (transports ?b) t"
    using path S post ok t length_print_base [of 10 "nat (rtp_channel t)" 3]
      length_print_base [of 10 "nat (rtcp_channel t)" 3]
    by (intro pair_to [where d = d and e = e and ds = ds and es = es and u = u and D = ?D and pre = "pre @ ?w"])
       (simp_all add: max_number_def nat_less_iff)
  ultimately show ?thesis by (simp add: transport_end_def)
qed

text \<open>What stands behind a transport: a comma and the next one, or the final NUL.\<close>

definition transport_kind :: "ParsedTransport \<Rightarrow> bool" where
  "transport_kind t \<longleftrightarrow> protocol t = RTP_UDP"

lemma transport_one:
  assumes "tr_cs st \<in> {1, 325, 384, 519}" and "transport_ok t"
    and "S = pre @ transport_text t @ post" and "post \<noteq> []" and "tr_p st = length pre"
  shows "transport_end (transport_kind t) S st (length (pre @ transport_text t)) (tr_done st) t"
proof -
  have p: "length S - length post = length (pre @ transport_text t)" using assms(3) by simp
  have "protocol t = RTP_UDP \<or> protocol t = RTP_TCP" using assms(2) by (auto simp: transport_ok_def)
  then show ?thesis
    using udp_one [OF assms(1) _ assms(2-5)] tcp_one [OF assms(1) _ assms(2-5)]
    unfolding p transport_kind_def by auto
qed

lemma number_last:
  assumes "transport_ok t" and "holds_number (transport_kind t) (rtcp_channel t) st"
    and "transport st = Some (t\<lparr>rtcp_channel := - 1\<rparr>)"
  shows "transport_acts S (fin_acts (transport_kind t)) c st = Inr (st\<lparr>transport := Some t\<rparr>)"
  using number_stored(2) [OF assms(2) _ _ assms(3)] assms(1)
  by (auto simp: transport_ok_def transport_kind_def max_number_def)

lemma transport_end_comma:
  assumes "transport_end (transport_kind t) S st (length pre) ts t" and "transport_ok t"
    and "S = pre @ CHR '','' # post" and "post \<noteq> []"
  shows "\<exists>sb. transport_run S st = transport_run S sb \<and> tr_done sb = ts @ [t] \<and>
           tr_cs sb \<in> {1, 325, 384, 519} \<and> tr_p sb = Suc (length pre)"
proof -
  obtain u sa where e: "transport_run S st = transport_run S sa" "transports sa = ts"
      "transport sa = Some (t\<lparr>rtcp_channel := - 1\<rparr>)" "tr_p sa = length pre"
      "holds_number (transport_kind t) (rtcp_channel t) sa" "u \<in> {325, 384, 519}"
      "ragel_step transport_tables (tr_cs sa) 44 = Inr (u, fin_acts (transport_kind t))"
    using assms(1) unfolding transport_end_def by blast
  have "transport_run S sa = transport_run S (sa\<lparr>transport := Some t, tr_cs := u, tr_p := length (pre @ '','')\<rparr>)"
    using assms(3,4) e number_last [OF assms(2), of "sa\<lparr>tr_cs := u\<rparr>" S "CHR '',''"]
    by (intro char_to [where c = "CHR '',''" and sa = "sa\<lparr>transport := Some t\<rparr>"]) (auto simp: c_char_def)
  then show ?thesis
    using e by (intro exI [of _ "sa\<lparr>transport := Some t, tr_cs := u, tr_p := length (pre @ '','')\<rparr>"])
      (simp add: tr_done_def)
qed

lemma transport_end_nul:
  assumes "transport_end (transport_kind t) S st (length pre) ts t" and "transport_ok t"
    and "S = pre @ [NUL]"
  shows "\<exists>sb. transport_run S st = Inr sb \<and> tr_done sb = ts @ [t]"
proof -
  obtain u sa where e: "transport_run S st = transport_run S sa" "transports sa = ts"
      "transport sa = Some (t\<lparr>rtcp_channel := - 1\<rparr>)" "tr_p sa = length pre"
      "holds_number (transport_kind t) (rtcp_channel t) sa"
      "ragel_step transport_tables (tr_cs sa) 0 = Inr (585, fin_acts (transport_kind t))"
    using assms(1) unfolding transport_end_def by blast
  have "transport_turn S sa = Inr (Leave (sa\<lparr>tr_cs := 585, transport := Some t, tr_p := Suc (length pre)\<rparr>))"
    using assms(3) e number_last [OF assms(2), of "sa\<lparr>tr_cs := 585\<rparr>" S NUL]
    by (simp add: transport_turn_def arr_def c_char_def NUL_def transport_eof_stop)
  then show ?thesis
    using e by (simp add: transport_run.simps [of S sa] tr_done_def)
qed

lemma transports_to:
  assumes "ts \<noteq> []" and "list_all transport_ok ts" and "S = pre @ transports_text ts @ [NUL]"
    and "tr_cs st \<in> {1, 325, 384, 519}" and "tr_p st = length pre"
  shows "\<exists>sb. transport_run S st = Inr sb \<and> tr_done sb = tr_done st @ ts"
  using assms
proof (induction ts arbitrary: pre st rule: transports_text.induct)
  case (2 t)
  then have "transport_end (transport_kind t) S st (length (pre @ transport_text t)) (tr_done st) t"
    by (intro transport_one [where post = "[NUL]"]) (simp_all del: transport_text.simps)
  then show ?case
    using transport_end_nul [of t S st "pre @ transport_text t"] 2 by (simp del: transport_text.simps)
next
  case (3 t t' ts)
  let ?r = "transports_text (t' # ts) @ [NUL]"
  have "transport_end (transport_kind t) S st (length (pre @ transport_text t)) (tr_done st) t"
    using "3.prems" by (intro transport_one [where post = "CHR '','' # ?r"]) (simp_all del: transport_text.simps)
  then obtain sb where sb: "transport_run S st = transport_run S sb" "tr_done sb = tr_done st @ [t]"
      "tr_cs sb \<in> {1, 325, 384, 519}" "tr_p sb = Suc (length (pre @ transport_text t))"
    using transport_end_comma [of t S st "pre @ transport_text t" _ ?r] "3.prems"
    by (auto simp del: transport_text.simps)
  then show ?case
    using "3.IH" [of "(pre @ transport_text t) @ '',''" sb] "3.prems" by (simp del: transport_text.simps)
qed simp

lemma transports_text_NUL: "NUL \<notin> set (transports_text ts)"
proof -
  have "NUL \<notin> set (print_nat n)" for n
  proof
    assume "NUL \<in> set (print_nat n)"
    then obtain d where "d < 10" "NUL = digit_char d" using print_base_digits [of 10 n] by auto
    then show False using digit_char_not_NUL [of d] by (simp add: NUL_def)
  qed
  then show ?thesis
    by (induction ts rule: transports_text.induct) (auto simp: NUL_def)
qed

section \<open>Properties\<close>

text \<open>C3. What a client proposes is what the server reads: the text of a list of UDP and interleaved
  transports is parsed back into that list, in its order, with the ports and the channels unchanged.\<close>

theorem transport_round_trip:
  assumes "ts \<noteq> []" and "list_all transport_ok ts"
  shows "ragel_parse_transport_header (transports_text ts) = Inr ts"
proof -
  have "c_str (transports_text ts) = transports_text ts"
    using transports_text_NUL [of ts] by (auto simp: c_str_def takeWhile_eq_all_conv)
  then show ?thesis
    using transports_to [OF assms, of "transports_text ts @ [NUL]" "[]" transport_start]
    by (auto simp: ragel_parse_transport_header_def transport_start_def tr_done_def)
qed

theorem transport_round_trip_witness:
  "ragel_parse_transport_header ''RTP/AVP;unicast;client_port=5000-5001,RTP/AVP/TCP;interleaved=0-1'' =
     Inr [\<lparr>protocol = RTP_UDP, mode = TransportUnicast, rtp_channel = 5000, rtcp_channel = 5001\<rparr>,
          \<lparr>protocol = RTP_TCP, mode = TransportUnicast, rtp_channel = 0, rtcp_channel = 1\<rparr>]"
  using transport_round_trip [of "[\<lparr>protocol = RTP_UDP, mode = TransportUnicast, rtp_channel = 5000, rtcp_channel = 5001\<rparr>,
          \<lparr>protocol = RTP_TCP, mode = TransportUnicast, rtp_channel = 0, rtcp_channel = 1\<rparr>]"]
  by (simp add: transport_ok_def print_base.simps digit_char_def char_of_def bit_0)

end
