(* ===== verification/Media.thy ===== *)
theory Media
  imports BufferQueue Text
begin

text \<open>
  The media side of the server: resources, their tracks and demuxers (\<^verbatim>\<open>resource.c\<close>,
  \<^verbatim>\<open>demuxer.c\<close>, \<^verbatim>\<open>mediaparser.c\<close>, \<^verbatim>\<open>media/demuxer.h\<close>) and the check of names in
  \<^verbatim>\<open>utilities.c\<close>. The build is the one without \<^verbatim>\<open>LIVE_STREAMING\<close>. The demuxer and parser
  modules are not part of the repository: their callbacks and the file system are the
  environment of the model, with their private data. Mutexes are left out, as are the fields that
  no operation here uses: \<^verbatim>\<open>start_time\<close>, \<^verbatim>\<open>timescaler\<close>, \<^verbatim>\<open>edl\<close>, the pointer of a track
  to its resource, and the count of clients, which is that of live resources.
\<close>

section \<open>Sequencing of results\<close>

definition and_then :: "'a result \<Rightarrow> ('a \<Rightarrow> 'b result) \<Rightarrow> 'b result" where
  "and_then r f = (case r of Inl err \<Rightarrow> Inl err | Inr x \<Rightarrow> f x)"

lemma and_then_simps [simp]: "and_then (Inl err) f = Inl err" "and_then (Inr x) f = f x"
  by (simp_all add: and_then_def)

lemma and_then_Inr [simp]: "and_then r f = Inr y \<longleftrightarrow> (\<exists>x. r = Inr x \<and> f x = Inr y)"
  by (cases r) simp_all

lemma and_then_Inl: "and_then r f = Inl err \<longleftrightarrow> r = Inl err \<or> (\<exists>x. r = Inr x \<and> f x = Inl err)"
  by (cases r) simp_all

text \<open>\<^verbatim>\<open>g_list_foreach\<close> with a callback that changes its element.\<close>

fun each :: "('a \<Rightarrow> 'b result) \<Rightarrow> 'a list \<Rightarrow> 'b list result" where
  "each f [] = Inr []"
| "each f (x # xs) = and_then (f x) (\<lambda>y. and_then (each f xs) (\<lambda>ys. Inr (y # ys)))"

lemma each_length: "each f xs = Inr ys \<Longrightarrow> length ys = length xs"
  by (induction xs arbitrary: ys) auto

lemma each_map: "each f xs = Inr ys \<Longrightarrow> (\<And>x y. f x = Inr y \<Longrightarrow> g y = h x) \<Longrightarrow> map g ys = map h xs"
  by (induction xs arbitrary: ys) auto

section \<open>Names without special characters\<close>

definition unreserved_chars :: string where
  "unreserved_chars =
    ''0123456789'' @ ''abcdefghijklm'' @ ''nopqrstuvwxyz'' @ ''ABCDEFGHIJKLM'' @ ''NOPQRSTUVWXYZ'' @ ''-._~''"

fun unreserved_loop :: "string \<Rightarrow> bool" where
  "unreserved_loop [] = True"
| "unreserved_loop (c # cs) =
     (if (of_char c :: nat) > 127 \<or> c \<notin> set unreserved_chars then False else unreserved_loop cs)"

definition feng_str_is_unreserved :: "string option \<Rightarrow> bool" where
  "feng_str_is_unreserved s = (case s of None \<Rightarrow> False | Some w \<Rightarrow> unreserved_loop w)"

text \<open>The unreserved characters of RFC 3986, by their ranges.\<close>

definition rfc3986_unreserved :: "char \<Rightarrow> bool" where
  "rfc3986_unreserved c \<longleftrightarrow>
     (let n = (of_char c :: nat) in
      48 \<le> n \<and> n \<le> 57 \<or> 65 \<le> n \<and> n \<le> 90 \<or> 97 \<le> n \<and> n \<le> 122 \<or> n \<in> {45, 46, 95, 126})"

section \<open>State\<close>

datatype MediaType = MP_undef | MP_audio | MP_video | MP_application | MP_data | MP_control

datatype MediaSource = STORED_SOURCE | LIVE_SOURCE

record MediaProperties =
  payload_type :: int
  clock_rate :: u32
  encoding_name :: string
  media_type :: MediaType
  media_source :: MediaSource
  audio_channels :: int
  pts :: real
  dts :: real
  frame_duration :: real
  extradata :: "byte list"

text \<open>\<open>track_parser\<close> is the position of the parser in the list of the parser modules.\<close>

record Track =
  track_name :: string
  sdp_description :: string
  properties :: MediaProperties
  producer :: "BufferQueue_Producer option"
  track_parser :: "nat option"

text \<open>
  \<open>fill_pool\<close> is \<open>None\<close> for NULL, otherwise the consumers that were pushed to the thread of
  the pool. \<open>res_demuxer\<close> is the position of the demuxer in the list of the modules.
\<close>

record Resource =
  mrl :: string
  mtime :: int
  res_duration :: real
  seekable :: bool
  eor :: bool
  res_demuxer :: nat
  fill_pool :: "nat list option"
  tracks :: "Track list"

text \<open>The callbacks of a module return their \<^verbatim>\<open>int\<close> and the changed resource or track.\<close>

record Demuxer =
  dmx_source :: MediaSource
  dmx_probe :: "string \<Rightarrow> bool"
  dmx_init :: "Resource \<Rightarrow> int \<times> Resource"
  dmx_read_packet :: "Resource \<Rightarrow> int \<times> Resource"
  dmx_seek :: "(Resource \<Rightarrow> real \<Rightarrow> int \<times> Resource) option"
  dmx_uninit :: "Resource \<Rightarrow> Resource"

record MediaParser =
  mp_encoding_name :: string
  mp_media_type :: MediaType
  mp_init :: "(Track \<Rightarrow> int \<times> Track) option"

text \<open>
  The files: \<^verbatim>\<open>access(mrl, R_OK)\<close>, and \<^verbatim>\<open>stat\<close> with whether the file is a FIFO and its time.
\<close>

record media_env =
  document_root :: string
  file_readable :: "string \<Rightarrow> bool"
  file_stat :: "string \<Rightarrow> (bool \<times> int) option"
  demuxers :: "Demuxer list"
  media_parsers :: "MediaParser list"

section \<open>Tracks\<close>

definition ascii_lower :: "char \<Rightarrow> char" where
  "ascii_lower c = (let n = (of_char c :: nat) in if 65 \<le> n \<and> n \<le> 90 then char_of (n + 32) else c)"

fun mparser_find_from :: "nat \<Rightarrow> MediaParser list \<Rightarrow> string \<Rightarrow> nat option" where
  "mparser_find_from i [] name = None"
| "mparser_find_from i (p # ps) name =
     (if map ascii_lower name = map ascii_lower (mp_encoding_name p) then Some i
      else mparser_find_from (i + 1) ps name)"

definition mparser_find :: "MediaParser list \<Rightarrow> string \<Rightarrow> nat option" where
  "mparser_find parsers name = mparser_find_from 0 parsers name"

text \<open>Only the producer can make this fail; the rest is memory that is returned.\<close>

definition free_track :: "Track \<Rightarrow> unit result" where
  "free_track t =
     (case producer t of None \<Rightarrow> Inr () | Some p \<Rightarrow> and_then (bq_producer_unref p) (\<lambda>_. Inr ()))"

definition track_new :: "string \<Rightarrow> MediaProperties \<Rightarrow> Track" where
  "track_new name hints =
     \<lparr>track_name = name, sdp_description = ''a=control:'' @ name @ [CHR 0x0D, CHR 0x0A],
      properties = hints, producer = None, track_parser = None\<rparr>"

text \<open>The resource and the position of the new track, \<open>None\<close> for NULL.\<close>

definition add_track ::
    "MediaParser list \<Rightarrow> Resource \<Rightarrow> string \<Rightarrow> MediaProperties \<Rightarrow> (Resource \<times> nat option) result" where
  "add_track parsers r name hints =
     (let t = track_new name hints;
          append = (\<lambda>t. Inr (r\<lparr>tracks := tracks r @ [t]\<rparr>, Some (length (tracks r))));
          fail = (\<lambda>t. and_then (free_track t) (\<lambda>_. Inr (r, None))) in
      case media_source hints of
        LIVE_SOURCE \<Rightarrow> append t
      | STORED_SOURCE \<Rightarrow>
          (case mparser_find parsers (encoding_name hints) of
             None \<Rightarrow> fail t
           | Some i \<Rightarrow>
               let p = parsers ! i;
                   t = t\<lparr>track_parser := Some i,
                         properties := (properties t)\<lparr>media_type := mp_media_type p\<rparr>\<rparr> in
               (case mp_init p of
                  None \<Rightarrow> append t
                | Some init \<Rightarrow> (let (e, t) = init t in if e \<noteq> 0 then fail t else append t))))"

text \<open>The producer of a track, made when it is first asked for.\<close>

definition track_get_producer :: "Track \<Rightarrow> BufferQueue_Producer \<times> Track" where
  "track_get_producer t =
     (case producer t of
        Some p \<Rightarrow> (p, t)
      | None \<Rightarrow> (bq_producer_new, t\<lparr>producer := Some bq_producer_new\<rparr>))"

section \<open>Resources\<close>

definition r_stop_fill :: "Resource \<Rightarrow> Resource" where
  "r_stop_fill r = r\<lparr>fill_pool := None\<rparr>"

definition r_free :: "'a media_env_scheme \<Rightarrow> Resource option \<Rightarrow> unit result" where
  "r_free env resource =
     (case resource of
        None \<Rightarrow> Inr ()
      | Some r \<Rightarrow>
          let r = r_stop_fill r;
              r = dmx_uninit (demuxers env ! res_demuxer r) r
          in and_then (each free_track (tracks r)) (\<lambda>_. Inr ()))"

definition r_close :: "'a media_env_scheme \<Rightarrow> Resource option \<Rightarrow> unit result" where
  "r_close env resource = (case resource of None \<Rightarrow> Inr () | Some r \<Rightarrow> r_free env (Some r))"

fun r_find_demuxer_from :: "nat \<Rightarrow> Demuxer list \<Rightarrow> string \<Rightarrow> nat option" where
  "r_find_demuxer_from i [] filename = None"
| "r_find_demuxer_from i (d # ds) filename =
     (if dmx_probe d filename then Some i else r_find_demuxer_from (i + 1) ds filename)"

definition r_find_demuxer :: "'a media_env_scheme \<Rightarrow> string \<Rightarrow> nat option" where
  "r_find_demuxer env filename = r_find_demuxer_from 0 (demuxers env) filename"

definition r_open_direct :: "'a media_env_scheme \<Rightarrow> string \<Rightarrow> nat \<Rightarrow> Resource option result" where
  "r_open_direct env name dmx =
     (case file_stat env name of
        None \<Rightarrow> Inr None
      | Some (fifo, mt) \<Rightarrow>
          if fifo then Inr None
          else
            let d = demuxers env ! dmx;
                r = \<lparr>mrl = name, mtime = mt, res_duration = 0, seekable = (dmx_seek d \<noteq> None), eor = False,
                     res_demuxer = dmx, fill_pool = None, tracks = []\<rparr>;
                (e, r) = dmx_init d r
            in if e \<noteq> 0 then and_then (r_free env (Some r)) (\<lambda>_. Inr None) else Inr (Some r))"

text \<open>
  \<^verbatim>\<open>g_strjoin\<close> stops at a NULL argument: without a path it is the document root that is opened.
\<close>

definition r_mrl :: "'a media_env_scheme \<Rightarrow> string option \<Rightarrow> string" where
  "r_mrl env inner_path =
     (case inner_path of None \<Rightarrow> document_root env | Some p \<Rightarrow> document_root env @ ''/'' @ p)"

definition r_open :: "'a media_env_scheme \<Rightarrow> string option \<Rightarrow> Resource option result" where
  "r_open env inner_path =
     (let name = r_mrl env inner_path in
      if \<not> file_readable env name then Inr None
      else
        (case r_find_demuxer env name of
           None \<Rightarrow> Inr None
         | Some dmx \<Rightarrow>
             (case dmx_source (demuxers env ! dmx) of
                STORED_SOURCE \<Rightarrow> r_open_direct env name dmx
              | LIVE_SOURCE \<Rightarrow> Inl Assert_Failed)))"

fun r_find_track_from :: "nat \<Rightarrow> Track list \<Rightarrow> string \<Rightarrow> nat option" where
  "r_find_track_from i [] name = None"
| "r_find_track_from i (t # ts) name =
     (if track_name t = name then Some i else r_find_track_from (i + 1) ts name)"

definition r_find_track :: "Resource \<Rightarrow> string \<Rightarrow> nat option" where
  "r_find_track r name = r_find_track_from 0 (tracks r) name"

definition r_track_producer_reset_queue :: "Track \<Rightarrow> Track result" where
  "r_track_producer_reset_queue t =
     (case producer t of
        None \<Rightarrow> Inr t
      | Some p \<Rightarrow> and_then (bq_producer_reset_queue p) (\<lambda>p'. Inr (t\<lparr>producer := Some p'\<rparr>)))"

definition r_seek :: "'a media_env_scheme \<Rightarrow> Resource \<Rightarrow> real \<Rightarrow> (int \<times> Resource) result" where
  "r_seek env r time =
     (case dmx_seek (demuxers env ! res_demuxer r) of
        None \<Rightarrow> Inl Null_Dereference
      | Some seek \<Rightarrow>
          let (res, r) = seek r time in
          and_then (each r_track_producer_reset_queue (tracks r)) (\<lambda>ts. Inr (res, r\<lparr>tracks := ts\<rparr>)))"

definition is_live :: "'a media_env_scheme \<Rightarrow> Resource \<Rightarrow> bool" where
  "is_live env r \<longleftrightarrow> dmx_source (demuxers env ! res_demuxer r) = LIVE_SOURCE"

definition r_pause :: "'a media_env_scheme \<Rightarrow> Resource \<Rightarrow> Resource" where
  "r_pause env r =
     (if is_live env r then r
      else if fill_pool r = None then r
      else r\<lparr>fill_pool := None\<rparr>)"

definition r_resume :: "Resource \<Rightarrow> Resource" where
  "r_resume r = (if fill_pool r \<noteq> None then r else r\<lparr>fill_pool := Some []\<rparr>)"

definition r_fill :: "'a media_env_scheme \<Rightarrow> Resource \<Rightarrow> nat \<Rightarrow> Resource" where
  "r_fill env r consumer =
     (if is_live env r then r
      else
        (case fill_pool r of
           None \<Rightarrow> r
         | Some pool \<Rightarrow> r\<lparr>fill_pool := Some (pool @ [consumer])\<rparr>))"

section \<open>Facts\<close>

lemma char_in_set_code:
  assumes "map of_char w = (ns :: nat list)"
  shows "c \<in> set w \<longleftrightarrow> of_char c \<in> set ns"
proof -
  have "inj (of_char :: char \<Rightarrow> nat)" by (rule injI) (metis char_of_char)
  then show ?thesis by (auto simp: assms [symmetric] dest: injD)
qed

lemma unreserved_char_eq:
  "(of_char c :: nat) \<le> 127 \<and> c \<in> set unreserved_chars \<longleftrightarrow> rfc3986_unreserved c"
proof -
  have "map of_char ''0123456789'' = [48 ..< (58::nat)]"
      "map of_char ''abcdefghijklm'' = [97 ..< (110::nat)]" "map of_char ''nopqrstuvwxyz'' = [110 ..< (123::nat)]"
      "map of_char ''ABCDEFGHIJKLM'' = [65 ..< (78::nat)]" "map of_char ''NOPQRSTUVWXYZ'' = [78 ..< (91::nat)]"
      "map of_char ''-._~'' = [45, 46, 95, (126::nat)]"
    by (simp_all add: upt_rec)
  note codes = this [THEN char_in_set_code [where c = c]]
  have ranges: "n \<le> 127 \<and> (48 \<le> n \<and> n < 58 \<or> 97 \<le> n \<and> n < 110 \<or> 110 \<le> n \<and> n < 123 \<or>
      65 \<le> n \<and> n < 78 \<or> 78 \<le> n \<and> n < 91 \<or> n \<in> {45, 46, 95, 126}) \<longleftrightarrow>
      (48 \<le> n \<and> n \<le> 57 \<or> 65 \<le> n \<and> n \<le> 90 \<or> 97 \<le> n \<and> n \<le> 122 \<or> n \<in> {45, 46, 95, 126})"
    for n :: nat by (simp, linarith)
  show ?thesis
    unfolding unreserved_chars_def set_append Un_iff codes
    unfolding set_upt atLeastLessThan_iff rfc3986_unreserved_def Let_def list.set
    by (rule ranges)
qed

lemma find_from_Some:
  "r_find_track_from i ts name = Some k \<Longrightarrow>
     i \<le> k \<and> k < i + length ts \<and> track_name (ts ! (k - i)) = name \<and>
     (\<forall>j < k - i. track_name (ts ! j) \<noteq> name)"
proof (induction i ts name rule: r_find_track_from.induct)
  case (2 i t ts name)
  show ?case
  proof (cases "track_name t = name")
    case False
    with 2 have k: "Suc i \<le> k" "k < Suc i + length ts" "track_name (ts ! (k - Suc i)) = name"
        "\<forall>j < k - Suc i. track_name (ts ! j) \<noteq> name" by simp_all
    then obtain d where "k - i = Suc d" "k - Suc i = d" by (cases "k - i") auto
    then show ?thesis using k False by (auto simp: less_Suc_eq_0_disj)
  qed (use 2 in simp)
qed simp

lemma find_from_None: "r_find_track_from i ts name = None \<longleftrightarrow> (\<forall>t \<in> set ts. track_name t \<noteq> name)"
  by (induction i ts name rule: r_find_track_from.induct) auto

lemma r_find_track_Some:
  assumes "r_find_track r name = Some k"
  shows "k < length (tracks r)" and "track_name (tracks r ! k) = name"
  using find_from_Some [OF assms [unfolded r_find_track_def]] by simp_all

lemma r_pause_simps [simp]:
  "tracks (r_pause env r) = tracks r" "seekable (r_pause env r) = seekable r"
  "res_demuxer (r_pause env r) = res_demuxer r" "res_duration (r_pause env r) = res_duration r"
  "tracks (r_resume r) = tracks r" "seekable (r_resume r) = seekable r"
  "res_demuxer (r_resume r) = res_demuxer r" "res_duration (r_resume r) = res_duration r"
  "tracks (r_fill env r c) = tracks r" "seekable (r_fill env r c) = seekable r"
  "res_demuxer (r_fill env r c) = res_demuxer r" "res_duration (r_fill env r c) = res_duration r"
  by (simp_all add: r_pause_def r_resume_def r_fill_def split: option.splits)

section \<open>Properties\<close>

text \<open>C17. A track name is accepted exactly when it is given and all its characters are unreserved in the
  sense of RFC 3986: letters, digits, and \<open>-._~\<close>. In particular it has no slash, no percent
  sign and no byte above 127.\<close>

theorem feng_str_is_unreserved_rfc3986:
  "feng_str_is_unreserved s = (case s of None \<Rightarrow> False | Some w \<Rightarrow> list_all rfc3986_unreserved w)"
proof -
  have "unreserved_loop w = list_all rfc3986_unreserved w" for w
  proof (induction w)
    case (Cons c w)
    then show ?case using unreserved_char_eq [of c] by (auto simp: not_le)
  qed simp
  then show ?thesis by (simp add: feng_str_is_unreserved_def split: option.split)
qed


text \<open>A demuxer that accepts every file and has no tracks.\<close>

definition demo_media :: media_env where
  "demo_media =
     \<lparr>document_root = ''/srv'', file_readable = (\<lambda>f. True), file_stat = (\<lambda>f. Some (False, 5)),
      demuxers = [\<lparr>dmx_source = STORED_SOURCE, dmx_probe = (\<lambda>f. True), dmx_init = (\<lambda>r. (0, r)),
                  dmx_read_packet = (\<lambda>r. (- 2, r)), dmx_seek = None, dmx_uninit = (\<lambda>r. r)\<rparr>],
      media_parsers = []\<rparr>"


end
