(* ===== verification/Spec2Isabelle.thy ===== *)
theory Spec2Isabelle
  imports BufferQueue_Props Uri Range RTSP_Headers HTTP_Headers Request_Line Transport_Props Transport_Text Media
begin

text \<open>
  The RTSP streaming server feng: a development of its message handling.

  \<^bold>\<open>The program.\<close> feng reads RTSP requests from a TCP connection, answers them, and sends the
  packets of the media that a client has set up. A message passes the request line scanner and
  the header block scanner (\<^verbatim>\<open>ragel_request_line.c\<close>), its URI is split by \<^verbatim>\<open>ragel_uri.c\<close>, its
  \<^verbatim>\<open>Range\<close> and \<^verbatim>\<open>Transport\<close> headers by \<^verbatim>\<open>ragel_range.c\<close> and \<^verbatim>\<open>ragel_transport.c\<close>; the
  answer is built and printed by \<^verbatim>\<open>rfc822_response.c\<close>. The packets wait in the buffer queue of
  \<^verbatim>\<open>bufferqueue.c\<close>, which the producer of a track shares with one consumer for each session.

  \<^bold>\<open>The theories.\<close>
  \<^item> \<^verbatim>\<open>Prelude\<close>: the type of results (\<open>Inl\<close> an undefined access or a failed assertion,
    \<open>Inr\<close> a value), machine integers, facts on lists and maps. \<^verbatim>\<open>Text\<close>: the conversions of
    \<^verbatim>\<open>printf\<close>.
  \<^item> \<^verbatim>\<open>BufferQueue\<close>: \<^verbatim>\<open>bufferqueue.c\<close> over an explicit store of elements, one definition for
    each function. \<^verbatim>\<open>BufferQueue_Inv\<close>: its invariant (serial numbers, seen counts, the list of
    a producer and its length) and that every operation keeps it. \<^verbatim>\<open>BufferQueue_Spec\<close> and
    \<^verbatim>\<open>BufferQueue_Broadcast\<close>: the abstract broadcast queue and the refinement of it.
    \<^verbatim>\<open>BufferQueue_Props\<close>: the properties.
  \<^item> \<^verbatim>\<open>Ragel\<close>: the driver that the five generated scanners share (binary searches over the key
    tables, indices, transitions, actions), with the locale of well-formed tables.
    \<^verbatim>\<open>Ragel_Labels\<close>: facts that hold along every path of a machine, checked in one pass over
    the tables. \<^verbatim>\<open>Ragel_Trees\<close>: evaluation of words through a machine by lookup trees.
  \<^item> \<^verbatim>\<open>Uri_Tables\<close>, \<^verbatim>\<open>Range_Tables\<close>, \<^verbatim>\<open>Transport_Tables\<close>, \<^verbatim>\<open>Request_Line_Tables\<close>,
    \<^verbatim>\<open>RTSP_Headers_Tables\<close>, \<^verbatim>\<open>HTTP_Headers_Tables\<close>: the tables of the scanners, entry by entry,
    and their well-formedness, which interprets the locale.
  \<^item> \<^verbatim>\<open>Uri\<close>, \<^verbatim>\<open>Range\<close>, \<^verbatim>\<open>Transport\<close>, \<^verbatim>\<open>Request_Line\<close>, \<^verbatim>\<open>Header_Block\<close>,
    \<^verbatim>\<open>RTSP_Headers\<close>, \<^verbatim>\<open>HTTP_Headers\<close>: the parsers, with their actions and their results on every
    input; \<^verbatim>\<open>Transport_Props\<close> and \<^verbatim>\<open>Transport_Text\<close> hold the bounds and the round trip of the
    transport parser.
  \<^item> \<^verbatim>\<open>Rfc822\<close>: headers, status codes, both builds of the name functions, requests, responses and
    the text of a response.
  \<^item> \<^verbatim>\<open>Media\<close>: resources, tracks, demuxers and parsers (\<^verbatim>\<open>resource.c\<close>, \<^verbatim>\<open>demuxer.c\<close>,
    \<^verbatim>\<open>mediaparser.c\<close>) over the file system and the table of modules as parameters, and the check
    of track names of \<^verbatim>\<open>utilities.c\<close>. It shows which file is opened and by which demuxer, and
    that exactly the unreserved characters of RFC 3986 are accepted. In the repository the tables
    of modules are empty (without \<^verbatim>\<open>LIVE_STREAMING\<close>), so every \<^verbatim>\<open>r_open\<close> fails until a
    module is added.

  \<^bold>\<open>Bounds.\<close> Loops that the code bounds by its input are total functions. The scanners without an
  end check are \<open>partial_function (option)\<close>, so that running on is the value \<open>None\<close>; that they
  return is proved for every message behind which some byte stops them. \<open>real\<close> stands for
  \<^verbatim>\<open>double\<close> where the code only compares, adds and scales times.

  \<^bold>\<open>Not modelled.\<close> The request state machine and the methods, the sessions, the connections, RTP
  and RTCP packets (no definition of them yet); the thread that reads packets of a resource and the
  shared live resources; the demuxer and parser modules, which are not in the repository; the
  configuration and the logging.
\<close>

end
